(* ===== verification/Prelude.thy ===== *)
theory Prelude
  imports Main "HOL-Library.Word" "HOL-Library.Monad_Syntax"
begin

text \<open>
  What every component of the model shares: the machine integers, memory as a function from
  offsets to bytes with block reads and writes, the little-endian layout of multi-byte fields
  (the processor the library is written for stores the low byte first), C strings, and the
  collection \<open>mem_simps\<close> that reads a field back through a sequence of writes.

  A result of type \<open>'a option\<close> is \<open>None\<close> where the C++ code would access memory outside the
  object it points into (undefined behaviour); every error the code reports itself is a value.
\<close>

unbundle bit_operations_syntax

type_synonym byte = "8 word"
type_synonym u16 = "16 word"
type_synonym u32 = "32 word"
type_synonym mem = "nat \<Rightarrow> byte"
type_synonym mac = "byte list"
type_synonym ip6 = "byte list"

named_theorems mem_simps "reading fields back through writes to memory"
named_theorems field_defs "definitions of packet fields in terms of memory"

section \<open>Blocks of memory\<close>

definition rd_bytes :: "mem \<Rightarrow> nat \<Rightarrow> nat \<Rightarrow> byte list" where
  "rd_bytes m off n = map m [off..<off + n]"

definition wr_bytes :: "mem \<Rightarrow> nat \<Rightarrow> byte list \<Rightarrow> mem" where
  "wr_bytes m off bs = (\<lambda>i. if off \<le> i \<and> i < off + length bs then bs ! (i - off) else m i)"

lemma length_rd_bytes [simp]: "length (rd_bytes m off n) = n"
  by (simp add: rd_bytes_def)

lemma nth_rd_bytes [simp]: "i < n \<Longrightarrow> rd_bytes m off n ! i = m (off + i)"
  by (simp add: rd_bytes_def)

lemma rd_bytes_0 [simp]: "rd_bytes m off 0 = []"
  by (simp add: rd_bytes_def)

lemma rd_bytes_Suc: "rd_bytes m off (Suc n) = m off # rd_bytes m (Suc off) n"
  by (simp add: rd_bytes_def upt_conv_Cons del: upt_Suc)

lemma rd_bytes_eqI: "(\<And>i. i < n \<Longrightarrow> m (off + i) = m' (off' + i)) \<Longrightarrow> rd_bytes m off n = rd_bytes m' off' n"
  by (rule nth_equalityI) auto

lemma rd_bytes_cong: "(\<And>i. off \<le> i \<Longrightarrow> i < off + n \<Longrightarrow> m i = m' i) \<Longrightarrow> rd_bytes m off n = rd_bytes m' off n"
  by (rule rd_bytes_eqI) simp

lemma rd_bytes_append: "rd_bytes m off (a + b) = rd_bytes m off a @ rd_bytes m (off + a) b"
  by (rule nth_equalityI) (auto simp: nth_append)

lemma take_rd_bytes [simp]: "take k (rd_bytes m off n) = rd_bytes m off (min k n)"
  by (rule nth_equalityI) auto

lemma drop_rd_bytes [simp]: "drop k (rd_bytes m off n) = rd_bytes m (off + k) (n - k)"
  by (rule nth_equalityI) (auto simp: add.assoc)

lemma wr_bytes_Nil [simp]: "wr_bytes m off [] = m"
  by (rule ext) (auto simp: wr_bytes_def)

lemma wr_bytes_nth: "wr_bytes m off bs i = (if off \<le> i \<and> i < off + length bs then bs ! (i - off) else m i)"
  by (simp add: wr_bytes_def)

lemma wr_bytes_out [mem_simps]: "i < off \<or> off + length bs \<le> i \<Longrightarrow> wr_bytes m off bs i = m i"
  by (auto simp: wr_bytes_def)

lemma wr_bytes_in: "off \<le> i \<Longrightarrow> i < off + length bs \<Longrightarrow> wr_bytes m off bs i = bs ! (i - off)"
  by (simp add: wr_bytes_def)

lemma wr_bytes_single [mem_simps]: "wr_bytes m off [v] off = v"
  by (simp add: wr_bytes_def)

lemma rd_wr_same [mem_simps]: "length bs = n \<Longrightarrow> rd_bytes (wr_bytes m off bs) off n = bs"
  by (rule nth_equalityI) (auto simp: wr_bytes_def)

lemma rd_wr_disjoint [mem_simps]:
  "off' + n \<le> off \<or> off + length bs \<le> off' \<Longrightarrow> rd_bytes (wr_bytes m off bs) off' n = rd_bytes m off' n"
  by (rule rd_bytes_cong) (auto simp: wr_bytes_def)

lemma wr_wr_same [mem_simps]: "length bs = length bs' \<Longrightarrow> wr_bytes (wr_bytes m off bs) off bs' = wr_bytes m off bs'"
  by (rule ext) (simp add: wr_bytes_def)

lemma wr_bytes_append: "wr_bytes (wr_bytes m q xs) (q + length xs) ys = wr_bytes m q (xs @ ys)"
  by (rule ext) (auto simp: wr_bytes_nth nth_append)

lemma wr_rd_id [simp]: "wr_bytes m off (rd_bytes m off n) = m"
  by (rule ext) (auto simp: wr_bytes_def)

section \<open>Multi-byte fields\<close>

definition le16 :: "byte list \<Rightarrow> u16" where
  "le16 bs = ucast (bs ! 0) OR push_bit 8 (ucast (bs ! 1))"

definition b16 :: "u16 \<Rightarrow> byte list" where
  "b16 v = [ucast v, ucast (drop_bit 8 v)]"

definition le32 :: "byte list \<Rightarrow> u32" where
  "le32 bs = ucast (bs ! 0) OR push_bit 8 (ucast (bs ! 1)) OR push_bit 16 (ucast (bs ! 2))
     OR push_bit 24 (ucast (bs ! 3))"

definition b32 :: "u32 \<Rightarrow> byte list" where
  "b32 v = [ucast v, ucast (drop_bit 8 v), ucast (drop_bit 16 v), ucast (drop_bit 24 v)]"

definition ld16 :: "mem \<Rightarrow> nat \<Rightarrow> u16" where
  "ld16 m off = le16 (rd_bytes m off 2)"

definition st16 :: "mem \<Rightarrow> nat \<Rightarrow> u16 \<Rightarrow> mem" where
  "st16 m off v = wr_bytes m off (b16 v)"

definition ld32 :: "mem \<Rightarrow> nat \<Rightarrow> u32" where
  "ld32 m off = le32 (rd_bytes m off 4)"

definition st32 :: "mem \<Rightarrow> nat \<Rightarrow> u32 \<Rightarrow> mem" where
  "st32 m off v = wr_bytes m off (b32 v)"

definition st8 :: "mem \<Rightarrow> nat \<Rightarrow> byte \<Rightarrow> mem" where
  "st8 m off v = wr_bytes m off [v]"

declare ld16_def [mem_simps] st16_def [mem_simps] ld32_def [mem_simps] st32_def [mem_simps]
  st8_def [mem_simps]

lemma length_b16 [simp]: "length (b16 v) = 2"
  by (simp add: b16_def)

lemma length_b32 [simp]: "length (b32 v) = 4"
  by (simp add: b32_def)

lemma le16_b16 [simp]: "le16 (b16 v) = v"
  by (rule bit_word_eqI) (auto simp: le16_def b16_def bit_simps)

lemma le32_b32 [simp]: "le32 (b32 v) = v"
  proof (rule bit_word_eqI)
  fix n assume "n < LENGTH(32)"
  then show "bit (le32 (b32 v)) n = bit v n"
    by (cases "n < 8"; cases "n < 16"; cases "n < 24") (auto simp: le32_def b32_def bit_simps)
qed

text \<open>The same bytes read most significant first, as they stand on the network.\<close>

definition be16 :: "byte \<Rightarrow> byte \<Rightarrow> u16" where
  "be16 hi lo = push_bit 8 (ucast hi) OR ucast lo"

definition be32 :: "byte \<Rightarrow> byte \<Rightarrow> byte \<Rightarrow> byte \<Rightarrow> u32" where
  "be32 a b c d = push_bit 24 (ucast a) OR push_bit 16 (ucast b) OR push_bit 8 (ucast c) OR ucast d"

lemma unat_byte_less: "unat (b :: byte) < 256"
  using unsigned_less [of b] by simp

lemma unat_u16_less: "unat (w :: u16) < 65536"
  using unsigned_less [of w] by simp

lemma unat_u32_less: "unat (w :: u32) < 4294967296"
  using unsigned_less [of w] by simp

lemma unat_be16: "unat (be16 hi lo) = 256 * unat hi + unat lo"
proof -
  have "be16 hi lo = push_bit 8 (ucast hi) + ucast lo"
    unfolding be16_def
    by (rule disjunctive_add [symmetric]) (auto simp: bit_simps dest: bit_imp_le_length)
  moreover have "unat (push_bit 8 (ucast hi :: u16)) = 256 * unat hi"
    using unat_byte_less [of hi]
    by (simp add: push_bit_eq_mult unat_word_ariths unsigned_ucast_eq take_bit_eq_mod)
  moreover have "unat (ucast lo :: u16) = unat lo"
    using unat_byte_less [of lo] by (simp add: unsigned_ucast_eq take_bit_eq_mod)
  ultimately show ?thesis
    using unat_byte_less [of hi] unat_byte_less [of lo] by (simp add: unat_word_ariths)
qed

lemma be16_hi [simp]: "ucast (drop_bit 8 (be16 hi lo)) = hi"
  unfolding be16_def by (rule bit_word_eqI) (auto simp: bit_simps dest: bit_imp_le_length)

lemma be16_lo [simp]: "ucast (be16 hi lo) = lo"
  unfolding be16_def by (rule bit_word_eqI) (auto simp: bit_simps dest: bit_imp_le_length)

lemma replicate_update_same [simp]: "(replicate n x)[k := x] = replicate n x"
  by (cases "k < n") (auto simp: list_update_same_conv list_update_beyond)

section \<open>C strings\<close>

text \<open>
  A C string is the list of its characters without the terminating zero. Reading it at its
  length gives the terminator; reading further is outside the string.
\<close>

definition cstr_at :: "byte list \<Rightarrow> nat \<Rightarrow> byte option" where
  "cstr_at s i = (if i < length s then Some (s ! i) else if i = length s then Some 0 else None)"

definition cstr :: "byte list \<Rightarrow> bool" where
  "cstr s \<longleftrightarrow> 0 \<notin> set s"

lemma cstr_at_in [simp]: "i < length s \<Longrightarrow> cstr_at s i = Some (s ! i)"
  by (simp add: cstr_at_def)

lemma cstr_at_end [simp]: "cstr_at s (length s) = Some 0"
  by (simp add: cstr_at_def)

definition chars :: "string \<Rightarrow> byte list" where
  "chars s = map of_char s"

lemma length_chars [simp]: "length (chars s) = length s"
  by (simp add: chars_def)

end
