(* ===== verification/Util.thy ===== *)
theory Util
  imports Prelude
begin

text \<open>
  The helpers of \<open>src/src/util.cpp\<close> and \<open>src/src/esendian.h\<close>: character conversion, hexadecimal
  printing, byte-order conversion and the Internet checksum. Printing to a \<open>Print\<close> object is the
  list of the bytes printed. The lemmas relate \<open>chksum\<close> to the end-around-carry sum of the big-endian
  16-bit words, the form in which every other theory uses it.
\<close>

section \<open>Byte order\<close>

definition htons :: "u16 \<Rightarrow> u16" where
  "htons x = (push_bit 8 x AND 0xFF00) OR (drop_bit 8 x AND 0x00FF)"

definition ntohs :: "u16 \<Rightarrow> u16" where
  "ntohs x = htons x"

definition htonl :: "u32 \<Rightarrow> u32" where
  "htonl x = (drop_bit 24 x AND 0x000000ff) OR (push_bit 8 x AND 0x00ff0000)
     OR (drop_bit 8 x AND 0x0000ff00) OR (push_bit 24 x AND 0xff000000)"

definition ntohl :: "u32 \<Rightarrow> u32" where
  "ntohl x = htonl x"

definition bytesToWord :: "byte \<Rightarrow> byte \<Rightarrow> u16" where
  "bytesToWord high low = push_bit 8 (ucast high) + ucast low"

lemma mask_bits:
  "(0xFF00 :: u16) = push_bit 8 (mask 8)" "(0x00FF :: u16) = mask 8"
  "(0x000000ff :: u32) = mask 8" "(0x00ff0000 :: u32) = push_bit 16 (mask 8)"
  "(0x0000ff00 :: u32) = push_bit 8 (mask 8)" "(0xff000000 :: u32) = push_bit 24 (mask 8)"
  by (simp_all add: mask_eq_decr_exp)

lemma htons_htons [simp]: "htons (htons x) = x"
  unfolding htons_def mask_bits by (rule bit_word_eqI) (auto simp: bit_simps)

lemma ntohs_htons [simp]: "ntohs (htons x) = x"
  by (simp add: ntohs_def)

lemma htons_ntohs [simp]: "htons (ntohs x) = x"
  by (simp add: ntohs_def)

lemma htonl_htonl [simp]: "htonl (htonl x) = x"
proof (rule bit_word_eqI)
  fix n assume "n < LENGTH(32)"
  then show "bit (htonl (htonl x)) n = bit x n"
    unfolding htonl_def mask_bits
    by (cases "n < 8"; cases "n < 16"; cases "n < 24") (auto simp: bit_simps)
qed

lemma ntohl_htonl [simp]: "ntohl (htonl x) = x"
  by (simp add: ntohl_def)

lemma htonl_ntohl [simp]: "htonl (ntohl x) = x"
  by (simp add: ntohl_def)

lemma ntohs_le16: "ntohs (le16 [a, b]) = be16 a b"
  unfolding ntohs_def htons_def le16_def be16_def mask_bits
  by (rule bit_word_eqI) (auto simp: bit_simps dest: bit_imp_le_length)

lemma ntohs_ld16: "ntohs (ld16 m off) = be16 (m off) (m (Suc off))"
  by (simp add: ld16_def rd_bytes_Suc numeral_2_eq_2 ntohs_le16)

lemma b16_htons: "b16 (htons v) = [ucast (drop_bit 8 v), ucast v]"
  unfolding b16_def htons_def mask_bits
  by (auto intro!: bit_word_eqI simp: bit_simps)

lemma bytesToWord_be16: "bytesToWord high low = be16 high low"
  unfolding be16_def bytesToWord_def
  by (rule disjunctive_add) (auto simp: bit_simps dest: bit_imp_le_length)

lemma be16_of_u16 [simp]: "be16 (ucast (drop_bit 8 v)) (ucast v) = (v :: u16)"
  unfolding be16_def by (rule bit_word_eqI) (auto simp: bit_simps)

section \<open>Characters\<close>

text \<open>
  \<open>char\<close> is signed on the target; a character with the top bit set is negative there and above
  both ranges here, and takes the last branch either way. The result is an \<open>int8_t\<close>, -1 for failure.
\<close>

definition asciiToHex :: "byte \<Rightarrow> byte" where
  "asciiToHex c0 =
     (let c = c0 OR 0x20 in
      if 0x30 \<le> c \<and> c \<le> 0x39 then c - 0x30
      else if 0x61 \<le> c \<and> c \<le> 0x66 then (c - 0x61) + 10
      else -1)"

fun containsColon :: "byte list \<Rightarrow> bool" where
  "containsColon [] = False"
| "containsColon (c # str) = (if c = 0x3A then True else containsColon str)"

definition hexDigit :: "byte \<Rightarrow> byte" where
  "hexDigit n = (let d = (if n > 9 then n + 39 else n) in d + 48)"

definition printPaddedHex :: "byte \<Rightarrow> byte list" where
  "printPaddedHex b = [hexDigit (drop_bit 4 b AND 0x0f), hexDigit (b AND 0x0f)]"

definition printPaddedHex16 :: "u16 \<Rightarrow> byte list" where
  "printPaddedHex16 w = printPaddedHex (ucast (drop_bit 8 (w AND 0xFF00))) @ printPaddedHex (ucast (w AND 0x00FF))"

lemma containsColon_iff: "containsColon str \<longleftrightarrow> 0x3A \<in> set str"
  by (induction str) auto

lemma nibble_cases:
  "(n :: byte) < 16 \<Longrightarrow> n \<in> {0, 1, 2, 3, 4, 5, 6, 7, 8, 9, 10, 11, 12, 13, 14, 15}"
  by simp unat_arith

lemma asciiToHex_hexDigit: "n < 16 \<Longrightarrow> asciiToHex (hexDigit n) = n"
  by (drule nibble_cases) (auto simp: asciiToHex_def hexDigit_def)

lemma hexDigit_neq:
  "n < 16 \<Longrightarrow> hexDigit n \<noteq> 0x3A" "n < 16 \<Longrightarrow> hexDigit n \<noteq> 0" "n < 16 \<Longrightarrow> hexDigit n \<noteq> 0x2D"
  by (drule nibble_cases, auto simp: hexDigit_def)+

lemma bit32: "bit (32::byte) n \<longleftrightarrow> n = 5"
proof -
  have "(32::byte) = push_bit 5 1" by (simp add: push_bit_eq_mult)
  then show ?thesis by (simp only: bit_simps) auto
qed

lemma bit5: "bit (c::byte) 5 \<longleftrightarrow> odd (unat c div 32)"
proof -
  have "bit (unat c) 5 \<longleftrightarrow> bit c 5" by (auto simp: bit_unsigned_iff)
  then show ?thesis by (simp add: bit_iff_odd [of "unat c" 5])
qed

lemma unat_add_32: "unat c < 224 \<Longrightarrow> unat ((c::byte) + 32) = unat c + 32"
  by (simp add: unat_word_ariths)

lemma or32: "unat ((c::byte) OR 32) = (if odd (unat c div 32) then unat c else unat c + 32)"
proof (cases "bit c 5")
  case True
  then have "c OR 32 = c" proof (intro bit_word_eqI)
    fix n show "bit (c OR 32) n = bit c n"
      using True bit32 [of n] by (auto simp only: bit_or_iff)
  qed
  moreover have "odd (unat c div 32)" using True by (simp add: bit5)
  ultimately show ?thesis by simp
next
  case False
  then have "\<not> bit c n \<or> \<not> bit (32 :: byte) n" for n by (metis bit32)
  then have "c + 32 = c OR 32" by (rule disjunctive_add)
  moreover have e: "even (unat c div 32)" using \<open>\<not> bit c 5\<close> by (simp add: bit5)
  moreover have "unat c < 224"
  proof -
    have "unat c div 32 \<noteq> 7" using e by (rule contrapos_pn) simp
    then show ?thesis using unat_byte_less [of c] by linarith
  qed
  ultimately show ?thesis by (metis unat_add_32)
qed

lemma asciiToHex_fails_iff:
  "asciiToHex c = -1 \<longleftrightarrow> \<not> ((0x30 \<le> c \<and> c \<le> 0x39) \<or> (0x41 \<le> c \<and> c \<le> 0x46) \<or> (0x61 \<le> c \<and> c \<le> 0x66) \<or> (0x10 \<le> c \<and> c \<le> 0x19))"
proof -
  have "unat c div 32 < 8" using unat_byte_less [of c] by simp
  then consider "unat c div 32 = 0" | "unat c div 32 = 1" | "unat c div 32 = 2" | "unat c div 32 = 3"
    | "unat c div 32 = 4" | "unat c div 32 = 5" | "unat c div 32 = 6" | "unat c div 32 = 7" by linarith
  note k = this
  have m1: "unat (- 1 :: byte) = 255" by (simp add: unsigned_minus_1_eq_mask mask_eq_exp_minus_1)
  have h: "asciiToHex c = -1 \<longleftrightarrow> \<not> (48 \<le> unat (c OR 32) \<and> unat (c OR 32) \<le> 57) \<and> \<not> (97 \<le> unat (c OR 32) \<and> unat (c OR 32) \<le> 102)"
    using m1 by (auto simp: asciiToHex_def Let_def word_le_nat_alt word_unat_eq_iff unat_word_ariths unat_sub_if')
  show ?thesis unfolding h or32 word_le_nat_alt
    using k unat_byte_less [of c] by cases auto
qed

lemma asciiToHex_less: "asciiToHex c \<noteq> -1 \<Longrightarrow> asciiToHex c < 16"
  by (auto simp: asciiToHex_def Let_def word_less_nat_alt word_le_nat_alt unat_word_ariths unat_sub_if' split: if_splits)

lemma nibbles_less: "drop_bit 4 (b :: byte) AND 15 < 16" "(b :: byte) AND 15 < 16"
  by (rule le_less_trans [OF word_and_le1], simp)+

lemma nibbles_join: "push_bit 4 (drop_bit 4 b AND 15) OR (b AND 15) = (b :: byte)"
proof -
  have m: "(15 :: byte) = mask 4" by (simp add: mask_eq_decr_exp)
  show ?thesis unfolding m by (rule bit_word_eqI) (auto simp: bit_simps)
qed

section \<open>Hex dump\<close>

text \<open>
  \<open>ascii\<close> is the 16-byte local array, uninitialised before the first row: its initial contents are
  an argument. \<open>isprint\<close> is the C library's, in the C locale; \<open>println\<close> ends a line with CR LF.
\<close>

definition isprint :: "byte \<Rightarrow> bool" where
  "isprint b \<longleftrightarrow> 0x20 \<le> b \<and> b \<le> 0x7E"

definition printHexDumpAscii :: "byte list \<Rightarrow> nat \<Rightarrow> byte list" where
  "printHexDumpAscii ascii count =
     replicate ((15 - count) * 3) 0x20
     @ (if count < 7 then [0x20] else [])
     @ chars '' |''
     @ take (count + 1) ascii
     @ [0x7C, 0x0D, 0x0A]"

fun printHexDump_loop :: "byte list \<Rightarrow> nat \<Rightarrow> byte list \<Rightarrow> nat \<Rightarrow> byte list \<times> byte list \<times> nat" where
  "printHexDump_loop [] i ascii md = ([], ascii, md)"
| "printHexDump_loop (b # bytes) i ascii md =
     (let md = i mod 16;
          head = (if md = 0 then printPaddedHex16 (word_of_nat i) @ chars '':  '' else []);
          hex = printPaddedHex b @ [0x20];
          ascii = ascii[md := (if isprint b then b else 0x2E)];
          tail = (if md = 7 then [0x20]
                  else if md = 15 then printHexDumpAscii ascii md else []);
          (out, ascii', md') = printHexDump_loop bytes (Suc i) ascii md
      in (head @ hex @ tail @ out, ascii', md'))"

definition printHexDump :: "byte list \<Rightarrow> byte list \<Rightarrow> byte list" where
  "printHexDump ascii0 bytes =
     (let (out, ascii, md) = printHexDump_loop bytes 0 ascii0 0
      in out @ (if md \<noteq> 15 then printHexDumpAscii ascii md else []))"

section \<open>Checksum\<close>

text \<open>
  The loop adds the big-endian words, wrapping the carry around; a last odd byte counts as the high
  byte of a word. The pointer arithmetic of the source visits exactly the bytes of \<open>data\<close>.
\<close>

definition chksum_add :: "u16 \<Rightarrow> u16 \<Rightarrow> u16" where
  "chksum_add s t = (let s' = s + t in if s' < t then s' + 1 else s')"

fun chksum :: "u16 \<Rightarrow> byte list \<Rightarrow> u16" where
  "chksum s (d0 # d1 # data) = chksum (chksum_add s (push_bit 8 (ucast d0) + ucast d1)) data"
| "chksum s [d0] = chksum_add s (push_bit 8 (ucast d0) + 0)"
| "chksum s [] = s"

text \<open>The specification: the sum of the words, reduced to 1..65535 modulo 65535 unless it is 0.\<close>

fun wsum :: "byte list \<Rightarrow> nat" where
  "wsum (d0 # d1 # data) = 256 * unat d0 + unat d1 + wsum data"
| "wsum [d0] = 256 * unat d0"
| "wsum [] = 0"

definition eac :: "nat \<Rightarrow> nat" where
  "eac n = (if n = 0 then 0 else (n - 1) mod 65535 + 1)"

lemma eac_small [simp]: "n < 65536 \<Longrightarrow> eac n = n"
  by (auto simp: eac_def)

lemma eac_less: "eac n < 65536"
  by (simp add: eac_def)

lemma eac_step: "65535 < n \<Longrightarrow> eac (n - 65535) = eac n"
proof -
  assume "65535 < n"
  then have "n - 1 = (n - 65535 - 1) + 65535" by simp
  then have "(n - 1) mod 65535 = (n - 65535 - 1) mod 65535"
    by (simp only: mod_add_self2)
  with \<open>65535 < n\<close> show ?thesis by (simp add: eac_def)
qed

lemma eac_add: "eac (eac a + b) = eac (a + b)"
proof (induction a rule: less_induct)
  case (less a)
  show ?case
  proof (cases "65535 < a")
    case True
    then have "eac (eac a + b) = eac (eac (a - 65535) + b)" by (simp add: eac_step)
    also have "\<dots> = eac (a - 65535 + b)" using True less by simp
    also have "\<dots> = eac (a + b - 65535)" using True by simp
    also have "\<dots> = eac (a + b)" using True by (simp only: eac_step)
    finally show ?thesis .
  qed simp
qed

lemma unat_chksum_add: "unat (chksum_add s t) = eac (unat s + unat t)"
proof (cases "unat s + unat t < 65536")
  case True
  then have u: "unat (s + t) = unat s + unat t" by (simp add: unat_word_ariths)
  then have "\<not> s + t < t" by (simp add: word_less_nat_alt)
  with True u show ?thesis by (simp add: chksum_add_def Let_def)
next
  case False
  have b: "unat s < 65536" "unat t < 65536" by (rule unat_u16_less)+
  with False have u: "unat (s + t) = unat s + unat t - 65536"
    by (simp add: unat_word_ariths mod_if)
  with False b have "s + t < t" by (simp add: word_less_nat_alt)
  moreover have "unat (s + t + 1) = unat s + unat t - 65535"
  proof -
    have "unat s + unat t - 65536 + 1 < 65536" using b by linarith
    then have "unat (s + t + 1) = unat s + unat t - 65536 + 1"
      using u by (simp add: unat_word_ariths)
    then show ?thesis using False by linarith
  qed
  ultimately have "unat (chksum_add s t) = unat s + unat t - 65535"
    by (simp add: chksum_add_def Let_def)
  also have "\<dots> = eac (unat s + unat t)"
    using False b eac_step [of "unat s + unat t"] by simp
  finally show ?thesis .
qed

lemma unat_chksum: "unat (chksum s data) = eac (unat s + wsum data)"
proof (induction s data rule: chksum.induct)
  case (1 s d0 d1 data)
  then show ?case
    by (simp add: unat_chksum_add eac_add bytesToWord_be16 [unfolded bytesToWord_def] unat_be16 add.assoc
        del: eac_small)
next
  case (2 s d0)
  have "push_bit 8 (ucast d0) + 0 = be16 d0 0"
    by (simp flip: bytesToWord_be16 add: bytesToWord_def)
  then show ?case by (simp add: unat_chksum_add unat_be16)
next
  case (3 s)
  then show ?case using unat_u16_less [of s] by simp
qed

lemma wsum_append: "even (length xs) \<Longrightarrow> wsum (xs @ ys) = wsum xs + wsum ys"
  by (induction xs rule: wsum.induct) auto

lemma chksum_append: "even (length xs) \<Longrightarrow> chksum s (xs @ ys) = chksum (chksum s xs) ys"
  by (simp add: word_unat_eq_iff unat_chksum wsum_append eac_add add.assoc del: eac_small)

text \<open>
  Storing the complement of the checksum in a zeroed, even-aligned field makes the sum all ones.
\<close>

lemma eac_complement: "eac (n + (65535 - eac n)) = 65535"
proof (cases "n = 0")
  case False
  define q r where "q = (n - 1) div 65535" and "r = (n - 1) mod 65535"
  have "n = 65535 * q + r + 1" using False by (simp add: q_def r_def)
  moreover have "r < 65535" by (simp add: r_def)
  moreover have "eac n = r + 1" using False by (simp add: eac_def r_def)
  ultimately have "n + (65535 - eac n) = 65535 * q + 65535" by simp
  moreover have "65535 * q + 65535 - 1 = 65534 + 65535 * q" by simp
  then have "(65535 * q + 65535 - 1) mod 65535 = 65534" by (simp only: mod_mult_self2) simp
  ultimately show ?thesis by (simp add: eac_def)
qed (simp add: eac_def)

lemma unat_not_u16: "unat (NOT w :: u16) = 65535 - unat w"
proof -
  have "NOT w = - 1 - w" by (simp add: not_eq_complement)
  moreover have "unat (- 1 - w) = unat (- 1 :: u16) - unat w"
    by (rule unat_sub) (rule word_order.extremum)
  ultimately show ?thesis by (simp add: unsigned_minus_1_eq_mask mask_eq_exp_minus_1)
qed

lemma chksum_complement:
  assumes "even (length xs)" and v: "v = NOT (chksum s (xs @ [0, 0] @ ys))"
  shows "chksum s (xs @ [ucast (drop_bit 8 v), ucast v] @ ys) = 0xFFFF"
proof -
  let ?n = "unat s + (wsum xs + wsum ys)"
  have "unat v = 65535 - eac ?n"
    by (simp add: v unat_not_u16 unat_chksum wsum_append assms del: eac_small)
  moreover have "256 * unat (ucast (drop_bit 8 v) :: byte) + unat (ucast v :: byte) = unat v"
    using unat_be16 [of "ucast (drop_bit 8 v)" "ucast v"] by simp
  ultimately have "unat (chksum s (xs @ [ucast (drop_bit 8 v), ucast v] @ ys)) = eac (?n + (65535 - eac ?n))"
    by (simp add: unat_chksum wsum_append assms ac_simps del: eac_small)
  then show ?thesis by (simp add: eac_complement word_unat_eq_iff)
qed

end
