(* ===== verification/Mac_Address.thy ===== *)
theory Mac_Address
  imports Util
begin

text \<open>
  \<open>src/src/MACAddress.cpp\<close>: a MAC address is its six bytes, the member array \<open>_address\<close>. The
  lemmas give the parser's totality on C strings and that it inverts \<open>print\<close>. (The source file
  carries an unresolved merge between \<open>fromBytes\<close> and \<open>isIPv6Multicast\<close>; both are modelled.)
\<close>

definition wf_mac :: "mac \<Rightarrow> bool" where
  "wf_mac m \<longleftrightarrow> length m = 6"

definition MACAddress_zero :: mac where
  "MACAddress_zero = replicate 6 0"

definition MACAddress_make :: "byte \<Rightarrow> byte \<Rightarrow> byte \<Rightarrow> byte \<Rightarrow> byte \<Rightarrow> byte \<Rightarrow> mac" where
  "MACAddress_make one two three four five six = [one, two, three, four, five, six]"

definition MACAddress_ofBytes :: "byte list \<Rightarrow> mac" where
  "MACAddress_ofBytes macaddr = take 6 macaddr"

definition MACAddress_eq :: "mac \<Rightarrow> mac \<Rightarrow> bool" where
  "MACAddress_eq a b \<longleftrightarrow> take 6 a = take 6 b"

definition MACAddress_neq :: "mac \<Rightarrow> mac \<Rightarrow> bool" where
  "MACAddress_neq a b \<longleftrightarrow> \<not> MACAddress_eq a b"

definition MACAddress_setIPv6Multicast :: "byte list \<Rightarrow> mac" where
  "MACAddress_setIPv6Multicast address =
     [0x33, 0x33, address ! 12, address ! 13, address ! 14, address ! 15]"

definition MACAddress_fromBytes :: "byte \<Rightarrow> byte \<Rightarrow> byte \<Rightarrow> byte \<Rightarrow> byte \<Rightarrow> byte \<Rightarrow> mac" where
  "MACAddress_fromBytes one two three four five six = [one, two, three, four, five, six]"

definition MACAddress_isIPv6Multicast :: "mac \<Rightarrow> bool" where
  "MACAddress_isIPv6Multicast m \<longleftrightarrow> m ! 0 = 0x33 \<and> m ! 1 = 0x33"

text \<open>
  The parser writes into the object as it goes, so a failed parse leaves the bytes written so far:
  the result is the value returned and the address afterwards.
\<close>

function MACAddress_fromString_loop :: "byte list \<Rightarrow> nat \<Rightarrow> nat \<Rightarrow> mac \<Rightarrow> (bool \<times> mac) option" where
  "MACAddress_fromString_loop macstr strpos pos m =
     (if strpos < 17 then do {
        c \<leftarrow> cstr_at macstr strpos;
        if strpos mod 3 = 2 then
          (if c = 0x3A \<or> c = 0x2D
           then MACAddress_fromString_loop macstr (strpos + 1) (pos + 1) m
           else Some (False, m))
        else
          (let val = asciiToHex c in
           if val = -1 then Some (False, m)
           else if strpos mod 3 = 0
             then MACAddress_fromString_loop macstr (strpos + 1) pos (m[pos := push_bit 4 val])
             else MACAddress_fromString_loop macstr (strpos + 1) pos (m[pos := m ! pos OR val]))
      } else Some (True, m))"
  by pat_completeness auto
termination
  by (relation "measure (\<lambda>(_, strpos, _, _). 17 - strpos)") auto

declare MACAddress_fromString_loop.simps [simp del]

definition MACAddress_fromString :: "mac \<Rightarrow> byte list \<Rightarrow> (bool \<times> mac) option" where
  "MACAddress_fromString m macstr = MACAddress_fromString_loop macstr 0 0 m"

definition MACAddress_at :: "mac \<Rightarrow> nat \<Rightarrow> byte" where
  "MACAddress_at m i = m ! i"

definition MACAddress_print :: "mac \<Rightarrow> byte list" where
  "MACAddress_print m = concat (map (\<lambda>i. printPaddedHex (m ! i) @ (if i < 5 then [0x3A] else [])) [0..<6])"

definition MACAddress_println :: "mac \<Rightarrow> byte list" where
  "MACAddress_println m = MACAddress_print m @ [0x0D, 0x0A]"

lemma MACAddress_eq_iff [simp]: "wf_mac a \<Longrightarrow> wf_mac b \<Longrightarrow> MACAddress_eq a b \<longleftrightarrow> a = b"
  by (simp add: MACAddress_eq_def wf_mac_def)

lemma wf_mac_ops [simp]:
  "wf_mac MACAddress_zero" "wf_mac (MACAddress_make a b c d e f)" "wf_mac (MACAddress_fromBytes a b c d e f)"
  "wf_mac (MACAddress_setIPv6Multicast adr)" "wf_mac (rd_bytes m off 6)"
  by (simp_all add: wf_mac_def MACAddress_zero_def MACAddress_make_def MACAddress_fromBytes_def
      MACAddress_setIPv6Multicast_def)

lemma isIPv6Multicast_setIPv6Multicast [simp]:
  "MACAddress_isIPv6Multicast (MACAddress_setIPv6Multicast adr)"
  by (simp add: MACAddress_isIPv6Multicast_def MACAddress_setIPv6Multicast_def)

text \<open>Parsing stops at the terminator at the latest: no read past the end of the string.\<close>

lemma asciiToHex_0 [simp]: "asciiToHex 0 = -1"
  by (simp add: asciiToHex_def)

lemma fromString_loop_total:
  "strpos \<le> length s \<Longrightarrow> \<exists>ok m'. MACAddress_fromString_loop s strpos pos m = Some (ok, m')"
proof (induction s strpos pos m rule: MACAddress_fromString_loop.induct)
  case (1 s strpos pos m)
  show ?case
  proof (cases "strpos < length s")
    case True
    then have "Suc strpos \<le> length s" by simp
    with 1 True show ?thesis
      by (subst MACAddress_fromString_loop.simps) (auto simp: Let_def)
  next
    case False
    with 1 have "strpos = length s" by simp
    then show ?thesis by (subst MACAddress_fromString_loop.simps) auto
  qed
qed

lemma fromString_loop_length:
  "MACAddress_fromString_loop s strpos pos m = Some (ok, m') \<Longrightarrow> length m' = length m"
  by (induction s strpos pos m rule: MACAddress_fromString_loop.induct)
    (subst (asm) (3) MACAddress_fromString_loop.simps,
     auto simp: Let_def split: if_splits option.splits bind_splits)

text \<open>The six groups of the printed form, parsed one character at a time.\<close>

lemma MACAddress_print_list:
  "MACAddress_print [a, b, c, d, e, f] =
     printPaddedHex a @ 0x3A # printPaddedHex b @ 0x3A # printPaddedHex c @ 0x3A #
     printPaddedHex d @ 0x3A # printPaddedHex e @ 0x3A # printPaddedHex f"
  by (simp add: MACAddress_print_def upt_rec)

lemma hex_of_nibble [simp]:
  "asciiToHex (hexDigit (drop_bit 4 b AND 15)) = drop_bit 4 b AND 15"
  "asciiToHex (hexDigit (b AND 15)) = b AND 15"
  "drop_bit 4 (b :: byte) AND 15 \<noteq> - 1" "(b :: byte) AND 15 \<noteq> - 1"
  using nibbles_less [of b] by (auto simp: asciiToHex_hexDigit)

lemma list6_cases: "length xs = 6 \<Longrightarrow> \<exists>a b c d e f. xs = [a, b, c, d, e, f]"
  by (auto simp: numeral_eq_Suc length_Suc_conv)

lemma nibbles_join' [simp]: "push_bit 4 (drop_bit 4 b) AND 240 OR b AND 15 = (b :: byte)"
  using nibbles_join [of b] by simp

text \<open>
  Printing a MAC address and parsing the text gives the address back, whatever the object that
  is parsed into held before.
\<close>

theorem MACAddress_fromString_print:
  assumes "wf_mac m" and "wf_mac m0"
  shows "MACAddress_fromString m0 (MACAddress_print m) = Some (True, m)"
proof -
  obtain a b c d e f where m: "m = [a, b, c, d, e, f]"
    using assms(1) list6_cases unfolding wf_mac_def by blast
  obtain a' b' c' d' e' f' where m0: "m0 = [a', b', c', d', e', f']"
    using assms(2) list6_cases unfolding wf_mac_def by blast
  show ?thesis
    unfolding m m0 MACAddress_fromString_def MACAddress_print_list printPaddedHex_def
    by (simp add: MACAddress_fromString_loop.simps Let_def)
qed

theorem MACAddress_fromString_print_witness:
  "MACAddress_fromString (replicate 6 0) (MACAddress_print [0xC0, 0x0F, 0xFE, 0xEE, 0x01, 0x00])
     = Some (True, [0xC0, 0x0F, 0xFE, 0xEE, 0x01, 0x00])"
  by (rule MACAddress_fromString_print) (simp_all add: wf_mac_def)

end
