(* ===== verification/IPv6_Address.thy ===== *)
theory IPv6_Address
  imports Mac_Address
begin

text \<open>
  \<open>src/src/IPv6Address.cpp\<close>: an IPv6 address is the sixteen bytes of the member array
  \<open>_address\<close>. Operations that write the object return its new bytes. The lemmas give the
  well-formedness of every operation, the parser's totality on non-empty strings, that its writes
  stay inside the array, and that it inverts \<open>print\<close>.
\<close>

definition wf_ip :: "ip6 \<Rightarrow> bool" where
  "wf_ip a \<longleftrightarrow> length a = 16"

abbreviation (input) MAX_IPV6_ADDRESS_STR_LEN :: nat where
  "MAX_IPV6_ADDRESS_STR_LEN \<equiv> 39"

text \<open>The enumeration \<open>IPv6AddressType\<close>; the functions that return it use 0 for none of them.\<close>

abbreviation (input) ADDRESS_TYPE_LINK_LOCAL :: byte where "ADDRESS_TYPE_LINK_LOCAL \<equiv> 1"
abbreviation (input) ADDRESS_TYPE_GLOBAL :: byte where "ADDRESS_TYPE_GLOBAL \<equiv> 2"
abbreviation (input) ADDRESS_TYPE_MULTICAST :: byte where "ADDRESS_TYPE_MULTICAST \<equiv> 3"

definition IPv6Address_zero :: ip6 where
  "IPv6Address_zero = replicate 16 0"

definition IPv6Address_setLinkLocalPrefix :: "ip6 \<Rightarrow> ip6" where
  "IPv6Address_setLinkLocalPrefix a = a[0 := 0xfe, 1 := 0x80]"

definition IPv6Address_isMulticast :: "ip6 \<Rightarrow> bool" where
  "IPv6Address_isMulticast a \<longleftrightarrow> a ! 0 = 0xFF"

definition IPv6Address_isLinkLocal :: "ip6 \<Rightarrow> bool" where
  "IPv6Address_isLinkLocal a \<longleftrightarrow> a ! 0 = 0xfe \<and> a ! 1 = 0x80"

definition IPv6Address_isZero :: "ip6 \<Rightarrow> bool" where
  "IPv6Address_isZero a \<longleftrightarrow> list_all (\<lambda>i. a ! i = 0) [0..<16]"

definition IPv6Address_inSameSubnet :: "ip6 \<Rightarrow> ip6 \<Rightarrow> bool" where
  "IPv6Address_inSameSubnet a b \<longleftrightarrow> take 8 a = take 8 b"

definition IPv6Address_setEui64 :: "ip6 \<Rightarrow> mac \<Rightarrow> ip6" where
  "IPv6Address_setEui64 a m =
     a[8 := (m ! 0) XOR 0x02, 9 := m ! 1, 10 := m ! 2, 11 := 0xff, 12 := 0xfe,
       13 := m ! 3, 14 := m ! 4, 15 := m ! 5]"

definition IPv6Address_linkLocalAllNodes :: ip6 where
  "IPv6Address_linkLocalAllNodes = IPv6Address_zero[0 := 0xFF, 1 := 0x02, 15 := 0x01]"

definition IPv6Address_eq :: "ip6 \<Rightarrow> ip6 \<Rightarrow> bool" where
  "IPv6Address_eq a b \<longleftrightarrow> take 16 a = take 16 b"

definition IPv6Address_neq :: "ip6 \<Rightarrow> ip6 \<Rightarrow> bool" where
  "IPv6Address_neq a b \<longleftrightarrow> \<not> IPv6Address_eq a b"

definition IPv6Address_isLinkLocalAllNodes :: "ip6 \<Rightarrow> bool" where
  "IPv6Address_isLinkLocalAllNodes a \<longleftrightarrow> IPv6Address_eq a IPv6Address_linkLocalAllNodes"

definition IPv6Address_linkLocalAllRouters :: ip6 where
  "IPv6Address_linkLocalAllRouters = IPv6Address_zero[0 := 0xFF, 1 := 0x02, 15 := 0x02]"

definition IPv6Address_isLinkLocalAllRouters :: "ip6 \<Rightarrow> bool" where
  "IPv6Address_isLinkLocalAllRouters a \<longleftrightarrow> IPv6Address_eq a IPv6Address_linkLocalAllRouters"

definition IPv6Address_solicitedNodeMulticastAddress :: "ip6 \<Rightarrow> ip6" where
  "IPv6Address_solicitedNodeMulticastAddress address =
     IPv6Address_zero[0 := 0xFF, 1 := 0x02, 11 := 0x01, 12 := 0xFF,
       13 := address ! 13, 14 := address ! 14, 15 := address ! 15]"

definition IPv6Address_isSolicitedNodeMulticastAddress :: "ip6 \<Rightarrow> ip6 \<Rightarrow> bool" where
  "IPv6Address_isSolicitedNodeMulticastAddress a address \<longleftrightarrow>
     IPv6Address_eq a (IPv6Address_solicitedNodeMulticastAddress address)"

definition IPv6Address_type :: "ip6 \<Rightarrow> byte" where
  "IPv6Address_type a =
     (if IPv6Address_isMulticast a then ADDRESS_TYPE_MULTICAST
      else if IPv6Address_isLinkLocal a then ADDRESS_TYPE_LINK_LOCAL
      else ADDRESS_TYPE_GLOBAL)"

section \<open>Text form\<close>

text \<open>
  Step 1 of \<open>fromString\<close>: look for the double colon and count the colons after it. \<open>colon_count\<close>
  is 0 until a double colon makes it 14, and then steps down by 2, never below 0.
\<close>

function IPv6Address_fromString_step1 :: "byte list \<Rightarrow> nat \<Rightarrow> nat \<Rightarrow> nat option" where
  "IPv6Address_fromString_step1 addrstr i colon_count =
     (if i \<le> MAX_IPV6_ADDRESS_STR_LEN then do {
        c \<leftarrow> cstr_at addrstr i;
        if c = 0x3A then do {
          p \<leftarrow> cstr_at addrstr (i - 1);
          IPv6Address_fromString_step1 addrstr (i + 1)
            (if p = 0x3A then 14 else if colon_count \<noteq> 0 then colon_count - 2 else colon_count)
        }
        else if c = 0 then Some colon_count
        else IPv6Address_fromString_step1 addrstr (i + 1) colon_count
      } else Some colon_count)"
  by pat_completeness auto
termination
  by (relation "measure (\<lambda>(_, i, _). 40 - i)") auto

text \<open>Step 2: convert the groups, jumping to \<open>colon_count\<close> at the double colon.\<close>

function IPv6Address_fromString_step2 ::
    "byte list \<Rightarrow> nat \<Rightarrow> nat \<Rightarrow> nat \<Rightarrow> u16 \<Rightarrow> ip6 \<Rightarrow> (bool \<times> ip6) option" where
  "IPv6Address_fromString_step2 addrstr i colon_count pos accumulator a =
     (if i \<le> MAX_IPV6_ADDRESS_STR_LEN \<and> pos < 16 then do {
        c \<leftarrow> cstr_at addrstr i;
        if c = 0x3A \<or> c = 0 then do {
          let a' = a[pos := ucast (drop_bit 8 accumulator), pos + 1 := ucast accumulator];
          jump \<leftarrow> (if colon_count \<noteq> 0 \<and> i \<noteq> 0
                   then do { p \<leftarrow> cstr_at addrstr (i - 1); Some (p = 0x3A) } else Some False);
          if c = 0 then Some (True, a')
          else IPv6Address_fromString_step2 addrstr (i + 1) colon_count
                 (if jump then colon_count else pos + 2) 0 a'
        }
        else
          (let val = asciiToHex c in
           if val = -1 then Some (False, a)
           else IPv6Address_fromString_step2 addrstr (i + 1) colon_count pos
                  (push_bit 4 accumulator OR ucast val) a)
      } else Some (True, a))"
  by pat_completeness auto
termination
  by (relation "measure (\<lambda>(_, i, _). 40 - i)") auto

declare IPv6Address_fromString_step1.simps [simp del] IPv6Address_fromString_step2.simps [simp del]

definition IPv6Address_fromString :: "byte list \<Rightarrow> (bool \<times> ip6) option" where
  "IPv6Address_fromString addrstr = do {
     colon_count \<leftarrow> IPv6Address_fromString_step1 addrstr 1 0;
     IPv6Address_fromString_step2 addrstr 0 colon_count 0 0 IPv6Address_zero
   }"

definition IPv6Address_print :: "ip6 \<Rightarrow> byte list" where
  "IPv6Address_print a =
     concat (map (\<lambda>i. printPaddedHex (a ! i) @ (if i mod 2 = 1 \<and> i < 15 then [0x3A] else [])) [0..<16])"

definition IPv6Address_println :: "ip6 \<Rightarrow> byte list" where
  "IPv6Address_println a = IPv6Address_print a @ [0x0D, 0x0A]"

section \<open>Well-formedness and simple facts\<close>

lemma IPv6Address_eq_iff [simp]: "wf_ip a \<Longrightarrow> wf_ip b \<Longrightarrow> IPv6Address_eq a b \<longleftrightarrow> a = b"
  by (simp add: IPv6Address_eq_def wf_ip_def)

lemma wf_ip_ops [simp]:
  "wf_ip IPv6Address_zero" "wf_ip IPv6Address_linkLocalAllNodes" "wf_ip IPv6Address_linkLocalAllRouters"
  "wf_ip (IPv6Address_solicitedNodeMulticastAddress a)" "wf_ip (rd_bytes m off 16)"
  "wf_ip a \<Longrightarrow> wf_ip (IPv6Address_setLinkLocalPrefix a)" "wf_ip a \<Longrightarrow> wf_ip (IPv6Address_setEui64 a mc)"
  by (simp_all add: wf_ip_def IPv6Address_zero_def IPv6Address_linkLocalAllNodes_def
      IPv6Address_linkLocalAllRouters_def IPv6Address_solicitedNodeMulticastAddress_def
      IPv6Address_setLinkLocalPrefix_def IPv6Address_setEui64_def)

lemma IPv6Address_isZero_iff: "wf_ip a \<Longrightarrow> IPv6Address_isZero a \<longleftrightarrow> a = IPv6Address_zero"
  by (auto simp: IPv6Address_isZero_def IPv6Address_zero_def wf_ip_def list_all_iff list_eq_iff_nth_eq)

lemma multicast_types [simp]:
  "IPv6Address_isMulticast IPv6Address_linkLocalAllNodes"
  "IPv6Address_isMulticast IPv6Address_linkLocalAllRouters"
  "IPv6Address_isMulticast (IPv6Address_solicitedNodeMulticastAddress a)"
  by (simp_all add: IPv6Address_isMulticast_def IPv6Address_linkLocalAllNodes_def
      IPv6Address_linkLocalAllRouters_def IPv6Address_solicitedNodeMulticastAddress_def IPv6Address_zero_def)

lemma isLinkLocal_not_multicast: "IPv6Address_isLinkLocal a \<Longrightarrow> \<not> IPv6Address_isMulticast a"
  by (simp add: IPv6Address_isLinkLocal_def IPv6Address_isMulticast_def)

section \<open>The parser\<close>

text \<open>Scanning from inside the string meets the terminator before it can pass it.\<close>

lemma step1_total:
  "1 \<le> i \<Longrightarrow> i \<le> length s \<Longrightarrow> cc \<le> 14 \<Longrightarrow> even cc \<Longrightarrow>
   \<exists>cc'. IPv6Address_fromString_step1 s i cc = Some cc' \<and> cc' \<le> 14 \<and> even cc'"
proof (induction "40 - i" arbitrary: i cc rule: less_induct)
  case less
  show ?case
  proof (cases "i < length s \<and> i \<le> 39")
    case True
    then have "i - 1 < length s" and lt: "40 - Suc i < 40 - i" by linarith+
    have IH: "cc1 \<le> 14 \<Longrightarrow> even cc1 \<Longrightarrow>
        \<exists>cc'. IPv6Address_fromString_step1 s (Suc i) cc1 = Some cc' \<and> cc' \<le> 14 \<and> even cc'" for cc1
      using less.hyps [OF lt, of cc1] True by simp
    show ?thesis using less.prems True \<open>i - 1 < length s\<close>
      by (subst IPv6Address_fromString_step1.simps) (simp add: IH)
  next
    case False
    then have "i = length s \<or> 39 < i" using less.prems by auto
    then show ?thesis using less.prems by (subst IPv6Address_fromString_step1.simps) auto
  qed
qed

lemma step2_total:
  "i \<le> length s \<Longrightarrow> pos \<le> 16 \<Longrightarrow> even pos \<Longrightarrow> cc \<le> 14 \<Longrightarrow> even cc \<Longrightarrow> length a = 16 \<Longrightarrow>
   \<exists>ok a'. IPv6Address_fromString_step2 s i cc pos acc a = Some (ok, a') \<and> length a' = 16"
proof (induction "40 - i" arbitrary: i pos acc a rule: less_induct)
  case less
  show ?case
  proof (cases "i < length s \<and> i \<le> 39 \<and> pos < 16")
    case True
    then have lt: "40 - Suc i < 40 - i" by linarith
    have IH: "pos1 \<le> 16 \<Longrightarrow> even pos1 \<Longrightarrow> length a1 = 16 \<Longrightarrow>
        \<exists>ok a'. IPv6Address_fromString_step2 s (Suc i) cc pos1 acc1 a1 = Some (ok, a') \<and> length a' = 16"
      for pos1 acc1 a1
      using less.hyps [OF lt, of pos1 a1 acc1] less.prems True by simp
    have p: "pos + 2 \<le> 16" "i - 1 < length s" using True less.prems by presburger+
    show ?thesis
      using less.prems True p
      by (subst IPv6Address_fromString_step2.simps) (auto simp: Let_def IH)
  next
    case False
    then consider "i = length s" "pos < 16" "i \<le> 39" | "39 < i" | "pos = 16" using less.prems by linarith
    then show ?thesis
    proof cases
      case 1
      then have "i \<noteq> 0 \<Longrightarrow> i - 1 < length s" by simp
      then show ?thesis using 1 less.prems
        by (subst IPv6Address_fromString_step2.simps) auto
    next
      case 2
      then show ?thesis using less.prems by (subst IPv6Address_fromString_step2.simps) auto
    next
      case 3
      then show ?thesis using less.prems by (subst IPv6Address_fromString_step2.simps) auto
    qed
  qed
qed

text \<open>
  Parsing a non-empty string stays inside the string and inside the sixteen bytes of the
  address, however many colons it has, and yields a well-formed address.
\<close>

theorem IPv6Address_fromString_total:
  assumes "addrstr \<noteq> []"
  shows "\<exists>ok a. IPv6Address_fromString addrstr = Some (ok, a) \<and> wf_ip a"
proof -
  have "1 \<le> length addrstr" using assms by (cases addrstr) auto
  then obtain cc where cc: "IPv6Address_fromString_step1 addrstr 1 0 = Some cc" "cc \<le> 14" "even cc"
    using step1_total [of 1 addrstr 0] by auto
  then show ?thesis
    using step2_total [of 0 addrstr 0 cc IPv6Address_zero 0]
    by (simp add: IPv6Address_fromString_def wf_ip_def IPv6Address_zero_def)
qed

theorem IPv6Address_fromString_total_witness:
  "\<exists>ok a. IPv6Address_fromString (chars ''fe80::1::2:3:4:5:6:7:8:9'') = Some (ok, a) \<and> wf_ip a"
  by (rule IPv6Address_fromString_total) (simp add: chars_def)

text \<open>
  The empty string is the exception: the scan starts at its second character, past the
  terminator.
\<close>

theorem IPv6Address_fromString_empty: "IPv6Address_fromString [] = None"
  by (simp add: IPv6Address_fromString_def IPv6Address_fromString_step1.simps cstr_at_def)

section \<open>What the parser accepts\<close>

text \<open>
  The textual groups of an address, their value, and the two forms of RFC 4291 section 2.2: eight
  groups, and groups around a double colon.
\<close>

definition hex_digit :: "byte \<Rightarrow> bool" where
  "hex_digit d \<longleftrightarrow> d \<in> {0x30..0x39} \<union> {0x41..0x46} \<union> {0x61..0x66}"

definition hex_group :: "byte list \<Rightarrow> bool" where
  "hex_group g \<longleftrightarrow> g \<noteq> [] \<and> length g \<le> 4 \<and> list_all hex_digit g"

definition group_value :: "byte list \<Rightarrow> u16" where
  "group_value g = foldl (\<lambda>v d. 16 * v + ucast (asciiToHex d)) 0 g"

definition group_bytes :: "byte list \<Rightarrow> byte list" where
  "group_bytes g = [ucast (drop_bit 8 (group_value g)), ucast (group_value g)]"

definition colon_groups :: "byte list list \<Rightarrow> byte list" where
  "colon_groups gs = concat (map (\<lambda>g. g @ [0x3A]) gs)"

definition join_groups :: "byte list list \<Rightarrow> byte list" where
  "join_groups gs = (if gs = [] then [] else colon_groups (butlast gs) @ last gs)"

lemma hex_digit_facts:
  "hex_digit d \<Longrightarrow> asciiToHex d \<noteq> - 1" "hex_digit d \<Longrightarrow> d \<noteq> 0x3A" "hex_digit d \<Longrightarrow> d \<noteq> 0"
  by (auto simp: hex_digit_def asciiToHex_fails_iff)

lemma shift_digit: "x < 16 \<Longrightarrow> push_bit 4 v OR ucast (x :: byte) = 16 * v + (ucast x :: u16)"
proof -
  assume x: "x < 16"
  have bx: "\<not> bit x n" if "4 \<le> n" for n
  proof
    assume "bit x n"
    then have "odd (unat x div 2 ^ n)" by (simp add: bit_unsigned_iff flip: bit_iff_odd)
    moreover have "unat x < 2 ^ 4" using x by (simp add: word_less_nat_alt)
    moreover have "(2 :: nat) ^ 4 \<le> 2 ^ n" using that by (rule power_increasing) simp
    ultimately show False by simp
  qed
  have "push_bit 4 v + ucast x = push_bit 4 v OR (ucast x :: u16)"
    by (rule disjunctive_add) (auto simp: bit_simps bx)
  then show ?thesis by (simp add: push_bit_eq_mult mult.commute)
qed

lemma foldl_digits:
  "list_all hex_digit ds \<Longrightarrow>
   foldl (\<lambda>acc d. push_bit 4 acc OR ucast (asciiToHex d)) acc ds = foldl (\<lambda>v d. 16 * v + ucast (asciiToHex d)) (acc :: u16) ds"
  by (induction ds arbitrary: acc) (simp_all add: shift_digit asciiToHex_less hex_digit_facts)

lemma cstr_at_mid [simp]: "cstr_at (pre @ d # post) (length pre) = Some d"
  by (simp add: cstr_at_def)

lemma cstr_at_last: "pre \<noteq> [] \<Longrightarrow> cstr_at (pre @ post) (length pre - 1) = Some (last pre)"
  by (cases pre rule: rev_cases) (simp_all add: cstr_at_def nth_append)

text \<open>Step 1 over a stretch without a double colon, and over the double colon.\<close>

lemma step1_run:
  "pre \<noteq> [] \<Longrightarrow> 0 \<notin> set xs \<Longrightarrow> successively (\<lambda>a b. \<not> (a = 0x3A \<and> b = 0x3A)) (last pre # xs) \<Longrightarrow>
   length pre + length xs \<le> 40 \<Longrightarrow>
   IPv6Address_fromString_step1 (pre @ xs @ post) (length pre) cc =
   IPv6Address_fromString_step1 (pre @ xs @ post) (length pre + length xs) (cc - 2 * count_list xs 0x3A)"
proof (induction xs arbitrary: pre cc)
  case (Cons x xs)
  let ?s = "pre @ x # xs @ post"
  have IH: "IPv6Address_fromString_step1 ?s (Suc (length pre)) cc' =
      IPv6Address_fromString_step1 ?s (Suc (length pre + length xs)) (cc' - 2 * count_list xs 0x3A)" for cc'
    using Cons.IH [of "pre @ [x]" cc'] Cons.prems by (simp add: successively_Cons)
  note last = cstr_at_last [OF Cons.prems(1), of "x # xs @ post"]
  show ?case
  proof (cases "x = 0x3A")
    case True
    have dbl: "last pre \<noteq> 0x3A" using Cons.prems True by (auto simp: successively_Cons)
    have "IPv6Address_fromString_step1 ?s (length pre) cc = IPv6Address_fromString_step1 ?s (Suc (length pre)) (cc - 2)"
      using Cons.prems last dbl True by (subst IPv6Address_fromString_step1.simps) simp
    also note IH
    finally show ?thesis using True by simp
  next
    case False
    then show ?thesis using Cons.prems IH [of cc]
      by (subst IPv6Address_fromString_step1.simps) simp
  qed
qed simp

lemma step1_double:
  "pre \<noteq> [] \<Longrightarrow> last pre = 0x3A \<Longrightarrow> length pre < 40 \<Longrightarrow>
   IPv6Address_fromString_step1 (pre @ 0x3A # post) (length pre) cc =
   IPv6Address_fromString_step1 (pre @ 0x3A # post) (Suc (length pre)) 14"
  using cstr_at_last [of pre "0x3A # post"] by (subst IPv6Address_fromString_step1.simps) auto

lemma step1_end: "length s < 40 \<Longrightarrow> IPv6Address_fromString_step1 s (length s) cc = Some cc"
  by (subst IPv6Address_fromString_step1.simps) simp

text \<open>Step 2 over a group's digits, over a colon with and without a jump, and at the end.\<close>

lemma step2_digits:
  "list_all hex_digit ds \<Longrightarrow> length pre + length ds \<le> 40 \<Longrightarrow> pos < 16 \<Longrightarrow>
   IPv6Address_fromString_step2 (pre @ ds @ post) (length pre) cc pos acc a =
   IPv6Address_fromString_step2 (pre @ ds @ post) (length pre + length ds) cc pos
     (foldl (\<lambda>v d. 16 * v + ucast (asciiToHex d)) acc ds) a"
proof (induction ds arbitrary: pre acc)
  case (Cons d ds)
  then have "IPv6Address_fromString_step2 (pre @ d # ds @ post) (Suc (length pre)) cc pos acc' a =
      IPv6Address_fromString_step2 (pre @ d # ds @ post) (Suc (length pre + length ds)) cc pos
        (foldl (\<lambda>v d. 16 * v + ucast (asciiToHex d)) acc' ds) a" for acc'
    using Cons.IH [of "pre @ [d]" acc'] by simp
  with Cons.prems show ?case
    by (subst IPv6Address_fromString_step2.simps)
      (simp add: Let_def hex_digit_facts shift_digit asciiToHex_less)
qed simp

lemma step2_colon:
  "pre \<noteq> [] \<Longrightarrow> length pre < 40 \<Longrightarrow> pos < 16 \<Longrightarrow>
   IPv6Address_fromString_step2 (pre @ 0x3A # post) (length pre) cc pos acc a =
   IPv6Address_fromString_step2 (pre @ 0x3A # post) (Suc (length pre)) cc
     (if cc \<noteq> 0 \<and> last pre = 0x3A then cc else pos + 2) 0
     (a[pos := ucast (drop_bit 8 acc), pos + 1 := ucast acc])"
  using cstr_at_last [of pre "0x3A # post"]
  by (subst IPv6Address_fromString_step2.simps) auto

lemma step2_end:
  "s \<noteq> [] \<Longrightarrow> length s < 40 \<Longrightarrow> pos < 16 \<Longrightarrow>
   IPv6Address_fromString_step2 s (length s) cc pos acc a =
   Some (True, a[pos := ucast (drop_bit 8 acc), pos + 1 := ucast acc])"
  using cstr_at_last [of s "[]"]
  by (subst IPv6Address_fromString_step2.simps) auto

text \<open>Stretches of complete groups.\<close>

abbreviation (input) no_double :: "byte list \<Rightarrow> bool" where
  "no_double \<equiv> successively (\<lambda>a b. \<not> (a = 0x3A \<and> b = 0x3A))"

lemma hex_group_facts:
  assumes "hex_group g"
  shows "0 \<notin> set g" "0x3A \<notin> set g" "count_list g 0x3A = 0" "no_double g" "g \<noteq> []" "length g \<le> 4"
    "hd g \<noteq> 0x3A" "last g \<noteq> 0x3A" "list_all hex_digit g"
proof -
  show g: "g \<noteq> []" "length g \<le> 4" "list_all hex_digit g" using assms by (auto simp: hex_group_def)
  then show c: "0x3A \<notin> set g" and "0 \<notin> set g"
    by (auto simp: list_all_iff dest: hex_digit_facts)
  then show "count_list g 0x3A = 0" by (simp add: count_list_0_iff)
  show "hd g \<noteq> 0x3A" "last g \<noteq> 0x3A" using g c by (metis hd_in_set, metis last_in_set)
  show "no_double g" using c by (induction g rule: induct_list012) auto
qed

lemma colon_groups_facts:
  "list_all hex_group gs \<Longrightarrow> 0 \<notin> set (colon_groups gs) \<and> count_list (colon_groups gs) 0x3A = length gs
     \<and> length (colon_groups gs) \<le> 5 * length gs \<and> no_double (colon_groups gs)
     \<and> (gs \<noteq> [] \<longrightarrow> hd (colon_groups gs) \<noteq> 0x3A \<and> last (colon_groups gs) = 0x3A)"
proof (induction gs)
  case (Cons g gs)
  then show ?case using hex_group_facts [of g]
    by (cases "gs = []") (auto simp: colon_groups_def successively_append_iff successively_Cons)
qed (simp add: colon_groups_def)

lemma join_groups_facts:
  assumes "list_all hex_group gs" "gs \<noteq> []"
  shows "0 \<notin> set (join_groups gs)" "count_list (join_groups gs) 0x3A = length gs - 1"
    "length (join_groups gs) \<le> 5 * length gs - 1" "no_double (join_groups gs)"
    "hd (join_groups gs) \<noteq> 0x3A" "join_groups gs \<noteq> []"
proof -
  obtain xs x where gs: "gs = xs @ [x]" using assms(2) by (cases gs rule: rev_cases) auto
  have l: "hex_group x" "list_all hex_group xs" using assms(1) gs by auto
  note f = hex_group_facts [OF l(1)] and c = colon_groups_facts [OF l(2)]
  show "0 \<notin> set (join_groups gs)" "count_list (join_groups gs) 0x3A = length gs - 1" "join_groups gs \<noteq> []"
    "length (join_groups gs) \<le> 5 * length gs - 1"
    using f c by (simp_all add: join_groups_def gs)
  show "no_double (join_groups gs)" "hd (join_groups gs) \<noteq> 0x3A"
    using f c by (cases "xs = []"; simp add: join_groups_def gs successively_append_iff colon_groups_def)+
qed

fun put_groups :: "ip6 \<Rightarrow> nat \<Rightarrow> byte list list \<Rightarrow> ip6" where
  "put_groups a pos [] = a"
| "put_groups a pos (g # gs) =
     put_groups (a[pos := ucast (drop_bit 8 (group_value g)), pos + 1 := ucast (group_value g)]) (pos + 2) gs"

lemma put_groups_append: "put_groups a pos (gs @ hs) = put_groups (put_groups a pos gs) (pos + 2 * length gs) hs"
  by (induction gs arbitrary: a pos) simp_all

lemma step2_group_digits:
  "hex_group g \<Longrightarrow> length pre + length g \<le> 40 \<Longrightarrow> pos < 16 \<Longrightarrow>
   IPv6Address_fromString_step2 (pre @ g @ post) (length pre) cc pos 0 a =
   IPv6Address_fromString_step2 ((pre @ g) @ post) (length (pre @ g)) cc pos (group_value g) a"
  using step2_digits [of g pre pos post cc 0 a] by (simp add: hex_group_facts group_value_def)

lemma step2_groups:
  "list_all hex_group gs \<Longrightarrow> pos + 2 * length gs \<le> 16 \<Longrightarrow> length pre + length (colon_groups gs) \<le> 40 \<Longrightarrow>
   IPv6Address_fromString_step2 (pre @ colon_groups gs @ post) (length pre) cc pos 0 a =
   IPv6Address_fromString_step2 (pre @ colon_groups gs @ post) (length pre + length (colon_groups gs)) cc
     (pos + 2 * length gs) 0 (put_groups a pos gs)"
proof (induction gs arbitrary: pre pos a)
  case (Cons g gs)
  let ?a = "a[pos := ucast (drop_bit 8 (group_value g)), pos + 1 := ucast (group_value g)]"
  have g: "hex_group g" and len: "length pre + length g < 40" "pos < 16"
    using Cons.prems by (auto simp: colon_groups_def)
  have s: "pre @ colon_groups (g # gs) @ post = (pre @ g) @ 0x3A # colon_groups gs @ post"
    "pre @ colon_groups (g # gs) @ post = (pre @ g @ [0x3A]) @ colon_groups gs @ post"
    by (simp_all add: colon_groups_def)
  have "IPv6Address_fromString_step2 (pre @ colon_groups (g # gs) @ post) (length pre) cc pos 0 a =
      IPv6Address_fromString_step2 ((pre @ g) @ 0x3A # colon_groups gs @ post) (length (pre @ g)) cc pos (group_value g) a"
    using step2_group_digits [OF g, of pre pos "0x3A # colon_groups gs @ post"] len s(1) by simp
  also have "\<dots> = IPv6Address_fromString_step2 ((pre @ g) @ 0x3A # colon_groups gs @ post)
      (Suc (length (pre @ g))) cc (pos + 2) 0 ?a"
    using len hex_group_facts [OF g] step2_colon [of "pre @ g" pos "colon_groups gs @ post" cc "group_value g" a]
    by simp
  also have "\<dots> = IPv6Address_fromString_step2 ((pre @ g @ [0x3A]) @ colon_groups gs @ post)
      (length (pre @ g @ [0x3A])) cc (pos + 2) 0 ?a"
    by simp
  also have "\<dots> = IPv6Address_fromString_step2 ((pre @ g @ [0x3A]) @ colon_groups gs @ post)
      (length (pre @ g @ [0x3A]) + length (colon_groups gs)) cc (pos + 2 + 2 * length gs) 0 (put_groups ?a (pos + 2) gs)"
    using Cons.prems by (intro Cons.IH) (auto simp: colon_groups_def)
  finally show ?case by (simp add: colon_groups_def add.assoc)
qed (simp add: colon_groups_def)

lemma step2_join:
  assumes "list_all hex_group gs" "gs \<noteq> []" "pos + 2 * length gs \<le> 16" "length pre + length (join_groups gs) < 40"
  shows "IPv6Address_fromString_step2 (pre @ join_groups gs) (length pre) cc pos 0 a = Some (True, put_groups a pos gs)"
proof -
  obtain xs x where gs: "gs = xs @ [x]" using assms(2) by (cases gs rule: rev_cases) auto
  let ?T = "colon_groups xs" and ?p = "pos + 2 * length xs"
  have j: "join_groups gs = ?T @ x" by (simp add: join_groups_def gs)
  have hex: "hex_group x" "list_all hex_group xs" using assms(1) gs by auto
  have p: "?p < 16" using assms(3) gs by simp
  have len: "length pre + length ?T + length x < 40" using assms(4) j by simp
  have "IPv6Address_fromString_step2 (pre @ ?T @ x) (length pre) cc pos 0 a =
      IPv6Address_fromString_step2 ((pre @ ?T) @ x @ []) (length (pre @ ?T)) cc ?p 0 (put_groups a pos xs)"
    using step2_groups [OF hex(2), of pos pre x cc a] p len by simp
  also have "\<dots> = IPv6Address_fromString_step2 ((pre @ ?T) @ x) (length ((pre @ ?T) @ x)) cc ?p (group_value x)
      (put_groups a pos xs)"
    using step2_group_digits [OF hex(1), of "pre @ ?T" ?p "[]" cc] p len by simp
  also have "\<dots> = Some (True, put_groups (put_groups a pos xs) ?p [x])"
    using p len hex_group_facts [OF hex(1)] by (subst step2_end) auto
  finally show ?thesis by (simp add: join_groups_def gs put_groups_append)
qed

lemma put_groups_conv:
  "pos + 2 * length gs \<le> length a \<Longrightarrow>
   put_groups a pos gs = take pos a @ concat (map group_bytes gs) @ drop (pos + 2 * length gs) a"
proof (induction gs arbitrary: a pos)
  case (Cons g gs)
  let ?x = "ucast (drop_bit 8 (group_value g))" and ?y = "ucast (group_value g)"
  have "a[pos := ?x, pos + 1 := ?y] = take pos a @ ?x # ?y # drop (pos + 2) a"
  proof (rule nth_equalityI)
    fix i
    have "i = Suc (Suc (i - 2))" if "\<not> i \<le> Suc pos" using that by arith
    then show "i < length (a[pos := ?x, pos + 1 := ?y]) \<Longrightarrow>
        a[pos := ?x, pos + 1 := ?y] ! i = (take pos a @ ?x # ?y # drop (pos + 2) a) ! i"
      using Cons.prems by (auto simp: nth_append nth_Cons' nth_list_update)
  qed (use Cons.prems in simp)
  then show ?case using Cons by (simp add: group_bytes_def add.commute)
qed simp

lemma length_groups [simp]: "length (concat (map group_bytes gs)) = 2 * length gs"
  by (induction gs) (simp_all add: group_bytes_def)

lemma length_put_groups [simp]: "length (put_groups a pos gs) = length a"
  by (induction gs arbitrary: a pos) simp_all

text \<open>
  The full form: eight groups of one to four hexadecimal digits separated by colons parse to the
  sixteen bytes of their values.
\<close>

theorem IPv6Address_fromString_full:
  assumes "list_all hex_group gs" and "length gs = 8"
  shows "IPv6Address_fromString (join_groups gs) = Some (True, concat (map group_bytes gs))"
proof -
  let ?s = "join_groups gs"
  have ne: "gs \<noteq> []" using assms(2) by auto
  note f = join_groups_facts [OF assms(1) ne]
  have len: "length ?s < 40" using f(3) assms(2) by simp
  obtain c xs where s: "?s = c # xs" using f(6) by (cases ?s) auto
  have "IPv6Address_fromString_step1 ([c] @ xs @ []) (length [c]) 0 = Some 0"
    using f(1,4) len step1_end [of ?s] unfolding s by (subst step1_run) auto
  then have 1: "IPv6Address_fromString_step1 ?s 1 0 = Some 0" by (simp add: s)
  have "IPv6Address_fromString_step2 ([] @ ?s) (length ([] :: byte list)) 0 0 0 IPv6Address_zero
      = Some (True, put_groups IPv6Address_zero 0 gs)"
    using assms ne len by (intro step2_join) auto
  then show ?thesis using assms(2) 1
    by (simp add: IPv6Address_fromString_def put_groups_conv IPv6Address_zero_def)
qed

theorem IPv6Address_fromString_full_witness:
  "IPv6Address_fromString (chars ''2001:db8:0:0:8:800:200C:417A'') = Some (True,
     [0x20, 0x01, 0x0d, 0xb8, 0, 0, 0, 0, 0, 0x08, 0x08, 0x00, 0x20, 0x0c, 0x41, 0x7a])"
  using IPv6Address_fromString_full [of "map chars [''2001'', ''db8'', ''0'', ''0'', ''8'', ''800'', ''200C'', ''417A'']"]
  by (simp add: join_groups_def colon_groups_def chars_def hex_group_def hex_digit_def group_bytes_def
      group_value_def asciiToHex_def)

text \<open>
  The compressed form: groups \<open>gs\<close> before and \<open>hs\<close> after a double colon, at most seven in all,
  parse to the bytes of \<open>gs\<close>, zeros, and the bytes of \<open>hs\<close>. Either list may be empty.
\<close>

theorem IPv6Address_fromString_compressed:
  assumes "list_all hex_group gs" and "list_all hex_group hs" and "length gs + length hs \<le> 7"
  shows "IPv6Address_fromString (join_groups gs @ [0x3A, 0x3A] @ join_groups hs) =
    Some (True, concat (map group_bytes gs) @ replicate (16 - 2 * length gs - 2 * length hs) 0
                @ concat (map group_bytes hs))"
proof -
  define P where "P = (if gs = [] then [0x3A] else colon_groups gs)"
  define cc where "cc = 14 - 2 * (length hs - 1)"
  let ?J = "join_groups hs"
  have s: "join_groups gs @ [0x3A, 0x3A] @ ?J = P @ 0x3A # ?J"
    by (cases gs rule: rev_cases) (simp_all add: P_def join_groups_def colon_groups_def)
  note c = colon_groups_facts [OF assms(1)]
  have P: "P \<noteq> []" "last P = 0x3A" "0 \<notin> set P" "no_double P" "length P \<le> 5 * length gs + 1"
    using c by (auto simp: P_def colon_groups_def)
  have J: "0 \<notin> set ?J" "no_double ?J" "length ?J \<le> 5 * length hs" "?J \<noteq> [] \<longrightarrow> hd ?J \<noteq> 0x3A"
    "count_list ?J 0x3A = length hs - 1" "hs = [] \<longleftrightarrow> ?J = []"
    using join_groups_facts [OF assms(2)] by (cases "hs = []"; force simp: join_groups_def)+
  have len: "length P + length ?J < 38" using P(5) J(3) assms(3) by linarith
  obtain p ps where p: "P = p # ps" using P(1) by (cases P) auto
  have "IPv6Address_fromString_step1 (P @ 0x3A # ?J) 1 0 = Some cc"
  proof -
    have "IPv6Address_fromString_step1 (P @ 0x3A # ?J) 1 0 = IPv6Address_fromString_step1 (P @ 0x3A # ?J) (length P) 0"
      using step1_run [of "[p]" ps "0x3A # ?J" 0] P len by (simp add: p)
    also have "\<dots> = IPv6Address_fromString_step1 (P @ 0x3A # ?J) (Suc (length P)) 14"
      using P len by (intro step1_double) auto
    also have "\<dots> = IPv6Address_fromString_step1 ((P @ [0x3A]) @ ?J @ []) (length (P @ [0x3A])) 14" by simp
    also have "\<dots> = IPv6Address_fromString_step1 ((P @ [0x3A]) @ ?J @ []) (length (P @ [0x3A]) + length ?J) cc"
      using J len step1_run [of "P @ [0x3A]" ?J "[]" 14] by (auto simp: successively_Cons cc_def)
    also have "\<dots> = Some cc" using step1_end [of "P @ 0x3A # ?J" cc] len by simp
    finally show ?thesis .
  qed
  moreover have "IPv6Address_fromString_step2 (P @ 0x3A # ?J) 0 cc 0 0 IPv6Address_zero =
    Some (True, put_groups (put_groups IPv6Address_zero 0 gs) (16 - 2 * length hs) hs)"
  proof -
    let ?Z = "put_groups IPv6Address_zero 0 gs"
    define q where "q = (if gs = [] then 2 else 2 * length gs)"
    have q: "q < 16" using assms(3) by (auto simp: q_def)
    have cc: "cc \<noteq> 0" "hs \<noteq> [] \<Longrightarrow> cc = 16 - 2 * length hs" "hs = [] \<Longrightarrow> cc = 14" "cc < 16"
      using assms(3) by (cases hs; auto simp: cc_def)+
    have Z: "?Z[i := 0] = ?Z" if "2 * length gs \<le> i" for i
      using that assms(3)
      by (simp add: put_groups_conv IPv6Address_zero_def list_update_append)
    have "IPv6Address_fromString_step2 (P @ 0x3A # ?J) 0 cc 0 0 IPv6Address_zero =
        IPv6Address_fromString_step2 (P @ 0x3A # ?J) (length P) cc q 0 ?Z"
    proof (cases "gs = []")
      case True
      have "IPv6Address_zero[0 := 0, Suc 0 := 0] = IPv6Address_zero" by (simp add: IPv6Address_zero_def)
      then show ?thesis using True
        by (simp add: P_def q_def) (subst IPv6Address_fromString_step2.simps, simp, simp only: numeral_2_eq_2)
    next
      case False
      then show ?thesis
        using step2_groups [OF assms(1), of 0 "[]" "0x3A # ?J" cc IPv6Address_zero] assms(3) len
        by (simp add: P_def q_def)
    qed
    also have "\<dots> = IPv6Address_fromString_step2 ((P @ [0x3A]) @ ?J) (length (P @ [0x3A])) cc cc 0 ?Z"
      using step2_colon [of P q ?J cc 0 ?Z] P len q cc(1) by (simp add: Z q_def)
    also have "\<dots> = Some (True, put_groups ?Z (16 - 2 * length hs) hs)"
    proof (cases "hs = []")
      case True
      then have "?J = []" by (simp add: join_groups_def)
      then show ?thesis using step2_end [of "P @ [0x3A]" cc cc 0 ?Z] len cc assms(3) True by (simp add: Z)
    next
      case False
      then show ?thesis using step2_join [OF assms(2) False, of cc "P @ [0x3A]" cc ?Z] len cc assms(3) by simp
    qed
    finally show ?thesis .
  qed
  ultimately show ?thesis
    using assms(3) unfolding s
    by (simp add: IPv6Address_fromString_def put_groups_conv IPv6Address_zero_def)
qed

theorem IPv6Address_fromString_compressed_witness:
  "IPv6Address_fromString (chars ''fe80::c00f:feee'') = Some (True,
     [0xfe, 0x80, 0, 0, 0, 0, 0, 0, 0, 0, 0, 0, 0xc0, 0x0f, 0xfe, 0xee])"
proof -
  have "replicate 10 0 = [0, 0, 0, 0, 0, 0, 0, 0, 0, 0 :: byte]" by (simp add: numeral_eq_Suc)
  then show ?thesis
    using IPv6Address_fromString_compressed [of "[chars ''fe80'']" "[chars ''c00f'', chars ''feee'']"]
    by (simp add: join_groups_def colon_groups_def chars_def hex_group_def hex_digit_def group_bytes_def
        group_value_def asciiToHex_def)
qed

section \<open>Printing\<close>

definition printed_group :: "byte \<Rightarrow> byte \<Rightarrow> byte list" where
  "printed_group a b = printPaddedHex a @ printPaddedHex b"

lemma hexDigit_is_digit: "n < 16 \<Longrightarrow> hex_digit (hexDigit n)"
  by (drule nibble_cases) (auto simp: hex_digit_def hexDigit_def)

lemma printed_group_hex [simp]: "hex_group (printed_group a b)"
  by (simp add: hex_group_def printed_group_def printPaddedHex_def hexDigit_is_digit nibbles_less)

lemma ucast_nibbles: "16 * ucast (drop_bit 4 b AND 15) + ucast (b AND 15) = (ucast (b :: byte) :: u16)"
proof -
  have m: "(15 :: byte) = mask 4" by (simp add: mask_eq_decr_exp)
  have "push_bit 4 (ucast (drop_bit 4 b AND 15)) OR ucast (b AND 15) = (ucast b :: u16)"
    unfolding m by (rule bit_word_eqI) (auto simp: bit_simps dest: bit_imp_le_length)
  then show ?thesis by (simp add: shift_digit nibbles_less)
qed

lemma group_value_printed [simp]: "group_value (printed_group a b) = be16 a b"
proof -
  have "256 * (ucast a :: u16) + ucast b = push_bit 8 (ucast a) + ucast b" by (simp add: push_bit_eq_mult)
  also have "\<dots> = be16 a b" using bytesToWord_be16 [of a b] by (simp add: bytesToWord_def)
  finally have "256 * (ucast a :: u16) + ucast b = be16 a b" .
  moreover have "group_value (printed_group a b) =
      256 * (16 * ucast (drop_bit 4 a AND 15) + ucast (a AND 15)) + (16 * ucast (drop_bit 4 b AND 15) + ucast (b AND 15))"
    by (simp add: group_value_def printed_group_def printPaddedHex_def algebra_simps)
  ultimately show ?thesis unfolding ucast_nibbles by simp
qed

lemma group_bytes_printed [simp]: "group_bytes (printed_group a b) = [a, b]"
  by (simp add: group_bytes_def)

lemma IPv6Address_print_groups:
  "IPv6Address_print [a, b, c, d, e, f, g, h, i, j, k, l, m, n, p, q] =
   join_groups [printed_group a b, printed_group c d, printed_group e f, printed_group g h,
     printed_group i j, printed_group k l, printed_group m n, printed_group p q]"
  by (simp add: IPv6Address_print_def upt_rec join_groups_def colon_groups_def printed_group_def)

lemma list16_cases:
  "length xs = 16 \<Longrightarrow> \<exists>a b c d e f g h i j k l m n p q. xs = [a, b, c, d, e, f, g, h, i, j, k, l, m, n, p, q]"
  by (auto simp: numeral_eq_Suc length_Suc_conv)

text \<open>
  C12. Printing an address and parsing the text gives the address back.
\<close>

theorem IPv6Address_fromString_print:
  assumes "wf_ip x"
  shows "IPv6Address_fromString (IPv6Address_print x) = Some (True, x)"
proof -
  from list16_cases [OF assms [unfolded wf_ip_def]]
  obtain a b c d e f g h i j k l m n p q where x: "x = [a, b, c, d, e, f, g, h, i, j, k, l, m, n, p, q]"
    by (elim exE)
  show ?thesis
    using IPv6Address_fromString_full [of "[printed_group a b, printed_group c d, printed_group e f,
      printed_group g h, printed_group i j, printed_group k l, printed_group m n, printed_group p q]"]
    unfolding x IPv6Address_print_groups by simp
qed

theorem IPv6Address_fromString_print_witness:
  "IPv6Address_fromString (IPv6Address_print IPv6Address_linkLocalAllNodes) = Some (True, IPv6Address_linkLocalAllNodes)"
  by (rule IPv6Address_fromString_print) simp

end
