(* ===== verification/IPv6_Packet.thy ===== *)
theory IPv6_Packet
  imports IPv6_Address
begin

text \<open>
  \<open>src/src/IPv6Packet.cpp\<close> and \<open>IPv6Packet.h\<close>: an Ethernet frame with an IPv6 header, seen as
  memory whose cell 0 is the first byte of the packed C++ object. Fields of more than a byte are
  held in network order and converted by the accessors. A packet occupies an object of \<open>sz\<close> bytes;
  summing a payload that reaches past it is a fault (\<open>None\<close>).
\<close>

abbreviation (input) ETHER_TYPE_IPV6 :: u16 where "ETHER_TYPE_IPV6 \<equiv> 0x86dd"
abbreviation (input) IP6_DEFAULT_HOP_LIMIT :: byte where "IP6_DEFAULT_HOP_LIMIT \<equiv> 64"
abbreviation (input) IP6_PROTO_TCP :: byte where "IP6_PROTO_TCP \<equiv> 6"
abbreviation (input) IP6_PROTO_UDP :: byte where "IP6_PROTO_UDP \<equiv> 17"
abbreviation (input) IP6_PROTO_ICMP6 :: byte where "IP6_PROTO_ICMP6 \<equiv> 58"
abbreviation (input) ETHER_HEADER_LEN :: nat where "ETHER_HEADER_LEN \<equiv> 14"
abbreviation (input) IP6_HEADER_LEN :: nat where "IP6_HEADER_LEN \<equiv> 40"

text \<open>Offsets of the members of the packed class.\<close>

abbreviation (input) off_etherDestination :: nat where "off_etherDestination \<equiv> 0"
abbreviation (input) off_etherSource :: nat where "off_etherSource \<equiv> 6"
abbreviation (input) off_etherType :: nat where "off_etherType \<equiv> 12"
abbreviation (input) off_ver_tc :: nat where "off_ver_tc \<equiv> 14"
abbreviation (input) off_tc_fl :: nat where "off_tc_fl \<equiv> 15"
abbreviation (input) off_flowLabel :: nat where "off_flowLabel \<equiv> 16"
abbreviation (input) off_length :: nat where "off_length \<equiv> 18"
abbreviation (input) off_protocol :: nat where "off_protocol \<equiv> 20"
abbreviation (input) off_hopLimit :: nat where "off_hopLimit \<equiv> 21"
abbreviation (input) off_source :: nat where "off_source \<equiv> 22"
abbreviation (input) off_destination :: nat where "off_destination \<equiv> 38"
abbreviation (input) off_payload :: nat where "off_payload \<equiv> 54"

definition IPv6Packet_init :: "mem \<Rightarrow> mem" where
  "IPv6Packet_init m =
     (let m = st16 m off_etherType (ntohs ETHER_TYPE_IPV6);
          m = st8 m off_ver_tc 0x60;
          m = st8 m off_tc_fl 0x00;
          m = st16 m off_flowLabel 0
      in st8 m off_hopLimit IP6_DEFAULT_HOP_LIMIT)"

definition IPv6Packet_new :: "mem \<Rightarrow> mem" where
  "IPv6Packet_new m = IPv6Packet_init (wr_bytes m 0 (replicate 54 0))"

definition IPv6Packet_etherType :: "mem \<Rightarrow> u16" where
  "IPv6Packet_etherType m = ntohs (ld16 m off_etherType)"

definition IPv6Packet_version :: "mem \<Rightarrow> byte" where
  "IPv6Packet_version m = drop_bit 4 (m off_ver_tc AND 0xF0)"

definition IPv6Packet_payloadLength :: "mem \<Rightarrow> u16" where
  "IPv6Packet_payloadLength m = ntohs (ld16 m off_length)"

definition IPv6Packet_length :: "mem \<Rightarrow> u16" where
  "IPv6Packet_length m = 14 + 40 + IPv6Packet_payloadLength m"

definition IPv6Packet_setPayloadLength :: "mem \<Rightarrow> u16 \<Rightarrow> mem" where
  "IPv6Packet_setPayloadLength m len = st16 m off_length (htons len)"

definition IPv6Packet_protocol :: "mem \<Rightarrow> byte" where
  "IPv6Packet_protocol m = m off_protocol"

definition IPv6Packet_setProtocol :: "mem \<Rightarrow> byte \<Rightarrow> mem" where
  "IPv6Packet_setProtocol m protocol = st8 m off_protocol protocol"

definition IPv6Packet_hopLimit :: "mem \<Rightarrow> byte" where
  "IPv6Packet_hopLimit m = m off_hopLimit"

definition IPv6Packet_setHopLimit :: "mem \<Rightarrow> byte \<Rightarrow> mem" where
  "IPv6Packet_setHopLimit m hopLimit = st8 m off_hopLimit hopLimit"

definition IPv6Packet_etherSource :: "mem \<Rightarrow> mac" where
  "IPv6Packet_etherSource m = rd_bytes m off_etherSource 6"

definition IPv6Packet_setEtherSource :: "mem \<Rightarrow> mac \<Rightarrow> mem" where
  "IPv6Packet_setEtherSource m address = wr_bytes m off_etherSource address"

definition IPv6Packet_etherDestination :: "mem \<Rightarrow> mac" where
  "IPv6Packet_etherDestination m = rd_bytes m off_etherDestination 6"

definition IPv6Packet_setEtherDestination :: "mem \<Rightarrow> mac \<Rightarrow> mem" where
  "IPv6Packet_setEtherDestination m address = wr_bytes m off_etherDestination address"

definition IPv6Packet_source :: "mem \<Rightarrow> ip6" where
  "IPv6Packet_source m = rd_bytes m off_source 16"

definition IPv6Packet_setSource :: "mem \<Rightarrow> ip6 \<Rightarrow> mem" where
  "IPv6Packet_setSource m address = wr_bytes m off_source address"

definition IPv6Packet_destination :: "mem \<Rightarrow> ip6" where
  "IPv6Packet_destination m = rd_bytes m off_destination 16"

definition IPv6Packet_setDestination :: "mem \<Rightarrow> ip6 \<Rightarrow> mem" where
  "IPv6Packet_setDestination m address = wr_bytes m off_destination address"

definition IPv6Packet_calculateChecksum :: "nat \<Rightarrow> mem \<Rightarrow> u16 option" where
  "IPv6Packet_calculateChecksum sz m =
     (let newsum = IPv6Packet_payloadLength m + ucast (IPv6Packet_protocol m);
          newsum = chksum newsum (IPv6Packet_source m);
          newsum = chksum newsum (IPv6Packet_destination m);
          len = unat (IPv6Packet_payloadLength m)
      in if off_payload + len \<le> sz
         then Some (NOT (chksum newsum (rd_bytes m off_payload len)))
         else None)"

definition IPv6Packet_isValid :: "nat \<Rightarrow> mem \<Rightarrow> bool option" where
  "IPv6Packet_isValid sz m =
     (if ld16 m off_etherType \<noteq> ntohs ETHER_TYPE_IPV6 then Some False
      else if IPv6Packet_version m \<noteq> 6 then Some False
      else do {
        c \<leftarrow> IPv6Packet_calculateChecksum sz m;
        if c \<noteq> 0 then Some False else Some True
      })"

definition IPv6Packet_invalidate :: "mem \<Rightarrow> mem" where
  "IPv6Packet_invalidate m = st16 m off_etherType 0"

declare IPv6Packet_init_def [field_defs] IPv6Packet_etherType_def [field_defs]
  IPv6Packet_payloadLength_def [field_defs] IPv6Packet_setPayloadLength_def [field_defs]
  IPv6Packet_protocol_def [field_defs] IPv6Packet_setProtocol_def [field_defs]
  IPv6Packet_hopLimit_def [field_defs] IPv6Packet_setHopLimit_def [field_defs]
  IPv6Packet_etherSource_def [field_defs] IPv6Packet_setEtherSource_def [field_defs]
  IPv6Packet_etherDestination_def [field_defs] IPv6Packet_setEtherDestination_def [field_defs]
  IPv6Packet_source_def [field_defs] IPv6Packet_setSource_def [field_defs]
  IPv6Packet_destination_def [field_defs] IPv6Packet_setDestination_def [field_defs]
  IPv6Packet_version_def [field_defs]

text \<open>
  Header fields through the writes of the setters and of the layers above, all in terms of
  \<open>wr_bytes\<close>: a write elsewhere leaves a field, a write of the field is read back.
\<close>

named_theorems hdr_simps "header fields through writes"

lemma hdr_out [hdr_simps]:
  "off + length bs \<le> 12 \<or> 14 \<le> off \<Longrightarrow> IPv6Packet_etherType (wr_bytes m off bs) = IPv6Packet_etherType m"
  "off + length bs \<le> 14 \<or> 15 \<le> off \<Longrightarrow> IPv6Packet_version (wr_bytes m off bs) = IPv6Packet_version m"
  "off + length bs \<le> 18 \<or> 20 \<le> off \<Longrightarrow> IPv6Packet_payloadLength (wr_bytes m off bs) = IPv6Packet_payloadLength m"
  "off + length bs \<le> 20 \<or> 21 \<le> off \<Longrightarrow> IPv6Packet_protocol (wr_bytes m off bs) = IPv6Packet_protocol m"
  "off + length bs \<le> 21 \<or> 22 \<le> off \<Longrightarrow> IPv6Packet_hopLimit (wr_bytes m off bs) = IPv6Packet_hopLimit m"
  "off + length bs \<le> 22 \<or> 38 \<le> off \<Longrightarrow> IPv6Packet_source (wr_bytes m off bs) = IPv6Packet_source m"
  "off + length bs \<le> 38 \<or> 54 \<le> off \<Longrightarrow> IPv6Packet_destination (wr_bytes m off bs) = IPv6Packet_destination m"
  "off + length bs \<le> 6 \<or> 12 \<le> off \<Longrightarrow> IPv6Packet_etherSource (wr_bytes m off bs) = IPv6Packet_etherSource m"
  "6 \<le> off \<Longrightarrow> IPv6Packet_etherDestination (wr_bytes m off bs) = IPv6Packet_etherDestination m"
  by (auto simp: field_defs mem_simps)

lemma hdr_in [hdr_simps]:
  "IPv6Packet_payloadLength (wr_bytes m 18 (b16 (htons n))) = n"
  "IPv6Packet_protocol (wr_bytes m 20 [b]) = b"
  "IPv6Packet_hopLimit (wr_bytes m 21 [b]) = b"
  "length a = 16 \<Longrightarrow> IPv6Packet_source (wr_bytes m 22 a) = a"
  "length a = 16 \<Longrightarrow> IPv6Packet_destination (wr_bytes m 38 a) = a"
  "length h = 6 \<Longrightarrow> IPv6Packet_etherSource (wr_bytes m 6 h) = h"
  "length h = 6 \<Longrightarrow> IPv6Packet_etherDestination (wr_bytes m 0 h) = h"
  by (simp_all add: field_defs mem_simps)

declare IPv6Packet_setPayloadLength_def [hdr_simps] IPv6Packet_setProtocol_def [hdr_simps]
  IPv6Packet_setHopLimit_def [hdr_simps] IPv6Packet_setEtherSource_def [hdr_simps]
  IPv6Packet_setEtherDestination_def [hdr_simps] IPv6Packet_setSource_def [hdr_simps]
  IPv6Packet_setDestination_def [hdr_simps] st8_def [hdr_simps] st16_def [hdr_simps]
  st32_def [hdr_simps] ld16_def [hdr_simps] ld32_def [hdr_simps] rd_wr_same [hdr_simps]
  rd_wr_disjoint [hdr_simps] wr_bytes_out [hdr_simps] wr_bytes_single [hdr_simps]
  wr_wr_same [hdr_simps]

text \<open>A four-byte UDP payload between two link-local addresses, for concrete checks.\<close>

definition sample_packet :: mem where
  "sample_packet = wr_bytes (\<lambda>_. 0) 12
     ([0x86, 0xdd, 0x60, 0, 0, 0, 0, 4, 17, 64] @ [0xfe, 0x80, 0, 0, 0, 0, 0, 0, 0, 0, 0, 0, 0, 0, 0, 1]
      @ [0xfe, 0x80, 0, 0, 0, 0, 0, 0, 0, 0, 0, 0, 0, 0, 0, 2] @ [0, 0, 1, 2])"
section \<open>The checksum as one sum\<close>

definition pkt_sum :: "mem \<Rightarrow> nat" where
  "pkt_sum m = unat (IPv6Packet_payloadLength m + ucast (IPv6Packet_protocol m) :: u16)
     + wsum (rd_bytes m off_source (32 + unat (IPv6Packet_payloadLength m)))"

lemma calculateChecksum_Some:
  assumes "54 + unat (IPv6Packet_payloadLength m) \<le> sz"
  shows "\<exists>c. IPv6Packet_calculateChecksum sz m = Some c \<and> unat c = 65535 - eac (pkt_sum m)"
proof -
  let ?n = "unat (IPv6Packet_payloadLength m)"
  have s: "rd_bytes m 22 (32 + ?n) = rd_bytes m 22 16 @ rd_bytes m 38 16 @ rd_bytes m 54 ?n"
    using rd_bytes_append [of m 22 16 "16 + ?n"] rd_bytes_append [of m 38 16 ?n] by simp
  have "chksum (chksum (chksum s0 (rd_bytes m 22 16)) (rd_bytes m 38 16)) (rd_bytes m 54 ?n)
      = chksum s0 (rd_bytes m 22 (32 + ?n))" for s0
    by (simp add: s chksum_append)
  then show ?thesis
    using assms by (simp add: IPv6Packet_calculateChecksum_def Let_def IPv6Packet_source_def
        IPv6Packet_destination_def unat_not_u16 unat_chksum pkt_sum_def del: eac_small)
qed

lemma calculateChecksum_None:
  "sz < 54 + unat (IPv6Packet_payloadLength m) \<Longrightarrow> IPv6Packet_calculateChecksum sz m = None"
  by (simp add: IPv6Packet_calculateChecksum_def Let_def)

lemma eac_top: "eac n = 65535 \<longleftrightarrow> 0 < n \<and> n mod 65535 = 0"
proof (cases "n = 0")
  case False
  then have "(n - 1) mod 65535 = 65534 \<longleftrightarrow> n mod 65535 = 0"
    using mod_Suc [of "n - 1" 65535] by auto
  with False show ?thesis by (auto simp: eac_def)
qed (simp add: eac_def)

text \<open>A packet passes the check exactly when its words sum to a positive multiple of 65535.\<close>

lemma checksum_zero_iff:
  "IPv6Packet_calculateChecksum sz m = Some 0 \<longleftrightarrow>
   54 + unat (IPv6Packet_payloadLength m) \<le> sz \<and> 0 < pkt_sum m \<and> pkt_sum m mod 65535 = 0"
proof (cases "54 + unat (IPv6Packet_payloadLength m) \<le> sz")
  case True
  then obtain c where c: "IPv6Packet_calculateChecksum sz m = Some c" "unat c = 65535 - eac (pkt_sum m)"
    using calculateChecksum_Some by blast
  have "eac (pkt_sum m) \<le> 65535" using eac_less [of "pkt_sum m"] by simp
  then have "c = 0 \<longleftrightarrow> eac (pkt_sum m) = 65535"
    using c(2) by (auto simp: word_unat_eq_iff)
  with True c(1) show ?thesis by (simp add: eac_top)
qed (simp add: calculateChecksum_None)

lemma etherType_raw: "ld16 m off_etherType = ntohs t \<longleftrightarrow> IPv6Packet_etherType m = t"
  by (metis IPv6Packet_etherType_def htons_ntohs ntohs_def)

lemma isValid_iff:
  "IPv6Packet_isValid sz m = Some True \<longleftrightarrow>
   IPv6Packet_etherType m = ETHER_TYPE_IPV6 \<and> IPv6Packet_version m = 6
   \<and> 54 + unat (IPv6Packet_payloadLength m) \<le> sz \<and> 0 < pkt_sum m \<and> pkt_sum m mod 65535 = 0"
  unfolding checksum_zero_iff [symmetric]
  by (cases "IPv6Packet_calculateChecksum sz m") (auto simp: IPv6Packet_isValid_def etherType_raw)

lemma payloadLength_cong:
  "m 18 = m' 18 \<Longrightarrow> m 19 = m' 19 \<Longrightarrow> IPv6Packet_payloadLength m = IPv6Packet_payloadLength m'"
  by (simp add: IPv6Packet_payloadLength_def ntohs_ld16)

lemma unat_payloadLength: "unat (IPv6Packet_payloadLength m) = 256 * unat (m 18) + unat (m 19)"
  by (simp add: IPv6Packet_payloadLength_def ntohs_ld16 unat_be16)

lemma pkt_sum_cong:
  assumes "\<And>i. 18 \<le> i \<Longrightarrow> i \<le> 20 \<Longrightarrow> m i = m' i"
    and "\<And>i. 22 \<le> i \<Longrightarrow> i < 54 + unat (IPv6Packet_payloadLength m) \<Longrightarrow> m i = m' i"
  shows "pkt_sum m = pkt_sum m'"
proof -
  have p: "IPv6Packet_payloadLength m' = IPv6Packet_payloadLength m"
    by (rule payloadLength_cong) (simp_all add: assms(1))
  moreover have "rd_bytes m 22 (32 + unat (IPv6Packet_payloadLength m))
      = rd_bytes m' 22 (32 + unat (IPv6Packet_payloadLength m))"
    by (rule rd_bytes_cong) (simp add: assms(2))
  ultimately show ?thesis
    by (simp add: pkt_sum_def IPv6Packet_protocol_def assms(1))
qed

lemma isValid_cong:
  assumes "\<And>i. 12 \<le> i \<Longrightarrow> i < 54 + unat (IPv6Packet_payloadLength m) \<Longrightarrow> m i = m' i"
    and "IPv6Packet_isValid sz m = Some True"
  shows "IPv6Packet_isValid sz m' = Some True"
proof -
  have "IPv6Packet_etherType m' = IPv6Packet_etherType m" "IPv6Packet_version m' = IPv6Packet_version m"
    by (simp_all add: IPv6Packet_etherType_def ntohs_ld16 IPv6Packet_version_def assms(1))
  moreover have "IPv6Packet_payloadLength m' = IPv6Packet_payloadLength m"
    by (rule payloadLength_cong) (simp_all add: assms(1))
  moreover have "pkt_sum m' = pkt_sum m"
    by (rule pkt_sum_cong [symmetric]) (simp_all add: assms(1))
  ultimately show ?thesis
    using assms(2) unfolding isValid_iff by simp
qed

lemma rd_bytes_split_at:
  "i < n \<Longrightarrow> rd_bytes m off n = rd_bytes m off i @ m (off + i) # rd_bytes m (off + i + 1) (n - i - 1)"
  using rd_bytes_append [of m off i "n - i"] rd_bytes_Suc [of m "off + i" "n - i - 1"]
  by (simp add: Suc_diff_Suc)

text \<open>Changing one byte moves the sum by less than 65535.\<close>

definition byte_weight :: "nat \<Rightarrow> nat" where
  "byte_weight i = (if even i then 256 else 1)"

lemma weight_cases: "byte_weight i = 256 \<or> byte_weight i = 1"
  by (simp add: byte_weight_def)

lemma wsum_split:
  "wsum (xs @ b # ys) = wsum (xs @ 0 # ys) + byte_weight (length xs) * unat b"
  by (induction xs rule: wsum.induct) (cases ys; auto simp: byte_weight_def)+

lemma wsum_rd_upd:
  assumes "off \<le> i" "i < off + n"
  shows "wsum (rd_bytes (m(i := b)) off n) + byte_weight (i - off) * unat (m i)
    = wsum (rd_bytes m off n) + byte_weight (i - off) * unat b"
proof -
  let ?k = "i - off"
  let ?xs = "rd_bytes m off ?k" and ?ys = "rd_bytes m (i + 1) (n - ?k - 1)"
  have "rd_bytes (m(i := b)) off ?k = ?xs"
    "rd_bytes (m(i := b)) (i + 1) (n - ?k - 1) = ?ys"
    by (rule rd_bytes_cong, use assms in auto)+
  then have "rd_bytes (m(i := b)) off n = ?xs @ b # ?ys"
    using rd_bytes_split_at [of ?k n "m(i := b)" off] assms by simp
  moreover have "rd_bytes m off n = ?xs @ m i # ?ys"
    using rd_bytes_split_at [of ?k n m off] assms by simp
  ultimately show ?thesis
    using wsum_split [of ?xs b ?ys] wsum_split [of ?xs "m i" ?ys] by simp
qed

lemma mod_65535_close:
  assumes "(x :: nat) mod 65535 = 0" "y mod 65535 = 0" "x + c * a = y + c * b" "a < 256" "b < 256"
    "c = 256 \<or> c = 1"
  shows "a = b"
proof -
  obtain p q where pq: "x = 65535 * p" "y = 65535 * q"
    using assms(1,2) by (auto elim!: dvdE simp: mod_eq_0_iff_dvd)
  have c: "1 \<le> c" "c * a \<le> 65280" "c * b \<le> 65280" using assms(4-6) by auto
  then have "p = q" using assms(3) unfolding pq by linarith
  then show ?thesis using assms(3) c(1) unfolding pq by simp
qed


lemma checksum_fill_in_valid_aux:
  assumes "IPv6Packet_etherType m = ETHER_TYPE_IPV6" "IPv6Packet_version m = 6"
    and "54 + unat (IPv6Packet_payloadLength m) \<le> sz" "even k" "k + 2 \<le> unat (IPv6Packet_payloadLength m)"
    and c: "IPv6Packet_calculateChecksum sz (st16 m (54 + k) 0) = Some c"
  shows "IPv6Packet_isValid sz (st16 m (54 + k) (htons c)) = Some True"
proof -
  let ?n = "unat (IPv6Packet_payloadLength m)"
  let ?xs = "rd_bytes m 22 (32 + k)" and ?ys = "rd_bytes m (56 + k) (?n - k - 2)"
  have split: "rd_bytes (wr_bytes m (54 + k) [a, b]) 22 (32 + ?n) = ?xs @ [a, b] @ ?ys" for a b
  proof -
    obtain r where r: "?n = k + 2 + r" using assms(5) by (metis le_add_diff_inverse)
    show ?thesis
      using rd_bytes_append [of "wr_bytes m (54 + k) [a, b]" 22 "32 + k" "2 + r"]
        rd_bytes_append [of "wr_bytes m (54 + k) [a, b]" "54 + k" 2 r]
      unfolding r by (simp add: mem_simps add.assoc)
  qed
  have len: "IPv6Packet_payloadLength (wr_bytes m (54 + k) [a, b]) = IPv6Packet_payloadLength m"
    and pr: "IPv6Packet_protocol (wr_bytes m (54 + k) [a, b]) = IPv6Packet_protocol m"
    and ty: "IPv6Packet_etherType (wr_bytes m (54 + k) [a, b]) = IPv6Packet_etherType m"
    and vs: "IPv6Packet_version (wr_bytes m (54 + k) [a, b]) = IPv6Packet_version m" for a b
    by (simp_all add: field_defs mem_simps)
  have w: "wsum (?xs @ [a, b] @ ?ys) = wsum ?xs + (unat (be16 a b) + wsum ?ys)" for a b
    using assms(4) by (simp add: wsum_append unat_be16)
  let ?s0 = "unat (IPv6Packet_payloadLength m + ucast (IPv6Packet_protocol m) :: u16)"
  let ?N = "?s0 + (wsum ?xs + wsum ?ys)"
  have z: "st16 m (54 + k) 0 = wr_bytes m (54 + k) [0, 0]" by (simp add: st16_def b16_def)
  have "unat c = 65535 - eac ?N"
    using calculateChecksum_Some [of "st16 m (54 + k) 0" sz] c assms(3)
    by (simp add: z len pr pkt_sum_def split w [of 0 0, simplified] del: eac_small) (simp add: be16_def ac_simps)
  then have "eac (?N + unat c) = 65535" by (simp add: eac_complement del: eac_small)
  moreover have "pkt_sum (st16 m (54 + k) (htons c)) = ?N + unat c"
    using w [of "ucast (drop_bit 8 c)" "ucast c"]
    by (simp add: st16_def b16_htons pkt_sum_def len pr split)
  ultimately show ?thesis
    using assms(1-3) by (simp add: isValid_iff eac_top st16_def b16_htons len ty vs)
qed

text \<open>
  C1. Filling in the checksum makes a packet valid: zero the checksum field at an even offset of the
  payload, store the byte-swapped result of \<open>calculateChecksum\<close> there as every sender in the library
  does, and \<open>isValid\<close> accepts the packet.
\<close>

theorem checksum_fill_in_valid:
  assumes "IPv6Packet_etherType m = ETHER_TYPE_IPV6" "IPv6Packet_version m = 6"
    and "54 + unat (IPv6Packet_payloadLength m) \<le> sz" "even k" "k + 2 \<le> unat (IPv6Packet_payloadLength m)"
    and c: "IPv6Packet_calculateChecksum sz (st16 m (54 + k) 0) = Some c"
  shows "IPv6Packet_isValid sz (st16 m (54 + k) (htons c)) = Some True"
  using checksum_fill_in_valid_aux assms by blast

lemma checksum_fill_in_valid_witness:
  "IPv6Packet_isValid 600 (st16 sample_packet (54 + 0) (htons 0x01E4)) = Some True"
proof (rule checksum_fill_in_valid)
  show "IPv6Packet_etherType sample_packet = ETHER_TYPE_IPV6" "IPv6Packet_version sample_packet = 6"
    "54 + unat (IPv6Packet_payloadLength sample_packet) \<le> 600" "even (0 :: nat)"
    "0 + 2 \<le> unat (IPv6Packet_payloadLength sample_packet)"
    "IPv6Packet_calculateChecksum 600 (st16 sample_packet (54 + 0) 0) = Some 0x01E4"
    by code_simp+
qed

text \<open>
  C2. The checksum finds every single-byte corruption of the addresses and the payload: once
  \<open>isValid\<close> accepts a packet, it rejects the packet with any one of these bytes changed.
\<close>

theorem isValid_detects_corruption:
  assumes "IPv6Packet_isValid sz m = Some True"
    and "off_source \<le> i" "i < off_payload + unat (IPv6Packet_payloadLength m)" "b \<noteq> m i"
  shows "IPv6Packet_isValid sz (m(i := b)) = Some False"
proof -
  let ?m = "m(i := b)" and ?n = "unat (IPv6Packet_payloadLength m)"
  have len: "IPv6Packet_payloadLength ?m = IPv6Packet_payloadLength m"
    and ty: "IPv6Packet_etherType ?m = IPv6Packet_etherType m" and vs: "IPv6Packet_version ?m = IPv6Packet_version m"
    and pr: "IPv6Packet_protocol ?m = IPv6Packet_protocol m"
    using assms(2) by (simp_all add: field_defs ld16_def rd_bytes_Suc numeral_2_eq_2)
  have "pkt_sum ?m + byte_weight (i - 22) * unat (m i) = pkt_sum m + byte_weight (i - 22) * unat b"
    using wsum_rd_upd [of 22 i "32 + ?n" m b] assms by (simp add: pkt_sum_def len pr)
  then have "pkt_sum ?m mod 65535 \<noteq> 0"
    using mod_65535_close [of "pkt_sum ?m" "pkt_sum m" "byte_weight (i - 22)" "unat (m i)" "unat b"]
      assms(1,4) unat_byte_less [of b] unat_byte_less [of "m i"] weight_cases [of "i - 22"]
    unfolding isValid_iff word_unat_eq_iff by metis
  moreover have "IPv6Packet_calculateChecksum sz ?m \<noteq> None"
    using calculateChecksum_Some [of ?m sz] assms(1) by (auto simp: isValid_iff len)
  ultimately have "IPv6Packet_isValid sz ?m \<noteq> Some True" "IPv6Packet_isValid sz ?m \<noteq> None"
    by (simp add: isValid_iff, auto simp: IPv6Packet_isValid_def)
  then show ?thesis by auto
qed

lemma isValid_detects_corruption_witness:
  "IPv6Packet_isValid 600 ((st16 sample_packet 54 (htons 0x01E4))(57 := 3)) = Some False"
proof (rule isValid_detects_corruption)
  show "IPv6Packet_isValid 600 (st16 sample_packet 54 (htons 0x01E4)) = Some True" 
    "off_source \<le> 57"
    "57 < off_payload + unat (IPv6Packet_payloadLength (st16 sample_packet 54 (htons 0x01E4)))" 
    "3 \<noteq> st16 sample_packet 54 (htons 0x01E4) 57"
    by code_simp+
qed

text \<open>
  Validating a packet never reads past an object of \<open>sz\<close> bytes exactly when the length field in
  the header fits it or the check stops earlier: \<open>isValid\<close> trusts the length field, so a frame with a
  larger one makes it read past the end of the buffer.
\<close>

theorem isValid_overruns_iff:
  "IPv6Packet_isValid sz m = None \<longleftrightarrow>
   IPv6Packet_etherType m = ETHER_TYPE_IPV6 \<and> IPv6Packet_version m = 6
   \<and> sz < 54 + unat (IPv6Packet_payloadLength m)"
proof -
  have "IPv6Packet_calculateChecksum sz m = None \<longleftrightarrow> sz < 54 + unat (IPv6Packet_payloadLength m)"
    by (simp add: IPv6Packet_calculateChecksum_def Let_def)
  then show ?thesis
    by (cases "IPv6Packet_calculateChecksum sz m") (auto simp: IPv6Packet_isValid_def etherType_raw)
qed

end
