(* ===== verification/EtherSia_Core.thy ===== *)
theory EtherSia_Core
  imports IPv6_Packet
begin

text \<open>
  The class \<open>EtherSia\<close> of \<open>src/src/EtherSia.cpp\<close> and \<open>EtherSia.h\<close>, apart from the operations that
  receive packets (theory \<open>ICMPv6\<close>): the state of the interface, the address checks, and the
  preparation and sending of the packet in the single buffer. The Ethernet driver and the Arduino
  core are reached through virtual or external functions: they are a record of functions over a
  state \<open>'d\<close> of their own, the argument \<open>p\<close> of every operation that calls them.
\<close>

abbreviation (input) ETHERSIA_MAX_PACKET_SIZE :: nat where "ETHERSIA_MAX_PACKET_SIZE \<equiv> 600"
abbreviation (input) ROUTER_SOLICITATION_TIMEOUT :: u32 where "ROUTER_SOLICITATION_TIMEOUT \<equiv> 3000"
abbreviation (input) ROUTER_SOLICITATION_ATTEMPTS :: byte where "ROUTER_SOLICITATION_ATTEMPTS \<equiv> 4"
abbreviation (input) NEIGHBOUR_SOLICITATION_TIMEOUT :: u32 where "NEIGHBOUR_SOLICITATION_TIMEOUT \<equiv> 500"
abbreviation (input) NEIGHBOUR_SOLICITATION_ATTEMPTS :: byte where "NEIGHBOUR_SOLICITATION_ATTEMPTS \<equiv> 5"

text \<open>
  \<open>readFrame bufsize\<close> gives the bytes the driver writes to the start of the buffer; their number is
  the value it returns. \<open>sendFrame\<close> is given the bytes of the frame; nothing uses its result.
  Both are \<open>None\<close> where the driver does not return or leaves its own memory.
\<close>

record 'd platform =
  readFrame :: "nat \<Rightarrow> 'd \<Rightarrow> (byte list \<times> 'd) option"
  sendFrame :: "byte list \<Rightarrow> 'd \<Rightarrow> 'd option"
  millis :: "'d \<Rightarrow> u32 \<times> 'd"
  micros :: "'d \<Rightarrow> u32 \<times> 'd"
  delay_ms :: "u32 \<Rightarrow> 'd \<Rightarrow> 'd"
  randomSeed :: "u32 \<Rightarrow> 'd \<Rightarrow> 'd"
  random_long :: "'d \<Rightarrow> u32 \<times> 'd"
  random_range :: "u32 \<Rightarrow> u32 \<Rightarrow> 'd \<Rightarrow> u32 \<times> 'd"

record 'd ether =
  linkLocalAddress :: ip6
  globalAddress :: ip6
  dnsServerAddress :: ip6
  localMac :: mac
  routerMac :: mac
  buffer :: mem
  bufferContainsReceived :: bool
  autoConfigurationEnabled :: bool
  dev :: 'd

definition googlePublicDnsAddress :: ip6 where
  "googlePublicDnsAddress =
     [0x20, 0x01, 0x48, 0x60, 0x48, 0x60, 0x00, 0x00, 0x00, 0x00, 0x00, 0x00, 0x00, 0x00, 0x88, 0x88]"

text \<open>The constructor; the buffer and the flag \<open>_bufferContainsReceived\<close> are left uninitialised by it.\<close>

definition EtherSia_new :: "mem \<Rightarrow> bool \<Rightarrow> mac \<Rightarrow> 'd \<Rightarrow> 'd ether" where
  "EtherSia_new uninit_buffer uninit_flag mac0 d =
     \<lparr>linkLocalAddress = IPv6Address_zero, globalAddress = IPv6Address_zero,
      dnsServerAddress = googlePublicDnsAddress, localMac = mac0, routerMac = MACAddress_zero,
      buffer = uninit_buffer, bufferContainsReceived = uninit_flag,
      autoConfigurationEnabled = True, dev = d\<rparr>"

definition EtherSia_disableAutoconfiguration :: "'d ether \<Rightarrow> 'd ether" where
  "EtherSia_disableAutoconfiguration s = s\<lparr>autoConfigurationEnabled := False\<rparr>"

definition EtherSia_enableAutoconfiguration :: "'d ether \<Rightarrow> 'd ether" where
  "EtherSia_enableAutoconfiguration s = s\<lparr>autoConfigurationEnabled := True\<rparr>"

definition EtherSia_setGlobalAddress :: "'d ether \<Rightarrow> ip6 \<Rightarrow> 'd ether" where
  "EtherSia_setGlobalAddress s address = s\<lparr>globalAddress := address\<rparr>"

definition EtherSia_setGlobalAddress_str :: "'d ether \<Rightarrow> byte list \<Rightarrow> 'd ether option" where
  "EtherSia_setGlobalAddress_str s address = do {
     (ok, a) \<leftarrow> IPv6Address_fromString address;
     Some (s\<lparr>globalAddress := a\<rparr>)
   }"

definition EtherSia_setRouterMac :: "'d ether \<Rightarrow> mac \<Rightarrow> 'd ether" where
  "EtherSia_setRouterMac s m = s\<lparr>routerMac := m\<rparr>"

definition EtherSia_setDnsServerAddress :: "'d ether \<Rightarrow> ip6 \<Rightarrow> 'd ether" where
  "EtherSia_setDnsServerAddress s address = s\<lparr>dnsServerAddress := address\<rparr>"

definition EtherSia_isOurAddress :: "'d ether \<Rightarrow> ip6 \<Rightarrow> byte" where
  "EtherSia_isOurAddress s address =
     (if IPv6Address_eq address (linkLocalAddress s) then ADDRESS_TYPE_LINK_LOCAL
      else if IPv6Address_eq address (globalAddress s) then ADDRESS_TYPE_GLOBAL
      else if IPv6Address_isLinkLocalAllNodes address
        \<or> IPv6Address_isSolicitedNodeMulticastAddress address (linkLocalAddress s)
        \<or> IPv6Address_isSolicitedNodeMulticastAddress address (globalAddress s)
        then ADDRESS_TYPE_MULTICAST
      else 0)"

definition EtherSia_inOurSubnet :: "'d ether \<Rightarrow> ip6 \<Rightarrow> byte" where
  "EtherSia_inOurSubnet s address =
     (if IPv6Address_isLinkLocal address then ADDRESS_TYPE_LINK_LOCAL
      else if IPv6Address_inSameSubnet address (globalAddress s) then ADDRESS_TYPE_GLOBAL
      else 0)"

definition EtherSia_checkEthernetAddresses :: "'d ether \<Rightarrow> mem \<Rightarrow> bool" where
  "EtherSia_checkEthernetAddresses s packet =
     (if \<not> MACAddress_isIPv6Multicast (IPv6Packet_etherDestination packet)
         \<and> \<not> MACAddress_eq (IPv6Packet_etherDestination packet) (localMac s) then False
      else if MACAddress_eq (IPv6Packet_etherSource packet) (localMac s) then False
      else True)"

definition EtherSia_prepareSend :: "'d ether \<Rightarrow> 'd ether" where
  "EtherSia_prepareSend s =
     (let s = s\<lparr>bufferContainsReceived := False\<rparr>;
          packet = IPv6Packet_init (buffer s);
          packet = (if IPv6Address_isLinkLocal (IPv6Packet_destination packet)
                       \<or> IPv6Address_isZero (globalAddress s)
                    then IPv6Packet_setSource packet (linkLocalAddress s)
                    else IPv6Packet_setSource packet (globalAddress s));
          packet = IPv6Packet_setEtherSource packet (localMac s)
      in s\<lparr>buffer := packet\<rparr>)"

definition EtherSia_prepareReply :: "'d ether \<Rightarrow> 'd ether" where
  "EtherSia_prepareReply s =
     (let s = s\<lparr>bufferContainsReceived := False\<rparr>;
          packet = buffer s;
          replySourceAddress =
            (if EtherSia_isOurAddress s (IPv6Packet_destination packet) = ADDRESS_TYPE_GLOBAL
             then globalAddress s else linkLocalAddress s);
          packet = IPv6Packet_setHopLimit packet IP6_DEFAULT_HOP_LIMIT;
          packet = IPv6Packet_setDestination packet (IPv6Packet_source packet);
          packet = IPv6Packet_setSource packet replySourceAddress;
          packet = IPv6Packet_setEtherDestination packet (IPv6Packet_etherSource packet);
          packet = IPv6Packet_setEtherSource packet (localMac s)
      in s\<lparr>buffer := packet\<rparr>)"

text \<open>Sending a packet longer than the buffer makes the driver read past it.\<close>

definition EtherSia_send :: "'d platform \<Rightarrow> 'd ether \<Rightarrow> 'd ether option" where
  "EtherSia_send p s =
     (let s = s\<lparr>bufferContainsReceived := False\<rparr>;
          len = unat (IPv6Packet_length (buffer s))
      in if len \<le> ETHERSIA_MAX_PACKET_SIZE
         then do {
           d \<leftarrow> sendFrame p (rd_bytes (buffer s) 0 len) (dev s);
           Some (s\<lparr>dev := d\<rparr>)
         }
         else None)"

text \<open>Reading the 600 bytes of \<open>_buffer\<close> through a pointer: \<open>None\<close> beyond its end.\<close>

definition buf_at :: "mem \<Rightarrow> nat \<Rightarrow> byte option" where
  "buf_at m i = (if i < ETHERSIA_MAX_PACKET_SIZE then Some (m i) else None)"

definition buf_rd :: "mem \<Rightarrow> nat \<Rightarrow> nat \<Rightarrow> byte list option" where
  "buf_rd m i n = (if i + n \<le> ETHERSIA_MAX_PACKET_SIZE then Some (rd_bytes m i n) else None)"

definition buf_wr :: "mem \<Rightarrow> nat \<Rightarrow> byte list \<Rightarrow> mem option" where
  "buf_wr m i bs = (if i + length bs \<le> ETHERSIA_MAX_PACKET_SIZE then Some (wr_bytes m i bs) else None)"

definition EtherSia_millis :: "'d platform \<Rightarrow> 'd ether \<Rightarrow> u32 \<times> 'd ether" where
  "EtherSia_millis p s = (let (t, d) = millis p (dev s) in (t, s\<lparr>dev := d\<rparr>))"

text \<open>The checksum of the packet in the buffer, an object of 600 bytes.\<close>

abbreviation (input) buffer_checksum :: "mem \<Rightarrow> u16 option" where
  "buffer_checksum m \<equiv> IPv6Packet_calculateChecksum ETHERSIA_MAX_PACKET_SIZE m"

section \<open>The TCP header\<close>

text \<open>\<open>src/src/tcp.h\<close>: offsets of the members of \<open>struct tcp_header\<close> behind the IPv6 header.\<close>

abbreviation (input) tcp_sourcePort :: nat where "tcp_sourcePort \<equiv> 54"
abbreviation (input) tcp_destinationPort :: nat where "tcp_destinationPort \<equiv> 56"
abbreviation (input) tcp_sequenceNum :: nat where "tcp_sequenceNum \<equiv> 58"
abbreviation (input) tcp_acknowledgementNum :: nat where "tcp_acknowledgementNum \<equiv> 62"
abbreviation (input) tcp_dataOffset :: nat where "tcp_dataOffset \<equiv> 66"
abbreviation (input) tcp_flags :: nat where "tcp_flags \<equiv> 67"
abbreviation (input) tcp_window :: nat where "tcp_window \<equiv> 68"
abbreviation (input) tcp_checksum :: nat where "tcp_checksum \<equiv> 70"
abbreviation (input) tcp_urgentPointer :: nat where "tcp_urgentPointer \<equiv> 72"
abbreviation (input) tcp_mssOptionKind :: nat where "tcp_mssOptionKind \<equiv> 74"
abbreviation (input) tcp_mssOptionLen :: nat where "tcp_mssOptionLen \<equiv> 75"
abbreviation (input) tcp_mssOptionValue :: nat where "tcp_mssOptionValue \<equiv> 76"

abbreviation (input) TCP_FLAG_ACK :: byte where "TCP_FLAG_ACK \<equiv> 0x10"
abbreviation (input) TCP_FLAG_PSH :: byte where "TCP_FLAG_PSH \<equiv> 0x08"
abbreviation (input) TCP_FLAG_RST :: byte where "TCP_FLAG_RST \<equiv> 0x04"
abbreviation (input) TCP_FLAG_SYN :: byte where "TCP_FLAG_SYN \<equiv> 0x02"
abbreviation (input) TCP_FLAG_FIN :: byte where "TCP_FLAG_FIN \<equiv> 0x01"

abbreviation (input) TCP_MINIMUM_HEADER_LEN :: nat where "TCP_MINIMUM_HEADER_LEN \<equiv> 20"
abbreviation (input) TCP_TRANSMIT_HEADER_LEN :: nat where "TCP_TRANSMIT_HEADER_LEN \<equiv> 24"
abbreviation (input) TCP_WINDOW_SIZE :: u16 where "TCP_WINDOW_SIZE \<equiv> 600 - 14 - 40 - 24 - 32"

definition TCP_RECEIVE_HEADER_LEN :: "mem \<Rightarrow> u16" where
  "TCP_RECEIVE_HEADER_LEN m = ucast (drop_bit 2 (m tcp_dataOffset AND 0xF0))"

text \<open>The reply to a TCP segment no socket wants.\<close>

definition EtherSia_tcpSendRSTReply :: "'d platform \<Rightarrow> 'd ether \<Rightarrow> 'd ether option" where
  "EtherSia_tcpSendRSTReply p s =
     (let packet = buffer s;
          seqNum = htonl (ld32 packet tcp_sequenceNum);
          sourcePort = ld16 packet tcp_sourcePort;
          s = EtherSia_prepareReply s;
          packet = buffer s;
          packet = st16 packet tcp_sourcePort (ld16 packet tcp_destinationPort);
          packet = st16 packet tcp_destinationPort sourcePort;
          packet = st32 packet tcp_sequenceNum 0;
          packet = st32 packet tcp_acknowledgementNum (htonl (seqNum + 1));
          packet = st8 packet tcp_dataOffset (push_bit 4 (20 div 4));
          packet = st8 packet tcp_flags (TCP_FLAG_ACK OR TCP_FLAG_RST);
          packet = st16 packet tcp_window 0;
          packet = st16 packet tcp_urgentPointer 0;
          packet = IPv6Packet_setPayloadLength packet 20;
          packet = st16 packet tcp_checksum 0
      in do {
        c \<leftarrow> buffer_checksum packet;
        let packet = st16 packet tcp_checksum (htons c);
        EtherSia_send p (s\<lparr>buffer := packet\<rparr>)
      })"

section \<open>Well-formed interfaces and sealed packets\<close>

definition wf_ether :: "'d ether \<Rightarrow> bool" where
  "wf_ether s \<longleftrightarrow> wf_ip (linkLocalAddress s) \<and> wf_ip (globalAddress s) \<and> wf_ip (dnsServerAddress s)
     \<and> wf_mac (localMac s) \<and> wf_mac (routerMac s)"

named_theorems prep_simps "what preparing the packet does to the state and to the buffer"

lemma prepare_frame [prep_simps]:
  "linkLocalAddress (EtherSia_prepareReply s) = linkLocalAddress s"
  "globalAddress (EtherSia_prepareReply s) = globalAddress s"
  "dnsServerAddress (EtherSia_prepareReply s) = dnsServerAddress s"
  "localMac (EtherSia_prepareReply s) = localMac s"
  "routerMac (EtherSia_prepareReply s) = routerMac s"
  "autoConfigurationEnabled (EtherSia_prepareReply s) = autoConfigurationEnabled s"
  "dev (EtherSia_prepareReply s) = dev s"
  "\<not> bufferContainsReceived (EtherSia_prepareReply s)"
  "linkLocalAddress (EtherSia_prepareSend s) = linkLocalAddress s"
  "globalAddress (EtherSia_prepareSend s) = globalAddress s"
  "dnsServerAddress (EtherSia_prepareSend s) = dnsServerAddress s"
  "localMac (EtherSia_prepareSend s) = localMac s"
  "routerMac (EtherSia_prepareSend s) = routerMac s"
  "autoConfigurationEnabled (EtherSia_prepareSend s) = autoConfigurationEnabled s"
  "dev (EtherSia_prepareSend s) = dev s"
  "\<not> bufferContainsReceived (EtherSia_prepareSend s)"
  by (simp_all add: EtherSia_prepareReply_def EtherSia_prepareSend_def Let_def)

lemma isOurAddress_flag [simp]:
  "EtherSia_isOurAddress (s\<lparr>bufferContainsReceived := b\<rparr>) = EtherSia_isOurAddress s"
  "EtherSia_isOurAddress (s\<lparr>buffer := m\<rparr>) = EtherSia_isOurAddress s"
  "EtherSia_isOurAddress (s\<lparr>dev := d\<rparr>) = EtherSia_isOurAddress s"
  by (simp_all add: fun_eq_iff EtherSia_isOurAddress_def)

definition reply_source :: "'d ether \<Rightarrow> ip6" where
  "reply_source s = (if EtherSia_isOurAddress s (IPv6Packet_destination (buffer s)) = ADDRESS_TYPE_GLOBAL
     then globalAddress s else linkLocalAddress s)"

definition send_source :: "'d ether \<Rightarrow> ip6" where
  "send_source s = (if IPv6Address_isLinkLocal (IPv6Packet_destination (buffer s))
       \<or> IPv6Address_isZero (globalAddress s) then linkLocalAddress s else globalAddress s)"

lemma wf_sources: "wf_ether s \<Longrightarrow> length (reply_source s) = 16" "wf_ether s \<Longrightarrow> length (send_source s) = 16"
  by (auto simp: wf_ether_def reply_source_def send_source_def wf_ip_def)

lemma prepareReply_buffer:
  "wf_ether s \<Longrightarrow> buffer (EtherSia_prepareReply s) = (\<lambda>i.
     if i < 6 then buffer s (6 + i) else if i < 12 then localMac s ! (i - 6)
     else if i = 21 then 64 else if 22 \<le> i \<and> i < 38 then reply_source s ! (i - 22)
     else if 38 \<le> i \<and> i < 54 then buffer s (i - 16) else buffer s i)"
  by (rule ext)
    (auto simp: EtherSia_prepareReply_def Let_def field_defs st8_def wr_bytes_nth wf_ether_def wf_mac_def
      wf_ip_def reply_source_def add.commute)

lemma prepareReply_payload [prep_simps]:
  "wf_ether s \<Longrightarrow> 12 \<le> i \<Longrightarrow> i \<le> 20 \<or> 54 \<le> i \<Longrightarrow> buffer (EtherSia_prepareReply s) i = buffer s i"
  by (auto simp: prepareReply_buffer)

lemma prepareReply_rd [prep_simps]:
  "wf_ether s \<Longrightarrow> 54 \<le> off \<Longrightarrow> rd_bytes (buffer (EtherSia_prepareReply s)) off n = rd_bytes (buffer s) off n"
  by (rule rd_bytes_cong) (simp add: prep_simps)

lemma prepareReply_header [prep_simps]:
  assumes "wf_ether s"
  shows "IPv6Packet_etherType (buffer (EtherSia_prepareReply s)) = IPv6Packet_etherType (buffer s)"
    "IPv6Packet_version (buffer (EtherSia_prepareReply s)) = IPv6Packet_version (buffer s)"
    "IPv6Packet_payloadLength (buffer (EtherSia_prepareReply s)) = IPv6Packet_payloadLength (buffer s)"
    "IPv6Packet_protocol (buffer (EtherSia_prepareReply s)) = IPv6Packet_protocol (buffer s)"
    "IPv6Packet_hopLimit (buffer (EtherSia_prepareReply s)) = 64"
    "IPv6Packet_source (buffer (EtherSia_prepareReply s)) = reply_source s"
    "IPv6Packet_destination (buffer (EtherSia_prepareReply s)) = IPv6Packet_source (buffer s)"
    "IPv6Packet_etherSource (buffer (EtherSia_prepareReply s)) = localMac s"
    "IPv6Packet_etherDestination (buffer (EtherSia_prepareReply s)) = IPv6Packet_etherSource (buffer s)"
proof -
  note w = prepareReply_buffer [OF assms]
  show "IPv6Packet_etherType (buffer (EtherSia_prepareReply s)) = IPv6Packet_etherType (buffer s)"
    by (simp add: IPv6Packet_etherType_def ntohs_ld16 w)
  show "IPv6Packet_payloadLength (buffer (EtherSia_prepareReply s)) = IPv6Packet_payloadLength (buffer s)"
    by (rule payloadLength_cong) (simp_all add: w)
  show "IPv6Packet_source (buffer (EtherSia_prepareReply s)) = reply_source s"
    "IPv6Packet_destination (buffer (EtherSia_prepareReply s)) = IPv6Packet_source (buffer s)"
    "IPv6Packet_etherSource (buffer (EtherSia_prepareReply s)) = localMac s"
    "IPv6Packet_etherDestination (buffer (EtherSia_prepareReply s)) = IPv6Packet_etherSource (buffer s)"
    using assms wf_sources [OF assms]
    by (auto intro!: nth_equalityI simp: w field_defs wf_ether_def wf_mac_def)
qed (simp_all add: prepareReply_buffer assms field_defs)

lemma prepareSend_buffer:
  "wf_ether s \<Longrightarrow> buffer (EtherSia_prepareSend s) = (\<lambda>i.
     if 6 \<le> i \<and> i < 12 then localMac s ! (i - 6)
     else if i = 12 then 0x86 else if i = 13 then 0xdd else if i = 14 then 0x60
     else if i = 15 \<or> i = 16 \<or> i = 17 then 0
     else if i = 21 then 64 else if 22 \<le> i \<and> i < 38 then send_source s ! (i - 22) else buffer s i)"
proof -
  have t: "b16 (ntohs 0x86dd) = [0x86, 0xdd]" "b16 0 = [0, 0]" by code_simp+
  assume "wf_ether s"
  then show ?thesis
    by (intro ext) (auto simp: EtherSia_prepareSend_def Let_def field_defs
        rd_wr_disjoint st8_def st16_def wr_bytes_nth wf_ether_def wf_mac_def wf_ip_def send_source_def t nth_Cons')
qed

lemma prepareSend_payload [prep_simps]:
  "wf_ether s \<Longrightarrow> i < 6 \<or> (18 \<le> i \<and> i \<le> 20) \<or> 38 \<le> i \<Longrightarrow> buffer (EtherSia_prepareSend s) i = buffer s i"
  by (auto simp: prepareSend_buffer)

lemma prepareSend_rd [prep_simps]:
  "wf_ether s \<Longrightarrow> 38 \<le> off \<Longrightarrow> rd_bytes (buffer (EtherSia_prepareSend s)) off n = rd_bytes (buffer s) off n"
  by (rule rd_bytes_cong) (simp add: prep_simps)

lemma prepareSend_header [prep_simps]:
  assumes "wf_ether s"
  shows "IPv6Packet_etherType (buffer (EtherSia_prepareSend s)) = ETHER_TYPE_IPV6"
    "IPv6Packet_version (buffer (EtherSia_prepareSend s)) = 6"
    "IPv6Packet_payloadLength (buffer (EtherSia_prepareSend s)) = IPv6Packet_payloadLength (buffer s)"
    "IPv6Packet_protocol (buffer (EtherSia_prepareSend s)) = IPv6Packet_protocol (buffer s)"
    "IPv6Packet_hopLimit (buffer (EtherSia_prepareSend s)) = 64"
    "IPv6Packet_source (buffer (EtherSia_prepareSend s)) = send_source s"
    "IPv6Packet_destination (buffer (EtherSia_prepareSend s)) = IPv6Packet_destination (buffer s)"
    "IPv6Packet_etherSource (buffer (EtherSia_prepareSend s)) = localMac s"
    "IPv6Packet_etherDestination (buffer (EtherSia_prepareSend s)) = IPv6Packet_etherDestination (buffer s)"
proof -
  note w = prepareSend_buffer [OF assms]
  show "IPv6Packet_etherType (buffer (EtherSia_prepareSend s)) = ETHER_TYPE_IPV6"
    by (simp add: IPv6Packet_etherType_def ntohs_ld16 w, code_simp)
  show "IPv6Packet_version (buffer (EtherSia_prepareSend s)) = 6"
    by (simp add: IPv6Packet_version_def w)
  show "IPv6Packet_payloadLength (buffer (EtherSia_prepareSend s)) = IPv6Packet_payloadLength (buffer s)"
    by (rule payloadLength_cong) (simp_all add: w)
  show "IPv6Packet_source (buffer (EtherSia_prepareSend s)) = send_source s"
    "IPv6Packet_destination (buffer (EtherSia_prepareSend s)) = IPv6Packet_destination (buffer s)"
    "IPv6Packet_etherSource (buffer (EtherSia_prepareSend s)) = localMac s"
    "IPv6Packet_etherDestination (buffer (EtherSia_prepareSend s)) = IPv6Packet_etherDestination (buffer s)"
    using assms wf_sources [OF assms]
    by (auto intro!: nth_equalityI simp: w field_defs wf_ether_def wf_mac_def)
qed (simp_all add: prepareSend_buffer assms field_defs)

text \<open>Every sender ends by zeroing the checksum, storing the sum over the packet and sending it.\<close>

lemma st16_st16 [simp]: "st16 (st16 m off v) off w = st16 m off w"
  by (rule ext) (simp add: st16_def wr_bytes_nth)

lemma seal_packet:
  assumes "IPv6Packet_etherType m = ETHER_TYPE_IPV6" "IPv6Packet_version m = 6"
    "unat (IPv6Packet_payloadLength m) \<le> 546" "even off" "54 \<le> off" "off + 2 \<le> 54 + unat (IPv6Packet_payloadLength m)"
  obtains c where "buffer_checksum (st16 m off 0) = Some c"
    "IPv6Packet_isValid 600 (st16 m off (htons c)) = Some True"
proof -
  obtain k where k: "off = 54 + k" "even k" using assms(4,5) by (metis even_add even_numeral le_add_diff_inverse)
  have "IPv6Packet_payloadLength (st16 m off 0) = IPv6Packet_payloadLength m"
    using assms(5) by (intro payloadLength_cong) (simp_all add: st16_def wr_bytes_nth)
  then obtain c where "buffer_checksum (st16 m off 0) = Some c"
    using calculateChecksum_Some [of "st16 m off 0" 600] assms(3) by auto
  with checksum_fill_in_valid_aux [of m 600 k c] assms k that show ?thesis by simp
qed

lemma length_packet: "unat (IPv6Packet_payloadLength m) \<le> 546 \<Longrightarrow>
    unat (IPv6Packet_length m) = 54 + unat (IPv6Packet_payloadLength m)"
  by (simp add: IPv6Packet_length_def unat_word_ariths)

lemma send_Some:
  "unat (IPv6Packet_payloadLength (buffer s)) \<le> 546 \<Longrightarrow>
   EtherSia_send p s = do {
     d \<leftarrow> sendFrame p (rd_bytes (buffer s) 0 (54 + unat (IPv6Packet_payloadLength (buffer s)))) (dev s);
     Some (s\<lparr>bufferContainsReceived := False, dev := d\<rparr>)
   }"
  by (simp add: EtherSia_send_def Let_def length_packet)

lemma setPayloadLength_get [simp]: "IPv6Packet_payloadLength (IPv6Packet_setPayloadLength m n) = n"
  by (simp add: field_defs mem_simps)

text \<open>
  What sending means to the rest of the system: the packet \<open>m\<close> in the buffer is valid, all of it and
  nothing else is handed to the driver, once, and the buffer no longer counts as received. The
  result \<open>r\<close> is lost only if the driver does not return.
\<close>

definition sends :: "'d platform \<Rightarrow> 'd ether \<Rightarrow> mem \<Rightarrow> 'd ether option \<Rightarrow> bool" where
  "sends p s m r \<longleftrightarrow> IPv6Packet_isValid 600 m = Some True
     \<and> r = do {
         d \<leftarrow> sendFrame p (rd_bytes m 0 (54 + unat (IPv6Packet_payloadLength m))) (dev s);
         Some (s\<lparr>buffer := m, bufferContainsReceived := False, dev := d\<rparr>)
       }"

lemma sendsD:
  assumes "sends p s m (Some s')"
  shows "linkLocalAddress s' = linkLocalAddress s" "globalAddress s' = globalAddress s"
    "dnsServerAddress s' = dnsServerAddress s" "localMac s' = localMac s" "routerMac s' = routerMac s"
    "autoConfigurationEnabled s' = autoConfigurationEnabled s" "buffer s' = m"
    "\<not> bufferContainsReceived s'" "wf_ether s' = wf_ether s"
    "sendFrame p (rd_bytes m 0 (54 + unat (IPv6Packet_payloadLength m))) (dev s) = Some (dev s')"
  using assms by (auto simp: sends_def wf_ether_def split: Option.bind_splits)

lemma valid_header:
  "IPv6Packet_isValid 600 m = Some True \<Longrightarrow> IPv6Packet_etherType m = ETHER_TYPE_IPV6
     \<and> IPv6Packet_version m = 6 \<and> unat (IPv6Packet_payloadLength m) \<le> 546"
  by (simp add: isValid_iff)

text \<open>The common end of every sender.\<close>

definition seal_and_send :: "'d platform \<Rightarrow> nat \<Rightarrow> 'd ether \<Rightarrow> 'd ether option" where
  "seal_and_send p off s = do {
     c \<leftarrow> buffer_checksum (st16 (buffer s) off 0);
     EtherSia_send p (s\<lparr>buffer := st16 (buffer s) off (htons c)\<rparr>)
   }"

lemma seal_and_send_sends:
  assumes "IPv6Packet_etherType (buffer s) = ETHER_TYPE_IPV6" "IPv6Packet_version (buffer s) = 6"
    "unat (IPv6Packet_payloadLength (buffer s)) \<le> 546" "even off" "54 \<le> off"
    "off + 2 \<le> 54 + unat (IPv6Packet_payloadLength (buffer s))"
  shows "\<exists>c. sends p s (st16 (buffer s) off (htons c)) (seal_and_send p off s)"
proof -
  obtain c where c: "buffer_checksum (st16 (buffer s) off 0) = Some c"
    "IPv6Packet_isValid 600 (st16 (buffer s) off (htons c)) = Some True"
    using seal_packet [OF assms] by blast
  have "IPv6Packet_payloadLength (st16 (buffer s) off (htons c)) = IPv6Packet_payloadLength (buffer s)"
    using assms(5) by (simp add: hdr_simps)
  with c assms(3) have "sends p s (st16 (buffer s) off (htons c)) (seal_and_send p off s)"
    by (simp add: sends_def seal_and_send_def send_Some)
  then show ?thesis by blast
qed

section \<open>Replies\<close>

text \<open>
  A reply goes back to where the packet came from: \<open>prepareReply\<close> sends to the source of the
  received packet, from the global address if the packet was sent to it and from the link-local
  address otherwise, swaps the Ethernet addresses, resets the hop limit, keeps the rest of the header
  and the payload, and marks the buffer as no longer holding a received packet.
\<close>

theorem prepareReply_turns_around:
  assumes "wf_ether s" and r: "r = EtherSia_prepareReply s"
  shows "IPv6Packet_destination (buffer r) = IPv6Packet_source (buffer s)
     \<and> IPv6Packet_source (buffer r) =
       (if EtherSia_isOurAddress s (IPv6Packet_destination (buffer s)) = ADDRESS_TYPE_GLOBAL
        then globalAddress s else linkLocalAddress s)
     \<and> IPv6Packet_etherDestination (buffer r) = IPv6Packet_etherSource (buffer s)
     \<and> IPv6Packet_etherSource (buffer r) = localMac s
     \<and> IPv6Packet_hopLimit (buffer r) = 64
     \<and> (\<forall>i. (12 \<le> i \<and> i \<le> 20) \<or> 54 \<le> i \<longrightarrow> buffer r i = buffer s i)
     \<and> \<not> bufferContainsReceived r"
  using assms(1) unfolding r by (simp_all add: prep_simps reply_source_def)

definition quiet_platform :: "unit platform" where
  "quiet_platform = \<lparr>readFrame = (\<lambda>n d. Some ([], d)), sendFrame = (\<lambda>f d. Some d),
     millis = (\<lambda>d. (0, d)), micros = (\<lambda>d. (0, d)), delay_ms = (\<lambda>t d. d), randomSeed = (\<lambda>t d. d),
     random_long = (\<lambda>d. (0, d)), random_range = (\<lambda>a b d. (a, d))\<rparr>"

definition sample_ether :: "unit ether" where
  "sample_ether = \<lparr>linkLocalAddress = [0xfe, 0x80, 0, 0, 0, 0, 0, 0, 0, 0, 0, 0, 0, 0, 0, 2],
     globalAddress = IPv6Address_zero, dnsServerAddress = googlePublicDnsAddress,
     localMac = [2, 0, 0, 0, 0, 1], routerMac = [2, 0, 0, 0, 0, 2], buffer = sample_packet,
     bufferContainsReceived = True, autoConfigurationEnabled = True, dev = ()\<rparr>"

lemma wf_sample_ether: "wf_ether sample_ether"
  by code_simp

lemma prepareReply_turns_around_witness:
  "IPv6Packet_destination (buffer (EtherSia_prepareReply sample_ether)) = IPv6Packet_source sample_packet"
  using prepareReply_turns_around [OF wf_sample_ether refl] by (simp add: sample_ether_def)

text \<open>
  \<open>prepareSend\<close> writes a valid IPv6 header from this interface: version 6, hop limit 64, the
  link-local address as source for a link-local destination or when there is no global address, the
  global address otherwise. It leaves the Ethernet destination, the destination address, the length,
  the protocol and the payload alone.
\<close>

theorem prepareSend_header_fields:
  assumes "wf_ether s" and r: "r = EtherSia_prepareSend s"
  shows "IPv6Packet_etherType (buffer r) = ETHER_TYPE_IPV6
     \<and> IPv6Packet_version (buffer r) = 6
     \<and> IPv6Packet_hopLimit (buffer r) = 64
     \<and> IPv6Packet_source (buffer r) =
       (if IPv6Address_isLinkLocal (IPv6Packet_destination (buffer s)) \<or> IPv6Address_isZero (globalAddress s)
        then linkLocalAddress s else globalAddress s)
     \<and> IPv6Packet_etherSource (buffer r) = localMac s
     \<and> (\<forall>i. i < 6 \<or> (18 \<le> i \<and> i \<le> 20) \<or> 38 \<le> i \<longrightarrow> buffer r i = buffer s i)
     \<and> \<not> bufferContainsReceived r"
  using assms(1) unfolding r by (simp_all add: prep_simps send_source_def)

lemma prepareSend_header_fields_witness:
  "IPv6Packet_etherSource (buffer (EtherSia_prepareSend sample_ether)) = [2, 0, 0, 0, 0, 1]"
  using prepareSend_header_fields [OF wf_sample_ether refl] by (simp add: sample_ether_def)

lemma prepareReply_upd:
  "EtherSia_prepareReply s\<lparr>buffer := m\<rparr> = s\<lparr>buffer := m, bufferContainsReceived := False\<rparr>"
  by (simp add: EtherSia_prepareReply_def Let_def)

lemma prepareSend_upd:
  "EtherSia_prepareSend s\<lparr>buffer := m\<rparr> = s\<lparr>buffer := m, bufferContainsReceived := False\<rparr>"
  by (simp add: EtherSia_prepareSend_def Let_def)

lemma sends_upd [simp]:
  "sends p (s\<lparr>buffer := m0\<rparr>) m s' = sends p s m s'"
  "sends p (s\<lparr>bufferContainsReceived := b\<rparr>) m s' = sends p s m s'"
  "sends p (s\<lparr>buffer := m0, bufferContainsReceived := b\<rparr>) m s' = sends p s m s'"
  by (simp_all add: sends_def)

lemma sends_prepare [simp]:
  "sends p (EtherSia_prepareReply s) m s' = sends p s m s'"
  "sends p (EtherSia_prepareSend s) m s' = sends p s m s'"
  by (simp_all add: sends_def EtherSia_prepareReply_def EtherSia_prepareSend_def Let_def)

lemma tcpSendRSTReply_sends:
  assumes "wf_ether s" "IPv6Packet_etherType (buffer s) = ETHER_TYPE_IPV6" "IPv6Packet_version (buffer s) = 6"
  shows "\<exists>m. sends p s m (EtherSia_tcpSendRSTReply p s)
     \<and> IPv6Packet_payloadLength m = 20 \<and> IPv6Packet_protocol m = IPv6Packet_protocol (buffer s)
     \<and> IPv6Packet_destination m = IPv6Packet_source (buffer s) \<and> IPv6Packet_source m = reply_source s
     \<and> ld16 m tcp_sourcePort = ld16 (buffer s) tcp_destinationPort
     \<and> ld16 m tcp_destinationPort = ld16 (buffer s) tcp_sourcePort
     \<and> ntohl (ld32 m tcp_acknowledgementNum) = ntohl (ld32 (buffer s) tcp_sequenceNum) + 1
     \<and> ld32 m tcp_sequenceNum = 0 \<and> m tcp_flags = 0x14"
proof -
  let ?r = "EtherSia_prepareReply s"
  let ?m = "IPv6Packet_setPayloadLength (st16 (st16 (st8 (st8 (st32 (st32 (st16 (st16 (buffer ?r)
      54 (ld16 (buffer s) 56)) 56 (ld16 (buffer s) 54)) 58 0) 62 (htonl (htonl (ld32 (buffer s) 58) + 1)))
      66 0x50) 67 0x14) 68 0) 72 0) 20"
  have h: "IPv6Packet_etherType ?m = ETHER_TYPE_IPV6" "IPv6Packet_version ?m = 6" "IPv6Packet_payloadLength ?m = 20"
    using assms by (simp_all add: hdr_simps prep_simps)
  have r: "EtherSia_tcpSendRSTReply p s = seal_and_send p 70 (?r\<lparr>buffer := ?m\<rparr>)"
    using assms by (simp add: EtherSia_tcpSendRSTReply_def seal_and_send_def Let_def prep_simps hdr_simps)
  obtain c where "sends p s (st16 ?m 70 (htons c)) (EtherSia_tcpSendRSTReply p s)"
    using seal_and_send_sends [of "?r\<lparr>buffer := ?m\<rparr>" 70 p] h unfolding r by auto
  then show ?thesis using assms h
    by (intro exI conjI) (assumption | simp add: hdr_simps prep_simps ntohl_def)+
qed

text \<open>
  The answer to an unwanted TCP segment is a reset that acknowledges it: a valid IPv6 packet of
  74 bytes with RST and ACK set, the ports and addresses exchanged, sequence number 0 and the
  received sequence number plus 1 acknowledged.
\<close>

theorem tcpSendRSTReply_resets:
  assumes "wf_ether s" "IPv6Packet_isValid 600 (buffer s) = Some True"
  shows "\<exists>m. sends p s m (EtherSia_tcpSendRSTReply p s)
     \<and> IPv6Packet_payloadLength m = 20
     \<and> IPv6Packet_destination m = IPv6Packet_source (buffer s) \<and> IPv6Packet_source m = reply_source s
     \<and> ld16 m tcp_sourcePort = ld16 (buffer s) tcp_destinationPort
     \<and> ld16 m tcp_destinationPort = ld16 (buffer s) tcp_sourcePort
     \<and> ntohl (ld32 m tcp_acknowledgementNum) = ntohl (ld32 (buffer s) tcp_sequenceNum) + 1
     \<and> ld32 m tcp_sequenceNum = 0 \<and> m tcp_flags = 0x14"
  using tcpSendRSTReply_sends [of s p] assms valid_header by blast

lemma tcpSendRSTReply_resets_witness:
  "\<exists>m. sends quiet_platform (sample_ether\<lparr>buffer := st16 sample_packet 54 (htons 0x01E4)\<rparr>) m (EtherSia_tcpSendRSTReply quiet_platform (sample_ether\<lparr>buffer := st16 sample_packet 54 (htons 0x01E4)\<rparr>)) \<and> m tcp_flags = 0x14"
proof -
  have "IPv6Packet_isValid 600 (st16 sample_packet 54 (htons 0x01E4)) = Some True" by code_simp
  moreover have "wf_ether (sample_ether\<lparr>buffer := st16 sample_packet 54 (htons 0x01E4)\<rparr>)" by code_simp
  ultimately show ?thesis
    using tcpSendRSTReply_resets [of "sample_ether\<lparr>buffer := st16 sample_packet 54 (htons 0x01E4)\<rparr>" quiet_platform] by auto
qed

end
