(* ===== verification/ICMPv6.thy ===== *)
theory ICMPv6
  imports EtherSia_Core
begin

text \<open>
  \<open>src/src/icmp6.cpp\<close>, \<open>ICMPv6Packet.h\<close> and the operations of \<open>src/src/EtherSia.cpp\<close> that receive
  packets: echo and neighbour solicitation replies, router advertisements and auto-configuration,
  neighbour discovery, error replies, and \<open>receivePacket\<close> which dispatches to them. The loops over the
  options of a packet and the loops that wait for an answer may run forever: they are
  \<open>partial_function (option)\<close>s, \<open>None\<close> standing for a run that does not return as well as for one that
  reads outside the buffer.
\<close>

abbreviation (input) ICMP6_TYPE_UNREACHABLE :: byte where "ICMP6_TYPE_UNREACHABLE \<equiv> 1"
abbreviation (input) ICMP6_TYPE_PARAM_PROB :: byte where "ICMP6_TYPE_PARAM_PROB \<equiv> 4"
abbreviation (input) ICMP6_TYPE_ECHO :: byte where "ICMP6_TYPE_ECHO \<equiv> 128"
abbreviation (input) ICMP6_TYPE_ECHO_REPLY :: byte where "ICMP6_TYPE_ECHO_REPLY \<equiv> 129"
abbreviation (input) ICMP6_TYPE_RS :: byte where "ICMP6_TYPE_RS \<equiv> 133"
abbreviation (input) ICMP6_TYPE_RA :: byte where "ICMP6_TYPE_RA \<equiv> 134"
abbreviation (input) ICMP6_TYPE_NS :: byte where "ICMP6_TYPE_NS \<equiv> 135"
abbreviation (input) ICMP6_TYPE_NA :: byte where "ICMP6_TYPE_NA \<equiv> 136"
abbreviation (input) ICMP6_CODE_PORT_UNREACHABLE :: byte where "ICMP6_CODE_PORT_UNREACHABLE \<equiv> 4"
abbreviation (input) ICMP6_CODE_UNRECOGNIZED_NH :: byte where "ICMP6_CODE_UNRECOGNIZED_NH \<equiv> 1"
abbreviation (input) ICMP6_NA_FLAG_S :: byte where "ICMP6_NA_FLAG_S \<equiv> push_bit 6 1"
abbreviation (input) ICMP6_OPTION_SOURCE_LINK_ADDRESS :: byte where "ICMP6_OPTION_SOURCE_LINK_ADDRESS \<equiv> 1"
abbreviation (input) ICMP6_OPTION_TARGET_LINK_ADDRESS :: byte where "ICMP6_OPTION_TARGET_LINK_ADDRESS \<equiv> 2"
abbreviation (input) ICMP6_OPTION_PREFIX_INFORMATION :: byte where "ICMP6_OPTION_PREFIX_INFORMATION \<equiv> 3"
abbreviation (input) ICMP6_OPTION_RECURSIVE_DNS :: byte where "ICMP6_OPTION_RECURSIVE_DNS \<equiv> 25"

abbreviation (input) ICMP6_HEADER_LEN :: u16 where "ICMP6_HEADER_LEN \<equiv> 4"
abbreviation (input) ICMP6_ERROR_HEADER_LEN :: u16 where "ICMP6_ERROR_HEADER_LEN \<equiv> 4"
abbreviation (input) ICMP6_RS_HEADER_LEN :: u16 where "ICMP6_RS_HEADER_LEN \<equiv> 12"
abbreviation (input) ICMP6_RA_HEADER_LEN :: u16 where "ICMP6_RA_HEADER_LEN \<equiv> 12"
abbreviation (input) ICMP6_NS_HEADER_LEN :: u16 where "ICMP6_NS_HEADER_LEN \<equiv> 20"
abbreviation (input) ICMP6_NA_HEADER_LEN :: u16 where "ICMP6_NA_HEADER_LEN \<equiv> 20"

text \<open>Offsets of the members of \<open>ICMPv6Packet\<close>.\<close>

abbreviation (input) icmp6_type :: nat where "icmp6_type \<equiv> 54"
abbreviation (input) icmp6_code :: nat where "icmp6_code \<equiv> 55"
abbreviation (input) icmp6_checksum :: nat where "icmp6_checksum \<equiv> 56"
abbreviation (input) icmp6_err :: nat where "icmp6_err \<equiv> 58"
abbreviation (input) icmp6_ns_reserved :: nat where "icmp6_ns_reserved \<equiv> 58"
abbreviation (input) icmp6_ns_target :: nat where "icmp6_ns_target \<equiv> 62"
abbreviation (input) icmp6_na_flags :: nat where "icmp6_na_flags \<equiv> 58"
abbreviation (input) icmp6_na_reserved :: nat where "icmp6_na_reserved \<equiv> 59"
abbreviation (input) icmp6_na_target :: nat where "icmp6_na_target \<equiv> 62"
abbreviation (input) icmp6_rs_reserved :: nat where "icmp6_rs_reserved \<equiv> 58"
abbreviation (input) icmp6_rs_option_type :: nat where "icmp6_rs_option_type \<equiv> 62"
abbreviation (input) icmp6_rs_option_len :: nat where "icmp6_rs_option_len \<equiv> 63"
abbreviation (input) icmp6_rs_option_mac :: nat where "icmp6_rs_option_mac \<equiv> 64"
abbreviation (input) icmp6_ra_options :: nat where "icmp6_ra_options \<equiv> 70"
abbreviation (input) icmp6_na_options :: nat where "icmp6_na_options \<equiv> 78"

section \<open>Sending\<close>

definition EtherSia_icmp6PacketSend :: "'d platform \<Rightarrow> 'd ether \<Rightarrow> 'd ether option" where
  "EtherSia_icmp6PacketSend p s =
     (let packet = IPv6Packet_setProtocol (buffer s) IP6_PROTO_ICMP6;
          packet = st16 packet icmp6_checksum 0
      in do {
        c \<leftarrow> buffer_checksum packet;
        let packet = st16 packet icmp6_checksum (htons c);
        EtherSia_send p (s\<lparr>buffer := packet\<rparr>)
      })"

definition EtherSia_icmp6ErrorReply :: "'d platform \<Rightarrow> byte \<Rightarrow> byte \<Rightarrow> 'd ether \<Rightarrow> 'd ether option" where
  "EtherSia_icmp6ErrorReply p type code s =
     (let payloadLen = 40 + IPv6Packet_payloadLength (buffer s);
          payloadMax = 600 - 58 - ICMP6_ERROR_HEADER_LEN;
          payloadLen = (if payloadLen > payloadMax then payloadMax else payloadLen);
          packet = wr_bytes (buffer s) (off_payload + 4 + 4) (rd_bytes (buffer s) (off_payload - 40) (unat payloadLen));
          s = EtherSia_prepareReply (s\<lparr>buffer := packet\<rparr>);
          packet = IPv6Packet_setPayloadLength (buffer s) (ICMP6_HEADER_LEN + ICMP6_ERROR_HEADER_LEN + payloadLen);
          packet = st8 packet icmp6_type type;
          packet = st8 packet icmp6_code code;
          packet = (if type = ICMP6_TYPE_PARAM_PROB then st32 packet icmp6_err (htonl 0x06)
                    else st32 packet icmp6_err 0)
      in EtherSia_icmp6PacketSend p (s\<lparr>buffer := packet\<rparr>))"

definition EtherSia_icmp6NSReply :: "'d platform \<Rightarrow> 'd ether \<Rightarrow> 'd ether option" where
  "EtherSia_icmp6NSReply p s =
     (let type = EtherSia_isOurAddress s (rd_bytes (buffer s) icmp6_ns_target 16) in
      if type \<noteq> ADDRESS_TYPE_LINK_LOCAL \<and> type \<noteq> ADDRESS_TYPE_GLOBAL then Some s
      else
        let s = EtherSia_prepareReply s;
            packet = IPv6Packet_setHopLimit (buffer s) 255;
            packet = IPv6Packet_setPayloadLength packet (ICMP6_HEADER_LEN + ICMP6_NA_HEADER_LEN + 8);
            packet = st8 packet icmp6_type ICMP6_TYPE_NA;
            packet = st8 packet icmp6_code 0;
            packet = st8 packet icmp6_na_flags ICMP6_NA_FLAG_S;
            packet = wr_bytes packet icmp6_na_reserved (replicate 3 0);
            ptr = icmp6_na_options;
            packet = st8 packet ptr ICMP6_OPTION_TARGET_LINK_ADDRESS;
            packet = st8 packet (ptr + 1) 1;
            packet = wr_bytes packet (ptr + 2) (localMac s)
        in EtherSia_icmp6PacketSend p (s\<lparr>buffer := packet\<rparr>))"

definition EtherSia_icmp6EchoReply :: "'d platform \<Rightarrow> 'd ether \<Rightarrow> 'd ether option" where
  "EtherSia_icmp6EchoReply p s =
     (let s = EtherSia_prepareReply s;
          packet = st8 (buffer s) icmp6_type ICMP6_TYPE_ECHO_REPLY;
          packet = st8 packet icmp6_code 0
      in EtherSia_icmp6PacketSend p (s\<lparr>buffer := packet\<rparr>))"

definition EtherSia_icmp6SendNS :: "'d platform \<Rightarrow> ip6 \<Rightarrow> ip6 \<Rightarrow> 'd ether \<Rightarrow> 'd ether option" where
  "EtherSia_icmp6SendNS p targetAddress sourceAddress s =
     (let packet = IPv6Packet_setDestination (buffer s) (IPv6Address_solicitedNodeMulticastAddress targetAddress);
          packet = IPv6Packet_setEtherDestination packet
                     (MACAddress_setIPv6Multicast (IPv6Packet_destination packet));
          s = EtherSia_prepareSend (s\<lparr>buffer := packet\<rparr>);
          packet = IPv6Packet_setSource (buffer s) sourceAddress;
          packet = IPv6Packet_setPayloadLength packet (ICMP6_HEADER_LEN + ICMP6_NS_HEADER_LEN);
          packet = IPv6Packet_setHopLimit packet 255;
          packet = st8 packet icmp6_type ICMP6_TYPE_NS;
          packet = st8 packet icmp6_code 0;
          packet = wr_bytes packet icmp6_ns_reserved (replicate 4 0);
          packet = wr_bytes packet icmp6_ns_target targetAddress
      in EtherSia_icmp6PacketSend p (s\<lparr>buffer := packet\<rparr>))"

definition EtherSia_icmp6SendRS :: "'d platform \<Rightarrow> 'd ether \<Rightarrow> 'd ether option" where
  "EtherSia_icmp6SendRS p s =
     (let s = EtherSia_prepareSend s;
          packet = IPv6Packet_setPayloadLength (buffer s) (ICMP6_HEADER_LEN + ICMP6_RS_HEADER_LEN);
          packet = IPv6Packet_setHopLimit packet 255;
          packet = IPv6Packet_setSource packet (linkLocalAddress s);
          packet = IPv6Packet_setDestination packet IPv6Address_linkLocalAllRouters;
          packet = IPv6Packet_setEtherDestination packet
                     (MACAddress_setIPv6Multicast (IPv6Packet_destination packet));
          packet = st8 packet icmp6_type ICMP6_TYPE_RS;
          packet = st8 packet icmp6_code 0;
          packet = wr_bytes packet icmp6_rs_reserved (replicate 4 0);
          packet = st8 packet icmp6_rs_option_type ICMP6_OPTION_SOURCE_LINK_ADDRESS;
          packet = st8 packet icmp6_rs_option_len 1;
          packet = wr_bytes packet icmp6_rs_option_mac (localMac s)
      in EtherSia_icmp6PacketSend p (s\<lparr>buffer := packet\<rparr>))"

section \<open>Router and neighbour advertisements\<close>

text \<open>\<open>pi\<close> is where the 30 bytes of \<open>struct icmp6_prefix_information\<close> start in the buffer.\<close>

definition EtherSia_icmp6ProcessPrefix :: "nat \<Rightarrow> 'd ether \<Rightarrow> 'd ether option" where
  "EtherSia_icmp6ProcessPrefix pi s = do {
     flags \<leftarrow> buf_at (buffer s) (pi + 1);
     if flags AND 0xC0 \<noteq> 0xC0 then Some s
     else do {
       prefix_length \<leftarrow> buf_at (buffer s) pi;
       if prefix_length \<noteq> 64 then Some s
       else if IPv6Address_isZero (globalAddress s) then do {
         prefix \<leftarrow> buf_rd (buffer s) (pi + 14) 16;
         Some (s\<lparr>globalAddress := IPv6Address_setEui64 prefix (localMac s)\<rparr>)
       }
       else Some s
     }
   }"

definition EtherSia_icmp6ProcessRA_option :: "nat \<Rightarrow> 'd ether \<Rightarrow> 'd ether option" where
  "EtherSia_icmp6ProcessRA_option ptr s = do {
     type \<leftarrow> buf_at (buffer s) ptr;
     if type = ICMP6_OPTION_SOURCE_LINK_ADDRESS then do {
       m \<leftarrow> buf_rd (buffer s) (ptr + 2) 6;
       Some (s\<lparr>routerMac := m\<rparr>)
     }
     else if type = ICMP6_OPTION_PREFIX_INFORMATION then EtherSia_icmp6ProcessPrefix (ptr + 2) s
     else if type = ICMP6_OPTION_RECURSIVE_DNS then do {
       a \<leftarrow> buf_rd (buffer s) (ptr + 8) 16;
       Some (s\<lparr>dnsServerAddress := a\<rparr>)
     }
     else Some s
   }"

partial_function (option) EtherSia_icmp6ProcessRA_loop :: "u16 \<Rightarrow> nat \<Rightarrow> 'd ether \<Rightarrow> 'd ether option" where
  "EtherSia_icmp6ProcessRA_loop remaining ptr s =
     (if 0 <s remaining then do {
        s \<leftarrow> EtherSia_icmp6ProcessRA_option ptr s;
        len \<leftarrow> buf_at (buffer s) (ptr + 1);
        EtherSia_icmp6ProcessRA_loop (remaining - 8 * ucast len) (ptr + 8 * unat len) s
      } else Some s)"

definition EtherSia_icmp6ProcessRA :: "'d ether \<Rightarrow> 'd ether option" where
  "EtherSia_icmp6ProcessRA s =
     (let remaining = IPv6Packet_payloadLength (buffer s) - ICMP6_HEADER_LEN - ICMP6_RA_HEADER_LEN;
          ptr = icmp6_ra_options
      in if autoConfigurationEnabled s = False then Some s
         else EtherSia_icmp6ProcessRA_loop remaining ptr s)"

text \<open>The pointer returned is the address it points at; \<open>Some None\<close> is a null pointer.\<close>

partial_function (option) EtherSia_icmp6ProcessNA_loop :: "u16 \<Rightarrow> nat \<Rightarrow> mem \<Rightarrow> mac option option" where
  "EtherSia_icmp6ProcessNA_loop remaining ptr packet =
     (if 0 <s remaining then do {
        type \<leftarrow> buf_at packet ptr;
        if type = ICMP6_OPTION_TARGET_LINK_ADDRESS then do {
          m \<leftarrow> buf_rd packet (ptr + 2) 6;
          Some (Some m)
        }
        else do {
          len \<leftarrow> buf_at packet (ptr + 1);
          EtherSia_icmp6ProcessNA_loop (remaining - 8 * ucast len) (ptr + 8 * unat len) packet
        }
      } else Some (Some (IPv6Packet_etherSource packet)))"

definition EtherSia_icmp6ProcessNA :: "ip6 \<Rightarrow> 'd ether \<Rightarrow> mac option option" where
  "EtherSia_icmp6ProcessNA expected s =
     (let packet = buffer s;
          remaining = IPv6Packet_payloadLength packet - ICMP6_HEADER_LEN - ICMP6_NA_HEADER_LEN;
          ptr = icmp6_na_options
      in if IPv6Address_neq (rd_bytes packet icmp6_na_target 16) expected then Some None
         else EtherSia_icmp6ProcessNA_loop remaining ptr packet)"

section \<open>Receiving\<close>

definition EtherSia_icmp6ProcessPacket :: "'d platform \<Rightarrow> 'd ether \<Rightarrow> (bool \<times> 'd ether) option" where
  "EtherSia_icmp6ProcessPacket p s =
     (let packet = buffer s in
      if EtherSia_isOurAddress s (IPv6Packet_destination packet) = 0 then Some (False, s)
      else if packet icmp6_type = ICMP6_TYPE_NS then do {
        s \<leftarrow> EtherSia_icmp6NSReply p s; Some (True, s)
      }
      else if packet icmp6_type = ICMP6_TYPE_ECHO then do {
        s \<leftarrow> EtherSia_icmp6EchoReply p s; Some (True, s)
      }
      else if packet icmp6_type = ICMP6_TYPE_RA then do {
        s \<leftarrow> EtherSia_icmp6ProcessRA s; Some (True, s)
      }
      else Some (False, s))"

definition EtherSia_receivePacket :: "'d platform \<Rightarrow> 'd ether \<Rightarrow> (u16 \<times> 'd ether) option" where
  "EtherSia_receivePacket p s =
     do {
       (frame, d) \<leftarrow> readFrame p ETHERSIA_MAX_PACKET_SIZE (dev s);
       let len = (word_of_nat (length frame) :: u16);
       if length frame > ETHERSIA_MAX_PACKET_SIZE then None
      else
        let s = s\<lparr>buffer := wr_bytes (buffer s) 0 frame, dev := d\<rparr> in
        if len \<noteq> 0 then do {
          valid \<leftarrow> IPv6Packet_isValid ETHERSIA_MAX_PACKET_SIZE (buffer s);
          if \<not> valid \<or> \<not> EtherSia_checkEthernetAddresses s (buffer s)
          then Some (0, s\<lparr>bufferContainsReceived := False\<rparr>)
          else
            let s = s\<lparr>bufferContainsReceived := True\<rparr> in
            if IPv6Packet_protocol (buffer s) = IP6_PROTO_ICMP6 then do {
              (handled, s) \<leftarrow> EtherSia_icmp6ProcessPacket p s;
              if handled then Some (0, s) else Some (len, s)
            }
            else Some (len, s)
        }
        else Some (0, s\<lparr>bufferContainsReceived := False\<rparr>)
     }"

definition EtherSia_rejectPacket :: "'d platform \<Rightarrow> 'd ether \<Rightarrow> 'd ether option" where
  "EtherSia_rejectPacket p s =
     (let packet = buffer s in
      if \<not> bufferContainsReceived s then Some s
      else if IPv6Address_isMulticast (IPv6Packet_destination packet) then Some s
      else if IPv6Packet_protocol packet = IP6_PROTO_TCP then EtherSia_tcpSendRSTReply p s
      else if IPv6Packet_protocol packet = IP6_PROTO_UDP
        then EtherSia_icmp6ErrorReply p ICMP6_TYPE_UNREACHABLE ICMP6_CODE_PORT_UNREACHABLE s
      else if IPv6Packet_protocol packet = IP6_PROTO_ICMP6 then Some s
      else EtherSia_icmp6ErrorReply p ICMP6_TYPE_PARAM_PROB ICMP6_CODE_UNRECOGNIZED_NH s)"

section \<open>Auto-configuration and neighbour discovery\<close>

text \<open>The signed difference of two 32-bit times.\<close>

definition time_reached :: "u32 \<Rightarrow> u32 \<Rightarrow> bool" where
  "time_reached now deadline \<longleftrightarrow> 0 \<le>s now - deadline"

definition EtherSia_icmp6AutoConfigure_solicit ::
    "'d platform \<Rightarrow> u32 \<Rightarrow> byte \<Rightarrow> 'd ether \<Rightarrow> (u32 \<times> byte \<times> 'd ether) option" where
  "EtherSia_icmp6AutoConfigure_solicit p nextRouterSolicitation count s =
     (let (now, s) = EtherSia_millis p s in
      if time_reached now nextRouterSolicitation then do {
        s \<leftarrow> EtherSia_icmp6SendRS p s;
        let (now, s) = EtherSia_millis p s;
        Some (now + ROUTER_SOLICITATION_TIMEOUT, count + 1, s)
      }
      else Some (nextRouterSolicitation, count, s))"

partial_function (option) EtherSia_icmp6AutoConfigure_loop ::
    "'d platform \<Rightarrow> u32 \<Rightarrow> byte \<Rightarrow> 'd ether \<Rightarrow> (bool \<times> 'd ether) option" where
  "EtherSia_icmp6AutoConfigure_loop p nextRouterSolicitation count s =
     (if IPv6Address_isZero (globalAddress s) then do {
        r \<leftarrow> EtherSia_icmp6AutoConfigure_solicit p nextRouterSolicitation count s;
        q \<leftarrow> EtherSia_receivePacket p (snd (snd r));
        if fst (snd r) > ROUTER_SOLICITATION_ATTEMPTS then Some (False, snd q)
        else EtherSia_icmp6AutoConfigure_loop p (fst r) (fst (snd r)) (snd q)
      } else Some (True, s))"

definition EtherSia_icmp6AutoConfigure :: "'d platform \<Rightarrow> 'd ether \<Rightarrow> (bool \<times> 'd ether) option" where
  "EtherSia_icmp6AutoConfigure p s =
     (let (nextRouterSolicitation, s) = EtherSia_millis p s
      in EtherSia_icmp6AutoConfigure_loop p nextRouterSolicitation 0 s)"

text \<open>\<open>sourceAddress\<close> is a pointer to a member of the interface, read when a solicitation is sent.\<close>

definition EtherSia_discoverNeighbour_solicit ::
    "'d platform \<Rightarrow> ip6 \<Rightarrow> ('d ether \<Rightarrow> ip6) \<Rightarrow> u32 \<Rightarrow> byte \<Rightarrow> 'd ether \<Rightarrow> (u32 \<times> byte \<times> 'd ether) option" where
  "EtherSia_discoverNeighbour_solicit p address sourceAddress nextNeighbourSolicitation count s =
     (let (now, s) = EtherSia_millis p s in
      if time_reached now nextNeighbourSolicitation then do {
        s \<leftarrow> EtherSia_icmp6SendNS p address (sourceAddress s) s;
        let (now, s) = EtherSia_millis p s;
        Some (now + NEIGHBOUR_SOLICITATION_TIMEOUT, count + 1, s)
      }
      else Some (nextNeighbourSolicitation, count, s))"

definition EtherSia_discoverNeighbour_answer :: "ip6 \<Rightarrow> u16 \<Rightarrow> 'd ether \<Rightarrow> mac option option" where
  "EtherSia_discoverNeighbour_answer address len s =
     (if len \<noteq> 0 \<and> IPv6Packet_protocol (buffer s) = IP6_PROTO_ICMP6
         \<and> buffer s icmp6_type = ICMP6_TYPE_NA
      then EtherSia_icmp6ProcessNA address s else Some None)"

partial_function (option) EtherSia_discoverNeighbour_loop ::
    "'d platform \<Rightarrow> ip6 \<Rightarrow> byte \<Rightarrow> ('d ether \<Rightarrow> ip6) \<Rightarrow> u32 \<Rightarrow> byte \<Rightarrow> 'd ether \<Rightarrow> (mac option \<times> 'd ether) option" where
  "EtherSia_discoverNeighbour_loop p address attempts sourceAddress nextNeighbourSolicitation count s =
     (if count < attempts then do {
        r \<leftarrow> EtherSia_discoverNeighbour_solicit p address sourceAddress nextNeighbourSolicitation count s;
        q \<leftarrow> EtherSia_receivePacket p (snd (snd r));
        neighbourMac \<leftarrow> EtherSia_discoverNeighbour_answer address (fst q) (snd q);
        if neighbourMac \<noteq> None then Some (neighbourMac, snd q)
        else EtherSia_discoverNeighbour_loop p address attempts sourceAddress (fst r) (fst (snd r)) (snd q)
      } else Some (None, s))"

definition EtherSia_discoverNeighbour ::
    "'d platform \<Rightarrow> ip6 \<Rightarrow> byte \<Rightarrow> 'd ether \<Rightarrow> (mac option \<times> 'd ether) option" where
  "EtherSia_discoverNeighbour p address attempts s =
     (let (nextNeighbourSolicitation, s) = EtherSia_millis p s;
          sourceAddress = (if IPv6Address_isLinkLocal address then linkLocalAddress else globalAddress)
      in EtherSia_discoverNeighbour_loop p address attempts sourceAddress nextNeighbourSolicitation 0 s)"

definition EtherSia_discoverNeighbour_str ::
    "'d platform \<Rightarrow> byte list \<Rightarrow> 'd ether \<Rightarrow> (mac option \<times> 'd ether) option" where
  "EtherSia_discoverNeighbour_str p addrstr s = do {
     (ok, addr) \<leftarrow> IPv6Address_fromString addrstr;
     EtherSia_discoverNeighbour p addr NEIGHBOUR_SOLICITATION_ATTEMPTS s
   }"

definition EtherSia_setRouter :: "'d platform \<Rightarrow> ip6 \<Rightarrow> 'd ether \<Rightarrow> (bool \<times> 'd ether) option" where
  "EtherSia_setRouter p address s = do {
     (m, s) \<leftarrow> EtherSia_discoverNeighbour p address NEIGHBOUR_SOLICITATION_ATTEMPTS s;
     case m of None \<Rightarrow> Some (False, s) | Some m \<Rightarrow> Some (True, s\<lparr>routerMac := m\<rparr>)
   }"

definition EtherSia_setRouter_str :: "'d platform \<Rightarrow> byte list \<Rightarrow> 'd ether \<Rightarrow> (bool \<times> 'd ether) option" where
  "EtherSia_setRouter_str p address s = do {
     (ok, addr) \<leftarrow> IPv6Address_fromString address;
     EtherSia_setRouter p addr s
   }"

definition EtherSia_begin :: "'d platform \<Rightarrow> 'd ether \<Rightarrow> (bool \<times> 'd ether) option" where
  "EtherSia_begin p s =
     (let s = s\<lparr>linkLocalAddress := IPv6Address_setLinkLocalPrefix (linkLocalAddress s)\<rparr>;
          s = s\<lparr>linkLocalAddress := IPv6Address_setEui64 (linkLocalAddress s) (localMac s)\<rparr>;
          s = s\<lparr>dev := delay_ms p (ucast (localMac s ! 5 XOR 0x55)) (dev s)\<rparr>;
          s = s\<lparr>dev := delay_ms p 500 (dev s)\<rparr>;
          zero = IPv6Address_zero
      in do {
        s \<leftarrow> EtherSia_icmp6SendNS p (linkLocalAddress s) zero s;
        (success, s) \<leftarrow> (if autoConfigurationEnabled s then EtherSia_icmp6AutoConfigure p s else Some (True, s));
        let (us, d) = micros p (dev s);
        Some (success, s\<lparr>dev := randomSeed p us d\<rparr>)
      })"

section \<open>What is sent\<close>

lemma icmp6PacketSend_seal:
  "EtherSia_icmp6PacketSend p s = seal_and_send p 56 (s\<lparr>buffer := IPv6Packet_setProtocol (buffer s) 58\<rparr>)"
  by (simp add: EtherSia_icmp6PacketSend_def seal_and_send_def Let_def)

lemma icmp6PacketSend_sends:
  assumes "IPv6Packet_etherType m = ETHER_TYPE_IPV6" "IPv6Packet_version m = 6"
    "unat (IPv6Packet_payloadLength m) \<le> 546" "4 \<le> unat (IPv6Packet_payloadLength m)"
  shows "\<exists>c. sends p s (st16 (IPv6Packet_setProtocol m 58) 56 (htons c)) (EtherSia_icmp6PacketSend p (s\<lparr>buffer := m\<rparr>))"
  using assms seal_and_send_sends [of "s\<lparr>buffer := IPv6Packet_setProtocol m 58\<rparr>" 56 p]
  by (simp add: icmp6PacketSend_seal hdr_simps)

lemma icmp6EchoReply_echoes_aux:
  assumes "wf_ether s" "IPv6Packet_isValid 600 (buffer s) = Some True"
    "4 \<le> unat (IPv6Packet_payloadLength (buffer s))"
  shows "\<exists>m. sends p s m (EtherSia_icmp6EchoReply p s)
     \<and> IPv6Packet_destination m = IPv6Packet_source (buffer s)
     \<and> IPv6Packet_source m = reply_source s
     \<and> IPv6Packet_etherDestination m = IPv6Packet_etherSource (buffer s)
     \<and> IPv6Packet_payloadLength m = IPv6Packet_payloadLength (buffer s)
     \<and> m icmp6_type = ICMP6_TYPE_ECHO_REPLY \<and> m icmp6_code = 0
     \<and> rd_bytes m 58 (unat (IPv6Packet_payloadLength m) - 4)
       = rd_bytes (buffer s) 58 (unat (IPv6Packet_payloadLength (buffer s)) - 4)"
proof -
  let ?m = "st8 (st8 (buffer (EtherSia_prepareReply s)) 54 129) 55 0"
  have h: "IPv6Packet_etherType ?m = ETHER_TYPE_IPV6" "IPv6Packet_version ?m = 6"
    "IPv6Packet_payloadLength ?m = IPv6Packet_payloadLength (buffer s)"
    using assms valid_header [OF assms(2)] by (simp_all add: hdr_simps prep_simps)
  then obtain c where "sends p s (st16 (IPv6Packet_setProtocol ?m 58) 56 (htons c)) (EtherSia_icmp6EchoReply p s)"
    using icmp6PacketSend_sends [of ?m p "EtherSia_prepareReply s"] assms(3) valid_header [OF assms(2)]
    by (auto simp: EtherSia_icmp6EchoReply_def Let_def)
  then show ?thesis using assms h
    by (intro exI conjI) (assumption | simp add: hdr_simps prep_simps)+
qed

text \<open>
  An echo request is answered with an echo reply: a valid packet sent back to the source, type
  129 and code 0, whose identifier, sequence number and data are those of the request.
\<close>

theorem icmp6EchoReply_echoes:
  assumes "wf_ether s" "IPv6Packet_isValid 600 (buffer s) = Some True"
    "4 \<le> unat (IPv6Packet_payloadLength (buffer s))"
  shows "\<exists>m. sends p s m (EtherSia_icmp6EchoReply p s)
     \<and> IPv6Packet_destination m = IPv6Packet_source (buffer s)
     \<and> IPv6Packet_source m = reply_source s
     \<and> IPv6Packet_etherDestination m = IPv6Packet_etherSource (buffer s)
     \<and> IPv6Packet_payloadLength m = IPv6Packet_payloadLength (buffer s)
     \<and> m icmp6_type = ICMP6_TYPE_ECHO_REPLY \<and> m icmp6_code = 0
     \<and> rd_bytes m 58 (unat (IPv6Packet_payloadLength m) - 4)
       = rd_bytes (buffer s) 58 (unat (IPv6Packet_payloadLength (buffer s)) - 4)"
  using icmp6EchoReply_echoes_aux assms by blast

text \<open>An echo request of two link-local nodes, with four bytes behind the ICMPv6 header.\<close>

definition sample_echo :: "unit ether" where
  "sample_echo = sample_ether\<lparr>buffer := wr_bytes (\<lambda>_. 0) 12
     ([0x86, 0xdd, 0x60, 0, 0, 0, 0, 8, 58, 64] @ [0xfe, 0x80, 0, 0, 0, 0, 0, 0, 0, 0, 0, 0, 0, 0, 0, 1]
      @ [0xfe, 0x80, 0, 0, 0, 0, 0, 0, 0, 0, 0, 0, 0, 0, 0, 2] @ [128, 0, 0x7e, 0xb4, 0, 1, 4, 3])\<rparr>"

lemma sample_echo_ok:
  "wf_ether sample_echo" "IPv6Packet_isValid 600 (buffer sample_echo) = Some True"
  "unat (IPv6Packet_payloadLength (buffer sample_echo)) = 8"
  by code_simp+

lemma icmp6EchoReply_echoes_witness:
  "\<exists>m. sends quiet_platform sample_echo m (EtherSia_icmp6EchoReply quiet_platform sample_echo)
     \<and> m icmp6_type = 129 \<and> rd_bytes m 58 4 = [0, 1, 4, 3]"
proof -
  have "rd_bytes (buffer sample_echo) 58 4 = [0, 1, 4, 3]" by code_simp
  with icmp6EchoReply_echoes [of sample_echo quiet_platform] sample_echo_ok show ?thesis by auto
qed

text \<open>
  C28. A neighbour solicitation for one of this interface's own addresses is answered with a
  neighbour advertisement: a valid packet to the solicitor with hop limit 255 and the solicited
  flag, for the same target, with the link-layer address of this interface as its only option. For
  any other target nothing is sent and nothing changes.
\<close>

theorem icmp6NSReply_advertises:
  assumes "wf_ether s" "IPv6Packet_isValid 600 (buffer s) = Some True"
  defines "target \<equiv> rd_bytes (buffer s) icmp6_ns_target 16"
  shows "if target = linkLocalAddress s \<or> target = globalAddress s
     then \<exists>m. sends p s m (EtherSia_icmp6NSReply p s)
       \<and> IPv6Packet_destination m = IPv6Packet_source (buffer s) \<and> IPv6Packet_hopLimit m = 255
       \<and> IPv6Packet_payloadLength m = 32
       \<and> m icmp6_type = ICMP6_TYPE_NA \<and> m icmp6_code = 0 \<and> m icmp6_na_flags = ICMP6_NA_FLAG_S
       \<and> rd_bytes m icmp6_na_target 16 = target
       \<and> rd_bytes m icmp6_na_options 8 = [2, 1] @ localMac s
     else EtherSia_icmp6NSReply p s = Some s"
proof (cases "target = linkLocalAddress s \<or> target = globalAddress s")
  case True
  let ?m = "wr_bytes (st8 (st8 (wr_bytes (st8 (st8 (st8 (IPv6Packet_setPayloadLength (IPv6Packet_setHopLimit
      (buffer (EtherSia_prepareReply s)) 255) 32) 54 136) 55 0) 58 64) 59 (replicate 3 0)) 78 2) 79 1) 80 (localMac s)"
  have l: "length (localMac s) = 6" and o: "wf_ip target"
    using assms(1) by (simp_all add: wf_ether_def wf_mac_def target_def)
  have "EtherSia_isOurAddress s target \<in> {ADDRESS_TYPE_LINK_LOCAL, ADDRESS_TYPE_GLOBAL}"
    using True o assms(1) by (auto simp: EtherSia_isOurAddress_def wf_ether_def)
  then have r: "EtherSia_icmp6NSReply p s = EtherSia_icmp6PacketSend p (EtherSia_prepareReply s\<lparr>buffer := ?m\<rparr>)"
    by (auto simp: EtherSia_icmp6NSReply_def Let_def target_def prep_simps)
  have h: "IPv6Packet_etherType ?m = ETHER_TYPE_IPV6" "IPv6Packet_version ?m = 6" "IPv6Packet_payloadLength ?m = 32"
    using assms valid_header [OF assms(2)] by (simp_all add: hdr_simps prep_simps)
  then obtain c where s: "sends p s (st16 (IPv6Packet_setProtocol ?m 58) 56 (htons c)) (EtherSia_icmp6NSReply p s)"
    using icmp6PacketSend_sends [of ?m p "EtherSia_prepareReply s"] by (auto simp: r)
  let ?M = "st16 (IPv6Packet_setProtocol ?m 58) 56 (htons c)"
  have "rd_bytes ?M 78 8 = [2, 1] @ localMac s"
    using rd_bytes_append [of ?M 78 1 7] rd_bytes_append [of ?M 79 1 6] l
    by (simp add: hdr_simps rd_bytes_Suc)
  moreover have "rd_bytes ?M 62 16 = target"
    using assms(1) l by (simp add: hdr_simps prep_simps target_def)
  ultimately show ?thesis using assms(1) True s l h
    by (simp only: if_True, intro exI conjI) (assumption | simp add: hdr_simps prep_simps)+
next
  case False
  have "wf_ip target" by (simp add: target_def)
  with False assms(1) have "EtherSia_isOurAddress s target \<noteq> 1 \<and> EtherSia_isOurAddress s target \<noteq> 2"
    by (auto simp: EtherSia_isOurAddress_def wf_ether_def)
  with False show ?thesis
    by (simp add: EtherSia_icmp6NSReply_def Let_def target_def)
qed

definition sample_ns :: "unit ether" where
  "sample_ns = sample_ether\<lparr>buffer := wr_bytes (\<lambda>_. 0) 12
     ([0x86, 0xdd, 0x60, 0, 0, 0, 0, 24, 58, 64] @ [0xfe, 0x80, 0, 0, 0, 0, 0, 0, 0, 0, 0, 0, 0, 0, 0, 1]
      @ [0xfe, 0x80, 0, 0, 0, 0, 0, 0, 0, 0, 0, 0, 0, 0, 0, 2] @ [135, 0, 0x7d, 0x25, 0, 0, 0, 0]
      @ [0xfe, 0x80, 0, 0, 0, 0, 0, 0, 0, 0, 0, 0, 0, 0, 0, 2])\<rparr>"

lemma icmp6NSReply_advertises_witness:
  "\<exists>m. sends quiet_platform sample_ns m (EtherSia_icmp6NSReply quiet_platform sample_ns)
     \<and> rd_bytes m icmp6_na_options 8 = [2, 1, 2, 0, 0, 0, 0, 1]"
proof -
  have "wf_ether sample_ns" "IPv6Packet_isValid 600 (buffer sample_ns) = Some True"
    "rd_bytes (buffer sample_ns) 62 16 = linkLocalAddress sample_ns" "localMac sample_ns = [2, 0, 0, 0, 0, 1]"
    by code_simp+
  then show ?thesis using icmp6NSReply_advertises [of sample_ns quiet_platform] by auto
qed

lemma wf_ether_upd [simp]:
  "wf_ether (s\<lparr>buffer := m\<rparr>) = wf_ether s" "wf_ether (s\<lparr>bufferContainsReceived := b\<rparr>) = wf_ether s"
  "wf_ether (s\<lparr>dev := d\<rparr>) = wf_ether s"
  by (simp_all add: wf_ether_def)

lemma wf_ether_prepare [simp]:
  "wf_ether (EtherSia_prepareReply s) = wf_ether s" "wf_ether (EtherSia_prepareSend s) = wf_ether s"
  by (simp_all add: wf_ether_def prep_simps)

lemma length_multicast [simp]:
  "length (MACAddress_setIPv6Multicast a) = 6"
  "length (IPv6Address_solicitedNodeMulticastAddress a) = 16" "length IPv6Address_linkLocalAllRouters = 16"
  by (simp_all add: MACAddress_setIPv6Multicast_def IPv6Address_solicitedNodeMulticastAddress_def
      IPv6Address_linkLocalAllRouters_def IPv6Address_zero_def)

text \<open>
  A neighbour solicitation is a valid packet with hop limit 255 from the given source to the
  solicited-node multicast address of the target, on the Ethernet multicast address that carries it,
  and names the target. It holds for any contents of the buffer.
\<close>

lemma icmp6SendNS_run:
  assumes "wf_ether s" "wf_ip target" "wf_ip source"
  shows "\<exists>m. sends p s m (EtherSia_icmp6SendNS p target source s)
     \<and> IPv6Packet_destination m = IPv6Address_solicitedNodeMulticastAddress target
     \<and> IPv6Packet_source m = source
     \<and> IPv6Packet_etherDestination m = [0x33, 0x33, 0xFF, target ! 13, target ! 14, target ! 15]
     \<and> IPv6Packet_etherSource m = localMac s
     \<and> IPv6Packet_hopLimit m = 255 \<and> IPv6Packet_payloadLength m = 24
     \<and> m icmp6_type = ICMP6_TYPE_NS \<and> m icmp6_code = 0 \<and> rd_bytes m icmp6_ns_target 16 = target"
proof -
  let ?d = "IPv6Address_solicitedNodeMulticastAddress target"
  let ?s0 = "s\<lparr>buffer := wr_bytes (wr_bytes (buffer s) 38 ?d) 0 (MACAddress_setIPv6Multicast ?d)\<rparr>"
  let ?m = "wr_bytes (wr_bytes (st8 (st8 (IPv6Packet_setHopLimit (IPv6Packet_setPayloadLength (IPv6Packet_setSource
      (buffer (EtherSia_prepareSend ?s0)) source) 24) 255) 54 135) 55 0) 58 (replicate 4 0)) 62 target"
  have l: "length target = 16" "length source = 16" using assms by (simp_all add: wf_ip_def)
  have r: "EtherSia_icmp6SendNS p target source s
      = EtherSia_icmp6PacketSend p (EtherSia_prepareSend ?s0\<lparr>buffer := ?m\<rparr>)"
    by (simp add: EtherSia_icmp6SendNS_def Let_def hdr_simps)
  have h: "IPv6Packet_etherType ?m = ETHER_TYPE_IPV6" "IPv6Packet_version ?m = 6" "IPv6Packet_payloadLength ?m = 24"
    using assms l by (simp_all add: hdr_simps prep_simps)
  then obtain c where s: "sends p s (st16 (IPv6Packet_setProtocol ?m 58) 56 (htons c)) (EtherSia_icmp6SendNS p target source s)"
    using icmp6PacketSend_sends [of ?m p "EtherSia_prepareSend ?s0"] by (auto simp: r)
  have "MACAddress_setIPv6Multicast ?d = [0x33, 0x33, 0xFF, target ! 13, target ! 14, target ! 15]"
    by (simp add: MACAddress_setIPv6Multicast_def IPv6Address_solicitedNodeMulticastAddress_def IPv6Address_zero_def)
  then show ?thesis using s l h assms
    by (intro exI conjI) (assumption | simp add: hdr_simps prep_simps)+
qed

text \<open>
  A router solicitation is a valid packet with hop limit 255 from the link-local address to
  all routers, carrying the link-layer address of this interface.
\<close>

lemma icmp6SendRS_run:
  assumes "wf_ether s"
  shows "\<exists>m. sends p s m (EtherSia_icmp6SendRS p s)
     \<and> IPv6Packet_destination m = IPv6Address_linkLocalAllRouters
     \<and> IPv6Packet_source m = linkLocalAddress s
     \<and> IPv6Packet_etherDestination m = [0x33, 0x33, 0, 0, 0, 2]
     \<and> IPv6Packet_hopLimit m = 255 \<and> IPv6Packet_payloadLength m = 16
     \<and> m icmp6_type = ICMP6_TYPE_RS \<and> m icmp6_code = 0
     \<and> rd_bytes m icmp6_rs_option_type 8 = [1, 1] @ localMac s"
proof -
  let ?d = IPv6Address_linkLocalAllRouters
  let ?m = "wr_bytes (st8 (st8 (wr_bytes (st8 (st8 (wr_bytes (wr_bytes (IPv6Packet_setSource (IPv6Packet_setHopLimit
     (IPv6Packet_setPayloadLength (buffer (EtherSia_prepareSend s)) 16) 255) (linkLocalAddress s)) 38 ?d) 0
     (MACAddress_setIPv6Multicast ?d)) 54 133) 55 0) 58 (replicate 4 0)) 62 1) 63 1) 64 (localMac s)"
  have l: "length (localMac s) = 6" "length (linkLocalAddress s) = 16"
    using assms by (simp_all add: wf_ether_def wf_mac_def wf_ip_def)
  have r: "EtherSia_icmp6SendRS p s = EtherSia_icmp6PacketSend p (EtherSia_prepareSend s\<lparr>buffer := ?m\<rparr>)"
    by (simp add: EtherSia_icmp6SendRS_def Let_def hdr_simps prep_simps)
  have h: "IPv6Packet_etherType ?m = ETHER_TYPE_IPV6" "IPv6Packet_version ?m = 6" "IPv6Packet_payloadLength ?m = 16"
    using assms l by (simp_all add: hdr_simps prep_simps)
  then obtain c where s: "sends p s (st16 (IPv6Packet_setProtocol ?m 58) 56 (htons c)) (EtherSia_icmp6SendRS p s)"
    using icmp6PacketSend_sends [of ?m p "EtherSia_prepareSend s"] by (auto simp: r)
  let ?M = "st16 (IPv6Packet_setProtocol ?m 58) 56 (htons c)"
  have "rd_bytes ?M 62 8 = [1, 1] @ localMac s"
    using rd_bytes_append [of ?M 62 1 7] rd_bytes_append [of ?M 63 1 6] l
    by (simp add: hdr_simps rd_bytes_Suc)
  moreover have "MACAddress_setIPv6Multicast ?d = [0x33, 0x33, 0, 0, 0, 2]"
    by code_simp
  ultimately show ?thesis using s l h assms
    by (intro exI conjI) (assumption | simp add: hdr_simps prep_simps)+
qed

lemma icmp6ErrorReply_quotes_aux:
  assumes "wf_ether s" "IPv6Packet_isValid 600 (buffer s) = Some True"
  defines "quoted \<equiv> min (40 + unat (IPv6Packet_payloadLength (buffer s))) 538"
  shows "\<exists>m. sends p s m (EtherSia_icmp6ErrorReply p type code s)
     \<and> IPv6Packet_destination m = IPv6Packet_source (buffer s) \<and> IPv6Packet_source m = reply_source s
     \<and> unat (IPv6Packet_payloadLength m) = 8 + quoted \<and> 54 + unat (IPv6Packet_payloadLength m) \<le> 600
     \<and> m icmp6_type = type \<and> m icmp6_code = code
     \<and> ntohl (ld32 m icmp6_err) = (if type = ICMP6_TYPE_PARAM_PROB then 6 else 0)
     \<and> rd_bytes m 62 quoted = rd_bytes (buffer s) 14 quoted"
proof -
  let ?n = "IPv6Packet_payloadLength (buffer s)"
  define L where "L = (if 40 + ?n > 538 then 538 else 40 + ?n)"
  have n: "unat ?n \<le> 546" using valid_header [OF assms(2)] by simp
  then have "unat (40 + ?n) = 40 + unat ?n" by (simp add: unat_word_ariths)
  then have L: "unat L = quoted" by (simp add: L_def quoted_def word_less_nat_alt min_def)
  have q: "quoted \<le> 538" by (simp add: quoted_def)
  let ?s0 = "s\<lparr>buffer := wr_bytes (buffer s) 62 (rd_bytes (buffer s) 14 quoted)\<rparr>"
  let ?m = "st32 (st8 (st8 (IPv6Packet_setPayloadLength (buffer (EtherSia_prepareReply ?s0)) (4 + 4 + L))
     54 type) 55 code) 58 (if type = 4 then htonl 6 else 0)"
  have r: "EtherSia_icmp6ErrorReply p type code s
      = EtherSia_icmp6PacketSend p (EtherSia_prepareReply ?s0\<lparr>buffer := ?m\<rparr>)"
    by (simp add: EtherSia_icmp6ErrorReply_def Let_def L_def [symmetric] L)
  have u: "unat (4 + 4 + L) = 8 + quoted" using L q by (simp add: unat_word_ariths)
  have w: "wf_ether ?s0" using assms(1) by simp
  have h: "IPv6Packet_etherType ?m = ETHER_TYPE_IPV6" "IPv6Packet_version ?m = 6" "IPv6Packet_payloadLength ?m = 4 + 4 + L"
    using w valid_header [OF assms(2)] by (simp_all add: hdr_simps prep_simps del: wf_ether_upd)
  then obtain c where s: "sends p s (st16 (IPv6Packet_setProtocol ?m 58) 56 (htons c)) (EtherSia_icmp6ErrorReply p type code s)"
    using icmp6PacketSend_sends [of ?m p "EtherSia_prepareReply ?s0"] u q
    unfolding r by auto
  have "reply_source ?s0 = reply_source s"
    by (simp add: reply_source_def hdr_simps)
  then show ?thesis using s h u q w
    by (intro exI conjI)
      (assumption | simp add: hdr_simps prep_simps ntohl_def htonl_def del: wf_ether_upd)+
qed

text \<open>
  An ICMPv6 error reply is a valid packet that fits the buffer, goes back to the source of the
  offending packet and quotes as much of it as fits, from its IPv6 header on, unchanged; a parameter
  problem points at the next-header field of the quoted packet.
\<close>

theorem icmp6ErrorReply_quotes:
  assumes "wf_ether s" "IPv6Packet_isValid 600 (buffer s) = Some True"
  defines "quoted \<equiv> min (40 + unat (IPv6Packet_payloadLength (buffer s))) 538"
  shows "\<exists>m. sends p s m (EtherSia_icmp6ErrorReply p type code s)
     \<and> IPv6Packet_destination m = IPv6Packet_source (buffer s) \<and> IPv6Packet_source m = reply_source s
     \<and> unat (IPv6Packet_payloadLength m) = 8 + quoted \<and> 54 + unat (IPv6Packet_payloadLength m) \<le> 600
     \<and> m icmp6_type = type \<and> m icmp6_code = code
     \<and> ntohl (ld32 m icmp6_err) = (if type = ICMP6_TYPE_PARAM_PROB then 6 else 0)
     \<and> rd_bytes m 62 quoted = rd_bytes (buffer s) 14 quoted"
  unfolding quoted_def by (rule icmp6ErrorReply_quotes_aux [OF assms(1,2)])

lemma icmp6ErrorReply_quotes_witness:
  "\<exists>m. sends quiet_platform sample_echo m (EtherSia_icmp6ErrorReply quiet_platform 4 1 sample_echo)
     \<and> ntohl (ld32 m icmp6_err) = 6 \<and> rd_bytes m 62 48 = rd_bytes (buffer sample_echo) 14 48"
  using icmp6ErrorReply_quotes [of sample_echo quiet_platform 4 1] sample_echo_ok by (auto simp: min_def)

text \<open>
  C29. \<open>rejectPacket\<close> answers a received packet at most once and only when it may: a packet already
  replied to, sent to a multicast address or carrying ICMPv6 is left alone; any other gets one valid
  packet back to its source, a TCP reset for TCP and an ICMPv6 error for everything else.
\<close>

theorem rejectPacket_answers:
  assumes "wf_ether s" "IPv6Packet_isValid 600 (buffer s) = Some True"
  shows "if \<not> bufferContainsReceived s \<or> buffer s off_destination = 0xFF
       \<or> IPv6Packet_protocol (buffer s) = IP6_PROTO_ICMP6
     then EtherSia_rejectPacket p s = Some s
     else \<exists>m. sends p s m (EtherSia_rejectPacket p s)
       \<and> IPv6Packet_destination m = IPv6Packet_source (buffer s)
       \<and> (if IPv6Packet_protocol (buffer s) = IP6_PROTO_TCP then m tcp_flags = 0x14
          else if IPv6Packet_protocol (buffer s) = IP6_PROTO_UDP
          then m icmp6_type = 1 \<and> m icmp6_code = 4
          else m icmp6_type = 4 \<and> m icmp6_code = 1)"
proof -
  have t: "\<exists>m. sends p s m (EtherSia_tcpSendRSTReply p s)
      \<and> IPv6Packet_destination m = IPv6Packet_source (buffer s) \<and> m 67 = 0x14"
    using tcpSendRSTReply_sends [of s p] assms valid_header by metis
  have e: "\<exists>m. sends p s m (EtherSia_icmp6ErrorReply p ty co s)
      \<and> IPv6Packet_destination m = IPv6Packet_source (buffer s) \<and> m 54 = ty \<and> m 55 = co" for ty co
    using icmp6ErrorReply_quotes_aux [OF assms, of p ty co] by metis
  have mc: "IPv6Address_isMulticast (IPv6Packet_destination (buffer s)) \<longleftrightarrow> buffer s 38 = 0xFF"
    by (simp add: IPv6Address_isMulticast_def IPv6Packet_destination_def)
  show ?thesis
    using t e [of 1 4] e [of 4 1] by (simp add: EtherSia_rejectPacket_def Let_def mc)
qed

lemma rejectPacket_answers_witness:
  "EtherSia_rejectPacket quiet_platform sample_echo = Some sample_echo"
proof -
  have "IPv6Packet_protocol (buffer sample_echo) = 58" by code_simp
  with rejectPacket_answers [OF sample_echo_ok(1,2), of quiet_platform] show ?thesis by simp
qed

section \<open>Options of a router advertisement\<close>

lemma RA_option_keeps:
  assumes "EtherSia_icmp6ProcessRA_option ptr s = Some s'"
  shows "buffer s' = buffer s" "linkLocalAddress s' = linkLocalAddress s" "localMac s' = localMac s"
    "dev s' = dev s" "autoConfigurationEnabled s' = autoConfigurationEnabled s"
    "bufferContainsReceived s' = bufferContainsReceived s" "wf_ether s \<Longrightarrow> wf_ether s'"
    "\<not> IPv6Address_isZero (globalAddress s) \<Longrightarrow> globalAddress s' = globalAddress s"
  using assms
  by (auto simp: EtherSia_icmp6ProcessRA_option_def EtherSia_icmp6ProcessPrefix_def buf_rd_def wf_ether_def
      wf_mac_def wf_ip_def IPv6Address_setEui64_def split: if_splits Option.bind_splits)

text \<open>Induction over the options of a run of the loop that returns.\<close>

lemma RA_loop_induct [consumes 1, case_names stop step]:
  assumes run: "EtherSia_icmp6ProcessRA_loop remaining ptr s = Some s'"
    and stop: "\<And>r i t. \<not> 0 <s r \<Longrightarrow> P r i t t"
    and step: "\<And>r i t t1 len t'. 0 <s r \<Longrightarrow> EtherSia_icmp6ProcessRA_option i t = Some t1 \<Longrightarrow>
      buf_at (buffer t1) (i + 1) = Some len \<Longrightarrow> P (r - 8 * ucast len) (i + 8 * unat len) t1 t' \<Longrightarrow> P r i t t'"
  shows "P remaining ptr s s'"
proof (rule EtherSia_icmp6ProcessRA_loop.raw_induct [where P = P, OF _ run])
  fix loop and r :: u16 and i :: nat and t t' :: "'a ether"
  assume IH: "\<And>r i t t'. loop r i t = Some t' \<Longrightarrow> P r i t t'"
    and run: "(if 0 <s r then do {
        s \<leftarrow> EtherSia_icmp6ProcessRA_option i t;
        len \<leftarrow> buf_at (buffer s) (i + 1);
        loop (r - 8 * ucast len) (i + 8 * unat len) s
      } else Some t) = Some t'"
  show "P r i t t'"
  proof (cases "0 <s r")
    case True
    with run obtain t1 and len :: byte where "EtherSia_icmp6ProcessRA_option i t = Some t1"
      "buf_at (buffer t1) (i + 1) = Some len" "loop (r - 8 * ucast len) (i + 8 * unat len) t1 = Some t'"
      by (auto split: Option.bind_splits)
    then show ?thesis using step [OF True] IH by blast
  next
    case False
    with run show ?thesis using stop by simp
  qed
qed

lemma RA_loop_keeps:
  assumes "EtherSia_icmp6ProcessRA_loop remaining ptr s = Some s'"
  shows "buffer s' = buffer s \<and> linkLocalAddress s' = linkLocalAddress s \<and> localMac s' = localMac s
    \<and> dev s' = dev s \<and> autoConfigurationEnabled s' = autoConfigurationEnabled s
    \<and> bufferContainsReceived s' = bufferContainsReceived s \<and> (wf_ether s \<longrightarrow> wf_ether s')
    \<and> (\<not> IPv6Address_isZero (globalAddress s) \<longrightarrow> globalAddress s' = globalAddress s)"
  using assms
proof (induction rule: RA_loop_induct)
  case (step r i t t1 len t')
  then show ?case using RA_option_keeps [OF step(2)] by (simp del: not_None_eq)
qed simp

lemma RA_loop_stuck:
  assumes "EtherSia_icmp6ProcessRA_loop remaining ptr s = Some s'"
  shows "\<not> (0 <s remaining \<and> buffer s (ptr + 1) = 0)"
  using assms
proof (induction rule: RA_loop_induct)
  case (step r i t t1 len t')
  then show ?case using RA_option_keeps(1) [OF step(2)]
    by (auto simp: buf_at_def split: if_splits)
qed simp

text \<open>
  The specification: an option is its bytes, of which the second counts the length in units of eight,
  and has one effect on the configuration.
\<close>

definition wf_ra_option :: "byte list \<Rightarrow> bool" where
  "wf_ra_option opt \<longleftrightarrow> 8 \<le> length opt \<and> length opt = 8 * unat (opt ! 1)
     \<and> (opt ! 0 = 3 \<longrightarrow> 32 \<le> length opt) \<and> (opt ! 0 = 25 \<longrightarrow> 24 \<le> length opt)"

definition apply_ra_option :: "byte list \<Rightarrow> 'd ether \<Rightarrow> 'd ether" where
  "apply_ra_option opt s =
     (if opt ! 0 = 1 then s\<lparr>routerMac := take 6 (drop 2 opt)\<rparr>
      else if opt ! 0 = 3 \<and> opt ! 3 AND 0xC0 = 0xC0 \<and> opt ! 2 = 64 \<and> IPv6Address_isZero (globalAddress s)
        then s\<lparr>globalAddress := IPv6Address_setEui64 (take 16 (drop 16 opt)) (localMac s)\<rparr>
      else if opt ! 0 = 25 then s\<lparr>dnsServerAddress := take 16 (drop 8 opt)\<rparr>
      else s)"

lemma apply_ra_option_buffer [simp]: "buffer (apply_ra_option opt s) = buffer s"
  by (simp add: apply_ra_option_def)

lemma RA_option_apply:
  assumes "wf_ra_option opt" "rd_bytes (buffer s) ptr (length opt) = opt" "ptr + length opt \<le> 600"
  shows "EtherSia_icmp6ProcessRA_option ptr s = Some (apply_ra_option opt s)"
proof -
  have at: "buffer s (ptr + i) = opt ! i" if "i < length opt" for i
    using that assms(2) nth_rd_bytes [of i "length opt" "buffer s" ptr] by simp
  have rd: "rd_bytes (buffer s) (ptr + i) n = take n (drop i opt)" if "i + n \<le> length opt" for i n
    by (subst assms(2) [symmetric]) (use that in \<open>simp add: min_absorb1\<close>)
  have l: "8 \<le> length opt" using assms(1) by (simp add: wf_ra_option_def)
  have a0: "buf_at (buffer s) ptr = Some (opt ! 0)" using at [of 0] l assms(3) by (cases opt) (simp_all add: buf_at_def)
  consider (mac) "opt ! 0 = 1" | (prefix) "opt ! 0 = 3" | (dns) "opt ! 0 = 25"
    | (other) "opt ! 0 \<noteq> 1" "opt ! 0 \<noteq> 3" "opt ! 0 \<noteq> 25" by blast
  then show ?thesis
  proof cases
    case mac
    have "buf_rd (buffer s) (ptr + 2) 6 = Some (take 6 (drop 2 opt))"
      using rd [of 2 6] l assms(3) by (simp add: buf_rd_def)
    then show ?thesis using mac a0 by (simp add: EtherSia_icmp6ProcessRA_option_def apply_ra_option_def)
  next
    case prefix
    then have "32 \<le> length opt" using assms(1) by (simp add: wf_ra_option_def)
    then have "buf_at (buffer s) (ptr + 2) = Some (opt ! 2)" "buf_at (buffer s) (ptr + 2 + 1) = Some (opt ! 3)"
      "buf_rd (buffer s) (ptr + 2 + 14) 16 = Some (take 16 (drop 16 opt))"
      using at [of 2] at [of 3] rd [of 16 16] assms(3) by (simp_all add: buf_at_def buf_rd_def eval_nat_numeral)
    then show ?thesis using prefix a0
      by (simp add: EtherSia_icmp6ProcessRA_option_def EtherSia_icmp6ProcessPrefix_def apply_ra_option_def)
  next
    case dns
    then have "24 \<le> length opt" using assms(1) by (simp add: wf_ra_option_def)
    then have "buf_rd (buffer s) (ptr + 8) 16 = Some (take 16 (drop 8 opt))"
      using rd [of 8 16] assms(3) by (simp add: buf_rd_def)
    then show ?thesis using dns a0 by (simp add: EtherSia_icmp6ProcessRA_option_def apply_ra_option_def)
  next
    case other
    then show ?thesis using a0 by (simp add: EtherSia_icmp6ProcessRA_option_def apply_ra_option_def)
  qed
qed


lemma sgt0_u16: "n < 32768 \<Longrightarrow> 0 <s (word_of_nat n :: u16) \<longleftrightarrow> 0 < n"
proof -
  assume n: "n < 32768"
  then have "sint (word_of_nat n :: u16) = int n"
    by (simp add: signed_of_nat signed_take_bit_int_eq_self)
  then show ?thesis by (simp add: word_sless_alt)
qed

lemma RA_loop_fold:
  assumes "list_all wf_ra_option opts" "rd_bytes (buffer s) ptr (length (concat opts)) = concat opts"
    "ptr + length (concat opts) \<le> 600"
  shows "EtherSia_icmp6ProcessRA_loop (word_of_nat (length (concat opts))) ptr s = Some (fold apply_ra_option opts s)"
  using assms
proof (induction opts arbitrary: ptr s)
  case Nil
  then show ?case by (subst EtherSia_icmp6ProcessRA_loop.simps) (simp add: word_sless_alt)
next
  case (Cons opt opts)
  let ?n = "length (concat opts)"
  have o: "wf_ra_option opt" "8 \<le> length opt" "length opt = 8 * unat (opt ! 1)"
    using Cons.prems(1) unfolding list.pred_inject wf_ra_option_def by blast+
  have "rd_bytes (buffer s) ptr (length opt) @ rd_bytes (buffer s) (ptr + length opt) ?n = opt @ concat opts"
    using Cons.prems(2) rd_bytes_append [of "buffer s" ptr "length opt" ?n] by simp
  then have r: "rd_bytes (buffer s) ptr (length opt) = opt" "rd_bytes (buffer s) (ptr + length opt) ?n = concat opts"
    by simp_all
  have e: "EtherSia_icmp6ProcessRA_option ptr s = Some (apply_ra_option opt s)"
    using RA_option_apply [OF o(1) r(1)] Cons.prems(3) by simp
  have b: "buf_at (buffer s) (ptr + 1) = Some (opt ! 1)"
    using nth_rd_bytes [of 1 "length opt" "buffer s" ptr] r(1) o(2) Cons.prems(3) by (simp add: buf_at_def)
  have w: "(word_of_nat (length (concat (opt # opts))) :: u16) - 8 * ucast (opt ! 1) = word_of_nat ?n"
    using o(3) by (simp add: of_nat_add)
  have IH: "EtherSia_icmp6ProcessRA_loop (word_of_nat ?n) (ptr + 8 * unat (opt ! 1)) (apply_ra_option opt s)
      = Some (fold apply_ra_option opts (apply_ra_option opt s))"
    using Cons.IH [of "apply_ra_option opt s" "ptr + length opt"] Cons.prems r(2) o(3) by simp
  have "0 <s (word_of_nat (length (concat (opt # opts))) :: u16)"
    using Cons.prems(3) o(2) by (subst sgt0_u16) auto
  then show ?case
    by (subst EtherSia_icmp6ProcessRA_loop.simps) (simp add: e b [simplified] w [simplified One_nat_def] IH [simplified One_nat_def] del: concat.simps length_concat)
qed

lemma u16_minus_16: "unat (w :: u16) = 16 + k \<Longrightarrow> w - 4 - 12 = word_of_nat k"
proof -
  assume "unat w = 16 + k"
  moreover have "w = word_of_nat (unat w)" by simp
  ultimately have "w = 16 + word_of_nat k" by (simp only: of_nat_add of_nat_numeral)
  then show ?thesis by simp
qed

text \<open>
  C10. A router advertisement whose options are well formed configures the interface as its options
  say, in order: the router's MAC address, the global address if none is set (an autonomous on-link
  /64 prefix, completed with this interface's EUI-64), and the DNS server. The loop over the options
  returns and reads only inside the packet.
\<close>

theorem icmp6ProcessRA_applies_options:
  assumes "list_all wf_ra_option opts"
    and "rd_bytes (buffer s) icmp6_ra_options (length (concat opts)) = concat opts"
    and "unat (IPv6Packet_payloadLength (buffer s)) = 16 + length (concat opts)"
    and "unat (IPv6Packet_payloadLength (buffer s)) \<le> 546"
  shows "EtherSia_icmp6ProcessRA s =
     Some (if autoConfigurationEnabled s then fold apply_ra_option opts s else s)"
proof -
  have "IPv6Packet_payloadLength (buffer s) - 4 - 12 = word_of_nat (length (concat opts))"
    by (rule u16_minus_16) (use assms(3) in simp)
  then show ?thesis
    using RA_loop_fold [of opts s 70] assms by (simp add: EtherSia_icmp6ProcessRA_def)
qed

text \<open>An advertisement to all nodes with the router's MAC address and the prefix 2001:db8::/64.\<close>

definition sample_options :: "byte list list" where
  "sample_options = [[1, 1, 2, 0, 0, 0, 0, 9],
     [3, 4, 64, 0xc0, 0, 0, 0, 0, 0, 0, 0, 0, 0, 0, 0, 0, 0x20, 1, 0xd, 0xb8, 0, 0, 0, 0, 0, 0, 0, 0, 0, 0, 0, 0]]"

definition sample_ra :: "unit ether" where
  "sample_ra = sample_ether\<lparr>buffer := wr_bytes (\<lambda>_. 0) 0
     ([0x33, 0x33, 0, 0, 0, 1, 2, 0, 0, 0, 0, 9] @ [0x86, 0xdd, 0x60, 0, 0, 0, 0, 56, 58, 255]
      @ [0xfe, 0x80, 0, 0, 0, 0, 0, 0, 0, 0, 0, 0, 0, 0, 0, 1] @ [0xff, 2, 0, 0, 0, 0, 0, 0, 0, 0, 0, 0, 0, 0, 0, 1]
      @ [134, 0, 0xc7, 0x7f, 64, 0, 0, 0, 0, 0, 0, 0, 0, 0, 0, 0] @ concat sample_options)\<rparr>"

lemma icmp6ProcessRA_applies_options_witness:
  "\<exists>s. EtherSia_icmp6ProcessRA sample_ra = Some s \<and> routerMac s = [2, 0, 0, 0, 0, 9]
     \<and> globalAddress s = [0x20, 1, 0xd, 0xb8, 0, 0, 0, 0, 0, 0, 0, 0xff, 0xfe, 0, 0, 1]"
proof -
  let ?s = "fold apply_ra_option sample_options sample_ra"
  have "list_all wf_ra_option sample_options"
    "rd_bytes (buffer sample_ra) icmp6_ra_options (length (concat sample_options)) = concat sample_options"
    "unat (IPv6Packet_payloadLength (buffer sample_ra)) = 16 + length (concat sample_options)"
    "unat (IPv6Packet_payloadLength (buffer sample_ra)) \<le> 546"
    by code_simp+
  then have "EtherSia_icmp6ProcessRA sample_ra
      = Some (if autoConfigurationEnabled sample_ra then ?s else sample_ra)"
    by (rule icmp6ProcessRA_applies_options)
  moreover have "autoConfigurationEnabled sample_ra" "routerMac ?s = [2, 0, 0, 0, 0, 9]"
    "globalAddress ?s = [0x20, 1, 0xd, 0xb8, 0, 0, 0, 0, 0, 0, 0, 0xff, 0xfe, 0, 0, 1]"
    by code_simp+
  ultimately show ?thesis by simp
qed

text \<open>
  C31. Processing a router advertisement never returns when the first option has length zero: the
  loop then makes no progress. One such packet from any neighbour stops the device.
\<close>

theorem icmp6ProcessRA_hangs_on_empty_option:
  assumes "autoConfigurationEnabled s" "16 < unat (IPv6Packet_payloadLength (buffer s))"
    "unat (IPv6Packet_payloadLength (buffer s)) \<le> 546" "buffer s (icmp6_ra_options + 1) = 0"
  shows "EtherSia_icmp6ProcessRA s = None"
proof (rule ccontr)
  let ?n = "unat (IPv6Packet_payloadLength (buffer s))"
  assume "EtherSia_icmp6ProcessRA s \<noteq> None"
  then obtain s' where "EtherSia_icmp6ProcessRA_loop (IPv6Packet_payloadLength (buffer s) - 4 - 12) 70 s = Some s'"
    using assms(1) by (auto simp: EtherSia_icmp6ProcessRA_def)
  then have "\<not> 0 <s IPv6Packet_payloadLength (buffer s) - 4 - 12"
    using RA_loop_stuck assms(4) by fastforce
  moreover have "IPv6Packet_payloadLength (buffer s) - 4 - 12 = word_of_nat (?n - 16)"
    by (rule u16_minus_16) (use assms(2) in simp)
  moreover have "0 <s (word_of_nat (?n - 16) :: u16)"
    using assms(2,3) by (subst sgt0_u16) auto
  ultimately show False by (simp only: not_True_eq_False)
qed

lemma icmp6ProcessRA_hangs_on_empty_option_witness:
  "EtherSia_icmp6ProcessRA (sample_ra\<lparr>buffer := (buffer sample_ra)(71 := 0)\<rparr>) = None"
  by (rule icmp6ProcessRA_hangs_on_empty_option) code_simp+

text \<open>
  A router advertisement never changes a global address that is set, nor the link-local
  address, the MAC address of this interface or the packet.
\<close>

theorem icmp6ProcessRA_keeps_address:
  assumes "EtherSia_icmp6ProcessRA s = Some s'"
  shows "buffer s' = buffer s \<and> linkLocalAddress s' = linkLocalAddress s \<and> localMac s' = localMac s
     \<and> (wf_ether s \<longrightarrow> wf_ether s')
     \<and> (\<not> IPv6Address_isZero (globalAddress s) \<longrightarrow> globalAddress s' = globalAddress s)"
  using assms RA_loop_keeps [of _ 70 s s'] by (auto simp: EtherSia_icmp6ProcessRA_def split: if_splits)

lemma icmp6ProcessRA_keeps_address_witness:
  "EtherSia_icmp6ProcessRA (EtherSia_disableAutoconfiguration sample_ra) = Some (EtherSia_disableAutoconfiguration sample_ra)
   \<and> wf_ether (EtherSia_disableAutoconfiguration sample_ra)"
proof -
  have r: "EtherSia_icmp6ProcessRA (EtherSia_disableAutoconfiguration sample_ra)
      = Some (EtherSia_disableAutoconfiguration sample_ra)"
    by (simp add: EtherSia_icmp6ProcessRA_def EtherSia_disableAutoconfiguration_def)
  have "wf_ether (EtherSia_disableAutoconfiguration sample_ra)" by code_simp
  with icmp6ProcessRA_keeps_address [OF r] r show ?thesis by blast
qed

section \<open>Receiving a packet\<close>

lemma icmp6PacketSend_Some:
  assumes "EtherSia_icmp6PacketSend p s = Some s'"
  shows "wf_ether s' = wf_ether s" "globalAddress s' = globalAddress s" "linkLocalAddress s' = linkLocalAddress s"
    "localMac s' = localMac s" "\<not> bufferContainsReceived s'"
  using assms by (auto simp: EtherSia_icmp6PacketSend_def EtherSia_send_def Let_def wf_ether_def
      split: Option.bind_splits if_splits)

lemma icmp6ProcessPacket_Some:
  assumes "EtherSia_icmp6ProcessPacket p s = Some (handled, s')" "wf_ether s"
  shows "wf_ether s'" "linkLocalAddress s' = linkLocalAddress s" "localMac s' = localMac s"
    "\<not> IPv6Address_isZero (globalAddress s) \<Longrightarrow> globalAddress s' = globalAddress s"
    "\<not> handled \<Longrightarrow> s' = s"
    "bufferContainsReceived s' \<Longrightarrow> buffer s' = buffer s"
proof -
  have pra: "EtherSia_icmp6ProcessRA s = Some t \<Longrightarrow> buffer t = buffer s \<and> linkLocalAddress t = linkLocalAddress s
      \<and> localMac t = localMac s \<and> wf_ether t
      \<and> (\<not> IPv6Address_isZero (globalAddress s) \<longrightarrow> globalAddress t = globalAddress s)" for t
    using RA_loop_keeps [of _ 70 s t] assms(2) by (auto simp: EtherSia_icmp6ProcessRA_def split: if_splits)
  have ns_reply: "EtherSia_icmp6NSReply p s = Some t \<Longrightarrow> t = s \<or> (wf_ether t \<and> linkLocalAddress t = linkLocalAddress s
      \<and> localMac t = localMac s \<and> globalAddress t = globalAddress s \<and> \<not> bufferContainsReceived t)" for t
    using assms(2) by (auto simp: EtherSia_icmp6NSReply_def Let_def prep_simps
        dest: icmp6PacketSend_Some split: if_splits)
  have ec: "EtherSia_icmp6EchoReply p s = Some t \<Longrightarrow> wf_ether t \<and> linkLocalAddress t = linkLocalAddress s
      \<and> localMac t = localMac s \<and> globalAddress t = globalAddress s \<and> \<not> bufferContainsReceived t" for t
    using assms(2) by (auto simp: EtherSia_icmp6EchoReply_def Let_def prep_simps dest: icmp6PacketSend_Some)
  consider (ignored) "handled = False" "s' = s" | (ns) "handled" "EtherSia_icmp6NSReply p s = Some s'"
    | (echo) "handled" "EtherSia_icmp6EchoReply p s = Some s'" | (ra) "handled" "EtherSia_icmp6ProcessRA s = Some s'"
    using assms(1) by (auto simp: EtherSia_icmp6ProcessPacket_def Let_def bind_eq_Some_conv split: if_splits)
  then have "(wf_ether s' \<and> linkLocalAddress s' = linkLocalAddress s \<and> localMac s' = localMac s)
      \<and> (\<not> IPv6Address_isZero (globalAddress s) \<longrightarrow> globalAddress s' = globalAddress s)
      \<and> (\<not> handled \<longrightarrow> s' = s) \<and> (bufferContainsReceived s' \<longrightarrow> buffer s' = buffer s)"
  proof cases
    case ignored
    with assms(2) show ?thesis by simp
  next
    case ns
    with ns_reply assms(2) show ?thesis by metis
  next
    case echo
    with ec assms(2) show ?thesis by metis
  next
    case ra
    with pra assms(2) show ?thesis by metis
  qed
  then show "wf_ether s'" "linkLocalAddress s' = linkLocalAddress s" "localMac s' = localMac s"
    "\<not> IPv6Address_isZero (globalAddress s) \<Longrightarrow> globalAddress s' = globalAddress s"
    "\<not> handled \<Longrightarrow> s' = s" "bufferContainsReceived s' \<Longrightarrow> buffer s' = buffer s" by blast+
qed

lemma valid_false_flag:
  "EtherSia_checkEthernetAddresses (s\<lparr>buffer := m, dev := d\<rparr>) = EtherSia_checkEthernetAddresses s"
  by (simp add: fun_eq_iff EtherSia_checkEthernetAddresses_def)

text \<open>The ways \<open>receivePacket\<close> ends: nothing to look at, a packet for the sockets, or one for ICMPv6.\<close>

lemma receivePacket_elim:
  assumes "EtherSia_receivePacket p s = Some (len, s')"
  obtains (ignored) frame d where "len = 0"
      "s' = s\<lparr>buffer := wr_bytes (buffer s) 0 frame, dev := d, bufferContainsReceived := False\<rparr>"
  | (received) frame d where "readFrame p 600 (dev s) = Some (frame, d)" "len = word_of_nat (length frame)"
      "IPv6Packet_isValid 600 (wr_bytes (buffer s) 0 frame) = Some True"
      "EtherSia_checkEthernetAddresses s (wr_bytes (buffer s) 0 frame)"
      "s' = s\<lparr>buffer := wr_bytes (buffer s) 0 frame, dev := d, bufferContainsReceived := True\<rparr>"
  | (icmp) frame d handled where "readFrame p 600 (dev s) = Some (frame, d)"
      "len = (if handled then 0 else word_of_nat (length frame))"
      "IPv6Packet_isValid 600 (wr_bytes (buffer s) 0 frame) = Some True"
      "EtherSia_checkEthernetAddresses s (wr_bytes (buffer s) 0 frame)"
      "EtherSia_icmp6ProcessPacket p (s\<lparr>buffer := wr_bytes (buffer s) 0 frame, dev := d, bufferContainsReceived := True\<rparr>)
         = Some (handled, s')"
  using assms
  by (auto simp: EtherSia_receivePacket_def Let_def valid_false_flag bind_eq_Some_conv split: if_splits)


text \<open>A driver whose state is the frame waiting, and which forgets what it sends.\<close>

definition one_frame_platform :: "byte list platform" where
  "one_frame_platform = \<lparr>readFrame = (\<lambda>n d. Some (take n d, [])), sendFrame = (\<lambda>f d. Some f),
     millis = (\<lambda>d. (0, d)), micros = (\<lambda>d. (0, d)), delay_ms = (\<lambda>t d. d), randomSeed = (\<lambda>t d. d),
     random_long = (\<lambda>d. (0, d)), random_range = (\<lambda>a b d. (a, d))\<rparr>"

definition with_frame :: "unit ether \<Rightarrow> byte list \<Rightarrow> byte list ether" where
  "with_frame s f = \<lparr>linkLocalAddress = linkLocalAddress s, globalAddress = globalAddress s,
     dnsServerAddress = dnsServerAddress s, localMac = localMac s, routerMac = routerMac s,
     buffer = (\<lambda>_. 0), bufferContainsReceived = False, autoConfigurationEnabled = True, dev = f\<rparr>"

definition sample_udp_frame :: "byte list" where
  "sample_udp_frame = [2, 0, 0, 0, 0, 1, 2, 0, 0, 0, 0, 9]
     @ rd_bytes (st16 sample_packet 54 (htons 0x01E4)) 12 46"


text \<open>
  C32. \<open>receivePacket\<close> believes the length field of the header: an IPv6 frame that claims more payload
  than fits the 600-byte buffer, whatever its real length, makes the checksum read past the buffer.
\<close>

theorem receivePacket_reads_past_buffer:
  assumes "readFrame p 600 (dev s) = Some (frame, d)" "14 < length frame" "length frame \<le> 600"
    and "IPv6Packet_etherType (wr_bytes (buffer s) 0 frame) = ETHER_TYPE_IPV6"
      "IPv6Packet_version (wr_bytes (buffer s) 0 frame) = 6"
      "546 < unat (IPv6Packet_payloadLength (wr_bytes (buffer s) 0 frame))"
  shows "EtherSia_receivePacket p s = None"
proof -
  have "(word_of_nat (length frame) :: u16) \<noteq> 0"
  proof -
    have "unat (word_of_nat (length frame) :: u16) = length frame"
      using assms(3) by (simp add: unsigned_of_nat take_bit_eq_mod)
    then show ?thesis using assms(2) by auto
  qed
  moreover have "IPv6Packet_isValid 600 (wr_bytes (buffer s) 0 frame) = None"
    using assms(4-6) by (simp add: IPv6Packet_isValid_def calculateChecksum_None etherType_raw)
  ultimately show ?thesis using assms(1,3) by (simp add: EtherSia_receivePacket_def)
qed

lemma receivePacket_reads_past_buffer_witness:
  "EtherSia_receivePacket one_frame_platform (with_frame sample_ether (sample_udp_frame[18 := 3])) = None"
proof -
  let ?f = "sample_udp_frame[18 := 3]" and ?s = "with_frame sample_ether (sample_udp_frame[18 := 3])"
  have l: "length ?f = 58" by code_simp
  have "readFrame one_frame_platform 600 (dev ?s) = Some (?f, [])"
    by (simp add: one_frame_platform_def with_frame_def l [simplified])
  then show ?thesis
    by (rule receivePacket_reads_past_buffer) code_simp+
qed

lemma ping_run:
  assumes "wf_ether s" "readFrame p 600 (dev s) = Some (frame, d)" "length frame \<le> 600" "58 \<le> length frame"
  defines "m \<equiv> wr_bytes (buffer s) 0 frame"
  assumes "IPv6Packet_isValid 600 m = Some True" "EtherSia_checkEthernetAddresses s m"
    "IPv6Packet_protocol m = IP6_PROTO_ICMP6" "m icmp6_type = ICMP6_TYPE_ECHO"
    "EtherSia_isOurAddress s (IPv6Packet_destination m) \<noteq> 0" "4 \<le> unat (IPv6Packet_payloadLength m)"
  shows "\<exists>r. EtherSia_receivePacket p s = (case r of None \<Rightarrow> None | Some s' \<Rightarrow> Some (0, s'))
     \<and> (\<exists>reply. sends p (s\<lparr>dev := d\<rparr>) reply r
         \<and> IPv6Packet_destination reply = IPv6Packet_source m
         \<and> IPv6Packet_etherDestination reply = IPv6Packet_etherSource m
         \<and> reply icmp6_type = ICMP6_TYPE_ECHO_REPLY \<and> reply icmp6_code = 0
         \<and> IPv6Packet_payloadLength reply = IPv6Packet_payloadLength m
         \<and> rd_bytes reply 58 (unat (IPv6Packet_payloadLength m) - 4)
           = rd_bytes m 58 (unat (IPv6Packet_payloadLength m) - 4))"
proof -
  let ?s = "s\<lparr>buffer := m, dev := d, bufferContainsReceived := True\<rparr>"
  have len: "unat (word_of_nat (length frame) :: u16) = length frame"
    using assms(3) by (simp add: unsigned_of_nat take_bit_eq_mod)
  then have nz: "(word_of_nat (length frame) :: u16) \<noteq> 0" using assms(4) by auto
  have "EtherSia_icmp6ProcessPacket p ?s = do { s \<leftarrow> EtherSia_icmp6EchoReply p ?s; Some (True, s) }"
    using assms(8-10) by (simp add: EtherSia_icmp6ProcessPacket_def EtherSia_isOurAddress_def)
  then have r: "EtherSia_receivePacket p s
      = (case EtherSia_icmp6EchoReply p ?s of None \<Rightarrow> None | Some s' \<Rightarrow> Some (0, s'))"
    using assms(2,3,6-8) nz
    by (simp add: EtherSia_receivePacket_def m_def [symmetric] valid_false_flag split: option.split)
  have w: "wf_ether ?s" using assms(1) by (simp add: wf_ether_def)
  let ?r = "EtherSia_icmp6EchoReply p ?s"
  obtain reply where x: "sends p ?s reply ?r"
    "IPv6Packet_destination reply = IPv6Packet_source (buffer ?s)"
    "IPv6Packet_etherDestination reply = IPv6Packet_etherSource (buffer ?s)"
    "IPv6Packet_payloadLength reply = IPv6Packet_payloadLength (buffer ?s)"
    "reply 54 = 129" "reply 55 = 0"
    "rd_bytes reply 58 (unat (IPv6Packet_payloadLength reply) - 4)
      = rd_bytes (buffer ?s) 58 (unat (IPv6Packet_payloadLength (buffer ?s)) - 4)"
    using icmp6EchoReply_echoes_aux [OF w, of p] assms(6,11) by auto
  have "sends p (s\<lparr>dev := d\<rparr>) reply ?r" using x(1) by (simp add: sends_def)
  with x r show ?thesis by (intro exI [of _ ?r] conjI exI [of _ reply]) simp_all
qed

text \<open>
  Ping, from driver to driver: when the driver delivers a valid echo request for one of this
  interface's addresses, from another Ethernet address, \<open>receivePacket\<close> hands exactly one frame back
  to it, the echo reply to the sender with the same data, and reports no packet to the application.
\<close>

theorem ping_is_answered:
  assumes "wf_ether s" "readFrame p 600 (dev s) = Some (frame, d)" "length frame \<le> 600" "58 \<le> length frame"
  defines "m \<equiv> wr_bytes (buffer s) 0 frame"
  assumes "IPv6Packet_isValid 600 m = Some True" "EtherSia_checkEthernetAddresses s m"
    "IPv6Packet_protocol m = IP6_PROTO_ICMP6" "m icmp6_type = ICMP6_TYPE_ECHO"
    "EtherSia_isOurAddress s (IPv6Packet_destination m) \<noteq> 0" "4 \<le> unat (IPv6Packet_payloadLength m)"
  shows "\<exists>r. EtherSia_receivePacket p s = (case r of None \<Rightarrow> None | Some s' \<Rightarrow> Some (0, s'))
     \<and> (\<exists>reply. sends p (s\<lparr>dev := d\<rparr>) reply r
         \<and> IPv6Packet_destination reply = IPv6Packet_source m
         \<and> IPv6Packet_etherDestination reply = IPv6Packet_etherSource m
         \<and> reply icmp6_type = ICMP6_TYPE_ECHO_REPLY \<and> reply icmp6_code = 0
         \<and> IPv6Packet_payloadLength reply = IPv6Packet_payloadLength m
         \<and> rd_bytes reply 58 (unat (IPv6Packet_payloadLength m) - 4)
           = rd_bytes m 58 (unat (IPv6Packet_payloadLength m) - 4))"
  using assms(1-4,6-) unfolding m_def by (rule ping_run)

definition sample_echo_frame :: "byte list" where
  "sample_echo_frame = [2, 0, 0, 0, 0, 1, 2, 0, 0, 0, 0, 9] @ rd_bytes (buffer sample_echo) 12 50"

lemma ping_is_answered_witness:
  "\<exists>s'. EtherSia_receivePacket one_frame_platform (with_frame sample_ether sample_echo_frame) = Some (0, s')
     \<and> buffer s' icmp6_type = ICMP6_TYPE_ECHO_REPLY
     \<and> rd_bytes (buffer s') 58 4 = [0, 1, 4, 3]"
proof -
  let ?s = "with_frame sample_ether sample_echo_frame"
  let ?m = "wr_bytes (buffer ?s) 0 sample_echo_frame"
  have f: "readFrame one_frame_platform 600 (dev ?s) = Some (sample_echo_frame, [])" by code_simp
  have h: "wf_ether ?s" "length sample_echo_frame \<le> 600" "58 \<le> length sample_echo_frame"
    "IPv6Packet_isValid 600 ?m = Some True" "EtherSia_checkEthernetAddresses ?s ?m"
    "IPv6Packet_protocol ?m = IP6_PROTO_ICMP6" "?m icmp6_type = ICMP6_TYPE_ECHO"
    "EtherSia_isOurAddress ?s (IPv6Packet_destination ?m) \<noteq> 0" "4 \<le> unat (IPv6Packet_payloadLength ?m)"
    by code_simp+
  obtain r reply where r: "EtherSia_receivePacket one_frame_platform ?s = (case r of None \<Rightarrow> None | Some s' \<Rightarrow> Some (0, s'))"
    "sends one_frame_platform (?s\<lparr>dev := []\<rparr>) reply r" "reply icmp6_type = 129"
    "rd_bytes reply 58 (unat (IPv6Packet_payloadLength ?m) - 4) = rd_bytes ?m 58 (unat (IPv6Packet_payloadLength ?m) - 4)"
    using ping_is_answered [OF h(1) f h(2-9)] by blast
  have "unat (IPv6Packet_payloadLength ?m) - 4 = 4" "rd_bytes ?m 58 4 = [0, 1, 4, 3]" by code_simp+
  moreover obtain s' where "r = Some s'" "buffer s' = reply"
    using r(2) by (auto simp: sends_def one_frame_platform_def)
  ultimately show ?thesis using r by auto
qed

section \<open>Other packets\<close>

text \<open>A frame the driver delivers that is valid, for this interface and not ICMPv6 is reported with its length.\<close>

lemma receive_other:
  assumes "readFrame p 600 (dev s) = Some (f, d)" "length f \<le> 600" "f \<noteq> []"
    "IPv6Packet_isValid 600 (wr_bytes (buffer s) 0 f) = Some True"
    "EtherSia_checkEthernetAddresses s (wr_bytes (buffer s) 0 f)"
    "IPv6Packet_protocol (wr_bytes (buffer s) 0 f) \<noteq> IP6_PROTO_ICMP6"
  shows "EtherSia_receivePacket p s = Some (word_of_nat (length f),
     s\<lparr>buffer := wr_bytes (buffer s) 0 f, dev := d, bufferContainsReceived := True\<rparr>)"
proof -
  have "unat (word_of_nat (length f) :: u16) = length f"
    using assms(2) by (simp add: unsigned_of_nat take_bit_eq_mod)
  then have "(word_of_nat (length f) :: u16) \<noteq> 0" using assms(3) by auto
  with assms show ?thesis
    by (simp add: EtherSia_receivePacket_def EtherSia_checkEthernetAddresses_def Let_def split: if_splits)
qed

text \<open>The same for the interface of the examples, and what sending is on its driver.\<close>

abbreviation received_frame :: "byte list \<Rightarrow> byte list ether" where
  "received_frame f \<equiv> (with_frame sample_ether f)\<lparr>buffer := wr_bytes (\<lambda>_. 0) 0 f, dev := [], bufferContainsReceived := True\<rparr>"

lemma one_frame_receives:
  assumes "length f \<le> 600" "f \<noteq> []" "IPv6Packet_isValid 600 (wr_bytes (\<lambda>_. 0) 0 f) = Some True"
    "EtherSia_checkEthernetAddresses sample_ether (wr_bytes (\<lambda>_. 0) 0 f)"
    "IPv6Packet_protocol (wr_bytes (\<lambda>_. 0) 0 f) \<noteq> IP6_PROTO_ICMP6"
  shows "EtherSia_receivePacket one_frame_platform (with_frame sample_ether f) = Some (word_of_nat (length f), received_frame f)"
proof -
  have "buffer (with_frame sample_ether f) = (\<lambda>_. 0)" "readFrame one_frame_platform 600 (dev (with_frame sample_ether f)) = Some (f, [])"
    "EtherSia_checkEthernetAddresses (with_frame sample_ether f) = EtherSia_checkEthernetAddresses sample_ether"
    using assms(1) by (simp_all add: with_frame_def one_frame_platform_def EtherSia_checkEthernetAddresses_def fun_eq_iff)
  then show ?thesis using receive_other [of one_frame_platform "with_frame sample_ether f" f] assms by simp
qed

lemma one_frame_sends:
  assumes "sends one_frame_platform s m r"
  obtains s' where "r = Some s'" "buffer s' = m"
  using assms by (auto simp: sends_def one_frame_platform_def)

end
