(* ===== verification/Socket_Base.thy ===== *)
theory Socket_Base
  imports ICMPv6
begin

text \<open>
  \<open>src/src/Socket.cpp\<close>: the state every socket has and the operations of the abstract class. Its pure
  virtual and overridable methods are a record of functions \<open>vt\<close>, the virtual table, over the type
  \<open>'s\<close> of the concrete socket; an operation that calls a virtual method takes it as an argument. A
  pointer into the packet is its offset in the buffer. Resolving a host name is in theory \<open>DNS\<close>.
\<close>

record socket =
  remoteAddress :: ip6
  remoteMac :: mac
  remotePort :: u16
  localPort :: u16
  writePos :: u16

record ('d, 's) socket_vt =
  vt_payload :: "'d ether \<Rightarrow> nat"
  vt_payloadLength :: "'d ether \<Rightarrow> u16"
  vt_transmitPayload :: "'d ether \<Rightarrow> nat"
  vt_sendInternal :: "'d platform \<Rightarrow> u16 \<Rightarrow> bool \<Rightarrow> 's \<Rightarrow> 'd ether \<Rightarrow> ('s \<times> 'd ether) option"
  vt_handleWriteNewline :: "'d platform \<Rightarrow> 's \<Rightarrow> 'd ether \<Rightarrow> (bool \<times> 's \<times> 'd ether) option"
  vt_writePayloadHeader :: "'d platform \<Rightarrow> 's \<Rightarrow> 'd ether \<Rightarrow> ('s \<times> 'd ether) option"

text \<open>The constructor; \<open>_remoteMac\<close> is constructed as zero. \<open>_writePos\<close> is an \<open>int16_t\<close>, here -1.\<close>

definition Socket_new :: "u16 \<Rightarrow> socket" where
  "Socket_new local_port = \<lparr>remoteAddress = IPv6Address_zero, remoteMac = MACAddress_zero,
     remotePort = 0, localPort = local_port, writePos = -1\<rparr>"

definition Socket_setRemoteAddress ::
    "'d platform \<Rightarrow> ip6 \<Rightarrow> u16 \<Rightarrow> 'a socket_scheme \<Rightarrow> 'd ether \<Rightarrow> (bool \<times> 'a socket_scheme \<times> 'd ether) option" where
  "Socket_setRemoteAddress p address port k s =
     (let k = k\<lparr>remotePort := port, remoteAddress := address\<rparr>;
          (k, s) = (if localPort k = 0
                    then let (r, d) = random_range p 20000 30000 (dev s)
                         in (k\<lparr>localPort := ucast r\<rparr>, s\<lparr>dev := d\<rparr>)
                    else (k, s))
      in if EtherSia_inOurSubnet s (remoteAddress k) \<noteq> 0 then do {
           (mac, s) \<leftarrow> EtherSia_discoverNeighbour p (remoteAddress k) NEIGHBOUR_SOLICITATION_ATTEMPTS s;
           case mac of None \<Rightarrow> Some (False, k, s)
             | Some mac \<Rightarrow> Some (True, k\<lparr>remoteMac := mac\<rparr>, s)
         }
         else Some (True, k\<lparr>remoteMac := routerMac s\<rparr>, s))"

definition Socket_packetSource :: "'d ether \<Rightarrow> ip6" where
  "Socket_packetSource s = IPv6Packet_source (buffer s)"

definition Socket_packetDestination :: "'d ether \<Rightarrow> ip6" where
  "Socket_packetDestination s = IPv6Packet_destination (buffer s)"

section \<open>Sending\<close>

definition Socket_prepare :: "bool \<Rightarrow> 'a socket_scheme \<Rightarrow> 'd ether \<Rightarrow> 'd ether" where
  "Socket_prepare isReply k s =
     (if isReply then EtherSia_prepareReply s
      else
        let packet = IPv6Packet_setDestination (buffer s) (remoteAddress k);
            packet = IPv6Packet_setEtherDestination packet (remoteMac k)
        in EtherSia_prepareSend (s\<lparr>buffer := packet\<rparr>))"

definition Socket_send ::
    "('d, 'a socket_scheme) socket_vt \<Rightarrow> 'd platform \<Rightarrow> u16 \<Rightarrow> bool \<Rightarrow> 'a socket_scheme \<Rightarrow> 'd ether \<Rightarrow>
     ('a socket_scheme \<times> 'd ether) option" where
  "Socket_send vt p len isReply k s = vt_sendInternal vt p len isReply k (Socket_prepare isReply k s)"

definition Socket_send_data ::
    "('d, 'a socket_scheme) socket_vt \<Rightarrow> 'd platform \<Rightarrow> byte list \<Rightarrow> bool \<Rightarrow> 'a socket_scheme \<Rightarrow> 'd ether \<Rightarrow>
     ('a socket_scheme \<times> 'd ether) option" where
  "Socket_send_data vt p data isReply k s = do {
     m \<leftarrow> buf_wr (buffer s) (vt_transmitPayload vt s) data;
     Socket_send vt p (word_of_nat (length data)) isReply k (s\<lparr>buffer := m\<rparr>)
   }"

text \<open>Sending what was written through the \<open>Print\<close> interface; \<open>_writePos > 0\<close> is a signed comparison.\<close>

definition Socket_send_written ::
    "('d, 'a socket_scheme) socket_vt \<Rightarrow> 'd platform \<Rightarrow> bool \<Rightarrow> 'a socket_scheme \<Rightarrow> 'd ether \<Rightarrow>
     ('a socket_scheme \<times> 'd ether) option" where
  "Socket_send_written vt p isReply k s =
     (if 0 <s writePos k then do {
        (k, s) \<leftarrow> Socket_send vt p (writePos k) isReply k s;
        Some (k\<lparr>writePos := -1\<rparr>, s)
      } else Some (k, s))"

definition Socket_sendReply ::
    "('d, 'a socket_scheme) socket_vt \<Rightarrow> 'd platform \<Rightarrow> u16 \<Rightarrow> 'a socket_scheme \<Rightarrow> 'd ether \<Rightarrow>
     ('a socket_scheme \<times> 'd ether) option" where
  "Socket_sendReply vt p len k s = Socket_send vt p len True k s"

definition Socket_sendReply_data ::
    "('d, 'a socket_scheme) socket_vt \<Rightarrow> 'd platform \<Rightarrow> byte list \<Rightarrow> 'a socket_scheme \<Rightarrow> 'd ether \<Rightarrow>
     ('a socket_scheme \<times> 'd ether) option" where
  "Socket_sendReply_data vt p data k s = Socket_send_data vt p data True k s"

definition Socket_sendReply_written ::
    "('d, 'a socket_scheme) socket_vt \<Rightarrow> 'd platform \<Rightarrow> 'a socket_scheme \<Rightarrow> 'd ether \<Rightarrow>
     ('a socket_scheme \<times> 'd ether) option" where
  "Socket_sendReply_written vt p k s = Socket_send_written vt p True k s"

section \<open>Reading and writing the payload\<close>

text \<open>\<open>strncmp\<close> of the packet at \<open>off\<close> with a C string, as equality of the first \<open>n\<close> characters.\<close>

fun strncmp_eq :: "mem \<Rightarrow> nat \<Rightarrow> byte list \<Rightarrow> nat \<Rightarrow> bool option" where
  "strncmp_eq m off str 0 = Some True"
| "strncmp_eq m off [] (Suc n) = do { c \<leftarrow> buf_at m off; Some (c = 0) }"
| "strncmp_eq m off (d # str) (Suc n) = do {
     c \<leftarrow> buf_at m off;
     if c \<noteq> d then Some False else strncmp_eq m (Suc off) str n
   }"

definition Socket_payloadEquals :: "('d, 's) socket_vt \<Rightarrow> byte list \<Rightarrow> 'd ether \<Rightarrow> bool option" where
  "Socket_payloadEquals vt str s =
     strncmp_eq (buffer s) (vt_payload vt s) str (unat (vt_payloadLength vt s))"

text \<open>The default implementations of the two hooks of \<open>write\<close>.\<close>

definition Socket_handleWriteNewline :: "'d platform \<Rightarrow> 's \<Rightarrow> 'd ether \<Rightarrow> (bool \<times> 's \<times> 'd ether) option" where
  "Socket_handleWriteNewline p k s = Some (True, k, s)"

definition Socket_writePayloadHeader :: "'d platform \<Rightarrow> 's \<Rightarrow> 'd ether \<Rightarrow> ('s \<times> 'd ether) option" where
  "Socket_writePayloadHeader p k s = Some (k, s)"

text \<open>
  \<open>payload\<close> is computed before the hooks run. A negative \<open>_writePos\<close> writes before the payload.
\<close>

definition Socket_write ::
    "('d, 'a socket_scheme) socket_vt \<Rightarrow> 'd platform \<Rightarrow> byte \<Rightarrow> 'a socket_scheme \<Rightarrow> 'd ether \<Rightarrow>
     (nat \<times> 'a socket_scheme \<times> 'd ether) option" where
  "Socket_write vt p chr k s =
     (let payload = vt_transmitPayload vt s in do {
        (doWriteChar, k, s) \<leftarrow>
          (if chr = 0x0A \<or> chr = 0x0D then vt_handleWriteNewline vt p k s
           else if writePos k = -1 then do {
             (k, s) \<leftarrow> vt_writePayloadHeader vt p (k\<lparr>writePos := 0\<rparr>) s;
             Some (True, k, s)
           }
           else Some (True, k, s));
        if doWriteChar then
          let i = int payload + sint (writePos k) in
          if 0 \<le> i then do {
            m \<leftarrow> buf_wr (buffer s) (nat i) [chr];
            Some (1, k\<lparr>writePos := writePos k + 1\<rparr>, s\<lparr>buffer := m\<rparr>)
          } else None
        else Some (0, k, s)
      })"

text \<open>The functions of the Arduino \<open>Print\<close> class the library calls: each character goes to \<open>write\<close>.\<close>

fun Socket_print ::
    "('d, 'a socket_scheme) socket_vt \<Rightarrow> 'd platform \<Rightarrow> byte list \<Rightarrow> 'a socket_scheme \<Rightarrow> 'd ether \<Rightarrow>
     ('a socket_scheme \<times> 'd ether) option" where
  "Socket_print vt p [] k s = Some (k, s)"
| "Socket_print vt p (c # str) k s = do {
     (n, k, s) \<leftarrow> Socket_write vt p c k s;
     Socket_print vt p str k s
   }"

definition Socket_println ::
    "('d, 'a socket_scheme) socket_vt \<Rightarrow> 'd platform \<Rightarrow> byte list \<Rightarrow> 'a socket_scheme \<Rightarrow> 'd ether \<Rightarrow>
     ('a socket_scheme \<times> 'd ether) option" where
  "Socket_println vt p str k s = do {
     (k, s) \<leftarrow> Socket_print vt p str k s;
     Socket_print vt p [0x0D, 0x0A] k s
   }"

section \<open>Printing into a packet\<close>

lemma Socket_print_append:
  "Socket_print vt p (a @ b) k s = do { (k, s) \<leftarrow> Socket_print vt p a k s; Socket_print vt p b k s }"
proof (induction a arbitrary: k s)
  case (Cons c a)
  show ?case by (cases "Socket_write vt p c k s") (auto simp: Cons)
qed simp

lemma Socket_println_print:
  "Socket_println vt p str k s = Socket_print vt p (str @ [0x0D, 0x0A]) k s"
  by (simp only: Socket_println_def Socket_print_append)

text \<open>
  The contract of a socket class that keeps the default hooks and transmits its payload from one
  place \<open>P\<close> of the buffer: what is printed is laid out there byte for byte.
\<close>

locale plain_socket =
  fixes vt :: "('d, 'a socket_scheme) socket_vt" and P :: nat
  assumes newline: "vt_handleWriteNewline vt = Socket_handleWriteNewline"
    and header: "vt_writePayloadHeader vt = Socket_writePayloadHeader"
    and transmit: "vt_transmitPayload vt s = P"
begin

definition written :: "'a socket_scheme \<Rightarrow> nat" where
  "written k = (if writePos k = -1 then 0 else unat (writePos k))"

lemma written_set: "n < 32768 \<Longrightarrow> written (k\<lparr>writePos := word_of_nat n\<rparr>) = n"
proof -
  assume n: "n < 32768"
  then have u: "unat (word_of_nat n :: u16) = n" by (simp add: unsigned_of_nat take_bit_eq_mod)
  have "(word_of_nat n :: u16) \<noteq> - 1"
  proof
    assume "(word_of_nat n :: u16) = - 1"
    then have "n = unat (- 1 :: u16)" using u by simp
    then have "n = 65535" by (simp add: unsigned_minus_1_eq_mask mask_eq_exp_minus_1)
    with n show False by simp
  qed
  then show ?thesis by (simp add: written_def u)
qed

lemma write_run:
  assumes "chr \<noteq> 0x0A \<and> chr \<noteq> 0x0D \<or> writePos k \<noteq> -1" "written k < 32767" "P + written k < 600"
  shows "Socket_write vt p chr k s = Some (1, k\<lparr>writePos := word_of_nat (written k + 1)\<rparr>,
     s\<lparr>buffer := wr_bytes (buffer s) (P + written k) [chr]\<rparr>)"
proof -
  let ?k = "if writePos k = -1 then k\<lparr>writePos := 0\<rparr> else k"
  have w: "writePos ?k = word_of_nat (written k)" by (simp add: written_def)
  have "sint (word_of_nat (written k) :: u16) = int (written k)"
    using assms(2) by (simp add: signed_of_nat signed_take_bit_int_eq_self)
  then have i: "int P + sint (writePos ?k) = int (P + written k)" using w by simp
  have wp: "writePos ?k + 1 = word_of_nat (written k + 1)" using w by simp
  have bw: "buf_wr (buffer s) (P + written k) [chr] = Some (wr_bytes (buffer s) (P + written k) [chr])"
    using assms(3) by (simp add: buf_wr_def)
  have hook: "(if chr = 0x0A \<or> chr = 0x0D then vt_handleWriteNewline vt p k s
      else if writePos k = -1 then do {
        (k, s) \<leftarrow> vt_writePayloadHeader vt p (k\<lparr>writePos := 0\<rparr>) s;
        Some (True, k, s)
      }
      else Some (True, k, s)) = Some (True, ?k, s)"
    using assms(1) by (auto simp: newline header Socket_handleWriteNewline_def Socket_writePayloadHeader_def)
  have "0 \<le> int P + sint (writePos ?k)" "nat (int P + sint (writePos ?k)) = P + written k"
    unfolding i by simp_all
  moreover have "?k\<lparr>writePos := x\<rparr> = k\<lparr>writePos := x\<rparr>" for x by simp
  ultimately show ?thesis
    unfolding Socket_write_def hook Let_def transmit by (simp only: bind.bind_lunit prod.case if_True bw wp)
qed

lemma print_run:
  assumes "str \<noteq> []" "hd str \<noteq> 0x0A \<and> hd str \<noteq> 0x0D \<or> writePos k \<noteq> -1"
    "written k + length str < 32768" "P + written k + length str \<le> 600"
  shows "Socket_print vt p str k s = Some (k\<lparr>writePos := word_of_nat (written k + length str)\<rparr>,
     s\<lparr>buffer := wr_bytes (buffer s) (P + written k) str\<rparr>)"
  using assms
proof (induction str arbitrary: k s)
  case (Cons c str)
  let ?k = "k\<lparr>writePos := word_of_nat (written k + 1)\<rparr>"
  let ?s = "s\<lparr>buffer := wr_bytes (buffer s) (P + written k) [c]\<rparr>"
  have w: "Socket_write vt p c k s = Some (1, ?k, ?s)"
    using Cons.prems by (intro write_run) auto
  show ?case
  proof (cases "str = []")
    case True
    then show ?thesis using w by simp
  next
    case False
    have n: "written ?k = written k + 1" using Cons.prems(3) False by (intro written_set) (cases str; simp)
    then have "writePos ?k \<noteq> -1" by (auto simp: written_def split: if_splits)
    then have "Socket_print vt p str ?k ?s = Some (?k\<lparr>writePos := word_of_nat (written ?k + length str)\<rparr>,
        ?s\<lparr>buffer := wr_bytes (buffer ?s) (P + written ?k) str\<rparr>)"
      using Cons.prems False n by (intro Cons.IH) auto
    then show ?thesis
      using w n wr_bytes_append [of "buffer s" "P + written k" "[c]" str] by simp
  qed
qed simp

text \<open>Printing changes nothing but the position of the socket and the packet.\<close>

lemma print_keeps:
  "Socket_print vt p str k s = Some (k', s') \<Longrightarrow> \<exists>w m. k' = k\<lparr>writePos := w\<rparr> \<and> s' = s\<lparr>buffer := m\<rparr>"
proof (induction str arbitrary: k s)
  case Nil
  then have "k' = k\<lparr>writePos := writePos k\<rparr> \<and> s' = s\<lparr>buffer := buffer s\<rparr>" by simp
  then show ?case by blast
next
  case (Cons c str)
  obtain n k1 s1 where w: "Socket_write vt p c k s = Some (n, k1, s1)" "Socket_print vt p str k1 s1 = Some (k', s')"
    using Cons.prems by (auto split: Option.bind_splits)
  have "\<exists>w m. k1 = k\<lparr>writePos := w\<rparr> \<and> s1 = s\<lparr>buffer := m\<rparr>"
    using w(1) by (auto simp: Socket_write_def newline header Socket_handleWriteNewline_def Socket_writePayloadHeader_def Let_def
        split: if_splits Option.bind_splits)
  then show ?case using Cons.IH [OF w(2)] by auto
qed

text \<open>There is no check of the size: text that does not fit is stored behind the buffer.\<close>

lemma write_overrun:
  assumes "writePos k \<noteq> -1" "written k < 32768" "600 \<le> P + written k"
  shows "Socket_write vt p chr k s = None"
proof -
  have w: "writePos k = word_of_nat (written k)" using assms(1) by (simp add: written_def)
  have "sint (word_of_nat (written k) :: u16) = int (written k)"
    using assms(2) by (simp add: signed_of_nat signed_take_bit_int_eq_self)
  then have i: "int P + sint (writePos k) = int (P + written k)" using w by simp
  show ?thesis
    using assms(1,3) unfolding Socket_write_def Let_def transmit newline header
    by (simp add: Socket_handleWriteNewline_def i buf_wr_def del: of_nat_add)
qed

lemma print_overrun:
  assumes "hd str \<noteq> 0x0A" "hd str \<noteq> 0x0D" "writePos k = -1" "P < 600" "600 < P + length str"
  shows "Socket_print vt p str k s = None"
proof -
  let ?n = "600 - P"
  let ?k = "k\<lparr>writePos := word_of_nat ?n\<rparr>"
  have z: "written k = 0" using assms(3) by (simp add: written_def)
  have h: "take ?n str \<noteq> []" "hd (take ?n str) = hd str" "length (take ?n str) = ?n" using assms(4,5) by auto
  have "\<not> length str \<le> ?n" using assms(4,5) by linarith
  then obtain c cs where d: "drop ?n str = c # cs" by (cases "drop ?n str") auto
  have run: "Socket_print vt p (take ?n str) k s = Some (?k, s\<lparr>buffer := wr_bytes (buffer s) P (take ?n str)\<rparr>)"
    using print_run [of "take ?n str" k p s] h z assms(1,2,4) by simp
  have "written ?k = ?n" by (rule written_set) simp
  moreover from this have "writePos ?k \<noteq> -1" using assms(4) by (auto simp: written_def split: if_splits)
  ultimately have "Socket_write vt p c ?k s' = None" for s' using assms(4) by (intro write_overrun) auto
  moreover have "str = take ?n str @ c # cs" using append_take_drop_id [of ?n str] d by simp
  ultimately show ?thesis
    using Socket_print_append [of vt p "take ?n str" "c # cs" k s] run by simp
qed

end

text \<open>
  A line break printed first is not part of the payload: nothing has set \<open>_writePos\<close> to 0, so it is
  stored one byte before the payload and the next character is the first of the payload.
\<close>

lemma write_newline_first:
  assumes "vt_handleWriteNewline vt = Socket_handleWriteNewline" "writePos k = -1" "chr = 0x0A \<or> chr = 0x0D"
    "0 < vt_transmitPayload vt s" "vt_transmitPayload vt s \<le> 600"
  shows "Socket_write vt p chr k s = Some (1, k\<lparr>writePos := 0\<rparr>,
     s\<lparr>buffer := wr_bytes (buffer s) (vt_transmitPayload vt s - 1) [chr]\<rparr>)"
proof -
  have i: "int (vt_transmitPayload vt s) + sint (writePos k) = int (vt_transmitPayload vt s - 1)"
    using assms(2,4) by (simp add: of_nat_diff)
  have n: "nat (int (vt_transmitPayload vt s) - 1) = vt_transmitPayload vt s - 1" by simp
  have "(0 :: int) \<le> int (vt_transmitPayload vt s - 1)" by simp
  then show ?thesis
    using assms by (auto simp: Socket_write_def Socket_handleWriteNewline_def i Let_def buf_wr_def n)
qed

end
