(* ===== verification/UDP_Socket.thy ===== *)
theory UDP_Socket
  imports Socket_Base
begin

text \<open>
  \<open>src/src/UDPSocket.cpp\<close> and \<open>UDPSocket.h\<close>: deciding whether the packet in the buffer is for a
  socket, and sending. A \<open>UDPSocket\<close> adds no state to a \<open>Socket\<close>.
\<close>

abbreviation (input) udp_sourcePort :: nat where "udp_sourcePort \<equiv> 54"
abbreviation (input) udp_destinationPort :: nat where "udp_destinationPort \<equiv> 56"
abbreviation (input) udp_length :: nat where "udp_length \<equiv> 58"
abbreviation (input) udp_checksum :: nat where "udp_checksum \<equiv> 60"
abbreviation (input) UDP_HEADER_LEN :: u16 where "UDP_HEADER_LEN \<equiv> 8"

definition UDPSocket_packetSourcePort :: "'d ether \<Rightarrow> u16" where
  "UDPSocket_packetSourcePort s = ntohs (ld16 (buffer s) udp_sourcePort)"

definition UDPSocket_packetDestinationPort :: "'d ether \<Rightarrow> u16" where
  "UDPSocket_packetDestinationPort s = ntohs (ld16 (buffer s) udp_destinationPort)"

definition UDPSocket_payload :: "'d ether \<Rightarrow> nat" where
  "UDPSocket_payload s = off_payload + 8"

definition UDPSocket_payloadLength :: "'d ether \<Rightarrow> u16" where
  "UDPSocket_payloadLength s = ntohs (ld16 (buffer s) udp_length) - UDP_HEADER_LEN"

definition UDPSocket_havePacket :: "'a socket_scheme \<Rightarrow> 'd ether \<Rightarrow> bool" where
  "UDPSocket_havePacket k s =
     (let packet = buffer s in
      if \<not> bufferContainsReceived s then False
      else if IPv6Packet_protocol packet \<noteq> IP6_PROTO_UDP then False
      else if UDPSocket_packetDestinationPort s \<noteq> localPort k then False
      else if remotePort k \<noteq> 0 \<and> UDPSocket_packetSourcePort s \<noteq> remotePort k then False
      else if EtherSia_isOurAddress s (Socket_packetDestination s) = 0 then False
      else if \<not> IPv6Address_isZero (remoteAddress k)
        \<and> IPv6Address_neq (Socket_packetSource s) (remoteAddress k) then False
      else True)"

definition UDPSocket_sendInternal ::
    "'d platform \<Rightarrow> u16 \<Rightarrow> bool \<Rightarrow> 'a socket_scheme \<Rightarrow> 'd ether \<Rightarrow> ('a socket_scheme \<times> 'd ether) option" where
  "UDPSocket_sendInternal p len isReply k s =
     (let totalLen = UDP_HEADER_LEN + len;
          packet = IPv6Packet_setProtocol (buffer s) IP6_PROTO_UDP;
          packet = IPv6Packet_setPayloadLength packet totalLen;
          packet = st16 packet udp_length (htons totalLen);
          packet = (if isReply then st16 packet udp_destinationPort (ld16 packet udp_sourcePort)
                    else st16 packet udp_destinationPort (ntohs (remotePort k)));
          packet = st16 packet udp_sourcePort (ntohs (localPort k));
          packet = st16 packet udp_checksum 0
      in do {
        c \<leftarrow> buffer_checksum packet;
        let packet = st16 packet udp_checksum (htons c);
        s \<leftarrow> EtherSia_send p (s\<lparr>buffer := packet\<rparr>);
        Some (k, s)
      })"

definition UDPSocket_vt :: "('d, 'a socket_scheme) socket_vt" where
  "UDPSocket_vt = \<lparr>vt_payload = UDPSocket_payload, vt_payloadLength = UDPSocket_payloadLength,
     vt_transmitPayload = UDPSocket_payload, vt_sendInternal = UDPSocket_sendInternal,
     vt_handleWriteNewline = Socket_handleWriteNewline, vt_writePayloadHeader = Socket_writePayloadHeader\<rparr>"

interpretation udp_print: plain_socket UDPSocket_vt 62
  by unfold_locales (simp_all add: UDPSocket_vt_def UDPSocket_payload_def)

section \<open>What is sent and what is accepted\<close>

definition wf_socket :: "'a socket_scheme \<Rightarrow> bool" where
  "wf_socket k \<longleftrightarrow> wf_ip (remoteAddress k) \<and> wf_mac (remoteMac k)"

lemma Socket_prepare_wf [simp]: "wf_ether (Socket_prepare isReply k s) = wf_ether s"
  by (simp add: Socket_prepare_def Let_def)

lemma sends_Socket_prepare [simp]: "sends p (Socket_prepare isReply k s) m r = sends p s m r"
  by (simp add: Socket_prepare_def Let_def)

lemma Socket_prepare_not_reply:
  assumes "wf_ether s" "wf_socket k"
  shows "IPv6Packet_etherType (buffer (Socket_prepare False k s)) = ETHER_TYPE_IPV6"
    "IPv6Packet_version (buffer (Socket_prepare False k s)) = 6"
    "IPv6Packet_destination (buffer (Socket_prepare False k s)) = remoteAddress k"
    "IPv6Packet_etherDestination (buffer (Socket_prepare False k s)) = remoteMac k"
    "IPv6Packet_etherSource (buffer (Socket_prepare False k s)) = localMac s"
    "IPv6Packet_hopLimit (buffer (Socket_prepare False k s)) = 64"
    "IPv6Packet_source (buffer (Socket_prepare False k s)) =
       (if IPv6Address_isLinkLocal (remoteAddress k) \<or> IPv6Address_isZero (globalAddress s)
        then linkLocalAddress s else globalAddress s)"
    "54 \<le> off \<Longrightarrow> rd_bytes (buffer (Socket_prepare False k s)) off n = rd_bytes (buffer s) off n"
  using assms
  by (simp_all add: Socket_prepare_def Let_def prep_simps hdr_simps send_source_def wf_socket_def wf_ip_def wf_mac_def)

lemma UDP_sendInternal_seal:
  "UDPSocket_sendInternal p len isReply k s = map_option (Pair k) (seal_and_send p 60 (s\<lparr>buffer :=
     st16 (st16 (st16 (IPv6Packet_setPayloadLength (IPv6Packet_setProtocol (buffer s) 17) (8 + len))
       58 (htons (8 + len))) 56 (if isReply then ld16 (buffer s) 54 else ntohs (remotePort k)))
       54 (ntohs (localPort k))\<rparr>))"
  by (simp add: UDPSocket_sendInternal_def seal_and_send_def Let_def map_option_bind hdr_simps
      bind_map_option comp_def option.case_distrib split: Option.bind_split)

text \<open>One send: the header and the payload of the packet handed to the driver.\<close>

lemma UDP_sendInternal_sends:
  assumes "IPv6Packet_etherType (buffer s) = ETHER_TYPE_IPV6" "IPv6Packet_version (buffer s) = 6"
    "unat len \<le> 538"
  shows "\<exists>m r. UDPSocket_sendInternal p len isReply k s = map_option (Pair k) r \<and> sends p s m r
     \<and> IPv6Packet_protocol m = IP6_PROTO_UDP \<and> IPv6Packet_payloadLength m = 8 + len
     \<and> ntohs (ld16 m udp_length) = 8 + len
     \<and> ntohs (ld16 m udp_sourcePort) = localPort k
     \<and> ntohs (ld16 m udp_destinationPort) = (if isReply then ntohs (ld16 (buffer s) udp_sourcePort) else remotePort k)
     \<and> (\<forall>i. i < 18 \<or> (21 \<le> i \<and> i < 54) \<or> 62 \<le> i \<longrightarrow> m i = buffer s i)"
proof -
  let ?m = "st16 (st16 (st16 (IPv6Packet_setPayloadLength (IPv6Packet_setProtocol (buffer s) 17) (8 + len))
       58 (htons (8 + len))) 56 (if isReply then ld16 (buffer s) 54 else ntohs (remotePort k)))
       54 (ntohs (localPort k))"
  have "unat (8 + len) = 8 + unat len" using assms(3) by (simp add: unat_word_ariths)
  moreover have h: "IPv6Packet_etherType ?m = ETHER_TYPE_IPV6" "IPv6Packet_version ?m = 6"
    "IPv6Packet_payloadLength ?m = 8 + len"
    using assms by (simp_all add: hdr_simps)
  ultimately obtain c where x: "sends p s (st16 ?m 60 (htons c)) (seal_and_send p 60 (s\<lparr>buffer := ?m\<rparr>))"
    using seal_and_send_sends [of "s\<lparr>buffer := ?m\<rparr>" 60 p] assms(3) by auto
  show ?thesis
    by (rule exI [of _ "st16 ?m 60 (htons c)"], rule exI [of _ "seal_and_send p 60 (s\<lparr>buffer := ?m\<rparr>)"])
      (intro conjI; (rule UDP_sendInternal_seal | rule x | auto simp: hdr_simps ntohs_def))
qed

text \<open>
  Sending data on a connected UDP socket hands one valid packet to the driver: from the socket's
  port and the address that suits the destination, to the remote address, port and MAC address, with
  matching lengths and exactly the data as payload. It holds for up to 538 bytes, what fits the buffer.
\<close>

lemma UDP_send_data_run:
  assumes "wf_ether s" "wf_socket k" "length data \<le> 538"
  shows "\<exists>m r. Socket_send_data UDPSocket_vt p data False k s = map_option (Pair k) r \<and> sends p s m r
     \<and> IPv6Packet_protocol m = IP6_PROTO_UDP
     \<and> unat (IPv6Packet_payloadLength m) = 8 + length data
     \<and> IPv6Packet_destination m = remoteAddress k
     \<and> IPv6Packet_source m =
         (if IPv6Address_isLinkLocal (remoteAddress k) \<or> IPv6Address_isZero (globalAddress s)
          then linkLocalAddress s else globalAddress s)
     \<and> IPv6Packet_etherDestination m = remoteMac k \<and> IPv6Packet_etherSource m = localMac s
     \<and> ntohs (ld16 m udp_sourcePort) = localPort k \<and> ntohs (ld16 m udp_destinationPort) = remotePort k
     \<and> unat (ntohs (ld16 m udp_length)) = 8 + length data
     \<and> rd_bytes m 62 (length data) = data \<and> (\<forall>i\<ge>62 + length data. m i = buffer s i)"
proof -
  let ?len = "word_of_nat (length data) :: u16"
  let ?s = "s\<lparr>buffer := wr_bytes (buffer s) 62 data\<rparr>"
  let ?t = "Socket_prepare False k ?s"
  have len: "unat ?len = length data" "unat (8 + ?len) = 8 + length data"
    using assms(3) by (simp_all add: unsigned_of_nat take_bit_eq_mod unat_word_ariths)
  have w: "wf_ether ?s" using assms(1) by simp
  note t = Socket_prepare_not_reply [OF w assms(2)]
  have run: "Socket_send_data UDPSocket_vt p data False k s = UDPSocket_sendInternal p ?len False k ?t"
    using assms(3) by (simp add: Socket_send_data_def Socket_send_def buf_wr_def UDPSocket_vt_def UDPSocket_payload_def)
  from UDP_sendInternal_sends [OF t(1,2), of ?len p False k] len(1) assms(3)
  obtain m r where x: "UDPSocket_sendInternal p ?len False k ?t = map_option (Pair k) r" "sends p ?t m r"
    "IPv6Packet_protocol m = 17" "IPv6Packet_payloadLength m = 8 + ?len" "ntohs (ld16 m 58) = 8 + ?len"
    "ntohs (ld16 m 54) = localPort k" "ntohs (ld16 m 56) = remotePort k"
    and keep: "\<And>i. i < 18 \<or> (21 \<le> i \<and> i < 54) \<or> 62 \<le> i \<Longrightarrow> m i = buffer ?t i"
    by auto
  have hdr: "IPv6Packet_destination m = IPv6Packet_destination (buffer ?t)"
    "IPv6Packet_source m = IPv6Packet_source (buffer ?t)"
    "IPv6Packet_etherDestination m = IPv6Packet_etherDestination (buffer ?t)"
    "IPv6Packet_etherSource m = IPv6Packet_etherSource (buffer ?t)"
    unfolding field_defs by (rule rd_bytes_cong, rule keep, linarith)+
  have "rd_bytes m 62 (length data) = rd_bytes (buffer ?t) 62 (length data)"
    by (rule rd_bytes_cong, rule keep) linarith
  then have pay: "rd_bytes m 62 (length data) = data" using t(8) [of 62] by (simp add: rd_wr_same)
  have rest: "m i = buffer s i" if "62 + length data \<le> i" for i
    using keep [of i] t(8) [of i 1] that by (simp add: rd_bytes_Suc wr_bytes_out)
  have "sends p s m r" using x(2) by (simp only: sends_Socket_prepare sends_upd)
  then show ?thesis
    using run x(1,3-) pay len t hdr rest by (intro exI [of _ m] exI [of _ r]) simp
qed

definition sample_socket :: socket where
  "sample_socket = \<lparr>remoteAddress = [0xfe, 0x80, 0, 0, 0, 0, 0, 0, 0, 0, 0, 0, 0, 0, 0, 1],
     remoteMac = [2, 0, 0, 0, 0, 9], remotePort = 53, localPort = 20000, writePos = -1\<rparr>"

text \<open>
  Delivery: if the frame a UDP socket sends reaches the buffer of an interface that owns the
  destination address, \<open>isValid\<close> accepts it there, and a socket bound to the destination port and
  open to the sender has the packet, with the very bytes that were sent as its payload.
\<close>

lemma UDP_delivers:
  assumes "wf_ether s" "wf_socket k" "length data \<le> 538" "wf_ether t" "wf_socket l"
    and sent: "Socket_send_data UDPSocket_vt p data False k s = Some (k', s')"
    and link: "rd_bytes (buffer t) 0 (62 + length data) = rd_bytes (buffer s') 0 (62 + length data)"
      "bufferContainsReceived t"
    and dest: "EtherSia_isOurAddress t (remoteAddress k) \<noteq> 0" "localPort l = remotePort k"
    and open_to: "remotePort l = 0 \<or> remotePort l = localPort k"
      "IPv6Address_isZero (remoteAddress l) \<or> remoteAddress l = IPv6Packet_source (buffer s')"
  shows "IPv6Packet_isValid 600 (buffer t) = Some True \<and> UDPSocket_havePacket l t
     \<and> rd_bytes (buffer t) (UDPSocket_payload t) (unat (UDPSocket_payloadLength t)) = data"
proof -
  obtain m r where r: "Socket_send_data UDPSocket_vt p data False k s = map_option (Pair k) r" "sends p s m r"
    and x: "IPv6Packet_protocol m = 17" "unat (IPv6Packet_payloadLength m) = 8 + length data"
      "IPv6Packet_destination m = remoteAddress k" "ntohs (ld16 m 54) = localPort k"
      "ntohs (ld16 m 56) = remotePort k" "unat (ntohs (ld16 m 58)) = 8 + length data"
      "rd_bytes m 62 (length data) = data"
    using UDP_send_data_run [OF assms(1-3), of p] by auto
  from r sent have rs: "r = Some s'" by (cases r) auto
  have m: "buffer s' = m" using r(2) rs sendsD(7) by blast
  have eq: "m i = buffer t i" if "i < 62 + length data" for i
    using link(1) that m nth_rd_bytes [of i "62 + length data" m 0]
      nth_rd_bytes [of i "62 + length data" "buffer t" 0] by simp
  have v: "IPv6Packet_isValid 600 (buffer t) = Some True"
    by (rule isValid_cong [of m]) (use eq x(2) r(2) in \<open>auto simp: sends_def\<close>)
  have f: "IPv6Packet_protocol (buffer t) = 17" "IPv6Packet_destination (buffer t) = remoteAddress k"
    "IPv6Packet_source (buffer t) = IPv6Packet_source m"
    "ntohs (ld16 (buffer t) 54) = localPort k" "ntohs (ld16 (buffer t) 56) = remotePort k"
    "unat (ntohs (ld16 (buffer t) 58)) = 8 + length data"
    using x(1,3-6) rd_bytes_cong [of 38 16 m "buffer t"] rd_bytes_cong [of 22 16 m "buffer t"]
    by (simp_all add: field_defs ntohs_ld16 eq)
  have pay: "rd_bytes (buffer t) 62 (length data) = data"
    using x(7) rd_bytes_cong [of 62 "length data" m "buffer t"] eq by simp
  have len: "unat (UDPSocket_payloadLength t) = length data"
    using f(6) by (simp add: UDPSocket_payloadLength_def unat_sub_if')
  have "IPv6Address_isZero (remoteAddress l) \<or> IPv6Address_eq (IPv6Packet_source (buffer t)) (remoteAddress l)"
    using open_to(2) f(3) m by (auto simp: IPv6Address_eq_def)
  moreover have "remotePort l = 0 \<or> ntohs (ld16 (buffer t) 54) = remotePort l"
    using open_to(1) f(4) by auto
  ultimately have "UDPSocket_havePacket l t"
    using f(1,2,5) link(2) dest
    by (simp add: UDPSocket_havePacket_def UDPSocket_packetDestinationPort_def UDPSocket_packetSourcePort_def
        Socket_packetDestination_def Socket_packetSource_def IPv6Address_neq_def)
  with v pay len show ?thesis by (simp add: UDPSocket_payload_def)
qed

text \<open>The peer of \<open>sample_ether\<close>, and a socket listening on the port \<open>sample_socket\<close> sends to.\<close>

definition sample_peer :: "byte list ether" where
  "sample_peer = (with_frame sample_ether [])
     \<lparr>linkLocalAddress := [0xfe, 0x80, 0, 0, 0, 0, 0, 0, 0, 0, 0, 0, 0, 0, 0, 1], bufferContainsReceived := True\<rparr>"

lemma UDP_delivers_witness:
  "\<exists>k' s'. Socket_send_data UDPSocket_vt one_frame_platform [1, 2, 3] False sample_socket (with_frame sample_ether [])
       = Some (k', s')
     \<and> UDPSocket_havePacket (Socket_new 53) (sample_peer\<lparr>buffer := buffer s'\<rparr>)
     \<and> rd_bytes (buffer s') 62 3 = [1, 2, 3]"
proof -
  let ?s = "with_frame sample_ether []"
  have "Socket_send_data UDPSocket_vt one_frame_platform [1, 2, 3] False sample_socket ?s \<noteq> None"
    by code_simp
  then obtain k' s' where r: "Socket_send_data UDPSocket_vt one_frame_platform [1, 2, 3] False sample_socket ?s
      = Some (k', s')" by auto
  let ?t = "sample_peer\<lparr>buffer := buffer s'\<rparr>"
  have "IPv6Packet_isValid 600 (buffer ?t) = Some True \<and> UDPSocket_havePacket (Socket_new 53) ?t
     \<and> rd_bytes (buffer ?t) (UDPSocket_payload ?t) (unat (UDPSocket_payloadLength ?t)) = [1, 2, 3]"
  proof (rule UDP_delivers [OF _ _ _ _ _ r])
    have a: "wf_ether sample_peer" by code_simp
    then show "wf_ether ?t" by simp
    have b: "EtherSia_isOurAddress sample_peer (remoteAddress sample_socket) \<noteq> 0" by code_simp
    then show "EtherSia_isOurAddress ?t (remoteAddress sample_socket) \<noteq> 0" by simp
    have "bufferContainsReceived sample_peer" by code_simp
    then show "bufferContainsReceived ?t" by simp
  qed (code_simp | simp)+
  moreover then have "unat (UDPSocket_payloadLength ?t) = 3"
    using length_rd_bytes [of "buffer ?t" "UDPSocket_payload ?t" "unat (UDPSocket_payloadLength ?t)"] by simp
  ultimately show ?thesis using r by (auto simp: UDPSocket_payload_def)
qed

end
