(* ===== verification/TCP_Server.thy ===== *)
theory TCP_Server
  imports UDP_Socket
begin

text \<open>
  \<open>src/src/TCPServer.cpp\<close>: a server that keeps no connection state. It answers SYN and FIN itself,
  gives a segment with data to the application, and sends the reply and the end of the connection in
  one segment. The header fields of the received segment are reused in place.
\<close>

definition TCPServer_packetSourcePort :: "'d ether \<Rightarrow> u16" where
  "TCPServer_packetSourcePort s = ntohs (ld16 (buffer s) tcp_sourcePort)"

definition TCPServer_packetDestinationPort :: "'d ether \<Rightarrow> u16" where
  "TCPServer_packetDestinationPort s = ntohs (ld16 (buffer s) tcp_destinationPort)"

definition TCPServer_payload :: "'d ether \<Rightarrow> nat" where
  "TCPServer_payload s = off_payload + unat (TCP_RECEIVE_HEADER_LEN (buffer s))"

definition TCPServer_payloadLength :: "'d ether \<Rightarrow> u16" where
  "TCPServer_payloadLength s = IPv6Packet_payloadLength (buffer s) - TCP_RECEIVE_HEADER_LEN (buffer s)"

definition TCPServer_transmitPayload :: "'d ether \<Rightarrow> nat" where
  "TCPServer_transmitPayload s = off_payload + TCP_TRANSMIT_HEADER_LEN"

definition TCPServer_sendInternal ::
    "'d platform \<Rightarrow> u16 \<Rightarrow> bool \<Rightarrow> 'a socket_scheme \<Rightarrow> 'd ether \<Rightarrow> ('a socket_scheme \<times> 'd ether) option" where
  "TCPServer_sendInternal p len isReply k s =
     (let packet = buffer s;
          seq = ld32 packet tcp_acknowledgementNum;
          ack = ntohl (ld32 packet tcp_sequenceNum);
          receivedLen = TCPServer_payloadLength s;
          receivedLen = (if receivedLen = 0 then 1 else receivedLen);
          packet = (if packet tcp_flags = 0
                    then st8 packet tcp_flags (TCP_FLAG_ACK OR TCP_FLAG_FIN OR TCP_FLAG_PSH) else packet);
          packet = st16 packet tcp_destinationPort (ld16 packet tcp_sourcePort);
          packet = st16 packet tcp_sourcePort (htons (localPort k));
          packet = st32 packet tcp_sequenceNum seq;
          packet = st32 packet tcp_acknowledgementNum (htonl (ack + ucast receivedLen));
          packet = st8 packet tcp_dataOffset (push_bit 4 (24 div 4));
          packet = st16 packet tcp_window (htons TCP_WINDOW_SIZE);
          packet = st16 packet tcp_urgentPointer 0;
          packet = st8 packet tcp_mssOptionKind 2;
          packet = st8 packet tcp_mssOptionLen 4;
          packet = st16 packet tcp_mssOptionValue (ld16 packet tcp_window);
          packet = IPv6Packet_setPayloadLength packet (24 + len);
          packet = st16 packet tcp_checksum 0
      in do {
        c \<leftarrow> buffer_checksum packet;
        let packet = st16 packet tcp_checksum (htons c);
        s \<leftarrow> EtherSia_send p (s\<lparr>buffer := packet\<rparr>);
        Some (k, s)
      })"

definition TCPServer_vt :: "('d, 'a socket_scheme) socket_vt" where
  "TCPServer_vt = \<lparr>vt_payload = TCPServer_payload, vt_payloadLength = TCPServer_payloadLength,
     vt_transmitPayload = TCPServer_transmitPayload, vt_sendInternal = TCPServer_sendInternal,
     vt_handleWriteNewline = Socket_handleWriteNewline, vt_writePayloadHeader = Socket_writePayloadHeader\<rparr>"

interpretation tcpserver_print: plain_socket TCPServer_vt 78
  by unfold_locales (simp_all add: TCPServer_vt_def TCPServer_transmitPayload_def)

definition TCPServer_havePacket ::
    "'d platform \<Rightarrow> 'a socket_scheme \<Rightarrow> 'd ether \<Rightarrow> (bool \<times> 'a socket_scheme \<times> 'd ether) option" where
  "TCPServer_havePacket p k s =
     (let packet = buffer s in
      if \<not> bufferContainsReceived s then Some (False, k, s)
      else if IPv6Packet_protocol packet \<noteq> IP6_PROTO_TCP then Some (False, k, s)
      else if TCPServer_packetDestinationPort s \<noteq> localPort k then Some (False, k, s)
      else if packet tcp_flags AND TCP_FLAG_RST \<noteq> 0 then Some (False, k, s)
      else if packet tcp_flags AND TCP_FLAG_FIN \<noteq> 0 then
        let packet = st8 packet tcp_flags (TCP_FLAG_FIN OR TCP_FLAG_ACK) in do {
          (k, s) \<leftarrow> Socket_sendReply TCPServer_vt p 0 k (s\<lparr>buffer := packet\<rparr>);
          Some (False, k, s)
        }
      else if packet tcp_flags AND TCP_FLAG_SYN \<noteq> 0 then
        let (r, d) = random_long p (dev s);
            packet = st32 packet tcp_acknowledgementNum r;
            packet = st8 packet tcp_flags (TCP_FLAG_SYN OR TCP_FLAG_ACK) in do {
          (k, s) \<leftarrow> Socket_sendReply TCPServer_vt p 0 k (s\<lparr>buffer := packet, dev := d\<rparr>);
          Some (False, k, s)
        }
      else if 0 < TCPServer_payloadLength s then
        Some (True, k\<lparr>writePos := -1\<rparr>, s\<lparr>buffer := st8 packet tcp_flags 0\<rparr>)
      else Some (False, k, s))"

section \<open>What is sent\<close>

lemma push_bit_0x60 [simp]: "push_bit 4 (24 div 4 :: byte) = 0x60"
  by code_simp

lemma TCPServer_sendInternal_sends:
  assumes "IPv6Packet_etherType (buffer s) = ETHER_TYPE_IPV6" "IPv6Packet_version (buffer s) = 6"
    "unat len \<le> 522"
  defines "received \<equiv> TCPServer_payloadLength s"
  shows "\<exists>m r. TCPServer_sendInternal p len isReply k s = map_option (Pair k) r \<and> sends p s m r
     \<and> IPv6Packet_protocol m = IPv6Packet_protocol (buffer s) \<and> IPv6Packet_payloadLength m = 24 + len
     \<and> ntohs (ld16 m tcp_sourcePort) = localPort k
     \<and> ld16 m tcp_destinationPort = ld16 (buffer s) tcp_sourcePort
     \<and> ld32 m tcp_sequenceNum = ld32 (buffer s) tcp_acknowledgementNum
     \<and> ntohl (ld32 m tcp_acknowledgementNum)
         = ntohl (ld32 (buffer s) tcp_sequenceNum) + (if received = 0 then 1 else ucast received)
     \<and> m tcp_flags = (if buffer s tcp_flags = 0 then TCP_FLAG_ACK OR TCP_FLAG_FIN OR TCP_FLAG_PSH else buffer s tcp_flags)
     \<and> m tcp_dataOffset = 0x60 \<and> ntohs (ld16 m tcp_window) = TCP_WINDOW_SIZE
     \<and> (\<forall>i. i < 18 \<or> (20 \<le> i \<and> i < 54) \<or> 78 \<le> i \<longrightarrow> m i = buffer s i)"
proof -
  let ?f = "if buffer s tcp_flags = 0 then st8 (buffer s) 67 25 else buffer s"
  let ?ack = "ntohl (ld32 (buffer s) 58) + ucast (if received = 0 then 1 else received)"
  let ?m = "IPv6Packet_setPayloadLength (st16 (st8 (st8 (st16 (st16 (st8 (st32 (st32 (st16 (st16 ?f
      56 (ld16 (buffer s) 54)) 54 (htons (localPort k))) 58 (ld32 (buffer s) 62)) 62 (htonl ?ack)) 66 0x60)
      68 (htons (600 - 14 - 40 - 24 - 32))) 72 0) 74 2) 75 4) 76 (htons (600 - 14 - 40 - 24 - 32))) (24 + len)"
  have f: "IPv6Packet_etherType ?f = ETHER_TYPE_IPV6" "IPv6Packet_version ?f = 6"
    "ld16 ?f 54 = ld16 (buffer s) 54" "IPv6Packet_protocol ?f = IPv6Packet_protocol (buffer s)"
    using assms(1,2) by (simp_all add: hdr_simps)
  have run: "TCPServer_sendInternal p len isReply k s = map_option (Pair k) (seal_and_send p 70 (s\<lparr>buffer := ?m\<rparr>))"
    unfolding received_def
    by (simp add: TCPServer_sendInternal_def seal_and_send_def Let_def map_option_bind hdr_simps
        bind_map_option comp_def split: Option.bind_split)
  have "unat (24 + len) = 24 + unat len" using assms(3) by (simp add: unat_word_ariths)
  moreover have h: "IPv6Packet_etherType ?m = ETHER_TYPE_IPV6" "IPv6Packet_version ?m = 6"
    "IPv6Packet_payloadLength ?m = 24 + len"
    using f by (simp_all add: hdr_simps)
  ultimately obtain c where x: "sends p s (st16 ?m 70 (htons c)) (seal_and_send p 70 (s\<lparr>buffer := ?m\<rparr>))"
    using seal_and_send_sends [of "s\<lparr>buffer := ?m\<rparr>" 70 p] assms(3) by auto
  show ?thesis
    by (rule exI [of _ "st16 ?m 70 (htons c)"], rule exI [of _ "seal_and_send p 70 (s\<lparr>buffer := ?m\<rparr>)"])
      (intro conjI; (rule run | rule x | auto simp: hdr_simps ntohs_def ntohl_def))
qed

section \<open>The life of a connection\<close>

definition for_server :: "'a socket_scheme \<Rightarrow> 'd ether \<Rightarrow> bool" where
  "for_server k s \<longleftrightarrow> bufferContainsReceived s \<and> IPv6Packet_isValid 600 (buffer s) = Some True
     \<and> IPv6Packet_protocol (buffer s) = IP6_PROTO_TCP
     \<and> TCPServer_packetDestinationPort s = localPort k \<and> buffer s tcp_flags AND TCP_FLAG_RST = 0"

text \<open>Where a reply of the server goes, and from where.\<close>

definition server_reply :: "'a socket_scheme \<Rightarrow> 'd ether \<Rightarrow> mem \<Rightarrow> bool" where
  "server_reply k s m \<longleftrightarrow> IPv6Packet_protocol m = IPv6Packet_protocol (buffer s)
     \<and> IPv6Packet_destination m = IPv6Packet_source (buffer s) \<and> IPv6Packet_source m = reply_source s
     \<and> IPv6Packet_etherDestination m = IPv6Packet_etherSource (buffer s) \<and> IPv6Packet_etherSource m = localMac s
     \<and> ntohs (ld16 m tcp_sourcePort) = localPort k \<and> ld16 m tcp_destinationPort = ld16 (buffer s) tcp_sourcePort
     \<and> m tcp_dataOffset = 0x60"

lemma server_reply_flags [simp]:
  "server_reply k (s\<lparr>buffer := st8 m0 67 v\<rparr>) m = server_reply k (s\<lparr>buffer := m0\<rparr>) m"
  by (simp add: server_reply_def reply_source_def hdr_simps)

text \<open>A reply of the server without data, after it has written the flags and perhaps a number.\<close>

lemma TCPServer_reply_sends:
  assumes "wf_ether s" "IPv6Packet_etherType (buffer s) = ETHER_TYPE_IPV6" "IPv6Packet_version (buffer s) = 6"
    "unat len \<le> 522"
  defines "received \<equiv> TCPServer_payloadLength s"
  shows "\<exists>m r. Socket_send TCPServer_vt p len True k s = map_option (Pair k) r \<and> sends p s m r
     \<and> IPv6Packet_payloadLength m = 24 + len \<and> IPv6Packet_protocol m = IPv6Packet_protocol (buffer s)
     \<and> IPv6Packet_destination m = IPv6Packet_source (buffer s) \<and> IPv6Packet_source m = reply_source s
     \<and> IPv6Packet_etherDestination m = IPv6Packet_etherSource (buffer s) \<and> IPv6Packet_etherSource m = localMac s
     \<and> ntohs (ld16 m tcp_sourcePort) = localPort k
     \<and> ld16 m tcp_destinationPort = ld16 (buffer s) tcp_sourcePort
     \<and> ld32 m tcp_sequenceNum = ld32 (buffer s) tcp_acknowledgementNum
     \<and> ntohl (ld32 m tcp_acknowledgementNum)
         = ntohl (ld32 (buffer s) tcp_sequenceNum) + (if received = 0 then 1 else ucast received)
     \<and> server_reply k s m
     \<and> m tcp_flags = (if buffer s tcp_flags = 0 then TCP_FLAG_ACK OR TCP_FLAG_FIN OR TCP_FLAG_PSH else buffer s tcp_flags)
     \<and> rd_bytes m 78 (unat len) = rd_bytes (buffer s) 78 (unat len)"
proof -
  let ?t = "EtherSia_prepareReply s"
  note w = assms(1)
  have h: "IPv6Packet_etherType (buffer ?t) = ETHER_TYPE_IPV6" "IPv6Packet_version (buffer ?t) = 6"
    using assms by (simp_all add: prep_simps)
  have pr: "IPv6Packet_protocol (buffer ?t) = IPv6Packet_protocol (buffer s)"
    using w by (simp add: prep_simps)
  have rcv: "TCPServer_payloadLength ?t = received"
    using w by (simp add: received_def TCPServer_payloadLength_def TCP_RECEIVE_HEADER_LEN_def prep_simps)
  have l: "ld32 (buffer ?t) 58 = ld32 (buffer s) 58" "ld32 (buffer ?t) 62 = ld32 (buffer s) 62"
    "ld16 (buffer ?t) 54 = ld16 (buffer s) 54" "buffer ?t 67 = buffer s 67"
    using w by (simp_all add: ld32_def ld16_def prep_simps)
  from TCPServer_sendInternal_sends [OF h assms(4), of p True k] obtain m r where
    x: "TCPServer_sendInternal p len True k ?t = map_option (Pair k) r" "sends p ?t m r"
    "IPv6Packet_protocol m = IPv6Packet_protocol (buffer s)" "IPv6Packet_payloadLength m = 24 + len"
    "ntohs (ld16 m tcp_sourcePort) = localPort k"
    "ld16 m tcp_destinationPort = ld16 (buffer s) tcp_sourcePort"
    "ld32 m tcp_sequenceNum = ld32 (buffer s) tcp_acknowledgementNum"
    "ntohl (ld32 m tcp_acknowledgementNum)
         = ntohl (ld32 (buffer s) tcp_sequenceNum) + (if received = 0 then 1 else ucast received)"
    "m tcp_dataOffset = 0x60"
    "m tcp_flags = (if buffer s tcp_flags = 0 then TCP_FLAG_ACK OR TCP_FLAG_FIN OR TCP_FLAG_PSH else buffer s tcp_flags)"
    and keep: "\<And>i. i < 18 \<or> (20 \<le> i \<and> i < 54) \<or> 78 \<le> i \<Longrightarrow> m i = buffer ?t i"
    unfolding l rcv pr by blast
  have "IPv6Packet_destination m = IPv6Packet_destination (buffer ?t)"
    "IPv6Packet_source m = IPv6Packet_source (buffer ?t)"
    "IPv6Packet_etherDestination m = IPv6Packet_etherDestination (buffer ?t)"
    "IPv6Packet_etherSource m = IPv6Packet_etherSource (buffer ?t)"
    unfolding field_defs by (rule rd_bytes_cong, rule keep, linarith)+
  moreover have "rd_bytes m 78 (unat len) = rd_bytes (buffer ?t) 78 (unat len)"
    by (rule rd_bytes_cong, rule keep) linarith
  ultimately show ?thesis using x w
    by (intro exI [of _ m] exI [of _ r]) (simp add: Socket_send_def Socket_prepare_def TCPServer_vt_def prep_simps server_reply_def)
qed

text \<open>
  A SYN for the server's port is accepted at once: \<open>havePacket\<close> sends one valid segment back with
  SYN and ACK, a random sequence number of its own, and the acknowledgement of the SYN, and reports no
  data to the application.
\<close>

theorem TCPServer_accepts_SYN:
  assumes "wf_ether s" "for_server k s" "buffer s tcp_flags AND TCP_FLAG_FIN = 0"
    "buffer s tcp_flags AND TCP_FLAG_SYN \<noteq> 0" "TCPServer_payloadLength s = 0"
    and rnd: "random_long p (dev s) = (isn, d)"
  shows "\<exists>m r. TCPServer_havePacket p k s = map_option (\<lambda>s'. (False, k, s')) r \<and> sends p (s\<lparr>dev := d\<rparr>) m r
     \<and> m tcp_flags = TCP_FLAG_SYN OR TCP_FLAG_ACK \<and> ld32 m tcp_sequenceNum = isn
     \<and> ntohl (ld32 m tcp_acknowledgementNum) = ntohl (ld32 (buffer s) tcp_sequenceNum) + 1
     \<and> IPv6Packet_destination m = IPv6Packet_source (buffer s)
     \<and> ntohs (ld16 m tcp_sourcePort) = localPort k
     \<and> ld16 m tcp_destinationPort = ld16 (buffer s) tcp_sourcePort
     \<and> IPv6Packet_payloadLength m = 24 \<and> server_reply k s m"
proof -
  let ?t = "s\<lparr>buffer := st8 (st32 (buffer s) 62 isn) 67 0x12, dev := d\<rparr>"
  have w: "wf_ether ?t" using assms(1) by (simp add: wf_ether_def)
  have h: "IPv6Packet_etherType (buffer ?t) = ETHER_TYPE_IPV6" "IPv6Packet_version (buffer ?t) = 6"
    using valid_header [of "buffer s"] assms(2) by (simp_all add: for_server_def hdr_simps)
  have rcv: "TCPServer_payloadLength ?t = 0"
    using assms(5) by (simp add: TCPServer_payloadLength_def TCP_RECEIVE_HEADER_LEN_def hdr_simps)
  have run: "TCPServer_havePacket p k s = map_option (\<lambda>(k, s). (False, k, s)) (Socket_send TCPServer_vt p 0 True k ?t)"
    using assms by (simp add: TCPServer_havePacket_def for_server_def Let_def Socket_sendReply_def
        map_option_case split: option.split)
  have e: "sends p ?t m r = sends p (s\<lparr>dev := d\<rparr>) m r" for m r by (simp add: sends_def)
  from TCPServer_reply_sends [OF w h, of 0 p k] obtain m r where
    x: "Socket_send TCPServer_vt p 0 True k ?t = map_option (Pair k) r" "sends p ?t m r"
    "m tcp_flags = 0x12" "ld32 m 58 = isn" "ntohl (ld32 m 62) = ntohl (ld32 (buffer s) 58) + 1"
    "IPv6Packet_destination m = IPv6Packet_source (buffer s)" "ntohs (ld16 m 54) = localPort k"
    "ld16 m 56 = ld16 (buffer s) 54" "IPv6Packet_payloadLength m = 24" "server_reply k ?t m"
    unfolding rcv by (auto simp: hdr_simps)
  have reply: "server_reply k s m" using x(10) by (simp add: server_reply_def reply_source_def hdr_simps)
  show ?thesis
    by (rule exI [of _ m], rule exI [of _ r])
      (use x run reply in \<open>simp add: e option.map_comp comp_def\<close>)
qed

text \<open>Segments from port 40000 of the peer to port 80: a SYN, a FIN, and two bytes of data.\<close>

definition sample_syn :: "unit ether" where
  "sample_syn = sample_ether\<lparr>buffer := wr_bytes (\<lambda>_. 0) 12
     ([0x86, 0xdd, 0x60, 0, 0, 0, 0, 20, 6, 64] @ [0xfe, 0x80, 0, 0, 0, 0, 0, 0, 0, 0, 0, 0, 0, 0, 0, 1]
      @ [0xfe, 0x80, 0, 0, 0, 0, 0, 0, 0, 0, 0, 0, 0, 0, 0, 2]
      @ [0x9c, 0x40, 0, 0x50, 1, 2, 3, 4, 0, 0, 0, 7, 0x50, 2, 0x10, 0, 2, 0x41, 0, 0])\<rparr>"

definition sample_fin :: "unit ether" where
  "sample_fin = sample_ether\<lparr>buffer := wr_bytes (\<lambda>_. 0) 12
     ([0x86, 0xdd, 0x60, 0, 0, 0, 0, 20, 6, 64] @ [0xfe, 0x80, 0, 0, 0, 0, 0, 0, 0, 0, 0, 0, 0, 0, 0, 1]
      @ [0xfe, 0x80, 0, 0, 0, 0, 0, 0, 0, 0, 0, 0, 0, 0, 0, 2]
      @ [0x9c, 0x40, 0, 0x50, 1, 2, 3, 4, 0, 0, 0, 7, 0x50, 0x11, 0x10, 0, 2, 0x32, 0, 0])\<rparr>"

definition sample_data :: "unit ether" where
  "sample_data = sample_ether\<lparr>buffer := wr_bytes (\<lambda>_. 0) 12
     ([0x86, 0xdd, 0x60, 0, 0, 0, 0, 22, 6, 64] @ [0xfe, 0x80, 0, 0, 0, 0, 0, 0, 0, 0, 0, 0, 0, 0, 0, 1]
      @ [0xfe, 0x80, 0, 0, 0, 0, 0, 0, 0, 0, 0, 0, 0, 0, 0, 2]
      @ [0x9c, 0x40, 0, 0x50, 1, 2, 3, 4, 0, 0, 0, 7, 0x50, 0x18, 0x10, 0, 0xba, 0xe3, 0, 0, 0x47, 0x45])\<rparr>"

definition sample_server :: socket where
  "sample_server = Socket_new 80"

lemma TCPServer_accepts_SYN_witness:
  "\<exists>m r. TCPServer_havePacket quiet_platform sample_server sample_syn = map_option (\<lambda>s'. (False, sample_server, s')) r
     \<and> sends quiet_platform (sample_syn\<lparr>dev := ()\<rparr>) m r \<and> m tcp_flags = TCP_FLAG_SYN OR TCP_FLAG_ACK"
proof -
  have "wf_ether sample_syn" "for_server sample_server sample_syn" "buffer sample_syn 67 AND 1 = 0"
    "buffer sample_syn 67 AND 2 \<noteq> 0" "TCPServer_payloadLength sample_syn = 0"
    by code_simp+
  moreover obtain r where "random_long quiet_platform (dev sample_syn) = (r, ())"
    by (metis old.unit.exhaust surj_pair)
  ultimately show ?thesis using TCPServer_accepts_SYN [of sample_syn sample_server quiet_platform r "()"] by blast
qed

text \<open>
  A FIN is answered with FIN and ACK in one valid segment, which acknowledges the FIN or the data
  sent with it; the application is given nothing.
\<close>

theorem TCPServer_answers_FIN:
  assumes "wf_ether s" "for_server k s" "buffer s tcp_flags AND TCP_FLAG_FIN \<noteq> 0"
  defines "received \<equiv> TCPServer_payloadLength s"
  shows "\<exists>m r. TCPServer_havePacket p k s = map_option (\<lambda>s'. (False, k, s')) r \<and> sends p s m r
     \<and> m tcp_flags = TCP_FLAG_FIN OR TCP_FLAG_ACK
     \<and> ld32 m tcp_sequenceNum = ld32 (buffer s) tcp_acknowledgementNum
     \<and> ntohl (ld32 m tcp_acknowledgementNum)
         = ntohl (ld32 (buffer s) tcp_sequenceNum) + (if received = 0 then 1 else ucast received)
     \<and> IPv6Packet_destination m = IPv6Packet_source (buffer s) \<and> IPv6Packet_payloadLength m = 24 \<and> server_reply k s m"
proof -
  let ?t = "s\<lparr>buffer := st8 (buffer s) 67 0x11\<rparr>"
  have w: "wf_ether ?t" using assms(1) by (simp add: wf_ether_def)
  have h: "IPv6Packet_etherType (buffer ?t) = ETHER_TYPE_IPV6" "IPv6Packet_version (buffer ?t) = 6"
    using valid_header [of "buffer s"] assms(2) by (simp_all add: for_server_def hdr_simps)
  have rcv: "TCPServer_payloadLength ?t = received"
    by (simp add: received_def TCPServer_payloadLength_def TCP_RECEIVE_HEADER_LEN_def hdr_simps)
  have run: "TCPServer_havePacket p k s = map_option (\<lambda>(k, s). (False, k, s)) (Socket_send TCPServer_vt p 0 True k ?t)"
    using assms by (simp add: TCPServer_havePacket_def for_server_def Let_def Socket_sendReply_def
        map_option_case split: option.split)
  from TCPServer_reply_sends [OF w h, of 0 p k] obtain m r where
    x: "Socket_send TCPServer_vt p 0 True k ?t = map_option (Pair k) r" "sends p ?t m r"
    "m 67 = 0x11" "ld32 m 58 = ld32 (buffer s) 62"
    "ntohl (ld32 m 62) = ntohl (ld32 (buffer s) 58) + (if received = 0 then 1 else ucast received)"
    "IPv6Packet_destination m = IPv6Packet_source (buffer s)" "IPv6Packet_payloadLength m = 24" "server_reply k ?t m"
    unfolding rcv by (auto simp: hdr_simps)
  show ?thesis
    by (rule exI [of _ m], rule exI [of _ r])
      (use x run in \<open>simp add: option.map_comp comp_def\<close>)
qed

lemma TCPServer_answers_FIN_witness:
  "\<exists>m r. TCPServer_havePacket quiet_platform sample_server sample_fin = map_option (\<lambda>s'. (False, sample_server, s')) r
     \<and> sends quiet_platform sample_fin m r \<and> m tcp_flags = TCP_FLAG_FIN OR TCP_FLAG_ACK"
proof -
  have "wf_ether sample_fin" "for_server sample_server sample_fin" "buffer sample_fin 67 AND 1 \<noteq> 0"
    by code_simp+
  then show ?thesis using TCPServer_answers_FIN [of sample_fin sample_server quiet_platform] by blast
qed

text \<open>
  Request and response: a segment with data is given to the application, once, with nothing
  sent; what it then sends goes out as one valid segment that acknowledges all of the data, continues
  at the number the peer acknowledged, carries the response as payload and closes the connection.
\<close>

theorem TCPServer_request_response:
  assumes "wf_ether s" "for_server k s" "buffer s tcp_flags AND TCP_FLAG_FIN = 0"
    "buffer s tcp_flags AND TCP_FLAG_SYN = 0" "0 < TCPServer_payloadLength s" "length response \<le> 522"
  defines "s1 \<equiv> s\<lparr>buffer := st8 (buffer s) tcp_flags 0\<rparr>" and "k1 \<equiv> k\<lparr>writePos := -1\<rparr>"
  shows "TCPServer_havePacket p k s = Some (True, k1, s1)
     \<and> (\<exists>m r. Socket_sendReply_data TCPServer_vt p response k1 s1 = map_option (Pair k1) r \<and> sends p s m r
         \<and> m tcp_flags = TCP_FLAG_ACK OR TCP_FLAG_FIN OR TCP_FLAG_PSH
         \<and> ld32 m tcp_sequenceNum = ld32 (buffer s) tcp_acknowledgementNum
         \<and> ntohl (ld32 m tcp_acknowledgementNum)
             = ntohl (ld32 (buffer s) tcp_sequenceNum) + ucast (TCPServer_payloadLength s)
         \<and> unat (IPv6Packet_payloadLength m) = 24 + length response
         \<and> rd_bytes m 78 (length response) = response
         \<and> IPv6Packet_destination m = IPv6Packet_source (buffer s) \<and> server_reply k s m)"
proof -
  have have_pkt: "TCPServer_havePacket p k s = Some (True, k1, s1)"
    using assms by (simp add: TCPServer_havePacket_def for_server_def s1_def k1_def)
  let ?len = "word_of_nat (length response) :: u16"
  let ?t = "s1\<lparr>buffer := wr_bytes (buffer s1) 78 response\<rparr>"
  have len: "unat ?len = length response" "unat (24 + ?len) = 24 + length response"
    using assms(6) by (simp_all add: unsigned_of_nat take_bit_eq_mod unat_word_ariths)
  have w: "wf_ether ?t" using assms(1) by (simp add: s1_def wf_ether_def)
  have h: "IPv6Packet_etherType (buffer ?t) = ETHER_TYPE_IPV6" "IPv6Packet_version (buffer ?t) = 6"
    using valid_header [of "buffer s"] assms(2) by (simp_all add: s1_def for_server_def hdr_simps)
  have rcv: "TCPServer_payloadLength ?t = TCPServer_payloadLength s"
    by (simp add: s1_def TCPServer_payloadLength_def TCP_RECEIVE_HEADER_LEN_def hdr_simps)
  have run: "Socket_sendReply_data TCPServer_vt p response k1 s1 = Socket_send TCPServer_vt p ?len True k1 ?t"
    using assms(6) by (simp add: Socket_sendReply_data_def Socket_send_data_def buf_wr_def TCPServer_vt_def
        TCPServer_transmitPayload_def)
  have l: "unat ?len \<le> 522" using len assms(6) by simp
  have t: "buffer ?t 67 = 0" "ld32 (buffer ?t) 62 = ld32 (buffer s) 62" "ld32 (buffer ?t) 58 = ld32 (buffer s) 58"
    "IPv6Packet_source (buffer ?t) = IPv6Packet_source (buffer s)" "rd_bytes (buffer ?t) 78 (length response) = response"
    by (simp_all add: s1_def hdr_simps)
  have nz: "TCPServer_payloadLength s \<noteq> 0" using assms(5) by auto
  obtain m r where x: "Socket_send TCPServer_vt p ?len True k1 ?t = map_option (Pair k1) r" "sends p ?t m r"
    "m 67 = 0x19" "ld32 m 58 = ld32 (buffer s) 62"
    "ntohl (ld32 m 62) = ntohl (ld32 (buffer s) 58) + ucast (TCPServer_payloadLength s)"
    "IPv6Packet_payloadLength m = 24 + ?len" "rd_bytes m 78 (length response) = response"
    "IPv6Packet_destination m = IPv6Packet_source (buffer s)" "server_reply k1 ?t m"
    using TCPServer_reply_sends [OF w h l, of p k1] unfolding rcv len t by (auto simp: nz)
  have "server_reply k s m"
    using x(9) by (simp add: server_reply_def reply_source_def s1_def k1_def hdr_simps)
  moreover have "sends p s m r" using x(2) by (simp add: s1_def)
  ultimately show ?thesis using x run len have_pkt
    by (intro conjI exI [of _ m] exI [of _ r]) simp_all
qed

lemma TCPServer_request_response_witness:
  "\<exists>k1 s1 m r. TCPServer_havePacket quiet_platform sample_server sample_data = Some (True, k1, s1)
     \<and> Socket_sendReply_data TCPServer_vt quiet_platform [79, 75] k1 s1 = map_option (Pair k1) r \<and> sends quiet_platform sample_data m r
     \<and> rd_bytes m 78 2 = [79, 75]"
proof -
  have "wf_ether sample_data" "for_server sample_server sample_data" "buffer sample_data 67 AND 1 = 0"
    "buffer sample_data 67 AND 2 = 0" "0 < TCPServer_payloadLength sample_data" "length [79, 75 :: byte] \<le> 522"
    by code_simp+
  from TCPServer_request_response [OF this, of quiet_platform] show ?thesis by (simp add: numeral_2_eq_2) blast
qed

end
