(* ===== verification/DNS.thy ===== *)
theory DNS
  imports UDP_Socket
begin

text \<open>
  \<open>src/src/dns.cpp\<close> and \<open>dns.h\<close>, and the part of \<open>src/src/Socket.cpp\<close> that resolves names: building a
  query, finding the first AAAA record of a reply, and the loop that sends queries until an answer
  comes. Pointers are offsets in the packet buffer; the pointer to the address found is returned as
  the address.
\<close>

abbreviation (input) DNS_REQUEST_TIMEOUT :: u32 where "DNS_REQUEST_TIMEOUT \<equiv> 3500"
abbreviation (input) DNS_REQUEST_ATTEMPTS :: byte where "DNS_REQUEST_ATTEMPTS \<equiv> 3"
abbreviation (input) DNS_PORT_NUMBER :: u16 where "DNS_PORT_NUMBER \<equiv> 53"
abbreviation (input) DNS_FLAG_QUERY :: byte where "DNS_FLAG_QUERY \<equiv> 0"
abbreviation (input) DNS_FLAG_RD :: byte where "DNS_FLAG_RD \<equiv> 1"
abbreviation (input) DNS_RCODE_MASK :: byte where "DNS_RCODE_MASK \<equiv> 0x0F"
abbreviation (input) DNS_TYPE_AAAA :: u16 where "DNS_TYPE_AAAA \<equiv> 28"
abbreviation (input) DNS_CLASS_IN :: u16 where "DNS_CLASS_IN \<equiv> 1"
abbreviation (input) sizeof_dnsHeader :: nat where "sizeof_dnsHeader \<equiv> 12"
abbreviation (input) sizeof_dnsRecord :: nat where "sizeof_dnsRecord \<equiv> 10"

section \<open>The query\<close>

text \<open>The inner loop copies a label up to the next dot or the end, counting in a \<open>uint8_t\<close>.\<close>

fun encodeName_label :: "mem \<Rightarrow> nat \<Rightarrow> byte \<Rightarrow> byte list \<Rightarrow> (mem \<times> nat \<times> byte \<times> byte list) option" where
  "encodeName_label m query n [] = Some (m, query, n, [])"
| "encodeName_label m query n (c # nameptr) =
     (if c = 0x2E then Some (m, query, n, c # nameptr)
      else do {
        m \<leftarrow> buf_wr m query [c];
        encodeName_label m (query + 1) (n + 1) nameptr
      })"

lemma encodeName_label_shorter:
  "encodeName_label m query n name = Some (m', q', n', rest) \<Longrightarrow> length rest \<le> length name"
  by (induction m query n name rule: encodeName_label.induct)
    (auto split: if_splits simp: bind_eq_Some_conv)

function encodeName :: "mem \<Rightarrow> nat \<Rightarrow> byte list \<Rightarrow> (mem \<times> nat) option" where
  "encodeName m query nameptr = do {
     (m, q, n, rest) \<leftarrow> encodeName_label m (query + 1) 0 nameptr;
     m \<leftarrow> buf_wr m query [n];
     case rest of
       [] \<Rightarrow> do { m \<leftarrow> buf_wr m q [0]; Some (m, q + 1) }
     | _ # nameptr \<Rightarrow> encodeName m q nameptr
   }"
  by pat_completeness auto
termination
  by (relation "measure (\<lambda>(_, _, name). length name)") (auto dest: encodeName_label_shorter)

declare encodeName.simps [simp del]

definition dnsMakeRequest :: "mem \<Rightarrow> nat \<Rightarrow> byte list \<Rightarrow> u16 \<Rightarrow> (u16 \<times> mem) option" where
  "dnsMakeRequest m buf host requestId = do {
     m \<leftarrow> buf_wr m buf (b16 (htons requestId) @ [DNS_FLAG_QUERY OR DNS_FLAG_RD, 0x00]
            @ b16 (htons 1) @ b16 (htons 0) @ b16 (htons 0) @ b16 (htons 0));
     let ptr = buf + sizeof_dnsHeader;
     (m, ptr) \<leftarrow> encodeName m ptr host;
     m \<leftarrow> buf_wr m ptr (b16 (htons DNS_TYPE_AAAA));
     let ptr = ptr + 2;
     m \<leftarrow> buf_wr m ptr (b16 (htons DNS_CLASS_IN));
     let ptr = ptr + 2;
     Some (word_of_nat (ptr - buf), m)
   }"

section \<open>The reply\<close>

function skipOverName :: "mem \<Rightarrow> nat \<Rightarrow> nat option" where
  "skipOverName m ptr = do {
     c \<leftarrow> buf_at m ptr;
     if c = 0 then Some ptr
     else if c AND 0xC0 = 0xC0 then Some (ptr + 2)
     else do {
       let ptr = ptr + unat c + 1;
       c \<leftarrow> buf_at m ptr;
       if c = 0 then Some (ptr + 1) else skipOverName m ptr
     }
   }"
  by pat_completeness auto
termination
  by (relation "measure (\<lambda>(_, ptr). 600 - ptr)") (auto simp: buf_at_def split: if_splits)

declare skipOverName.simps [simp del]

text \<open>The two loops count down a \<open>uint8_t\<close>; \<open>Some None\<close> is a return of the null pointer.\<close>

fun dns_skipQuestions :: "mem \<Rightarrow> nat \<Rightarrow> nat \<Rightarrow> nat \<Rightarrow> nat option option" where
  "dns_skipQuestions m 0 ptr endPtr = Some (Some ptr)"
| "dns_skipQuestions m (Suc questionCount) ptr endPtr = do {
     ptr \<leftarrow> skipOverName m ptr;
     let ptr = ptr + 4;
     if ptr > endPtr then Some None else dns_skipQuestions m questionCount ptr endPtr
   }"

fun dns_findAnswer :: "mem \<Rightarrow> nat \<Rightarrow> nat \<Rightarrow> nat \<Rightarrow> ip6 option option" where
  "dns_findAnswer m 0 ptr endPtr = Some None"
| "dns_findAnswer m (Suc answerCount) ptr endPtr = do {
     ptr \<leftarrow> skipOverName m ptr;
     record \<leftarrow> buf_rd m ptr sizeof_dnsRecord;
     let rdlength = ntohs (le16 (drop 8 record));
     if le16 (drop 2 record) = htons DNS_CLASS_IN \<and> le16 record = htons DNS_TYPE_AAAA \<and> rdlength = 16
     then do { a \<leftarrow> buf_rd m (ptr + sizeof_dnsRecord) 16; Some (Some a) }
     else do {
       let ptr = ptr + sizeof_dnsRecord + unat rdlength;
       if ptr > endPtr then Some None else dns_findAnswer m answerCount ptr endPtr
     }
   }"

definition dnsProcessReply :: "mem \<Rightarrow> nat \<Rightarrow> u16 \<Rightarrow> u16 \<Rightarrow> ip6 option option" where
  "dnsProcessReply m payload len requestId =
     (let questionCount = ucast (ntohs (ld16 m (payload + 4))) :: byte;
          answerCount = ucast (ntohs (ld16 m (payload + 6))) :: byte;
          ptr = payload + sizeof_dnsHeader;
          endPtr = payload + unat len
      in if ntohs (ld16 m payload) \<noteq> requestId then Some None
         else if m (payload + 3) AND DNS_RCODE_MASK \<noteq> 0 then Some None
         else do {
           q \<leftarrow> dns_skipQuestions m (unat questionCount) ptr endPtr;
           case q of None \<Rightarrow> Some None
             | Some ptr \<Rightarrow> dns_findAnswer m (unat answerCount) ptr endPtr
         })"

section \<open>Resolving a name\<close>

definition EtherSia_lookupHostname_request ::
    "'d platform \<Rightarrow> byte list \<Rightarrow> u16 \<Rightarrow> u32 \<Rightarrow> byte \<Rightarrow> socket \<Rightarrow> 'd ether \<Rightarrow> (u32 \<times> byte \<times> socket \<times> 'd ether) option" where
  "EtherSia_lookupHostname_request p hostname requestId nextRequest requestCount udp s =
     (let (now, s) = EtherSia_millis p s in
      if time_reached now nextRequest then do {
        (len, m) \<leftarrow> dnsMakeRequest (buffer s) (UDPSocket_payload s) hostname requestId;
        let s = s\<lparr>buffer := m\<rparr>;
        if len \<noteq> 0 then do {
          (udp, s) \<leftarrow> Socket_send UDPSocket_vt p len False udp s;
          let (now, s) = EtherSia_millis p s;
          Some (now + DNS_REQUEST_TIMEOUT, requestCount + 1, udp, s)
        }
        else Some (nextRequest, requestCount + 1, udp, s)
      }
      else Some (nextRequest, requestCount, udp, s))"

definition EtherSia_lookupHostname_reply :: "u16 \<Rightarrow> socket \<Rightarrow> 'd ether \<Rightarrow> ip6 option option" where
  "EtherSia_lookupHostname_reply requestId udp s =
     (if UDPSocket_havePacket udp s
      then dnsProcessReply (buffer s) (UDPSocket_payload s) (UDPSocket_payloadLength s) requestId
      else Some None)"

partial_function (option) EtherSia_lookupHostname_loop ::
    "'d platform \<Rightarrow> byte list \<Rightarrow> u16 \<Rightarrow> u32 \<Rightarrow> byte \<Rightarrow> socket \<Rightarrow> 'd ether \<Rightarrow> (ip6 option \<times> 'd ether) option" where
  "EtherSia_lookupHostname_loop p hostname requestId nextRequest requestCount udp s =
     (if requestCount \<le> DNS_REQUEST_ATTEMPTS then do {
        r \<leftarrow> EtherSia_lookupHostname_request p hostname requestId nextRequest requestCount udp s;
        q \<leftarrow> EtherSia_receivePacket p (snd (snd (snd r)));
        address \<leftarrow> EtherSia_lookupHostname_reply requestId (fst (snd (snd r))) (snd q);
        if address \<noteq> None then Some (address, snd q)
        else EtherSia_lookupHostname_loop p hostname requestId (fst r) (fst (snd r)) (fst (snd (snd r))) (snd q)
      } else Some (None, s))"

definition EtherSia_lookupHostname :: "'d platform \<Rightarrow> byte list \<Rightarrow> 'd ether \<Rightarrow> (ip6 option \<times> 'd ether) option" where
  "EtherSia_lookupHostname p hostname s =
     (let (nextRequest, s) = EtherSia_millis p s;
          (r, d) = random_range p 0 65535 (dev s);
          s = s\<lparr>dev := d\<rparr>;
          requestId = ucast r
      in do {
        (ok, udp, s) \<leftarrow> Socket_setRemoteAddress p (dnsServerAddress s) DNS_PORT_NUMBER (Socket_new 0) s;
        EtherSia_lookupHostname_loop p hostname requestId nextRequest 0 udp s
      })"

text \<open>
  \<open>Socket::setRemoteAddress\<close> with a string: an address if it contains a colon, a host name otherwise.
  A failed parse still overwrites \<open>_remoteAddress\<close>.
\<close>

definition Socket_setRemoteAddress_str ::
    "'d platform \<Rightarrow> byte list \<Rightarrow> u16 \<Rightarrow> 'a socket_scheme \<Rightarrow> 'd ether \<Rightarrow> (bool \<times> 'a socket_scheme \<times> 'd ether) option" where
  "Socket_setRemoteAddress_str p address port k s =
     (if containsColon address then do {
        (ok, a) \<leftarrow> IPv6Address_fromString address;
        let k = k\<lparr>remoteAddress := a\<rparr>;
        if \<not> ok then Some (False, k, s)
        else Socket_setRemoteAddress p (remoteAddress k) port k s
      }
      else do {
        (a, s) \<leftarrow> EtherSia_lookupHostname p address s;
        case a of None \<Rightarrow> Some (False, k, s)
          | Some a \<Rightarrow> Socket_setRemoteAddress p a port (k\<lparr>remoteAddress := a\<rparr>) s
      })"

text \<open>
  The variant for a string in flash memory copies at most 63 characters to a buffer of 64 and does
  not terminate them: a string longer than 62 characters makes it read uninitialised memory.
\<close>

definition Socket_setRemoteAddress_P ::
    "'d platform \<Rightarrow> byte list \<Rightarrow> u16 \<Rightarrow> 'a socket_scheme \<Rightarrow> 'd ether \<Rightarrow> (bool \<times> 'a socket_scheme \<times> 'd ether) option" where
  "Socket_setRemoteAddress_P p address port k s =
     (if length address < 63 then Socket_setRemoteAddress_str p address port k s else None)"

section \<open>Names on the wire\<close>

text \<open>The specification: a name is its labels, each behind its length, and a zero.\<close>

fun split_dots :: "byte list \<Rightarrow> byte list list" where
  "split_dots [] = [[]]"
| "split_dots (c # cs) = (if c = 0x2E then [] # split_dots cs
     else (c # hd (split_dots cs)) # tl (split_dots cs))"

definition wire_labels :: "byte list list \<Rightarrow> byte list" where
  "wire_labels ls = concat (map (\<lambda>l. word_of_nat (length l) # l) ls)"

definition wire_name :: "byte list \<Rightarrow> byte list" where
  "wire_name name = wire_labels (split_dots name) @ [0]"

lemma wire_labels_simps [simp]:
  "wire_labels [] = []" "wire_labels (l # ls) = word_of_nat (length l) # l @ wire_labels ls"
  by (simp_all add: wire_labels_def)

lemma wr_bytes_Cons_before: "wr_bytes (wr_bytes m (q + 1) xs) q [x] = wr_bytes m q (x # xs)"
  by (rule ext) (auto simp: wr_bytes_nth nth_Cons')

lemma encodeName_label_run:
  "q + length (takeWhile (\<lambda>c. c \<noteq> 0x2E) name) \<le> 600 \<Longrightarrow>
   encodeName_label m q n name = (let l = takeWhile (\<lambda>c. c \<noteq> 0x2E) name
     in Some (wr_bytes m q l, q + length l, n + word_of_nat (length l), dropWhile (\<lambda>c. c \<noteq> 0x2E) name))"
proof (induction name arbitrary: m q n)
  case (Cons c name)
  show ?case
  proof (cases "c = 0x2E")
    case False
    have "wr_bytes (wr_bytes m q [c]) (Suc q) l = wr_bytes m q (c # l)" for l
      using wr_bytes_append [of m q "[c]" l] by simp
    with False Cons show ?thesis by (simp add: buf_wr_def Let_def)
  qed simp
qed simp

lemma split_dots_takeWhile:
  "split_dots name = (case dropWhile (\<lambda>c. c \<noteq> 0x2E) name of [] \<Rightarrow> [takeWhile (\<lambda>c. c \<noteq> 0x2E) name]
     | _ # rest \<Rightarrow> takeWhile (\<lambda>c. c \<noteq> 0x2E) name # split_dots rest)"
proof (induction name)
  case (Cons c name)
  then show ?case
    by (cases "c = 0x2E"; cases "dropWhile (\<lambda>c. c \<noteq> 0x2E) name") (simp_all del: dropWhile_eq_Nil_conv)
qed simp

lemma encodeName_run:
  "q + length (wire_name name) \<le> 600 \<Longrightarrow>
   encodeName m q name = Some (wr_bytes m q (wire_name name), q + length (wire_name name))"
proof (induction "length name" arbitrary: name m q rule: less_induct)
  case less
  define l where "l = takeWhile (\<lambda>c. c \<noteq> 0x2E) name"
  define rest where "rest = dropWhile (\<lambda>c. c \<noteq> 0x2E) name"
  have sp: "split_dots name = (case rest of [] \<Rightarrow> [l] | _ # r \<Rightarrow> l # split_dots r)"
    unfolding l_def rest_def by (rule split_dots_takeWhile)
  have fit: "q + 1 + length l < 600"
    using less.prems by (simp add: wire_name_def sp split: list.splits)
  have lab: "encodeName_label m (q + 1) 0 name
      = Some (wr_bytes m (q + 1) l, q + 1 + length l, word_of_nat (length l), rest)"
    using encodeName_label_run [of "q + 1" name m 0] fit by (simp add: l_def [symmetric] rest_def [symmetric] Let_def)
  have w: "buf_wr (wr_bytes m (q + 1) l) q [word_of_nat (length l)] = Some (wr_bytes m q (word_of_nat (length l) # l))"
    using fit wr_bytes_Cons_before [of m q l] by (simp add: buf_wr_def)
  show ?case
  proof (cases rest)
    case Nil
    have "wr_bytes (wr_bytes m q (word_of_nat (length l) # l)) (q + 1 + length l) [0]
        = wr_bytes m q (word_of_nat (length l) # l @ [0])"
      using wr_bytes_append [of m q "word_of_nat (length l) # l" "[0]"] by simp
    with Nil sp fit lab w show ?thesis
      by (subst encodeName.simps) (simp add: wire_name_def buf_wr_def)
  next
    case (Cons d r)
    have "length r < length name"
      using Cons length_dropWhile_le [of "\<lambda>c. c \<noteq> 0x2E" name] by (simp add: rest_def)
    moreover have wn: "wire_name name = (word_of_nat (length l) # l) @ wire_name r"
      using Cons sp by (simp add: wire_name_def)
    ultimately have "encodeName (wr_bytes m q (word_of_nat (length l) # l)) (q + 1 + length l) r
        = Some (wr_bytes (wr_bytes m q (word_of_nat (length l) # l)) (q + 1 + length l) (wire_name r),
            q + 1 + length l + length (wire_name r))"
      using less.prems by (intro less.hyps) auto
    then show ?thesis
      using Cons lab w wn wr_bytes_append [of m q "word_of_nat (length l) # l" "wire_name r"]
      by (subst encodeName.simps) simp
  qed
qed

text \<open>
  A DNS query is laid out as RFC 1035 asks: header with the request's id, the recursion-desired
  flag and one question, the name as its labels behind their lengths, type AAAA and class IN; its
  length is returned and nothing else in the buffer is touched, for any name that fits.
\<close>

theorem dnsMakeRequest_layout:
  assumes "buf + 16 + length (wire_name host) \<le> 600"
  shows "dnsMakeRequest m buf host requestId = Some (word_of_nat (16 + length (wire_name host)),
     wr_bytes m buf ([ucast (drop_bit 8 requestId), ucast requestId, 1, 0, 0, 1, 0, 0, 0, 0, 0, 0]
       @ wire_name host @ [0, 28, 0, 1]))"
proof -
  have c: "b16 (htons 1) = [0, 1]" "b16 (htons 0) = [0, 0]" "b16 (htons 28) = [0, 28]" by code_simp+
  define h :: "byte list" where
    "h = [ucast (drop_bit 8 requestId), ucast requestId, 1, 0, 0, 1, 0, 0, 0, 0, 0, 0]"
  have h: "length h = 12" "b16 (htons requestId) @ [1, 0, 0, 1, 0, 0, 0, 0, 0, 0] = h"
    by (simp_all add: h_def b16_htons)
  have w1: "wr_bytes (wr_bytes m buf h) (buf + 12) x = wr_bytes m buf (h @ x)" for x
    using wr_bytes_append [of m buf h x] by (simp add: h)
  have w2: "wr_bytes (wr_bytes m buf (h @ wire_name host)) (buf + 12 + length (wire_name host)) x
      = wr_bytes m buf (h @ wire_name host @ x)" for x
    using wr_bytes_append [of m buf "h @ wire_name host" x] by (simp add: h add.assoc)
  have w3: "wr_bytes (wr_bytes m buf (h @ wire_name host @ [0, 28])) (buf + 12 + length (wire_name host) + 2) x
      = wr_bytes m buf (h @ wire_name host @ [0, 28] @ x)" for x
    using wr_bytes_append [of m buf "h @ wire_name host @ [0, 28]" x] by (simp add: h ac_simps)
  have e: "encodeName (wr_bytes m buf h) (buf + 12) host
      = Some (wr_bytes m buf (h @ wire_name host), buf + 12 + length (wire_name host))"
    using encodeName_run [of "buf + 12" host "wr_bytes m buf h"] assms w1 by simp
  have "buf_wr m buf (b16 (htons requestId) @ [DNS_FLAG_QUERY OR DNS_FLAG_RD, 0x00]
      @ b16 (htons 1) @ b16 (htons 0) @ b16 (htons 0) @ b16 (htons 0)) = Some (wr_bytes m buf h)"
    using assms h by (simp add: buf_wr_def c)
  moreover have "buf_wr (wr_bytes m buf (h @ wire_name host)) (buf + 12 + length (wire_name host)) [0, 28]
      = Some (wr_bytes m buf (h @ wire_name host @ [0, 28]))"
    using assms w2 by (simp add: buf_wr_def)
  moreover have "buf_wr (wr_bytes m buf (h @ wire_name host @ [0, 28])) (buf + 12 + length (wire_name host) + 2) [0, 1]
      = Some (wr_bytes m buf (h @ wire_name host @ [0, 28, 0, 1]))"
    using assms w3 [of "[0, 1]"] by (simp add: buf_wr_def)
  moreover have "buf + 12 + length (wire_name host) + 2 + 2 - buf = 16 + length (wire_name host)" by simp
  ultimately show ?thesis
    unfolding dnsMakeRequest_def Let_def c h_def [symmetric] by (simp only: bind.bind_lunit e prod.case)
qed

lemma dnsMakeRequest_layout_witness:
  "dnsMakeRequest (\<lambda>_. 0) 62 (chars ''a.bc'') 7 = Some (22, wr_bytes (\<lambda>_. 0) 62
     [0, 7, 1, 0, 0, 1, 0, 0, 0, 0, 0, 0, 1, 0x61, 2, 0x62, 0x63, 0, 0, 28, 0, 1])"
proof -
  have w: "wire_name (chars ''a.bc'') = [1, 0x61, 2, 0x62, 0x63, 0]" by code_simp
  have c: "ucast (drop_bit 8 (7 :: u16)) = (0 :: byte)" "ucast (7 :: u16) = (7 :: byte)" by code_simp+
  show ?thesis using dnsMakeRequest_layout [where buf = 62 and host = "chars ''a.bc''" and m = "\<lambda>_. 0" and requestId = 7]
    by (simp add: w c)
qed

lemma skipOverName_wire:
  assumes "ls \<noteq> []" "\<forall>l\<in>set ls. 0 < length l \<and> length l < 64"
    "rd_bytes m q (length (wire_labels ls @ [0])) = wire_labels ls @ [0]" "q + length (wire_labels ls @ [0]) \<le> 600"
  shows "skipOverName m q = Some (q + length (wire_labels ls @ [0]))"
  using assms
proof (induction ls arbitrary: q)
  case (Cons l ls)
  let ?n = "length (wire_labels ls @ [0])"
  have l: "0 < length l" "length l < 64" using Cons.prems(2) by auto
  have u: "unat (word_of_nat (length l) :: byte) = length l"
    using l by (simp add: unsigned_of_nat take_bit_eq_mod)
  have split: "rd_bytes m q (Suc (length l)) @ rd_bytes m (q + Suc (length l)) ?n
      = (word_of_nat (length l) # l) @ wire_labels ls @ [0]"
    using Cons.prems(3) rd_bytes_append [of m q "Suc (length l)" ?n] by simp
  then have r: "rd_bytes m q (Suc (length l)) = word_of_nat (length l) # l"
    "rd_bytes m (q + Suc (length l)) ?n = wire_labels ls @ [0]"
    using append_eq_append_conv [of "rd_bytes m q (Suc (length l))" "word_of_nat (length l) # l"] by simp_all
  have c: "buf_at m q = Some (word_of_nat (length l))"
    using r(1) Cons.prems(4) by (simp add: rd_bytes_Suc buf_at_def)
  have nz: "(word_of_nat (length l) :: byte) \<noteq> 0" using u l(1) by auto
  have top: "(word_of_nat (length l) :: byte) AND 0xC0 \<noteq> 0xC0"
  proof
    assume "(word_of_nat (length l) :: byte) AND 0xC0 = 0xC0"
    then have "(0xC0 :: byte) \<le> word_of_nat (length l)" by (metis word_and_le2)
    then have "192 \<le> length l" using u by (simp add: word_le_nat_alt)
    with l(2) show False by simp
  qed
  show ?case
  proof (cases ls)
    case Nil
    with r(2) have "m (q + Suc (length l)) = 0" by (simp add: rd_bytes_Suc)
    then show ?thesis using Nil c nz top u Cons.prems(4)
      by (subst skipOverName.simps) (simp add: buf_at_def)
  next
    case more: (Cons l2 ls2)
    have "0 < length l2" "length l2 < 64" using Cons.prems(2) more by auto
    then have "unat (word_of_nat (length l2) :: byte) \<noteq> 0"
      by (simp add: unsigned_of_nat take_bit_eq_mod)
    then have "(word_of_nat (length l2) :: byte) \<noteq> 0" by auto
    moreover have "m (q + Suc (length l)) = word_of_nat (length l2)"
      using r(2) more by (simp add: rd_bytes_Suc)
    moreover have "skipOverName m (q + Suc (length l)) = Some (q + Suc (length l) + ?n)"
      by (rule Cons.IH) (use more Cons.prems r(2) in auto)
    ultimately show ?thesis using c nz top u Cons.prems(4) more
      by (subst skipOverName.simps) (simp add: buf_at_def)
  qed
qed simp

text \<open>
  Skipping inverts encoding: where a name was encoded with proper labels, of 1 to 63 bytes,
  \<open>skipOverName\<close> ends exactly behind it.
\<close>

theorem skipOverName_inverts_encodeName:
  assumes "\<forall>l\<in>set (split_dots name). 0 < length l \<and> length l < 64" "q + length (wire_name name) \<le> 600"
    "encodeName m q name = Some (m', q')"
  shows "skipOverName m' q = Some q'"
proof -
  have e: "m' = wr_bytes m q (wire_name name)" "q' = q + length (wire_name name)"
    using assms(3) encodeName_run [OF assms(2), of m] by simp_all
  have ne: "split_dots name \<noteq> []" by (cases name) simp_all
  show ?thesis
    using skipOverName_wire [OF ne assms(1), of m' q] assms(2) e by (simp add: wire_name_def rd_wr_same)
qed

lemma skipOverName_inverts_encodeName_witness:
  "\<exists>m'. encodeName (\<lambda>_. 0) 62 (chars ''a.bc'') = Some (m', 68) \<and> skipOverName m' 62 = Some 68"
proof -
  have l: "\<forall>l\<in>set (split_dots (chars ''a.bc'')). 0 < length l \<and> length l < 64"
    "62 + length (wire_name (chars ''a.bc'')) \<le> 600" by code_simp+
  have "map_option snd (encodeName (\<lambda>_. 0) 62 (chars ''a.bc'')) = Some 68" by code_simp
  then obtain m' where m: "encodeName (\<lambda>_. 0) 62 (chars ''a.bc'') = Some (m', 68)" by auto
  show ?thesis using skipOverName_inverts_encodeName [OF l m] m by blast
qed

section \<open>Answers\<close>

text \<open>The specification of an answer section: resource records with compressed names.\<close>

record dns_rr =
  rr_name :: "byte \<times> byte"
  rr_type :: u16
  rr_class :: u16
  rr_ttl :: "byte list"
  rr_data :: "byte list"

definition wf_rr :: "dns_rr \<Rightarrow> bool" where
  "wf_rr r \<longleftrightarrow> fst (rr_name r) AND 0xC0 = 0xC0 \<and> length (rr_ttl r) = 4 \<and> length (rr_data r) < 600"

definition wire_rr :: "dns_rr \<Rightarrow> byte list" where
  "wire_rr r = [fst (rr_name r), snd (rr_name r)] @ b16 (htons (rr_type r)) @ b16 (htons (rr_class r)) @ rr_ttl r
     @ b16 (htons (word_of_nat (length (rr_data r)))) @ rr_data r"

definition is_AAAA :: "dns_rr \<Rightarrow> bool" where
  "is_AAAA r \<longleftrightarrow> rr_class r = DNS_CLASS_IN \<and> rr_type r = DNS_TYPE_AAAA \<and> length (rr_data r) = 16"

lemma length_wire_rr: "wf_rr r \<Longrightarrow> length (wire_rr r) = 12 + length (rr_data r)"
  by (simp add: wire_rr_def wf_rr_def)

lemma htons_inj: "htons a = htons b \<longleftrightarrow> a = b"
  by (metis htons_htons)

lemma le16_b16_append: "le16 (b16 v @ xs) = v"
proof -
  have "le16 (b16 v @ xs) = le16 (b16 v)" by (simp add: le16_def b16_def)
  then show ?thesis by simp
qed

lemma findAnswer_rrs:
  assumes "\<forall>r\<in>set rs. wf_rr r" "rd_bytes m q (length (concat (map wire_rr rs))) = concat (map wire_rr rs)"
    "q + length (concat (map wire_rr rs)) \<le> e" "e \<le> 600"
  shows "dns_findAnswer m (length rs) q e = Some (map_option rr_data (List.find is_AAAA rs))"
  using assms
proof (induction rs arbitrary: q)
  case (Cons r rs)
  let ?w = "wire_rr r" and ?t = "concat (map wire_rr rs)" and ?d = "length (rr_data r)"
  have wf: "fst (rr_name r) AND 0xC0 = 0xC0" "length (rr_ttl r) = 4" "?d < 600" "length ?w = 12 + ?d"
    using Cons.prems(1) by (simp_all add: wf_rr_def length_wire_rr)
  have len: "unat (word_of_nat ?d :: u16) = ?d" using wf(3) by (simp add: unsigned_of_nat take_bit_eq_mod)
  have nz: "fst (rr_name r) \<noteq> 0" using wf(1) by auto
  have fit: "q + 12 + ?d \<le> 600" using Cons.prems(3,4) wf(4) by simp
  have "rd_bytes m q (length ?w) @ rd_bytes m (q + length ?w) (length ?t) = ?w @ ?t"
    using Cons.prems(2) rd_bytes_append [of m q "length ?w" "length ?t"] by simp
  then have r: "rd_bytes m q (length ?w) = ?w" "rd_bytes m (q + length ?w) (length ?t) = ?t"
    using append_eq_append_conv [of "rd_bytes m q (length ?w)" ?w] by simp_all
  have part: "rd_bytes m (q + i) n = take n (drop i ?w)" if "i + n \<le> length ?w" for i n
    by (subst r(1) [symmetric]) (use that in \<open>simp add: min_absorb1\<close>)
  have b0: "m q = fst (rr_name r)"
    using part [of 0 1] wf(4) by (simp add: wire_rr_def rd_bytes_Suc)
  have skip: "skipOverName m q = Some (q + 2)"
    using fit nz wf(1) by (subst skipOverName.simps) (simp add: buf_at_def b0)
  let ?rec = "b16 (htons (rr_type r)) @ b16 (htons (rr_class r)) @ rr_ttl r @ b16 (htons (word_of_nat ?d))"
  have rec: "buf_rd m (q + 2) 10 = Some ?rec"
    using part [of 2 10] wf fit by (simp add: buf_rd_def wire_rr_def numeral_2_eq_2)
  have data: "buf_rd m (q + 2 + 10) 16 = Some (rr_data r)" if "?d = 16"
    using part [of 12 16] wf fit that by (simp add: buf_rd_def wire_rr_def b16_def eval_nat_numeral)
  have fields: "le16 (drop 2 ?rec) = htons (rr_class r)" "le16 ?rec = htons (rr_type r)"
    "ntohs (le16 (drop 8 ?rec)) = word_of_nat ?d"
    using wf(2) by (simp_all add: le16_b16_append drop_Cons')
  show ?case
  proof (cases "is_AAAA r")
    case True
    then show ?thesis using skip rec data fields
      by (simp add: is_AAAA_def Let_def)
  next
    case False
    have ne: "\<not> (htons (rr_class r) = htons 1 \<and> htons (rr_type r) = htons 28 \<and> (word_of_nat ?d :: u16) = 16)"
    proof
      assume a: "htons (rr_class r) = htons 1 \<and> htons (rr_type r) = htons 28 \<and> (word_of_nat ?d :: u16) = 16"
      then have "unat (word_of_nat ?d :: u16) = 16" by simp
      then have "?d = 16" using len by simp
      with a False show False by (simp add: is_AAAA_def htons_inj)
    qed
    have "dns_findAnswer m (length rs) (q + (12 + ?d)) e = Some (map_option rr_data (List.find is_AAAA rs))"
      by (rule Cons.IH) (use Cons.prems r(2) wf(4) in auto)
    then show ?thesis
      using skip rec fields ne len Cons.prems(3) wf(4) False
      by (simp add: Let_def ac_simps) blast
  qed
qed simp

text \<open>
  C11. A reply is read as its records say: when the header carries the id of the request, no error and
  one question, and the question and the answer records follow, \<open>dnsProcessReply\<close> returns the data of
  the first record of class IN and type AAAA with 16 bytes, and null if there is none. The counts of
  the header are truncated to 8 bits, so at most 255 records are seen.
\<close>

theorem dnsProcessReply_first_AAAA:
  assumes "\<forall>r\<in>set rs. wf_rr r" "length rs < 256"
    and labels: "\<forall>l\<in>set (split_dots name). 0 < length l \<and> length l < 64"
    and hdr: "ntohs (ld16 m q) = requestId" "m (q + 3) AND DNS_RCODE_MASK = 0" "ntohs (ld16 m (q + 4)) = 1"
      "ntohs (ld16 m (q + 6)) = word_of_nat (length rs)"
    and question: "rd_bytes m (q + 12) (length (wire_name name)) = wire_name name"
    and answers: "rd_bytes m (q + 16 + length (wire_name name)) (length (concat (map wire_rr rs)))
        = concat (map wire_rr rs)"
    and fits: "q + 16 + length (wire_name name) + length (concat (map wire_rr rs)) \<le> q + unat len" "q + unat len \<le> 600"
  shows "dnsProcessReply m q len requestId = Some (map_option rr_data (List.find is_AAAA rs))"
proof -
  let ?a = "q + 16 + length (wire_name name)"
  have n: "unat (ucast (word_of_nat (length rs) :: u16) :: byte) = length rs"
    using assms(2) by (simp add: unsigned_ucast_eq unsigned_of_nat take_bit_eq_mod)
  have ne: "split_dots name \<noteq> []" by (cases name) simp_all
  have "skipOverName m (q + 12) = Some (q + 12 + length (wire_name name))"
    using skipOverName_wire [OF ne labels, of m "q + 12"] question fits by (simp add: wire_name_def)
  then have "dns_skipQuestions m (Suc 0) (q + 12) (q + unat len) = Some (Some ?a)"
    using fits by (simp add: Let_def ac_simps)
  moreover have "dns_findAnswer m (length rs) ?a (q + unat len) = Some (map_option rr_data (List.find is_AAAA rs))"
    using findAnswer_rrs [OF assms(1) answers] fits by simp
  moreover have "unat (ucast (1 :: u16) :: byte) = Suc 0" by simp
  ultimately show ?thesis
    using hdr n by (simp add: dnsProcessReply_def Let_def del: dns_skipQuestions.simps)
qed

definition sample_reply :: "byte list" where
  "sample_reply = [0, 7, 0x81, 0x80, 0, 1, 0, 2, 0, 0, 0, 0] @ wire_name (chars ''a.bc'') @ [0, 28, 0, 1]
     @ concat (map wire_rr [\<lparr>rr_name = (0xC0, 12), rr_type = 5, rr_class = 1, rr_ttl = [0, 0, 1, 0], rr_data = [1, 0x62, 0]\<rparr>,
         \<lparr>rr_name = (0xC0, 12), rr_type = 28, rr_class = 1, rr_ttl = [0, 0, 1, 0],
           rr_data = [0x20, 1, 0xd, 0xb8, 0, 0, 0, 0, 0, 0, 0, 0, 0, 0, 0, 1]\<rparr>])"

lemma dnsProcessReply_first_AAAA_witness:
  "dnsProcessReply (wr_bytes (\<lambda>_. 0) 62 sample_reply) 62 65 7
     = Some (Some [0x20, 1, 0xd, 0xb8, 0, 0, 0, 0, 0, 0, 0, 0, 0, 0, 0, 1])"
proof -
  let ?rs = "[\<lparr>rr_name = (0xC0, 12), rr_type = 5, rr_class = 1, rr_ttl = [0, 0, 1, 0], rr_data = [1, 0x62, 0]\<rparr>,
         \<lparr>rr_name = (0xC0, 12), rr_type = 28, rr_class = 1, rr_ttl = [0, 0, 1, 0],
           rr_data = [0x20, 1, 0xd, 0xb8, 0, 0, 0, 0, 0, 0, 0, 0, 0, 0, 0, 1]\<rparr>]"
  have "dnsProcessReply (wr_bytes (\<lambda>_. 0) 62 sample_reply) 62 65 7 = Some (map_option rr_data (List.find is_AAAA ?rs))"
    by (rule dnsProcessReply_first_AAAA [where name = "chars ''a.bc''"]) code_simp+
  moreover have "List.find is_AAAA ?rs = Some (?rs ! 1)" by code_simp
  ultimately show ?thesis by simp
qed

end
