(* ===== verification/HTTP_Server.thy ===== *)
theory HTTP_Server
  imports TCP_Server DNS
begin

text \<open>
  \<open>src/src/HTTPServer.cpp\<close>: matching the request line of a TCP segment against a method and a path,
  finding the body, and printing responses through the \<open>Print\<close> interface of the socket. \<open>_bodyPtr\<close> and
  \<open>_pathPtr\<close> are offsets in the packet buffer.
\<close>

record http_server = socket +
  bodyPtr :: "nat option"
  pathPtr :: nat

definition HTTPServer_typeHtml :: "byte list" where "HTTPServer_typeHtml = chars ''text/html''"
definition HTTPServer_typePlain :: "byte list" where "HTTPServer_typePlain = chars ''text/plain''"
definition HTTPServer_typeJson :: "byte list" where "HTTPServer_typeJson = chars ''application/json''"
definition HTTPServer_status200 :: "byte list" where "HTTPServer_status200 = chars ''200 OK''"
definition HTTPServer_status302 :: "byte list" where "HTTPServer_status302 = chars ''302 Redirect''"
definition HTTPServer_status404 :: "byte list" where "HTTPServer_status404 = chars ''404 Not Found''"
definition HTTPServer_methodGet :: "byte list" where "HTTPServer_methodGet = chars ''GET''"
definition HTTPServer_methodPost :: "byte list" where "HTTPServer_methodPost = chars ''POST''"
definition HTTPServer_methodPut :: "byte list" where "HTTPServer_methodPut = chars ''PUT''"
definition HTTPServer_methodDelete :: "byte list" where "HTTPServer_methodDelete = chars ''DELETE''"

definition HTTPServer_new :: "u16 \<Rightarrow> nat \<Rightarrow> http_server" where
  "HTTPServer_new local_port uninit = \<lparr>remoteAddress = IPv6Address_zero, remoteMac = MACAddress_zero,
     remotePort = 0, localPort = local_port, writePos = -1, bodyPtr = None, pathPtr = uninit\<rparr>"

section \<open>Responses\<close>

definition HTTPServer_printStatus ::
    "'d platform \<Rightarrow> byte list \<Rightarrow> http_server \<Rightarrow> 'd ether \<Rightarrow> (http_server \<times> 'd ether) option" where
  "HTTPServer_printStatus p status k s = do {
     (k, s) \<leftarrow> Socket_print TCPServer_vt p (chars ''HTTP/1.0 '') k s;
     (k, s) \<leftarrow> Socket_println TCPServer_vt p status k s;
     Socket_println TCPServer_vt p (chars ''Server: EtherSia'') k s
   }"

definition HTTPServer_printHeaders ::
    "'d platform \<Rightarrow> byte list \<Rightarrow> byte list \<Rightarrow> http_server \<Rightarrow> 'd ether \<Rightarrow> (http_server \<times> 'd ether) option" where
  "HTTPServer_printHeaders p contentType status k s = do {
     (k, s) \<leftarrow> HTTPServer_printStatus p status k s;
     (k, s) \<leftarrow> Socket_print TCPServer_vt p (chars ''Content-Type: '') k s;
     (k, s) \<leftarrow> Socket_println TCPServer_vt p contentType k s;
     Socket_println TCPServer_vt p [] k s
   }"

definition HTTPServer_notFound :: "'d platform \<Rightarrow> http_server \<Rightarrow> 'd ether \<Rightarrow> (http_server \<times> 'd ether) option" where
  "HTTPServer_notFound p k s = do {
     (have_packet, k, s) \<leftarrow> TCPServer_havePacket p k s;
     if have_packet then do {
       (k, s) \<leftarrow> HTTPServer_printHeaders p HTTPServer_typePlain HTTPServer_status404 k s;
       (k, s) \<leftarrow> Socket_println TCPServer_vt p HTTPServer_status404 k s;
       Socket_sendReply_written TCPServer_vt p k s
     }
     else Some (k, s)
   }"

definition HTTPServer_redirect ::
    "'d platform \<Rightarrow> byte list \<Rightarrow> http_server \<Rightarrow> 'd ether \<Rightarrow> (http_server \<times> 'd ether) option" where
  "HTTPServer_redirect p location k s = do {
     (k, s) \<leftarrow> HTTPServer_printStatus p HTTPServer_status302 k s;
     (k, s) \<leftarrow> Socket_print TCPServer_vt p (chars ''Location: '') k s;
     (k, s) \<leftarrow> Socket_println TCPServer_vt p location k s;
     (k, s) \<leftarrow> Socket_println TCPServer_vt p [] k s;
     (k, s) \<leftarrow> Socket_println TCPServer_vt p HTTPServer_status302 k s;
     Socket_sendReply_written TCPServer_vt p k s
   }"

section \<open>Requests\<close>

definition isWhitespace :: "byte \<Rightarrow> bool" where
  "isWhitespace c \<longleftrightarrow> c = 0x20 \<or> c = 0x09"

text \<open>
  The loop over the path: \<open>path\<close> is the C string in flash to match, with \<open>?\<close> for any character and \<open>#\<close>
  for anything from there on. Reading it past its terminator is a fault.
\<close>

function HTTPServer_matchPath :: "nat \<Rightarrow> byte list \<Rightarrow> nat \<Rightarrow> nat \<Rightarrow> bool \<Rightarrow> mem \<Rightarrow> (bool \<times> mem) option" where
  "HTTPServer_matchPath path_ptr path i maxlen allowAny m =
     (if i < maxlen then do {
        match \<leftarrow> cstr_at path i;
        c \<leftarrow> buf_at m (path_ptr + i);
        if (isWhitespace c \<or> c = 0x3F) \<and> match = 0 then do {
          m \<leftarrow> buf_wr m (path_ptr + i) [0];
          Some (True, m)
        }
        else if isWhitespace c \<or> c = 0x3F then Some (False, m)
        else
          let allowAny = (match = 0x23 \<or> allowAny) in
          if match = 0x3F \<or> allowAny then HTTPServer_matchPath path_ptr path (i + 1) maxlen allowAny m
          else if c \<noteq> match then Some (False, m)
          else HTTPServer_matchPath path_ptr path (i + 1) maxlen allowAny m
      }
      else Some (True, m))"
  by pat_completeness auto
termination
  by (relation "measure (\<lambda>(_, _, i, maxlen, _, _). maxlen - i)") auto

declare HTTPServer_matchPath.simps [simp del]

text \<open>Searching the empty line; the last argument is the number of positions left, so the search is structural.\<close>

fun HTTPServer_findBody :: "mem \<Rightarrow> nat \<Rightarrow> nat \<Rightarrow> nat \<Rightarrow> nat option option" where
  "HTTPServer_findBody m payload pos 0 = Some None"
| "HTTPServer_findBody m payload pos (Suc left) = do {
     c \<leftarrow> buf_at m (payload + pos);
     found \<leftarrow> (if c = 0x0A then do {
         c2 \<leftarrow> buf_at m (payload + pos - 2);
         if c2 = 0x0A then Some True
         else do { c1 \<leftarrow> buf_at m (payload + pos - 1); Some (c1 = 0x0A) }
       } else Some False);
     if found then Some (Some (payload + pos + 1))
     else HTTPServer_findBody m payload (pos + 1) left
   }"

definition HTTPServer_checkRequest ::
    "'d platform \<Rightarrow> byte list \<Rightarrow> byte list \<Rightarrow> http_server \<Rightarrow> 'd ether \<Rightarrow> (bool \<times> http_server \<times> 'd ether) option" where
  "HTTPServer_checkRequest p method path k s =
     (let payload = TCPServer_payload s;
          len = TCPServer_payloadLength s
      in do {
        (have_packet, k, s) \<leftarrow> TCPServer_havePacket p k s;
        if \<not> have_packet then Some (False, k, s)
        else do {
          let endOfMethod = length method;
          req \<leftarrow> buf_rd (buffer s) payload endOfMethod;
          if req \<noteq> method then Some (False, k, s)
          else do {
            c \<leftarrow> buf_at (buffer s) (payload + endOfMethod);
            if c \<noteq> 0x20 then Some (False, k, s)
            else do {
              let maxlen = (ucast (len - word_of_nat endOfMethod - 1) :: byte);
              let k = k\<lparr>pathPtr := payload + endOfMethod + 1\<rparr>;
              (matched, m) \<leftarrow> HTTPServer_matchPath (pathPtr k) path 0 (unat maxlen) False (buffer s);
              let s = s\<lparr>buffer := m\<rparr>;
              if \<not> matched then Some (False, k, s)
              else do {
                let k = k\<lparr>bodyPtr := None\<rparr>;
                let start = endOfMethod + 1;
                body \<leftarrow> HTTPServer_findBody (buffer s) payload start (unat (len - 1) - start);
                case body of
                  None \<Rightarrow> Some (True, k, s)
                | Some b \<Rightarrow> do {
                    m \<leftarrow> buf_wr (buffer s) (payload + unat len) [0];
                    Some (True, k\<lparr>bodyPtr := Some b\<rparr>, s\<lparr>buffer := m\<rparr>)
                  }
              }
            }
          }
        }
      })"

definition HTTPServer_isGet ::
    "'d platform \<Rightarrow> byte list \<Rightarrow> http_server \<Rightarrow> 'd ether \<Rightarrow> (bool \<times> http_server \<times> 'd ether) option" where
  "HTTPServer_isGet p path = HTTPServer_checkRequest p HTTPServer_methodGet path"

definition HTTPServer_isPost ::
    "'d platform \<Rightarrow> byte list \<Rightarrow> http_server \<Rightarrow> 'd ether \<Rightarrow> (bool \<times> http_server \<times> 'd ether) option" where
  "HTTPServer_isPost p path = HTTPServer_checkRequest p HTTPServer_methodPost path"

definition HTTPServer_isPut ::
    "'d platform \<Rightarrow> byte list \<Rightarrow> http_server \<Rightarrow> 'd ether \<Rightarrow> (bool \<times> http_server \<times> 'd ether) option" where
  "HTTPServer_isPut p path = HTTPServer_checkRequest p HTTPServer_methodPut path"

definition HTTPServer_isDelete ::
    "'d platform \<Rightarrow> byte list \<Rightarrow> http_server \<Rightarrow> 'd ether \<Rightarrow> (bool \<times> http_server \<times> 'd ether) option" where
  "HTTPServer_isDelete p path = HTTPServer_checkRequest p HTTPServer_methodDelete path"

definition HTTPServer_bodyLength :: "http_server \<Rightarrow> 'd ether \<Rightarrow> u16" where
  "HTTPServer_bodyLength k s =
     (case bodyPtr k of None \<Rightarrow> 0
      | Some b \<Rightarrow> TCPServer_payloadLength s - (word_of_nat b - word_of_nat (TCPServer_payload s)))"

text \<open>\<open>strcmp\<close> of the packet at \<open>off\<close> with a C string, as equality.\<close>

fun strcmp_eq :: "mem \<Rightarrow> nat \<Rightarrow> byte list \<Rightarrow> bool option" where
  "strcmp_eq m off [] = do { c \<leftarrow> buf_at m off; Some (c = 0) }"
| "strcmp_eq m off (d # str) = do {
     c \<leftarrow> buf_at m off;
     if c \<noteq> d then Some False else strcmp_eq m (Suc off) str
   }"

definition HTTPServer_bodyEquals :: "byte list \<Rightarrow> http_server \<Rightarrow> 'd ether \<Rightarrow> bool option" where
  "HTTPServer_bodyEquals str k s =
     (case bodyPtr k of None \<Rightarrow> Some False | Some b \<Rightarrow> strcmp_eq (buffer s) b str)"

section \<open>The text of the responses\<close>

abbreviation (input) crlf :: "byte list" where "crlf \<equiv> [0x0D, 0x0A]"

definition status_text :: "byte list \<Rightarrow> byte list" where
  "status_text status = chars ''HTTP/1.0 '' @ status @ crlf @ chars ''Server: EtherSia'' @ crlf"

definition headers_text :: "byte list \<Rightarrow> byte list \<Rightarrow> byte list" where
  "headers_text contentType status = status_text status @ chars ''Content-Type: '' @ contentType @ crlf @ crlf"

lemma printStatus_print:
  "HTTPServer_printStatus p status k s = Socket_print TCPServer_vt p (status_text status) k s"
  by (simp only: HTTPServer_printStatus_def status_text_def Socket_println_print Socket_print_append bind_assoc
      split_def)

lemma printHeaders_print:
  "HTTPServer_printHeaders p ct status k s = Socket_print TCPServer_vt p (headers_text ct status) k s"
  by (simp only: HTTPServer_printHeaders_def headers_text_def printStatus_print Socket_println_print
      Socket_print_append bind_assoc split_def append_Nil)

text \<open>What a server socket that has received data prints and then sends.\<close>

lemma print_and_send:
  assumes "wf_ether s" "IPv6Packet_etherType (buffer s) = ETHER_TYPE_IPV6" "IPv6Packet_version (buffer s) = 6"
    "buffer s tcp_flags = 0" "writePos k = -1" "str \<noteq> []" "hd str \<noteq> 0x0A" "hd str \<noteq> 0x0D" "length str \<le> 522"
  shows "\<exists>m r. do {
       (k, s) \<leftarrow> Socket_print TCPServer_vt p str k s;
       Socket_sendReply_written TCPServer_vt p k s
     } = map_option (Pair (k\<lparr>writePos := -1\<rparr>)) r \<and> sends p s m r
     \<and> unat (IPv6Packet_payloadLength m) = 24 + length str \<and> rd_bytes m 78 (length str) = str
     \<and> m tcp_flags = TCP_FLAG_ACK OR TCP_FLAG_FIN OR TCP_FLAG_PSH
     \<and> IPv6Packet_destination m = IPv6Packet_source (buffer s)"
proof -
  let ?len = "word_of_nat (length str) :: u16"
  let ?k = "k\<lparr>writePos := ?len\<rparr>"
  let ?s = "s\<lparr>buffer := wr_bytes (buffer s) 78 str\<rparr>"
  have z: "tcpserver_print.written k = 0" by (simp add: tcpserver_print.written_def assms(5))
  have pr: "Socket_print TCPServer_vt p str k s = Some (?k, ?s)"
    using tcpserver_print.print_run [of str k p s] assms z by simp
  have len: "unat ?len = length str" "unat (24 + ?len) = 24 + length str"
    using assms(9) by (simp_all add: unsigned_of_nat take_bit_eq_mod unat_word_ariths)
  have pos: "0 <s ?len" using assms(6,9) by (subst sgt0_u16) auto
  have w: "wf_ether ?s" using assms(1) by simp
  have h: "IPv6Packet_etherType (buffer ?s) = ETHER_TYPE_IPV6" "IPv6Packet_version (buffer ?s) = 6"
    "buffer ?s 67 = 0" "rd_bytes (buffer ?s) 78 (length str) = str"
    "IPv6Packet_source (buffer ?s) = IPv6Packet_source (buffer s)"
    using assms by (simp_all add: hdr_simps)
  have l: "unat ?len \<le> 522" using len assms(9) by simp
  obtain m r where x: "Socket_send TCPServer_vt p ?len True ?k ?s = map_option (Pair ?k) r" "sends p ?s m r"
    "IPv6Packet_payloadLength m = 24 + ?len" "rd_bytes m 78 (length str) = str" "m 67 = 0x19"
    "IPv6Packet_destination m = IPv6Packet_source (buffer s)"
    using TCPServer_reply_sends [OF w h(1,2) l, of p ?k] unfolding len h by auto
  have "do { (k, s) \<leftarrow> Socket_print TCPServer_vt p str k s; Socket_sendReply_written TCPServer_vt p k s }
      = map_option (Pair (k\<lparr>writePos := -1\<rparr>)) r"
    using pos x(1) by (simp add: pr Socket_sendReply_written_def Socket_send_written_def)
      (cases r; simp)
  moreover have "sends p s m r" using x(2) by simp
  ultimately show ?thesis using x len by (intro exI [of _ m] exI [of _ r]) simp
qed

text \<open>
  A request nothing matched is answered with a complete HTTP response: one valid segment back to
  the client whose payload is exactly the 404 status line, the headers, an empty line and the text,
  and which closes the connection.
\<close>

theorem HTTPServer_notFound_response:
  assumes "wf_ether s" "for_server k s" "buffer s tcp_flags AND TCP_FLAG_FIN = 0"
    "buffer s tcp_flags AND TCP_FLAG_SYN = 0" "0 < TCPServer_payloadLength s"
  defines "response \<equiv> chars ''HTTP/1.0 404 Not Found'' @ crlf @ chars ''Server: EtherSia'' @ crlf
       @ chars ''Content-Type: text/plain'' @ crlf @ crlf @ chars ''404 Not Found'' @ crlf"
  shows "\<exists>m r. HTTPServer_notFound p k s = map_option (Pair (k\<lparr>writePos := -1\<rparr>)) r \<and> sends p s m r
     \<and> unat (IPv6Packet_payloadLength m) = 24 + length response
     \<and> rd_bytes m 78 (length response) = response
     \<and> m tcp_flags = TCP_FLAG_ACK OR TCP_FLAG_FIN OR TCP_FLAG_PSH
     \<and> IPv6Packet_destination m = IPv6Packet_source (buffer s)"
proof -
  let ?k = "k\<lparr>writePos := -1\<rparr>" and ?s = "s\<lparr>buffer := st8 (buffer s) 67 0\<rparr>"
  have hp: "TCPServer_havePacket p k s = Some (True, ?k, ?s)"
    using assms(2-5) by (simp add: TCPServer_havePacket_def for_server_def)
  have r: "response = headers_text HTTPServer_typePlain HTTPServer_status404 @ HTTPServer_status404 @ crlf"
    by (simp add: response_def headers_text_def status_text_def HTTPServer_typePlain_def HTTPServer_status404_def
        chars_def)
  have h: "response \<noteq> []" "hd response \<noteq> 0x0A" "hd response \<noteq> 0x0D" "length response \<le> 522"
    by (simp_all add: response_def chars_def)
  have run: "HTTPServer_notFound p k s = do {
      (k, s) \<leftarrow> Socket_print TCPServer_vt p response ?k ?s;
      Socket_sendReply_written TCPServer_vt p k s }"
    by (simp only: HTTPServer_notFound_def hp bind.bind_lunit fst_conv snd_conv if_True r printHeaders_print
        Socket_println_print Socket_print_append bind_assoc split_def)
  have e: "sends p ?s m q = sends p s m q" for m q by (simp add: sends_def)
  have f: "wf_ether ?s" "IPv6Packet_etherType (buffer ?s) = ETHER_TYPE_IPV6" "IPv6Packet_version (buffer ?s) = 6"
    "buffer ?s 67 = 0" "IPv6Packet_source (buffer ?s) = IPv6Packet_source (buffer s)" "writePos ?k = -1"
    using assms(1,2) valid_header [of "buffer s"] by (simp_all add: for_server_def hdr_simps)
  show ?thesis
    using print_and_send [OF f(1-4,6) h, of p] unfolding run e f(5) by simp
qed

lemma HTTPServer_notFound_response_witness:
  "\<exists>m r. HTTPServer_notFound quiet_platform (HTTPServer_new 80 0) sample_data = map_option (Pair (HTTPServer_new 80 0)) r
     \<and> sends quiet_platform sample_data m r \<and> unat (IPv6Packet_payloadLength m) = 24 + 85"
proof -
  have "wf_ether sample_data" "for_server (HTTPServer_new 80 0) sample_data" "buffer sample_data 67 AND 1 = 0"
    "buffer sample_data 67 AND 2 = 0" "0 < TCPServer_payloadLength sample_data"
    by code_simp+
  note t = HTTPServer_notFound_response [OF this, of quiet_platform]
  have "(HTTPServer_new 80 0)\<lparr>writePos := -1\<rparr> = HTTPServer_new 80 0" by (simp add: HTTPServer_new_def)
  with t show ?thesis by (simp del: One_nat_def) blast
qed

section \<open>Matching paths\<close>

definition path_char :: "byte \<Rightarrow> bool" where
  "path_char c \<longleftrightarrow> c \<noteq> 0 \<and> c \<noteq> 0x20 \<and> c \<noteq> 0x09 \<and> c \<noteq> 0x3F \<and> c \<noteq> 0x23"

text \<open>
  A pattern is a path in which a question mark stands for any character; a pattern with \<open>#\<close> is read past its end
  and is left out.
\<close>

definition pattern_char :: "byte \<Rightarrow> bool" where
  "pattern_char c \<longleftrightarrow> c \<noteq> 0 \<and> c \<noteq> 0x23"

definition path_matches :: "byte list \<Rightarrow> byte list \<Rightarrow> bool" where
  "path_matches pattern path \<longleftrightarrow> list_all2 (\<lambda>p c. p = 0x3F \<or> p = c) pattern path"

lemma path_matches_simps [simp]:
  "path_matches [] []" "\<not> path_matches [] (c # r)" "\<not> path_matches (p # x) []"
  "path_matches (p # x) (c # r) \<longleftrightarrow> (p = 0x3F \<or> p = c) \<and> path_matches x r"
  by (simp_all add: path_matches_def)

lemma path_matches_length: "path_matches pattern path \<Longrightarrow> length path = length pattern"
  by (simp add: path_matches_def list_all2_lengthD)

definition path_end :: "byte \<Rightarrow> bool" where
  "path_end c \<longleftrightarrow> isWhitespace c \<or> c = 0x3F"

lemma matchPath_pattern:
  assumes "rd_bytes m (q + i) (length r) = r" "path_end (m (q + i + length r))" "i + length r < maxlen"
    "q + i + length r < 600" "path = pre @ x" "length pre = i" "list_all pattern_char x" "list_all path_char r"
  shows "HTTPServer_matchPath q path i maxlen False m
    = Some (path_matches x r, if path_matches x r then wr_bytes m (q + i + length r) [0] else m)"
  using assms
proof (induction r arbitrary: i pre x)
  case Nil
  have c: "buf_at m (q + i) = Some (m (q + i))" using Nil.prems(4) by (simp add: buf_at_def)
  show ?case
  proof (cases x)
    case Nil
    then have "cstr_at path i = Some 0" using Nil.prems(5,6) by (simp add: cstr_at_def)
    then show ?thesis using Nil Nil.prems c
      by (subst HTTPServer_matchPath.simps) (auto simp: path_end_def buf_wr_def)
  next
    case (Cons b x')
    then have "cstr_at path i = Some b" "b \<noteq> 0"
      using Nil.prems(5-7) by (simp_all add: cstr_at_def nth_append pattern_char_def)
    then show ?thesis using Cons Nil.prems c
      by (subst HTTPServer_matchPath.simps) (auto simp: path_end_def)
  qed
next
  case (Cons a r)
  have a: "m (q + i) = a" "rd_bytes m (q + Suc i) (length r) = r"
    using Cons.prems(1) by (simp_all add: rd_bytes_Suc)
  have c: "buf_at m (q + i) = Some a" using Cons.prems(4) a by (simp add: buf_at_def)
  have pa: "a \<noteq> 0" "\<not> isWhitespace a" "a \<noteq> 0x3F"
    using Cons.prems(8) by (simp_all add: path_char_def isWhitespace_def)
  show ?case
  proof (cases x)
    case Nil
    then have "cstr_at path i = Some 0" using Cons.prems(5,6) by (simp add: cstr_at_def)
    then show ?thesis using Nil Cons.prems(3) c pa
      by (subst HTTPServer_matchPath.simps) (auto simp: Let_def)
  next
    case x: (Cons b x')
    then have b: "cstr_at path i = Some b" "b \<noteq> 0x23"
      using Cons.prems(5-7) by (simp_all add: cstr_at_def nth_append pattern_char_def)
    show ?thesis
    proof (cases "b = 0x3F \<or> a = b")
      case True
      have "HTTPServer_matchPath q path (Suc i) maxlen False m
          = Some (path_matches x' r, if path_matches x' r then wr_bytes m (q + Suc i + length r) [0] else m)"
        by (rule Cons.IH [where pre = "pre @ [b]"]) (use Cons.prems a x in auto)
      with True x b c pa Cons.prems(3) show ?thesis
        by (subst HTTPServer_matchPath.simps) (auto simp: Let_def)
    next
      case False
      with x b c pa Cons.prems(3) show ?thesis
        by (subst HTTPServer_matchPath.simps) (auto simp: Let_def)
    qed
  qed
qed

lemma matchPath_from_0:
  assumes "rd_bytes m q (length r) = r" "path_end (m (q + length r))" "length r < maxlen"
    "q + length r < 600" "list_all pattern_char path" "list_all path_char r"
  shows "HTTPServer_matchPath q path 0 maxlen False m
    = Some (path_matches path r, if path_matches path r then wr_bytes m (q + length r) [0] else m)"
  using matchPath_pattern [of m q 0 r maxlen path "[]" path] assms by simp

lemma findBody_total:
  "2 \<le> pos \<Longrightarrow> payload + pos + left \<le> 600 \<Longrightarrow>
   \<exists>b. HTTPServer_findBody m payload pos left = Some b \<and> (\<forall>x. b = Some x \<longrightarrow> x \<le> payload + pos + left)"
proof (induction left arbitrary: pos)
  case (Suc left)
  have c: "buf_at m (payload + pos) = Some (m (payload + pos))"
    "buf_at m (payload + pos - 2) = Some (m (payload + pos - 2))"
    "buf_at m (payload + pos - Suc 0) = Some (m (payload + pos - Suc 0))"
    using Suc.prems by (simp_all add: buf_at_def)
  obtain b where "HTTPServer_findBody m payload (pos + 1) left = Some b" "\<forall>x. b = Some x \<longrightarrow> x \<le> payload + (pos + 1) + left"
    using Suc.IH [of "pos + 1"] Suc.prems by auto
  with c show ?case by auto
qed simp

text \<open>Comparing the method: the word before the space is the method or the test fails.\<close>

lemma method_test:
  assumes "rd_bytes m P (length word + 1 + length r) = word @ 0x20 # r" "list_all (\<lambda>c. c \<noteq> 0x20) word"
    "list_all (\<lambda>c. c \<noteq> 0x20) method" "length method \<le> length word + length r"
  shows "(rd_bytes m P (length method) = method \<and> m (P + length method) = 0x20) = (word = method)"
proof -
  have at: "m (P + i) = (word @ 0x20 # r) ! i" if "i < length word + 1 + length r" for i
    using assms(1) that nth_rd_bytes [of i "length word + 1 + length r" m P] by simp
  have rd: "rd_bytes m P (length method) = take (length method) (word @ 0x20 # r)"
    using assms(4) by (subst assms(1) [symmetric]) (simp add: min_absorb1)
  show ?thesis
  proof
    assume a: "rd_bytes m P (length method) = method \<and> m (P + length method) = 0x20"
    have "\<not> length word < length method"
    proof
      assume l: "length word < length method"
      then have "method ! length word = (word @ 0x20 # r) ! length word"
        using a rd by (metis nth_take)
      then have "method ! length word = 0x20" by simp
      then show False using l assms(3) by (auto simp: list_all_iff)
    qed
    moreover have "\<not> length method < length word"
    proof
      assume l: "length method < length word"
      then have "word ! length method = 0x20" using a at [of "length method"] by (simp add: nth_append)
      then show False using l assms(2) by (auto simp: list_all_iff)
    qed
    ultimately have "length word = length method" by simp
    then show "word = method" using a rd by simp
  next
    assume "word = method"
    then show "rd_bytes m P (length method) = method \<and> m (P + length method) = 0x20"
      using rd at [of "length method"] by (simp add: nth_append)
  qed
qed

text \<open>The body is searched behind the path and found or not, without leaving the packet.\<close>

lemma body_search:
  assumes "P + unat (len :: u16) < 600" "0 < n" "n + 1 < unat len"
  shows "\<exists>b. HTTPServer_findBody m P (n + 1) (unat (len - 1) - (n + 1)) = Some b"
proof -
  have "unat (len - 1) = unat len - 1" using assms(3) by (intro unat_minus_one) auto
  then have "2 \<le> n + 1" "P + (n + 1) + (unat (len - 1) - (n + 1)) \<le> 600" using assms by linarith+
  from findBody_total [OF this] show ?thesis by blast
qed

lemma unat_rest:
  assumes "n + 1 \<le> unat (len :: u16)"
  shows "unat (len - word_of_nat n - 1) = unat len - n - 1"
proof -
  have n: "unat (word_of_nat (n + 1) :: u16) = n + 1"
  proof -
    have "unat len < 65536" by (rule order_less_le_trans [OF unsigned_less]) simp
    then show ?thesis using assms by (simp only: unsigned_of_nat take_bit_eq_mod) simp
  qed
  have "len - word_of_nat n - 1 = len - word_of_nat (n + 1)" by simp
  also have "unat \<dots> = unat len - (n + 1)" using assms n by (subst unat_sub) (simp_all add: word_le_nat_alt)
  finally show ?thesis by simp
qed

text \<open>A segment with data for the socket, which \<open>havePacket\<close> reports as often as it is asked.\<close>

definition has_data :: "'a socket_scheme \<Rightarrow> 'd ether \<Rightarrow> bool" where
  "has_data k s \<longleftrightarrow> bufferContainsReceived s \<and> IPv6Packet_protocol (buffer s) = IP6_PROTO_TCP
     \<and> TCPServer_packetDestinationPort s = localPort k
     \<and> buffer s tcp_flags AND TCP_FLAG_RST = 0 \<and> buffer s tcp_flags AND TCP_FLAG_FIN = 0
     \<and> buffer s tcp_flags AND TCP_FLAG_SYN = 0 \<and> 0 < TCPServer_payloadLength s"

abbreviation seen :: "'d ether \<Rightarrow> 'd ether" where
  "seen s \<equiv> s\<lparr>buffer := st8 (buffer s) tcp_flags 0\<rparr>"

lemma havePacket_data:
  "has_data k s \<Longrightarrow> TCPServer_havePacket p k s = Some (True, k\<lparr>writePos := -1\<rparr>, seen s)"
  by (simp add: TCPServer_havePacket_def has_data_def)

lemma seen_simps [simp]:
  "has_data k s \<Longrightarrow> has_data (k\<lparr>writePos := n\<rparr>) (seen s)"
  "TCPServer_payload (seen s) = TCPServer_payload s" "TCPServer_payloadLength (seen s) = TCPServer_payloadLength s"
  by (simp_all add: has_data_def TCPServer_packetDestinationPort_def TCPServer_payload_def
      TCPServer_payloadLength_def TCP_RECEIVE_HEADER_LEN_def hdr_simps)

lemma seen_idem [simp]: "st8 (st8 m tcp_flags 0) tcp_flags 0 = st8 m tcp_flags 0"
  by (simp add: st8_def wr_wr_same)

lemma for_server_data:
  "for_server k s \<Longrightarrow> buffer s tcp_flags AND TCP_FLAG_FIN = 0 \<Longrightarrow> buffer s tcp_flags AND TCP_FLAG_SYN = 0 \<Longrightarrow>
   0 < TCPServer_payloadLength s \<Longrightarrow> has_data k s"
  by (simp add: for_server_def has_data_def)

text \<open>The run of \<open>checkRequest\<close> once the method has been compared.\<close>

lemma checkRequest_run:
  assumes "has_data k s"
    "TCPServer_payloadLength s = len" "TCPServer_payload s = P" "P + unat len < 600" "length method < unat len"
  defines "m \<equiv> st8 (buffer s) tcp_flags 0"
  shows "HTTPServer_checkRequest p method path k s =
     (if rd_bytes m P (length method) = method \<and> m (P + length method) = 0x20
      then do {
        let k = k\<lparr>writePos := -1, pathPtr := P + length method + 1\<rparr>;
        (matched, m) \<leftarrow> HTTPServer_matchPath (P + length method + 1) path 0
          (unat (ucast (len - word_of_nat (length method) - 1) :: byte)) False m;
        if \<not> matched then Some (False, k, s\<lparr>buffer := m\<rparr>)
        else do {
          body \<leftarrow> HTTPServer_findBody m P (length method + 1) (unat (len - 1) - (length method + 1));
          case body of
            None \<Rightarrow> Some (True, k\<lparr>bodyPtr := None\<rparr>, s\<lparr>buffer := m\<rparr>)
          | Some b \<Rightarrow> Some (True, k\<lparr>bodyPtr := Some b\<rparr>, s\<lparr>buffer := wr_bytes m (P + unat len) [0]\<rparr>)
        }
      }
      else Some (False, k\<lparr>writePos := -1\<rparr>, s\<lparr>buffer := m\<rparr>))"
proof -
  let ?k = "k\<lparr>writePos := -1\<rparr>" and ?s = "s\<lparr>buffer := m\<rparr>"
  have hp: "TCPServer_havePacket p k s = Some (True, ?k, ?s)"
    using havePacket_data [OF assms(1)] by (simp add: m_def)
  have c: "buf_rd m P (length method) = Some (rd_bytes m P (length method))"
    "buf_at m (P + length method) = Some (m (P + length method))"
    using assms(4,5) by (simp_all add: buf_rd_def buf_at_def)
  have w: "buf_wr m' (P + unat len) [0] = Some (wr_bytes m' (P + unat len) [0])" for m'
    using assms(4) by (simp add: buf_wr_def)
  show ?thesis
    unfolding HTTPServer_checkRequest_def assms(2,3) Let_def
    by (simp add: hp c w split_def cong: if_cong option.case_cong)
qed

text \<open>
  What \<open>checkRequest\<close> does with a request line: the tests in order, for a segment whose data starts with a
  word, a space and a path ended by a blank or a question mark.
\<close>

lemma checkRequest_outcome:
  fixes verb :: "byte list"
  assumes "has_data k s"
  defines "P \<equiv> TCPServer_payload s" and "len \<equiv> TCPServer_payloadLength s"
  defines "start \<equiv> P + length verb + 1"
  assumes data: "rd_bytes (buffer s) P (length word + 1 + length request) = word @ 0x20 # request"
      "path_end (buffer s (P + length word + 1 + length request))"
    and fits: "68 \<le> P" "P + unat len < 600" "length word + 1 + length request < unat len"
      "unat len \<le> 256 + length verb"
    and word: "0 < length verb" "length verb \<le> length word + length request"
      "list_all (\<lambda>c. c \<noteq> 0x20) word" "list_all (\<lambda>c. c \<noteq> 0x20) verb"
    and paths: "list_all pattern_char path" "list_all path_char request"
  shows "HTTPServer_checkRequest p verb path k s =
    (if word \<noteq> verb then Some (False, k\<lparr>writePos := -1\<rparr>, seen s)
     else if \<not> path_matches path request then Some (False, k\<lparr>writePos := -1, pathPtr := start\<rparr>, seen s)
     else let k = k\<lparr>writePos := -1, pathPtr := start\<rparr>;
              m = wr_bytes (buffer (seen s)) (start + length request) [0]
          in case the (HTTPServer_findBody m P (length verb + 1) (unat (len - 1) - (length verb + 1))) of
            None \<Rightarrow> Some (True, k\<lparr>bodyPtr := None\<rparr>, s\<lparr>buffer := m\<rparr>)
          | Some b \<Rightarrow> Some (True, k\<lparr>bodyPtr := Some b\<rparr>, s\<lparr>buffer := wr_bytes m (P + unat len) [0]\<rparr>))"
proof -
  let ?m = "st8 (buffer s) tcp_flags 0"
  have d: "rd_bytes ?m P (length word + 1 + length request) = word @ 0x20 # request"
    "path_end (?m (P + length word + 1 + length request))"
    using data fits(1) by (simp_all add: mem_simps)
  have eqs: "TCPServer_payloadLength s = len" "TCPServer_payload s = P" by (simp_all add: len_def P_def)
  note run = checkRequest_run [OF assms(1) eqs fits(2)]
  show ?thesis
  proof (cases "word = verb")
    case False
    then show ?thesis
      using method_test [OF d(1) word(3,4,2)] run [of verb p path] word(2) fits(3) by auto
  next
    case True
    have st: "start = P + length verb + 1" by (simp add: start_def)
    have "unat (len - word_of_nat (length verb) - 1) = unat len - length verb - 1"
      by (rule unat_rest) (use fits(3) True in simp)
    then have maxlen: "unat (ucast (len - word_of_nat (length verb) - 1) :: byte) = unat len - length verb - 1"
      using fits(4) word(1) by (simp add: unsigned_ucast_eq take_bit_eq_mod)
    have req: "rd_bytes ?m start (length request) = request" "path_end (?m (start + length request))"
      using arg_cong [OF d(1), of "drop (length word + 1)"] d(2) True by (simp_all add: st add.assoc)
    have match: "HTTPServer_matchPath start path 0 (unat len - length verb - 1) False ?m
        = Some (path_matches path request,
            if path_matches path request then wr_bytes ?m (start + length request) [0] else ?m)"
      using matchPath_from_0 [OF req _ _ paths] fits True by (simp add: st)
    obtain b where body: "HTTPServer_findBody (wr_bytes ?m (start + length request) [0]) P (length verb + 1)
        (unat (len - 1) - (length verb + 1)) = Some b"
      using body_search [OF fits(2) word(1)] fits(3) True by fastforce
    have test: "rd_bytes ?m P (length verb) = verb \<and> ?m (P + length verb) = 0x20"
      using method_test [OF d(1) word(3,4,2)] True by simp
    show ?thesis
      using True run [of verb p path] test match body fits(3)
      by (cases b; cases "path_matches path request") (simp_all add: maxlen Let_def st)
  qed
qed


section \<open>The body\<close>

text \<open>Where the search of the empty line stops, and what the body of a request is.\<close>

definition blank_line :: "mem \<Rightarrow> nat \<Rightarrow> bool" where
  "blank_line m i \<longleftrightarrow> m i = 0x0A \<and> (m (i - 2) = 0x0A \<or> m (i - 1) = 0x0A)"

lemma findBody_find:
  "2 \<le> pos \<Longrightarrow> P + pos + left \<le> 600 \<Longrightarrow>
   HTTPServer_findBody m P pos left
     = Some (map_option (\<lambda>e. P + e + 1) (find (\<lambda>e. blank_line m (P + e)) [pos..<pos + left]))"
proof (induction left arbitrary: pos)
  case (Suc left)
  have c: "buf_at m (P + pos) = Some (m (P + pos))" "buf_at m (P + pos - 2) = Some (m (P + pos - 2))"
    "buf_at m (P + pos - 1) = Some (m (P + pos - 1))"
    using Suc.prems by (simp_all add: buf_at_def)
  have "HTTPServer_findBody m P pos (Suc left) =
      (if blank_line m (P + pos) then Some (Some (P + pos + 1)) else HTTPServer_findBody m P (pos + 1) left)"
    by (simp add: c blank_line_def del: One_nat_def)
  also have "\<dots> = Some (map_option (\<lambda>e. P + e + 1) (find (\<lambda>e. blank_line m (P + e)) (pos # [pos + 1..<pos + 1 + left])))"
    using Suc.IH [of "pos + 1"] Suc.prems by simp
  finally show ?case by (simp add: upt_conv_Cons del: upt_Suc)
qed simp

definition body_of :: "byte list \<Rightarrow> nat \<Rightarrow> byte list option" where
  "body_of data start = map_option (\<lambda>e. drop (e + 1) data)
     (find (\<lambda>e. data ! e = 0x0A \<and> (data ! (e - 2) = 0x0A \<or> data ! (e - 1) = 0x0A)) [start..<length data - 1])"

lemma find_Some_range: "find Q [a..<b] = Some e \<Longrightarrow> a \<le> e \<and> e < b"
  by (auto simp: find_Some_iff)

lemma find_cong_set: "(\<And>x. x \<in> set xs \<Longrightarrow> Q x = R x) \<Longrightarrow> find Q xs = find R xs"
  by (induction xs) auto

text \<open>\<open>strcmp\<close> finds the strings equal exactly when they are.\<close>

lemma strcmp_eq_text:
  "rd_bytes m off (length body) = body \<Longrightarrow> m (off + length body) = 0 \<Longrightarrow> cstr body \<Longrightarrow> cstr str \<Longrightarrow>
   off + length body < 600 \<Longrightarrow> strcmp_eq m off str = Some (body = str)"
proof (induction str arbitrary: off body)
  case Nil
  then show ?case
    by (cases body) (auto simp: buf_at_def rd_bytes_Suc cstr_def)
next
  case (Cons d str)
  show ?case
  proof (cases body)
    case Nil
    then show ?thesis using Cons.prems by (auto simp: buf_at_def cstr_def)
  next
    case b: (Cons c body')
    then have c: "m off = c" "rd_bytes m (Suc off) (length body') = body'" using Cons.prems(1) by (simp_all add: rd_bytes_Suc)
    have "strcmp_eq m (Suc off) str = Some (body' = str)"
      by (rule Cons.IH) (use Cons.prems b c in \<open>simp_all add: cstr_def\<close>)
    then show ?thesis using Cons.prems(5) b c by (simp add: buf_at_def)
  qed
qed

text \<open>The data of a segment, and what is left of it after a request has been recognised.\<close>

definition segment_data :: "'d ether \<Rightarrow> byte list" where
  "segment_data s = rd_bytes (buffer s) (TCPServer_payload s) (unat (TCPServer_payloadLength s))"

lemma segment_data_len: "unat (TCPServer_payloadLength s) = length (segment_data s)"
  by (simp add: segment_data_def)

lemma segment_data_at: "i < length (segment_data s) \<Longrightarrow> buffer s (TCPServer_payload s + i) = segment_data s ! i"
  by (simp add: segment_data_def)

lemma segment_data_seen: "68 \<le> TCPServer_payload s \<Longrightarrow> segment_data (seen s) = segment_data s"
  unfolding segment_data_def seen_simps by (simp add: rd_wr_disjoint st8_def)

text \<open>
  A segment that carries a request: its data, which ends inside the buffer, is a word, a space, a path, a blank or
  question mark, and the rest of the line with what follows.
\<close>

definition carries_request :: "http_server \<Rightarrow> 'd ether \<Rightarrow> byte list \<Rightarrow> byte list \<Rightarrow> byte list \<Rightarrow> bool" where
  "carries_request k s word request rest \<longleftrightarrow> has_data k s \<and> 68 \<le> TCPServer_payload s
     \<and> TCPServer_payload s + length (segment_data s) < 600
     \<and> rest \<noteq> [] \<and> path_end (hd rest) \<and> segment_data s = word @ 0x20 # request @ rest
     \<and> list_all (\<lambda>c. c \<noteq> 0x20) word \<and> list_all path_char request \<and> 0x0A \<notin> set request"

lemma carries_requestD:
  assumes "carries_request k s word request rest"
  shows "has_data k s" "68 \<le> TCPServer_payload s" "TCPServer_payload s + length (segment_data s) < 600"
    "rest \<noteq> []" "path_end (hd rest)" "segment_data s = word @ 0x20 # request @ rest"
    "list_all (\<lambda>c. c \<noteq> 0x20) word" "list_all path_char request" "0x0A \<notin> set request"
  using assms unfolding carries_request_def by blast+

lemma carries_request_seen:
  "carries_request k s word request rest \<Longrightarrow> carries_request (k\<lparr>writePos := n\<rparr>) (seen s) word request rest"
  unfolding carries_request_def seen_simps(2) by (metis seen_simps(1) segment_data_seen)

lemma carried_request_outcome:
  fixes verb :: "byte list"
  assumes "carries_request k s word request rest" "length (segment_data s) \<le> 256 + length verb"
    "0 < length verb" "length verb \<le> length word + length request" "list_all (\<lambda>c. c \<noteq> 0x20) verb"
    "list_all pattern_char path"
  defines "P \<equiv> TCPServer_payload s" and "n \<equiv> length (segment_data s)"
  shows "HTTPServer_checkRequest p verb path k s =
    (if word \<noteq> verb then Some (False, k\<lparr>writePos := -1\<rparr>, seen s)
     else if \<not> path_matches path request then Some (False, k\<lparr>writePos := -1, pathPtr := P + length verb + 1\<rparr>, seen s)
     else let k = k\<lparr>writePos := -1, pathPtr := P + length verb + 1\<rparr>;
              m = wr_bytes (buffer (seen s)) (P + length verb + 1 + length request) [0]
          in case the (HTTPServer_findBody m P (length verb + 1) (n - 1 - (length verb + 1))) of
            None \<Rightarrow> Some (True, k\<lparr>bodyPtr := None\<rparr>, s\<lparr>buffer := m\<rparr>)
          | Some b \<Rightarrow> Some (True, k\<lparr>bodyPtr := Some b\<rparr>, s\<lparr>buffer := wr_bytes m (P + n) [0]\<rparr>))"
proof -
  let ?data = "segment_data s" and ?l = "length word + 1 + length request"
  have data: "?data = word @ 0x20 # request @ rest" "rest \<noteq> []" "path_end (hd rest)"
    and fits: "68 \<le> P" "P + n < 600" and h: "has_data k s" and w: "list_all (\<lambda>c. c \<noteq> 0x20) word" "list_all path_char request"
    unfolding P_def n_def by (rule carries_requestD [OF assms(1)])+
  have l: "?l < n" using data by (simp add: n_def)
  have "take ?l ?data = word @ 0x20 # request" using data(1) by simp
  moreover have "rd_bytes (buffer s) P ?l = take ?l ?data"
    using l by (simp add: P_def n_def segment_data_def min_def)
  moreover have "buffer s (P + length word + 1 + length request) = ?data ! ?l"
    using segment_data_at [of ?l s] l by (simp add: P_def n_def add.assoc)
  moreover have "?data ! ?l = hd rest"
    using data by (cases rest) (simp_all add: nth_append)
  moreover have "unat (TCPServer_payloadLength s - 1) = n - 1"
    using segment_data_len [of s] l by (subst unat_minus_one) (auto simp: n_def)
  ultimately show ?thesis
    using checkRequest_outcome [OF h, where word = word and request = request and verb = verb
      and path = path and p = p] data(3) fits w assms(2-6) l
    unfolding segment_data_len P_def [symmetric] n_def [symmetric] by simp
qed

text \<open>A request that is recognised: where the path and the body are; the headers of the packet are kept.\<close>

lemma carried_request_matched:
  fixes verb :: "byte list"
  assumes "carries_request k s verb request rest" "length (segment_data s) \<le> 256 + length verb"
    "0 < length verb" "list_all pattern_char path" "path_matches path request"
  defines "P \<equiv> TCPServer_payload s" and "data \<equiv> segment_data s"
  obtains bp m where
    "HTTPServer_checkRequest p verb path k s
       = Some (True, k\<lparr>writePos := -1, pathPtr := P + length verb + 1, bodyPtr := bp\<rparr>, s\<lparr>buffer := m\<rparr>)"
    "rd_bytes m (P + length verb + 1) (length request) = request"
    "\<And>i. i < 68 \<Longrightarrow> m i = buffer (seen s) i"
    "map_option (\<lambda>b. rd_bytes m b (P + length data - b)) bp = body_of data (length verb + 1)"
    "\<And>b. bp = Some b \<Longrightarrow> b \<le> P + length data \<and> m (P + length data) = 0"
proof -
  let ?start = "length verb + 1"
  let ?e = "?start + length request"
  let ?m = "wr_bytes (buffer (seen s)) (P + length verb + 1 + length request) [0]"
  let ?Q = "\<lambda>e. data ! e = 0x0A \<and> (data ! (e - 2) = 0x0A \<or> data ! (e - 1) = 0x0A)"
  have d: "data = verb @ 0x20 # request @ rest" "rest \<noteq> []" "path_end (hd rest)" "0x0A \<notin> set request"
    and fits: "68 \<le> P" "P + length data < 600" and w: "list_all (\<lambda>c. c \<noteq> 0x20) verb"
    unfolding P_def data_def by (rule carries_requestD [OF assms(1)])+
  have l: "?e < length data" using d by simp
  have at: "?m (P + i) = (if i = ?e then 0 else data ! i)" if "i < length data" for i
    using segment_data_at [of i s] that fits(1) by (simp add: wr_bytes_nth st8_def add.assoc P_def data_def)
  have e: "data ! ?e \<noteq> 0x0A"
    using d by (cases rest) (auto simp: nth_append path_end_def isWhitespace_def)
  have lf: "?m (P + i) = 0x0A \<longleftrightarrow> data ! i = 0x0A" if "i < length data" for i
    using at [OF that] e by auto
  have "blank_line ?m (P + i) \<longleftrightarrow> ?Q i" if "i \<in> set [?start..<length data - 1]" for i
  proof -
    have i: "2 \<le> i" "i < length data" using that assms(3) by (auto simp del: length_greater_0_conv)
    then have "P + i - 2 = P + (i - 2)" "P + i - 1 = P + (i - 1)" by simp_all
    with i show ?thesis using lf [of i] lf [of "i - 2"] lf [of "i - 1"] unfolding blank_line_def by simp
  qed
  then have f: "find (\<lambda>i. blank_line ?m (P + i)) [?start..<length data - 1] = find ?Q [?start..<length data - 1]"
    by (rule find_cong_set)
  have "HTTPServer_findBody ?m P ?start (length data - 1 - ?start)
      = Some (map_option (\<lambda>e. P + e + 1) (find (\<lambda>e. blank_line ?m (P + e)) [?start..<?start + (length data - 1 - ?start)]))"
    by (rule findBody_find) (use assms(3) fits(2) l in \<open>auto simp del: length_greater_0_conv\<close>)
  also have "?start + (length data - 1 - ?start) = length data - 1" using l by simp
  finally have find: "HTTPServer_findBody ?m P ?start (length data - 1 - ?start)
      = Some (map_option (\<lambda>e. P + e + 1) (find ?Q [?start..<length data - 1]))" unfolding f .
  have run: "HTTPServer_checkRequest p verb path k s =
      (let k = k\<lparr>writePos := -1, pathPtr := P + length verb + 1\<rparr>
       in case map_option (\<lambda>e. P + e + 1) (find ?Q [?start..<length data - 1]) of
          None \<Rightarrow> Some (True, k\<lparr>bodyPtr := None\<rparr>, s\<lparr>buffer := ?m\<rparr>)
        | Some b \<Rightarrow> Some (True, k\<lparr>bodyPtr := Some b\<rparr>, s\<lparr>buffer := wr_bytes ?m (P + length data) [0]\<rparr>))"
    using carried_request_outcome [OF assms(1-3) _ w assms(4), of p, folded P_def data_def] assms(5) find
    by (cases "find ?Q [?start..<length data - 1]") (simp_all add: Let_def)
  have path: "rd_bytes ?m (P + ?start) (length request) = request"
  proof (rule nth_equalityI)
    fix i assume "i < length (rd_bytes ?m (P + ?start) (length request))"
    then show "rd_bytes ?m (P + ?start) (length request) ! i = request ! i"
      using at [of "?start + i"] l d(1) by (simp add: nth_append add.assoc)
  qed simp
  show thesis
  proof (cases "find ?Q [?start..<length data - 1]")
    case None
    show thesis
      by (rule that [of None ?m]) (use None run path fits(1) in \<open>auto simp: body_of_def wr_bytes_nth add.assoc Let_def\<close>)
  next
    case (Some i)
    then have i: "?start \<le> i" "i < length data - 1" "data ! i = 0x0A"
      by (auto dest: find_Some_range simp: find_Some_iff)
    have late: "?e < i"
    proof (rule ccontr)
      assume "\<not> ?e < i"
      moreover have "i \<noteq> ?e" using e i(3) by auto
      ultimately have "i - ?start < length request" using i(1) by simp
      moreover have "data ! i = request ! (i - ?start)" using calculation i(1) d(1) by (simp add: nth_append)
      ultimately show False using i(3) d(4) by (metis nth_mem)
    qed
    have b: "rd_bytes (wr_bytes ?m (P + length data) [0]) (P + i + 1) (length data - i - 1) = drop (i + 1) data"
    proof (rule nth_equalityI)
      fix j assume "j < length (rd_bytes (wr_bytes ?m (P + length data) [0]) (P + i + 1) (length data - i - 1))"
      then show "rd_bytes (wr_bytes ?m (P + length data) [0]) (P + i + 1) (length data - i - 1) ! j = drop (i + 1) data ! j"
        using at [of "i + 1 + j"] late i(2) by (auto simp: wr_bytes_nth add.assoc)
    qed simp
    show thesis
      by (rule that [of "Some (P + i + 1)" "wr_bytes ?m (P + length data) [0]"])
        (use Some run path b fits i(2) l in \<open>auto simp: body_of_def wr_bytes_nth rd_wr_disjoint add.assoc Let_def\<close>)
  qed
qed

definition sample_request :: "unit ether" where
  "sample_request = sample_ether\<lparr>buffer := wr_bytes (\<lambda>_. 0) 12
     ([0x86, 0xdd, 0x60, 0, 0, 0, 0, 32, 6, 64] @ [0xfe, 0x80, 0, 0, 0, 0, 0, 0, 0, 0, 0, 0, 0, 0, 0, 1]
      @ [0xfe, 0x80, 0, 0, 0, 0, 0, 0, 0, 0, 0, 0, 0, 0, 0, 2]
      @ [0x9c, 0x40, 0, 0x50, 1, 2, 3, 4, 0, 0, 0, 7, 0x50, 0x18, 0x10, 0, 0x2c, 0x85, 0, 0]
      @ [0x47, 0x45, 0x54, 0x20, 0x2f, 0x6f, 0x6e, 0x20, 0x48, 0x54, 0x54, 0x50])\<rparr>"


end
