(* ===== verification/Hext.thy ===== *)
theory Hext
  imports Prelude
begin

text \<open>
  \<open>src/tests/hext.c\<close>: the tool that turns the packets of the test suite, written as annotated hexadecimal
  text, into bytes. The input stream is the list of the bytes not read yet; \<open>fgetc\<close> gives \<open>None\<close> for \<open>EOF\<close>.
  A write callback threads the state of what it writes to and is \<open>None\<close> where it would write outside an
  object; the messages the tool prints on \<open>stderr\<close> are collected in order.
\<close>

section \<open>Characters\<close>

definition c_isspace :: "byte \<Rightarrow> bool" where
  "c_isspace c \<longleftrightarrow> c = 0x20 \<or> (0x09 \<le> c \<and> c \<le> 0x0D)"

definition c_isxdigit :: "byte \<Rightarrow> bool" where
  "c_isxdigit c \<longleftrightarrow> (0x30 \<le> c \<and> c \<le> 0x39) \<or> (0x41 \<le> c \<and> c \<le> 0x46) \<or> (0x61 \<le> c \<and> c \<le> 0x66)"

definition ascii_to_hex :: "byte \<Rightarrow> int" where
  "ascii_to_hex c =
     (let c = c OR 0x20 in
      if 0x30 \<le> c \<and> c \<le> 0x39 then uint c - 0x30
      else if 0x61 \<le> c \<and> c \<le> 0x66 then (uint c - 0x61) + 10
      else - 1)"

definition escape_to_hex :: "byte option \<Rightarrow> int" where
  "escape_to_hex c =
     (if c = Some 0x30 then 0x00 else if c = Some 0x61 then 0x07 else if c = Some 0x62 then 0x08
      else if c = Some 0x66 then 0x0C else if c = Some 0x6E then 0x0A else if c = Some 0x72 then 0x0D
      else if c = Some 0x74 then 0x09 else if c = Some 0x76 then 0x0B else if c = Some 0x5C then 0x5C
      else if c = Some 0x27 then 0x27 else if c = Some 0x22 then 0x22 else if c = Some 0x3F then 0x3F
      else - 1)"

section \<open>The parser\<close>

datatype hext_message =
    NonHexDigit "byte option"
  | InvalidEscape "byte option"
  | UnrecognisedCharacter byte
  | OpenFailed

type_synonym 'o hext_state = "'o \<times> nat \<times> hext_message list"

fun fgetc :: "byte list \<Rightarrow> byte option \<times> byte list" where
  "fgetc [] = (None, [])"
| "fgetc (c # cs) = (Some c, cs)"

lemma fgetc_rest: "snd (fgetc inp) = tl inp" "length (snd (fgetc inp)) = length inp - 1"
  by (cases inp; simp)+

fun hext_write :: "(byte \<Rightarrow> 'o \<Rightarrow> 'o option) \<Rightarrow> int \<Rightarrow> 'o hext_state \<Rightarrow> 'o hext_state option" where
  "hext_write write_cb c (out, count, msgs) =
     (case write_cb (word_of_int c) out of None \<Rightarrow> None | Some out \<Rightarrow> Some (out, count + 1, msgs))"

fun hext_report :: "hext_message \<Rightarrow> 'o hext_state \<Rightarrow> 'o hext_state" where
  "hext_report e (out, count, msgs) = (out, count, msgs @ [e])"

text \<open>The loop that skips the rest of a comment line.\<close>

fun hext_comment :: "byte list \<Rightarrow> byte list" where
  "hext_comment [] = []"
| "hext_comment (c # inp) = (if c = 0x0A \<or> c = 0x0D then inp else hext_comment inp)"

text \<open>The loop over a quoted string; it is left at the closing quote, at the end and at an invalid escape.\<close>

function hext_string ::
    "(byte \<Rightarrow> 'o \<Rightarrow> 'o option) \<Rightarrow> byte list \<Rightarrow> 'o hext_state \<Rightarrow> (byte list \<times> 'o hext_state) option" where
  "hext_string write_cb inp s =
     (case fgetc inp of
        (None, inp') \<Rightarrow> Some (inp', s)
      | (Some chr2, inp') \<Rightarrow>
          if chr2 = 0x22 then Some (inp', s)
          else if chr2 = 0x5C then
            (let (chr3, inp'') = fgetc inp'; escaped = escape_to_hex chr3 in
             if escaped < 0 then Some (inp'', hext_report (InvalidEscape chr3) s)
             else do { s \<leftarrow> hext_write write_cb escaped s; hext_string write_cb inp'' s })
          else do { s \<leftarrow> hext_write write_cb (uint chr2) s; hext_string write_cb inp' s })"
  by pat_completeness auto
termination
proof (relation "measure (\<lambda>(_, inp, _). length inp)", goal_cases)
  case (2 _ inp _ x inp' chr2 y chr3 inp'')
  then show ?case by (cases inp; cases inp') (auto dest!: arg_cong [of _ _ "length \<circ> snd"])
next
  case (3 _ inp)
  then show ?case by (cases inp) auto
qed simp

declare hext_string.simps [simp del]

lemma hext_string_Nil [simp]: "hext_string wr [] s = Some ([], s)"
  by (subst hext_string.simps) simp

lemma hext_string_quote [simp]: "hext_string wr (0x22 # inp) s = Some (inp, s)"
  by (subst hext_string.simps) simp

lemma hext_string_plain:
  "c \<noteq> 0x22 \<Longrightarrow> c \<noteq> 0x5C \<Longrightarrow>
   hext_string wr (c # inp) s = do { s \<leftarrow> hext_write wr (uint c) s; hext_string wr inp s }"
  by (subst hext_string.simps) simp

lemma hext_string_escape:
  "hext_string wr (0x5C # inp) s =
     (if escape_to_hex (fst (fgetc inp)) < 0
      then Some (tl inp, hext_report (InvalidEscape (fst (fgetc inp))) s)
      else do { s \<leftarrow> hext_write wr (escape_to_hex (fst (fgetc inp))) s; hext_string wr (tl inp) s })"
  by (subst hext_string.simps) (simp add: split_def Let_def fgetc_rest)

lemma length_hext_comment: "length (hext_comment inp) \<le> length inp"
  by (induction inp) auto

lemma length_hext_string: "hext_string wr inp s = Some (inp', s') \<Longrightarrow> length inp' \<le> length inp"
proof (induction "length inp" arbitrary: inp s rule: less_induct)
  case less
  show ?case
  proof (cases inp)
    case Nil
    with less.prems show ?thesis by simp
  next
    case (Cons c cs)
    have IH: "hext_string wr cs s = Some (inp', s') \<Longrightarrow> length inp' \<le> length cs"
      "hext_string wr (tl cs) s = Some (inp', s') \<Longrightarrow> length inp' \<le> length (tl cs)" for s
      using less.hyps [of cs] less.hyps [of "tl cs"] Cons by simp_all
    consider "c = 0x22" | "c = 0x5C" | "c \<noteq> 0x22" "c \<noteq> 0x5C" by blast
    then show ?thesis
      using less.prems Cons IH
      by cases (force simp: hext_string_plain hext_string_escape bind_eq_Some_conv split: if_splits)+
  qed
qed

text \<open>The loop over the input.\<close>

function hext_loop ::
    "(byte \<Rightarrow> 'o \<Rightarrow> 'o option) \<Rightarrow> byte list \<Rightarrow> 'o hext_state \<Rightarrow> 'o hext_state option" where
  "hext_loop write_cb inp s =
     (case fgetc inp of
        (None, _) \<Rightarrow> Some s
      | (Some chr, inp') \<Rightarrow>
          if c_isspace chr \<or> chr = 0x3A \<or> chr = 0x2D then hext_loop write_cb inp' s
          else if chr = 0x23 then hext_loop write_cb (hext_comment inp') s
          else if c_isxdigit chr then
            (case fgetc inp' of
               (Some chr2, inp'') \<Rightarrow>
                 if \<not> c_isxdigit chr2 then Some (hext_report (NonHexDigit (Some chr2)) s)
                 else do {
                   s \<leftarrow> hext_write write_cb (push_bit 4 (ascii_to_hex chr) + ascii_to_hex chr2) s;
                   hext_loop write_cb inp'' s
                 }
             | (None, _) \<Rightarrow> Some (hext_report (NonHexDigit None) s))
          else if chr = 0x22 then
            (case hext_string write_cb inp' s of
               None \<Rightarrow> None
             | Some (inp'', s) \<Rightarrow> hext_loop write_cb inp'' s)
          else if chr = 0x5C then
            (case fgetc inp' of
               (None, _) \<Rightarrow> Some s
             | (Some chr2, inp'') \<Rightarrow>
                 let escaped = escape_to_hex (Some chr2) in
                 if escaped < 0 then Some (hext_report (InvalidEscape (Some chr2)) s)
                 else do { s \<leftarrow> hext_write write_cb escaped s; hext_loop write_cb inp'' s })
          else Some (hext_report (UnrecognisedCharacter chr) s))"
  by pat_completeness auto
termination
proof -
  have lt: "length inp' < length inp" if "(Some c, inp') = fgetc inp" for c inp' inp
    using that by (cases inp) auto
  show ?thesis
    by (relation "measure (\<lambda>(_, inp, _). length inp)")
      (auto dest!: lt length_hext_string intro: le_less_trans [OF length_hext_comment])
qed

declare hext_loop.simps [simp del]

definition hext_cb_to_cb ::
    "byte list \<Rightarrow> 'o \<Rightarrow> (byte \<Rightarrow> 'o \<Rightarrow> 'o option) \<Rightarrow> (int \<times> 'o \<times> hext_message list) option" where
  "hext_cb_to_cb inp out write_cb = do {
     (out, count, msgs) \<leftarrow> hext_loop write_cb inp (out, 0, []);
     Some (sint (word_of_nat count :: u32), out, msgs)
   }"

text \<open>A file is its content, or \<open>None\<close> when it cannot be opened.\<close>

definition hext_filename_to_cb ::
    "byte list option \<Rightarrow> 'o \<Rightarrow> (byte \<Rightarrow> 'o \<Rightarrow> 'o option) \<Rightarrow> (int \<times> 'o \<times> hext_message list) option" where
  "hext_filename_to_cb file out write_cb =
     (case file of
        None \<Rightarrow> Some (- 1, out, [OpenFailed])
      | Some inp \<Rightarrow> hext_cb_to_cb inp out write_cb)"

section \<open>Writing to a stream and to a buffer\<close>

definition fputc :: "byte \<Rightarrow> byte list \<Rightarrow> byte list option" where
  "fputc c out = Some (out @ [c])"

definition hext_stream_to_stream :: "byte list \<Rightarrow> byte list \<Rightarrow> (int \<times> byte list \<times> hext_message list) option" where
  "hext_stream_to_stream inp out = hext_cb_to_cb inp out fputc"

definition hext_filename_to_stream ::
    "byte list option \<Rightarrow> byte list \<Rightarrow> (int \<times> byte list \<times> hext_message list) option" where
  "hext_filename_to_stream file out = hext_filename_to_cb file out fputc"

record buffer_write_struct =
  bws_buffer :: "byte list"
  buffer_used :: nat
  buffer_len :: nat

definition write_buffer_cb :: "byte \<Rightarrow> buffer_write_struct \<Rightarrow> buffer_write_struct option" where
  "write_buffer_cb c bws =
     (if buffer_used bws + 1 < buffer_len bws then
        if buffer_used bws < length (bws_buffer bws) then
          Some (bws\<lparr>bws_buffer := (bws_buffer bws)[buffer_used bws := c], buffer_used := buffer_used bws + 1\<rparr>)
        else None
      else Some bws)"

definition hext_filename_to_buffer ::
    "byte list option \<Rightarrow> byte list \<Rightarrow> nat \<Rightarrow> (int \<times> byte list \<times> hext_message list) option" where
  "hext_filename_to_buffer file buf len = do {
     let bws = \<lparr>bws_buffer = buf, buffer_used = 0, buffer_len = len\<rparr>;
     (n, bws, msgs) \<leftarrow> hext_filename_to_cb file bws write_buffer_cb;
     Some (n, bws_buffer bws, msgs)
   }"

section \<open>The command\<close>

text \<open>\<open>%2.2x\<close> of \<open>printf\<close>.\<close>

definition printf_digit :: "nat \<Rightarrow> byte" where
  "printf_digit n = (if n < 10 then 0x30 + word_of_nat n else 0x57 + word_of_nat n)"

definition printf_02x :: "byte \<Rightarrow> byte list" where
  "printf_02x c = [printf_digit (unat c div 16), printf_digit (unat c mod 16)]"

definition write_hex :: "byte \<Rightarrow> byte list \<Rightarrow> byte list option" where
  "write_hex c out = Some (out @ printf_02x c)"

text \<open>The loop of \<open>print_c_block\<close> from element \<open>i\<close>, with \<open>left\<close> elements to go.\<close>

fun print_c_elements :: "byte list \<Rightarrow> nat \<Rightarrow> nat \<Rightarrow> nat \<Rightarrow> byte list option" where
  "print_c_elements buf len i 0 = Some []"
| "print_c_elements buf len i (Suc left) = do {
     c \<leftarrow> (if i < length buf then Some (buf ! i) else None);
     rest \<leftarrow> print_c_elements buf len (i + 1) left;
     Some ((if i mod 8 = 0 then chars [CHR 0x0A] @ chars ''    '' else []) @ chars ''0x'' @ printf_02x c
       @ (if i = len - 1 then chars [CHR 0x0A] else chars '', '') @ rest)
   }"

definition print_c_block :: "byte list \<Rightarrow> byte list \<Rightarrow> int \<Rightarrow> byte list option" where
  "print_c_block out buf len = do {
     elements \<leftarrow> print_c_elements buf (nat len) 0 (nat len);
     Some (out @ chars ''uint8_t buffer[] = {'' @ elements @ chars ''};'' @ chars [CHR 0x0A])
   }"

datatype hext_mode = MODE_BINARY | MODE_C | MODE_HEXSTREAM

text \<open>The loop over the letters \<open>getopt\<close> returns; \<open>None\<close> is the call of \<open>usage\<close>, which ends the program.\<close>

fun hext_options :: "byte list \<Rightarrow> hext_mode \<Rightarrow> hext_mode option" where
  "hext_options [] mode = Some mode"
| "hext_options (opt # opts) mode =
     (if opt = 0x62 then hext_options opts MODE_BINARY
      else if opt = 0x63 then hext_options opts MODE_C
      else if opt = 0x78 then hext_options opts MODE_HEXSTREAM
      else None)"

text \<open>
  The exit status and what is on \<open>stdout\<close> at the end. \<open>files\<close> are the contents of the files the remaining
  arguments name, \<open>uninit\<close> the content of the local array \<open>buffer\<close> before it is filled.
\<close>

definition hext_main :: "byte list \<Rightarrow> byte list option list \<Rightarrow> byte list \<Rightarrow> (int \<times> byte list) option" where
  "hext_main opts files uninit =
     (case hext_options opts MODE_BINARY of
        None \<Rightarrow> Some (- 1, [])
      | Some mode \<Rightarrow>
          if files = [] then Some (- 1, [])
          else case mode of
            MODE_BINARY \<Rightarrow> do {
              (_, out, _) \<leftarrow> hext_filename_to_stream (hd files) [];
              Some (0, out)
            }
          | MODE_HEXSTREAM \<Rightarrow> do {
              (_, out, _) \<leftarrow> hext_filename_to_cb (hd files) [] write_hex;
              Some (0, out)
            }
          | MODE_C \<Rightarrow> do {
              (len, buf, _) \<leftarrow> hext_filename_to_buffer (hd files) uninit 4096;
              if 0 \<le> len then do { out \<leftarrow> print_c_block [] buf len; Some (0, out) }
              else Some (0, [])
            })"

section \<open>The language\<close>

text \<open>
  What a text means, without the parser: separators and comments mean nothing, two hexadecimal digits, a
  character of a quoted string and an escape sequence each mean a byte. A text also determines the messages:
  an error outside a quoted string ends the text, an invalid escape inside one only ends the string.
\<close>

definition hex_value :: "byte \<Rightarrow> byte" where
  "hex_value c = (if c \<le> 0x39 then c - 0x30 else if c \<le> 0x46 then c - 0x37 else c - 0x57)"

definition escape :: "byte \<Rightarrow> byte \<Rightarrow> bool" where
  "escape e b \<longleftrightarrow> (e, b) \<in> set [(0x30, 0), (0x61, 7), (0x62, 8), (0x66, 12), (0x6E, 10), (0x72, 13), (0x74, 9),
     (0x76, 11), (0x5C, 0x5C), (0x27, 0x27), (0x22, 0x22), (0x3F, 0x3F)]"

inductive hext_quoted :: "byte list \<Rightarrow> byte list \<Rightarrow> bool" where
  "hext_quoted [] []"
| "c \<noteq> 0x22 \<Longrightarrow> c \<noteq> 0x5C \<Longrightarrow> hext_quoted q bs \<Longrightarrow> hext_quoted (c # q) (c # bs)"
| "escape e b \<Longrightarrow> hext_quoted q bs \<Longrightarrow> hext_quoted (0x5C # e # q) (b # bs)"

definition separator :: "byte \<Rightarrow> bool" where
  "separator c \<longleftrightarrow> c \<in> {0x20, 0x09, 0x0A, 0x0B, 0x0C, 0x0D, 0x3A, 0x2D}"

definition comment :: "byte list \<Rightarrow> bool" where
  "comment cs \<longleftrightarrow> 0x0A \<notin> set cs \<and> 0x0D \<notin> set cs"

definition first :: "byte list \<Rightarrow> byte option" where
  "first cs = (case cs of [] \<Rightarrow> None | c # _ \<Rightarrow> Some c)"

inductive hext_text :: "byte list \<Rightarrow> byte list \<Rightarrow> hext_message list \<Rightarrow> bool" where
  empty: "hext_text [] [] []"
| separator: "separator c \<Longrightarrow> hext_text t bs es \<Longrightarrow> hext_text (c # t) bs es"
| comment: "comment cs \<Longrightarrow> nl = 0x0A \<or> nl = 0x0D \<Longrightarrow> hext_text t bs es \<Longrightarrow> hext_text (0x23 # cs @ nl # t) bs es"
| last_comment: "comment cs \<Longrightarrow> hext_text (0x23 # cs) [] []"
| digits: "c_isxdigit h \<Longrightarrow> c_isxdigit l \<Longrightarrow> hext_text t bs es \<Longrightarrow>
    hext_text (h # l # t) ((16 * hex_value h + hex_value l) # bs) es"
| no_digit: "c_isxdigit h \<Longrightarrow> \<not> (\<exists>l. first t = Some l \<and> c_isxdigit l) \<Longrightarrow> hext_text (h # t) [] [NonHexDigit (first t)]"
| quoted: "hext_quoted q qs \<Longrightarrow> hext_text t bs es \<Longrightarrow> hext_text (0x22 # q @ 0x22 # t) (qs @ bs) es"
| last_quoted: "hext_quoted q qs \<Longrightarrow> hext_text (0x22 # q) qs []"
| quoted_no_escape: "hext_quoted q qs \<Longrightarrow> \<not> (\<exists>b. escape e b) \<Longrightarrow> hext_text t bs es \<Longrightarrow>
    hext_text (0x22 # q @ 0x5C # e # t) (qs @ bs) (InvalidEscape (Some e) # es)"
| quoted_end: "hext_quoted q qs \<Longrightarrow> hext_text (0x22 # q @ [0x5C]) qs [InvalidEscape None]"
| escape: "escape e b \<Longrightarrow> hext_text t bs es \<Longrightarrow> hext_text (0x5C # e # t) (b # bs) es"
| last_escape: "hext_text [0x5C] [] []"
| no_escape: "\<not> (\<exists>b. escape e b) \<Longrightarrow> hext_text (0x5C # e # t) [] [InvalidEscape (Some e)]"
| unrecognised: "\<not> separator c \<Longrightarrow> \<not> c_isxdigit c \<Longrightarrow> c \<notin> {0x23, 0x22, 0x5C} \<Longrightarrow>
    hext_text (c # t) [] [UnrecognisedCharacter c]"

section \<open>The parser implements the language\<close>

lemma byte_range: "a \<le> c \<Longrightarrow> c \<le> b \<Longrightarrow> c \<in> set (map word_of_nat [unat a..<Suc (unat (b :: byte))])"
  unfolding word_le_nat_alt set_map set_upt
  by (intro image_eqI [of c _ "unat c"]) (simp_all add: less_Suc_eq_le)

lemma xdigit_cases:
  assumes "c_isxdigit c"
  shows "c \<in> set [0x30, 0x31, 0x32, 0x33, 0x34, 0x35, 0x36, 0x37, 0x38, 0x39, 0x41, 0x42, 0x43, 0x44, 0x45, 0x46,
     0x61, 0x62, 0x63, 0x64, 0x65, 0x66]"
  using assms byte_range [of "0x30" c "0x39"] byte_range [of "0x41" c "0x46"] byte_range [of "0x61" c "0x66"]
  unfolding c_isxdigit_def by (auto simp: upt_rec)

lemma ascii_to_hex_value: "c_isxdigit c \<Longrightarrow> ascii_to_hex c = uint (hex_value c) \<and> hex_value c < 16"
  by (drule xdigit_cases) (auto simp: ascii_to_hex_def hex_value_def)

lemma hex_pair: "c_isxdigit h \<Longrightarrow> c_isxdigit l \<Longrightarrow>
   word_of_int (push_bit 4 (ascii_to_hex h) + ascii_to_hex l) = 16 * hex_value h + hex_value l"
  using ascii_to_hex_value [of h] ascii_to_hex_value [of l] by (simp add: push_bit_eq_mult mult.commute)

lemma escape_value: "escape e b \<Longrightarrow> 0 \<le> escape_to_hex (Some e) \<and> word_of_int (escape_to_hex (Some e)) = b"
  by (auto simp: escape_def escape_to_hex_def)

lemma no_escape_value: "\<not> (\<exists>b. escape e b) \<Longrightarrow> escape_to_hex (Some e) < 0"
  by (auto simp: escape_def escape_to_hex_def)

lemma separator_eq: "separator c \<longleftrightarrow> c_isspace c \<or> c = 0x3A \<or> c = 0x2D"
  using byte_range [of "0x09" c "0x0D"] unfolding separator_def c_isspace_def by (auto simp: upt_rec)

text \<open>Writing a list of bytes through the callback.\<close>

fun writes :: "(byte \<Rightarrow> 'o \<Rightarrow> 'o option) \<Rightarrow> byte list \<Rightarrow> 'o \<Rightarrow> 'o option" where
  "writes wr [] out = Some out"
| "writes wr (b # bs) out = do { out \<leftarrow> wr b out; writes wr bs out }"

lemma writes_append: "writes wr (bs @ cs) out = do { out \<leftarrow> writes wr bs out; writes wr cs out }"
proof (induction bs arbitrary: out)
  case (Cons b bs)
  then show ?case by (cases "wr b out") simp_all
qed simp

lemma writes_fputc [simp]: "writes fputc bs out = Some (out @ bs)"
  by (induction bs arbitrary: out) (auto simp: fputc_def)

lemma hext_write_eq: "hext_write wr c (out, n, msgs) = map_option (\<lambda>x. (x, n + 1, msgs)) (wr (word_of_int c) out)"
  by (simp split: option.split)

lemma hext_string_step:
  "escape e b \<Longrightarrow> hext_string wr (0x5C # e # t) s = do { s \<leftarrow> hext_write wr (escape_to_hex (Some e)) s; hext_string wr t s }"
  using escape_value [of e b] by (simp add: hext_string_escape)

lemma hext_string_quoted:
  "hext_quoted q bs \<Longrightarrow> hext_string wr (q @ t) (out, n, msgs) = do {
     out \<leftarrow> writes wr bs out;
     hext_string wr t (out, n + length bs, msgs)
   }"
proof (induction arbitrary: out n rule: hext_quoted.induct)
  case (2 c q bs)
  then show ?case by (cases "wr c out") (simp_all add: hext_string_plain)
next
  case (3 e b q bs)
  then show ?case
    using escape_value [of e b] by (cases "wr b out") (simp_all add: hext_string_step)
qed simp

text \<open>One round of the loop for each form of text.\<close>

lemma hext_loop_Nil [simp]: "hext_loop wr [] s = Some s"
  by (subst hext_loop.simps) simp

lemma hext_loop_separator: "separator c \<Longrightarrow> hext_loop wr (c # t) s = hext_loop wr t s"
  by (subst hext_loop.simps) (simp add: separator_eq)

lemma hext_loop_comment: "hext_loop wr (0x23 # t) s = hext_loop wr (hext_comment t) s"
  by (subst hext_loop.simps) (simp add: c_isspace_def)

lemma xdigit_special: "c_isxdigit c \<Longrightarrow> \<not> c_isspace c \<and> c \<noteq> 0x3A \<and> c \<noteq> 0x2D \<and> c \<noteq> 0x23 \<and> c \<noteq> 0x22 \<and> c \<noteq> 0x5C"
  by (drule xdigit_cases) (auto simp: c_isspace_def)

lemma hext_loop_digits:
  "c_isxdigit h \<Longrightarrow> c_isxdigit l \<Longrightarrow> hext_loop wr (h # l # t) (out, n, msgs) = do {
     out \<leftarrow> wr (16 * hex_value h + hex_value l) out;
     hext_loop wr t (out, n + 1, msgs)
   }"
  by (subst hext_loop.simps) (simp add: xdigit_special hex_pair del: of_int_add split: option.split)

lemma hext_loop_no_digit:
  "c_isxdigit h \<Longrightarrow> \<not> (\<exists>l. first t = Some l \<and> c_isxdigit l) \<Longrightarrow>
   hext_loop wr (h # t) s = Some (hext_report (NonHexDigit (first t)) s)"
  by (subst hext_loop.simps) (auto simp: xdigit_special first_def split: list.split)

lemma hext_loop_quote:
  "hext_loop wr (0x22 # t) s = (case hext_string wr t s of None \<Rightarrow> None | Some (t, s) \<Rightarrow> hext_loop wr t s)"
  by (subst hext_loop.simps) (simp add: c_isspace_def c_isxdigit_def)

lemma hext_loop_escape:
  "hext_loop wr (0x5C # t) s =
     (case t of [] \<Rightarrow> Some s
      | e # t \<Rightarrow> if escape_to_hex (Some e) < 0 then Some (hext_report (InvalidEscape (Some e)) s)
          else do { s \<leftarrow> hext_write wr (escape_to_hex (Some e)) s; hext_loop wr t s })"
  by (subst hext_loop.simps) (simp add: c_isspace_def c_isxdigit_def Let_def split: list.split)

lemma hext_loop_unrecognised:
  "\<not> separator c \<Longrightarrow> \<not> c_isxdigit c \<Longrightarrow> c \<notin> {0x23, 0x22, 0x5C} \<Longrightarrow>
   hext_loop wr (c # t) s = Some (hext_report (UnrecognisedCharacter c) s)"
  by (subst hext_loop.simps) (simp add: separator_eq)

lemma hext_comment_line: "comment cs \<Longrightarrow> nl = 0x0A \<or> nl = 0x0D \<Longrightarrow> hext_comment (cs @ nl # t) = t"
  by (induction cs) (auto simp: comment_def)

lemma hext_comment_end: "comment cs \<Longrightarrow> hext_comment cs = []"
  by (induction cs) (auto simp: comment_def)

lemma hext_loop_text:
  assumes "hext_text inp bs es"
  shows "hext_loop wr inp (out, n, msgs) = map_option (\<lambda>out. (out, n + length bs, msgs @ es)) (writes wr bs out)"
  using assms
proof (induction arbitrary: out n msgs rule: hext_text.induct)
  case (digits h l t bs es)
  then show ?case
    by (cases "wr (16 * hex_value h + hex_value l) out") (simp_all add: hext_loop_digits)
next
  case (quoted q qs t bs es)
  then show ?case
    by (cases "writes wr qs out") (simp_all add: hext_loop_quote hext_string_quoted writes_append add.assoc)
next
  case (last_quoted q qs)
  then show ?case
    using hext_string_quoted [of q qs wr "[]"]
    by (cases "writes wr qs out") (simp_all add: hext_loop_quote)
next
  case (quoted_no_escape q qs e t bs es)
  then show ?case
    by (cases "writes wr qs out")
      (simp_all add: hext_loop_quote hext_string_quoted hext_string_escape no_escape_value writes_append add.assoc)
next
  case (quoted_end q qs)
  then show ?case
    by (cases "writes wr qs out")
      (simp_all add: hext_loop_quote hext_string_quoted hext_string_escape escape_to_hex_def)
next
  case (escape e b t bs es)
  then show ?case
    using escape_value [of e b] by (cases "wr b out") (simp_all add: hext_loop_escape)
qed (simp_all add: hext_loop_separator hext_loop_comment hext_comment_line hext_comment_end hext_loop_no_digit
    hext_loop_escape no_escape_value hext_loop_unrecognised)

text \<open>Every text has a meaning, and by the parser only one.\<close>

lemma quoted_cases:
  "\<exists>q bs. hext_quoted q bs \<and> (inp = q \<or> (\<exists>t. inp = q @ 0x22 # t) \<or> inp = q @ [0x5C]
     \<or> (\<exists>e t. inp = q @ 0x5C # e # t \<and> \<not> (\<exists>b. escape e b)))"
proof (induction "length inp" arbitrary: inp rule: less_induct)
  case less
  show ?case
  proof (cases inp)
    case Nil
    then show ?thesis by (auto intro: hext_quoted.intros)
  next
    case (Cons c cs)
    consider "c = 0x22" | "c = 0x5C" "cs = []" | e t where "c = 0x5C" "cs = e # t" "\<not> (\<exists>b. escape e b)"
      | e t b where "c = 0x5C" "cs = e # t" "escape e b" | "c \<noteq> 0x22" "c \<noteq> 0x5C"
      by (cases cs) auto
    then show ?thesis
    proof cases
      case 1 with Cons show ?thesis by (intro exI [of _ "[]"]) (auto intro: hext_quoted.intros)
    next
      case 2 with Cons show ?thesis by (intro exI [of _ "[]"]) (auto intro: hext_quoted.intros)
    next
      case 3 with Cons show ?thesis by (intro exI [of _ "[]"]) (auto intro: hext_quoted.intros)
    next
      case (4 e t b)
      obtain q bs where q: "hext_quoted q bs" "t = q \<or> (\<exists>u. t = q @ 0x22 # u) \<or> t = q @ [0x5C]
        \<or> (\<exists>e u. t = q @ 0x5C # e # u \<and> \<not> (\<exists>b. escape e b))"
        using less.hyps [of t] Cons 4 by auto
      then show ?thesis
        using Cons 4 by (intro exI [of _ "0x5C # e # q"] exI [of _ "b # bs"]) (auto intro: hext_quoted.intros)
    next
      case 5
      obtain q bs where q: "hext_quoted q bs" "cs = q \<or> (\<exists>u. cs = q @ 0x22 # u) \<or> cs = q @ [0x5C]
        \<or> (\<exists>e u. cs = q @ 0x5C # e # u \<and> \<not> (\<exists>b. escape e b))"
        using less.hyps [of cs] Cons by auto
      then show ?thesis
        using Cons 5 by (intro exI [of _ "c # q"] exI [of _ "c # bs"]) (auto intro: hext_quoted.intros)
    qed
  qed
qed

lemma comment_cases:
  "comment cs \<or> (\<exists>c nl t. comment c \<and> (nl = 0x0A \<or> nl = 0x0D) \<and> cs = c @ nl # t)"
proof (cases "\<exists>x\<in>set cs. x = 0x0A \<or> x = 0x0D")
  case True
  then show ?thesis
    by (elim split_list_first_propE) (auto simp: comment_def)
qed (auto simp: comment_def)

lemma hext_text_total: "\<exists>bs es. hext_text inp bs es"
proof (induction "length inp" arbitrary: inp rule: less_induct)
  case less
  show ?case
  proof (cases inp)
    case (Cons c t)
    have IH: "\<exists>bs es. hext_text u bs es" if "length u \<le> length t" for u
      using less.hyps [of u] that Cons by simp
    consider "separator c" | "c = 0x23" | "c_isxdigit c" | "c = 0x22" | "c = 0x5C"
      | "\<not> separator c" "\<not> c_isxdigit c" "c \<notin> {0x23, 0x22, 0x5C}" by blast
    then show ?thesis
    proof cases
      case 1
      then show ?thesis using IH [of t] by (auto simp: Cons intro: hext_text.separator)
    next
      case 2
      with IH comment_cases [of t] show ?thesis
        by (auto simp: Cons intro: hext_text.intros) (metis hext_text.comment length_append le_add2 length_Cons le_SucI)+
    next
      case 3
      show ?thesis
      proof (cases "\<exists>l u. t = l # u \<and> c_isxdigit l")
        case True
        then obtain l u where t: "t = l # u" "c_isxdigit l" by blast
        with IH [of u] 3 show ?thesis by (auto simp: Cons intro: hext_text.digits)
      next
        case False
        with 3 have "hext_text (c # t) [] [NonHexDigit (first t)]"
          by (intro hext_text.no_digit) (auto simp: first_def split: list.splits)
        then show ?thesis by (auto simp: Cons)
      qed
    next
      case 4
      obtain q bs where q: "hext_quoted q bs" "t = q \<or> (\<exists>u. t = q @ 0x22 # u) \<or> t = q @ [0x5C]
        \<or> (\<exists>e u. t = q @ 0x5C # e # u \<and> \<not> (\<exists>b. escape e b))"
        using quoted_cases [of t] by blast
      then consider "t = q" | u where "t = q @ 0x22 # u" | "t = q @ [0x5C]"
        | e u where "t = q @ 0x5C # e # u" "\<not> (\<exists>b. escape e b)" by blast
      then show ?thesis
      proof cases
        case (2 u)
        with IH [of u] q(1) \<open>c = 0x22\<close> show ?thesis by (auto simp: Cons intro: hext_text.quoted)
      next
        case (4 e u)
        with IH [of u] q(1) \<open>c = 0x22\<close> show ?thesis by (auto simp: Cons intro: hext_text.quoted_no_escape)
      qed (use q(1) \<open>c = 0x22\<close> in \<open>auto simp: Cons intro: hext_text.intros\<close>)
    next
      case 5
      show ?thesis
      proof (cases t)
        case Nil
        with 5 show ?thesis by (auto simp: Cons intro: hext_text.intros)
      next
        case t: (Cons e u)
        obtain bs es where "hext_text u bs es" using IH [of u] t by auto
        with 5 show ?thesis
          using hext_text.escape [of e _ u bs es] hext_text.no_escape [of e u] by (auto simp: Cons t)
      qed
    qed (use IH in \<open>auto simp: Cons intro: hext_text.intros\<close>)
  qed (auto intro: hext_text.intros)
qed

lemma hext_stream_text:
  "hext_text inp bs es \<Longrightarrow>
   hext_stream_to_stream inp out = Some (sint (word_of_nat (length bs) :: u32), out @ bs, es)"
  by (simp add: hext_stream_to_stream_def hext_cb_to_cb_def hext_loop_text)

lemma hext_stream_textD:
  assumes "hext_stream_to_stream inp [] = Some (n, bs, es)"
  shows "hext_text inp bs es"
proof -
  obtain bs' es' where t: "hext_text inp bs' es'" using hext_text_total by blast
  then show ?thesis using hext_stream_text [OF t, of "[]"] assms by simp
qed

text \<open>
  C17. The parser decides the language of the annotated packets exactly: for every text, \<open>hext_stream_to_stream\<close>
  ends, writes the bytes the text means and reports the errors the text has, in order, and returns the number of
  bytes as a C \<open>int\<close>; a text has no other meaning than the one the parser finds.
\<close>

theorem hext_parses_the_language:
  "hext_text inp bs es \<longleftrightarrow>
   hext_stream_to_stream inp [] = Some (sint (word_of_nat (length bs) :: u32), bs, es)"
  by (auto simp: hext_stream_text intro: hext_stream_textD)

section \<open>The output formats\<close>

lemma printf_digit_value:
  assumes "n < 16"
  shows "c_isxdigit (printf_digit n)" "hex_value (printf_digit n) = word_of_nat n"
proof -
  have "n \<in> set [0..<16]" using assms by simp
  then have "c_isxdigit (printf_digit n) \<and> hex_value (printf_digit n) = word_of_nat n"
    by (auto simp: upt_rec printf_digit_def c_isxdigit_def hex_value_def)
  then show "c_isxdigit (printf_digit n)" "hex_value (printf_digit n) = word_of_nat n" by simp_all
qed

lemma hext_text_printed: "hext_text (concat (map printf_02x bs)) bs []"
proof (induction bs)
  case (Cons b bs)
  have lt: "unat b div 16 < 16" "unat b mod 16 < 16" using unat_byte_less [of b] by auto
  have "16 * word_of_nat (unat b div 16) + word_of_nat (unat b mod 16) = (word_of_nat (16 * (unat b div 16) + unat b mod 16) :: byte)"
    by (simp only: of_nat_add of_nat_mult of_nat_numeral)
  also have "\<dots> = b" by (simp only: mult_div_mod_eq) simp
  finally have v: "16 * hex_value (printf_digit (unat b div 16)) + hex_value (printf_digit (unat b mod 16)) = b"
    using lt by (simp add: printf_digit_value)
  show ?case
    using hext_text.digits [OF printf_digit_value(1) [OF lt(1)] printf_digit_value(1) [OF lt(2)] Cons.IH]
    by (simp add: printf_02x_def v)
qed (simp add: hext_text.empty)

lemma writes_write_hex: "writes write_hex bs out = Some (out @ concat (map printf_02x bs))"
  by (induction bs arbitrary: out) (simp_all add: write_hex_def)

text \<open>
  The hexadecimal stream is itself a text of the language with the same meaning: running the tool with
  \<open>-x\<close> and then with \<open>-b\<close> on the output gives the bytes of the original file, whatever the file holds.
\<close>

theorem hext_hexstream_roundtrip:
  "do { (_, text) \<leftarrow> hext_main (chars ''x'') [Some inp] u; hext_main (chars ''b'') [Some text] u }
   = hext_main (chars ''b'') [Some inp] u"
proof -
  obtain bs es where t: "hext_text inp bs es" using hext_text_total by blast
  show ?thesis
    using hext_loop_text [OF t, of fputc "[]" 0 "[]"] hext_loop_text [OF t, of write_hex "[]" 0 "[]"]
      hext_loop_text [OF hext_text_printed, of fputc bs "[]" 0 "[]"]
    by (simp add: hext_main_def chars_def hext_filename_to_stream_def hext_filename_to_cb_def
        hext_stream_to_stream_def hext_cb_to_cb_def writes_write_hex)
qed

lemma writes_buffer:
  assumes "length rest \<le> buffer_len bws - buffer_used bws" "bws_buffer bws = pre @ rest" "buffer_used bws = length pre"
    "buffer_len bws = length (bws_buffer bws)"
  shows "map_option bws_buffer (writes write_buffer_cb bs bws)
    = Some (pre @ take (length rest - 1) bs @ drop (min (length bs) (length rest - 1)) rest)"
  using assms
proof (induction bs arbitrary: bws pre rest)
  case (Cons b bs)
  show ?case
  proof (cases "Suc (length pre) < length (bws_buffer bws)")
    case True
    then obtain x rest' where r: "rest = x # rest'" using Cons.prems(2) by (cases rest) auto
    let ?bws = "bws\<lparr>bws_buffer := (pre @ [b]) @ rest', buffer_used := length (pre @ [b])\<rparr>"
    have w: "write_buffer_cb b bws = Some ?bws"
      using True Cons.prems r by (simp add: write_buffer_cb_def)
    obtain y ys where l: "rest' = y # ys" using True Cons.prems r by (cases rest') auto
    show ?thesis
      using Cons.IH [of rest' ?bws "pre @ [b]"] Cons.prems w r by (simp add: l min_def split: if_splits)
  next
    case False
    then have w: "write_buffer_cb b bws = Some bws" "length rest \<le> 1"
      using Cons.prems by (simp_all add: write_buffer_cb_def)
    then show ?thesis
      using Cons.IH [OF Cons.prems] by simp
  qed
qed simp

text \<open>The C block of a list of bytes, eight to a line.\<close>

definition c_element :: "nat \<Rightarrow> nat \<Rightarrow> byte \<Rightarrow> byte list" where
  "c_element n i b = (if i mod 8 = 0 then chars [CHR 0x0A] @ chars ''    '' else []) @ chars ''0x'' @ printf_02x b
     @ (if i = n - 1 then chars [CHR 0x0A] else chars '', '')"

definition c_text :: "byte list \<Rightarrow> byte list" where
  "c_text bs = chars ''uint8_t buffer[] = {'' @ concat (map (\<lambda>i. c_element (length bs) i (bs ! i)) [0..<length bs])
     @ chars ''};'' @ chars [CHR 0x0A]"

lemma print_c_elements_run:
  "i + left \<le> length buf \<Longrightarrow>
   print_c_elements buf n i left = Some (concat (map (\<lambda>j. c_element n j (buf ! j)) [i..<i + left]))"
  by (induction left arbitrary: i) (simp_all add: c_element_def upt_conv_Cons del: upt_Suc)

lemma print_c_elements_fault:
  "length buf < i + left \<Longrightarrow> i \<le> length buf \<Longrightarrow> print_c_elements buf n i left = None"
  by (induction left arbitrary: i) (auto simp: bind_eq_None_conv)

lemma hext_buffer_run:
  assumes "hext_text inp bs es" "length uninit = 4096"
  shows "hext_filename_to_buffer (Some inp) uninit 4096
    = Some (sint (word_of_nat (length bs) :: u32), take 4095 bs @ drop (min (length bs) 4095) uninit, es)"
proof -
  let ?bws = "\<lparr>bws_buffer = uninit, buffer_used = 0, buffer_len = 4096\<rparr>"
  have "map_option bws_buffer (writes write_buffer_cb bs ?bws)
      = Some (take 4095 bs @ drop (min (length bs) 4095) uninit)"
    using writes_buffer [of uninit ?bws "[]" bs] assms(2) by simp
  then show ?thesis
    by (auto simp: hext_filename_to_buffer_def hext_filename_to_cb_def hext_cb_to_cb_def hext_loop_text [OF assms(1)])
qed



end
