(* ===== verification/Test_Tools.thy ===== *)
theory Test_Tools
  imports Hext IPv6_Packet
begin

text \<open>
  The tools beside the test suite that are programs of their own: the \<open>Print\<close> class of the Arduino stubs
  (\<open>src/tests/libarduino/Print.cpp\<close>, \<open>Buffer.cpp\<close>), the file object \<open>HextFile\<close> (\<open>src/tests/hext.hh\<close>) and
  the checksum tool \<open>src/tests/ipv6checksum.cpp\<close>. What a program prints is a list of bytes.
\<close>

section \<open>Printing numbers\<close>

text \<open>\<open>%u\<close> and \<open>%x\<close> of \<open>printf\<close>.\<close>

fun printf_u :: "nat \<Rightarrow> byte list" where
  "printf_u n = (if n < 10 then [0x30 + word_of_nat n] else printf_u (n div 10) @ [0x30 + word_of_nat (n mod 10)])"

fun printf_x :: "nat \<Rightarrow> byte list" where
  "printf_x n = (if n < 16 then [printf_digit n] else printf_x (n div 16) @ [printf_digit (n mod 16)])"

declare printf_u.simps [simp del] printf_x.simps [simp del]

definition printf_d :: "int \<Rightarrow> byte list" where
  "printf_d i = (if i < 0 then 0x2D # printf_u (nat (- i)) else printf_u (nat i))"

definition printf_04x :: "u16 \<Rightarrow> byte list" where
  "printf_04x v = printf_02x (ucast (drop_bit 8 v)) @ printf_02x (ucast v)"

text \<open>
  \<open>Print::print\<close> of an integer: the digits go through a buffer of twelve characters, which holds every 32-bit
  number; a base other than the two prints nothing.
\<close>

definition Print_print_int :: "32 word \<Rightarrow> nat \<Rightarrow> byte list" where
  "Print_print_int i base =
     (if base = 10 then take 11 (printf_d (sint i)) else if base = 16 then take 11 (printf_x (unat i)) else [])"

definition Print_print_uint :: "32 word \<Rightarrow> nat \<Rightarrow> byte list" where
  "Print_print_uint i base =
     (if base = 10 then take 11 (printf_u (unat i)) else if base = 16 then take 11 (printf_x (unat i)) else [])"

definition Print_println_int :: "32 word \<Rightarrow> nat \<Rightarrow> byte list" where
  "Print_println_int i base = Print_print_int i base @ [0x0D, 0x0A]"

definition Print_println_uint :: "32 word \<Rightarrow> nat \<Rightarrow> byte list" where
  "Print_println_uint i base = Print_print_uint i base @ [0x0D, 0x0A]"

lemma length_printf_u: "n < 10 ^ d \<Longrightarrow> 0 < d \<Longrightarrow> length (printf_u n) \<le> d"
proof (induction d arbitrary: n)
  case (Suc d)
  show ?case
  proof (cases "n < 10")
    case False
    then have "0 < d" using Suc.prems by (cases d) auto
    moreover have "n div 10 < 10 ^ d" using Suc.prems(1) by (simp add: less_mult_imp_div_less mult.commute)
    ultimately show ?thesis using Suc.IH [of "n div 10"] False by (simp add: printf_u.simps [of n])
  qed (simp add: printf_u.simps [of n])
qed simp

lemma length_printf_x: "n < 16 ^ d \<Longrightarrow> 0 < d \<Longrightarrow> length (printf_x n) \<le> d"
proof (induction d arbitrary: n)
  case (Suc d)
  show ?case
  proof (cases "n < 16")
    case False
    then have "0 < d" using Suc.prems by (cases d) auto
    moreover have "n div 16 < 16 ^ d" using Suc.prems(1) by (simp add: less_mult_imp_div_less mult.commute)
    ultimately show ?thesis using Suc.IH [of "n div 16"] False by (simp add: printf_x.simps [of n])
  qed (simp add: printf_x.simps [of n])
qed simp

text \<open>Twelve characters are enough: nothing is cut off.\<close>

lemma printf_d_fits: "- (2 ^ 31) \<le> i \<Longrightarrow> i < 2 ^ 31 \<Longrightarrow> length (printf_d i) \<le> 11"
proof -
  assume "- (2 ^ 31) \<le> i" "i < 2 ^ 31"
  then have "nat (- i) < 10 ^ 10" "nat i < 10 ^ 10" by simp_all
  then have "length (printf_u (nat (- i))) \<le> 10" "length (printf_u (nat i)) \<le> 10"
    by (simp_all only: length_printf_u zero_less_numeral)
  then show ?thesis by (auto simp: printf_d_def)
qed

lemma sint_range: "- (2 ^ 31) \<le> sint (i :: 32 word)" "sint (i :: 32 word) < 2 ^ 31"
  using sint_ge [of i] sint_lt [of i] by simp_all

lemma Print_print_int_full:
  "Print_print_int i 10 = printf_d (sint i)" "Print_print_int i 16 = printf_x (unat i)"
  using printf_d_fits [OF sint_range, of i] length_printf_x [of "unat i" 8] unat_u32_less [of i]
  by (simp_all add: Print_print_int_def)

lemma Print_print_uint_full:
  "Print_print_uint i 10 = printf_u (unat i)" "Print_print_uint i 16 = printf_x (unat i)"
  using length_printf_u [of "unat i" 10] length_printf_x [of "unat i" 8] unat_u32_less [of i]
  by (simp_all add: Print_print_uint_def)

section \<open>Buffer\<close>

record print_buffer =
  pb_buffer :: "byte list"
  pb_pos :: nat

definition Buffer_new :: "nat \<Rightarrow> print_buffer" where
  "Buffer_new sz = \<lparr>pb_buffer = replicate sz 0, pb_pos = 0\<rparr>"

text \<open>\<open>write\<close> has no check: the write behind the last byte is a fault.\<close>

definition Buffer_write :: "byte \<Rightarrow> print_buffer \<Rightarrow> (nat \<times> print_buffer) option" where
  "Buffer_write chr b =
     (if pb_pos b < length (pb_buffer b)
      then Some (1, b\<lparr>pb_buffer := (pb_buffer b)[pb_pos b := chr], pb_pos := pb_pos b + 1\<rparr>)
      else None)"

definition Buffer_size :: "print_buffer \<Rightarrow> u16" where
  "Buffer_size b = word_of_nat (pb_pos b)"

section \<open>Files of packets\<close>

record hext_file =
  hf_length :: int
  hf_buffer :: "byte list"

definition HextFile_new :: "byte list option \<Rightarrow> byte list \<Rightarrow> hext_file option" where
  "HextFile_new file uninit = do {
     (len, buf, _) \<leftarrow> hext_filename_to_buffer file uninit 2048;
     Some \<lparr>hf_length = len, hf_buffer = buf\<rparr>
   }"

definition mem_of :: "byte list \<Rightarrow> mem" where
  "mem_of bs i = (if i < length bs then bs ! i else 0)"

text \<open>
  The checksum tool: the exit status and what it prints on \<open>stdout\<close>. \<open>arg\<close> is the name of the file and its
  content, if there is an argument; \<open>uninit\<close> the content of the buffer of the file object before it is filled.
\<close>

definition ipv6checksum_main :: "(byte list \<times> byte list option) option \<Rightarrow> byte list \<Rightarrow> (int \<times> byte list) option" where
  "ipv6checksum_main arg uninit =
     (case arg of
        None \<Rightarrow> Some (- 1, [])
      | Some (name, file) \<Rightarrow> do {
          input \<leftarrow> HextFile_new file uninit;
          let packet = mem_of (hf_buffer input);
          let out = chars ''    Input filename: '' @ name @ [0x0A]
            @ chars '' Input file length: '' @ printf_d (hf_length input) @ [0x0A];
          if IPv6Packet_etherType packet \<noteq> ETHER_TYPE_IPV6 then Some (- 1, out)
          else if IPv6Packet_version packet \<noteq> 6 then Some (- 1, out)
          else do {
            let out = out @ chars ''     Packet length: '' @ printf_u (unat (IPv6Packet_length packet)) @ [0x0A]
              @ chars ''    Payload length: '' @ printf_u (unat (IPv6Packet_payloadLength packet)) @ [0x0A];
            if int (unat (IPv6Packet_length packet)) \<noteq> hf_length input then Some (- 1, out)
            else do {
              checksum \<leftarrow> IPv6Packet_calculateChecksum 2048 packet;
              Some (0, out @ chars ''   Packet Checksum: 0x'' @ printf_04x checksum @ [0x0A])
            }
          }
        })"

lemma HextFile_run:
  assumes "hext_text inp bs es" "length bs < 2048" "length uninit = 2048"
  shows "\<exists>h. HextFile_new (Some inp) uninit = Some h \<and> hf_length h = int (length bs)
     \<and> length (hf_buffer h) = 2048 \<and> take (length bs) (hf_buffer h) = bs"
proof -
  let ?bws = "\<lparr>bws_buffer = uninit, buffer_used = 0, buffer_len = 2048\<rparr>"
  have w: "map_option bws_buffer (writes write_buffer_cb bs ?bws) = Some (bs @ drop (length bs) uninit)"
    using writes_buffer [of uninit ?bws "[]" bs] assms(2,3) by simp
  have "sint (word_of_nat (length bs) :: u32) = int (length bs)"
    using assms(2) by (simp add: signed_of_nat signed_take_bit_int_eq_self)
  with w show ?thesis
    using assms(2,3) by (auto simp: HextFile_new_def hext_filename_to_buffer_def hext_filename_to_cb_def
        hext_cb_to_cb_def hext_loop_text [OF assms(1)])
qed

lemma calculateChecksum_cong:
  assumes "\<And>i. 18 \<le> i \<Longrightarrow> i < 54 + unat (IPv6Packet_payloadLength m) \<Longrightarrow> m i = m' i"
  shows "IPv6Packet_calculateChecksum sz m = IPv6Packet_calculateChecksum sz m'"
proof -
  have "IPv6Packet_payloadLength m' = IPv6Packet_payloadLength m"
    by (rule payloadLength_cong) (simp_all add: assms)
  moreover have "rd_bytes m off k = rd_bytes m' off k"
    if "18 \<le> off" "off + k \<le> 54 + unat (IPv6Packet_payloadLength m)" for off k
    by (rule rd_bytes_cong) (use assms that in auto)
  ultimately show ?thesis
    by (simp add: IPv6Packet_calculateChecksum_def Let_def IPv6Packet_protocol_def IPv6Packet_source_def
        IPv6Packet_destination_def assms)
qed

text \<open>
  The tool prints the checksum the file is to carry: for a file that describes an IPv6 packet of the length
  its header gives, with zeros in the checksum field, it succeeds, and its last line is the checksum with which
  the packet becomes valid.
\<close>

theorem ipv6checksum_prints_checksum:
  assumes "hext_text inp bs es" "length bs < 2048" "length uninit = 2048"
    and "IPv6Packet_etherType (mem_of bs) = ETHER_TYPE_IPV6" "IPv6Packet_version (mem_of bs) = 6"
    and "54 \<le> length bs" "unat (IPv6Packet_payloadLength (mem_of bs)) = length bs - 54"
    and "even k" "k + 2 \<le> length bs - 54" "bs ! (54 + k) = 0" "bs ! (55 + k) = 0"
  shows "\<exists>out c. ipv6checksum_main (Some (name, Some inp)) uninit
       = Some (0, out @ chars ''   Packet Checksum: 0x'' @ printf_04x c @ [0x0A])
     \<and> IPv6Packet_isValid 2048 (st16 (mem_of bs) (54 + k) (htons c)) = Some True"
proof -
  let ?n = "length bs - 54"
  obtain h where h: "HextFile_new (Some inp) uninit = Some h" "hf_length h = int (length bs)"
    "length (hf_buffer h) = 2048" "take (length bs) (hf_buffer h) = bs"
    using HextFile_run [OF assms(1-3)] by blast
  let ?m = "mem_of (hf_buffer h)" and ?z = "st16 (mem_of bs) (54 + k) 0"
  have same: "?m i = mem_of bs i" if "i < length bs" for i
    using that h(3,4) assms(2) by (simp add: mem_of_def) (metis nth_take)
  have "0 = mem_of bs (54 + k)" "0 = mem_of bs (54 + k + 1)"
    using assms(6,9,10,11) by (simp_all add: mem_of_def)
  then have "?z x = mem_of bs x" for x
    by (cases "x = 54 + k"; cases "x = 55 + k") (auto simp: st16_def b16_def wr_bytes_nth)
  then have z: "?z = mem_of bs" by blast
  have f: "IPv6Packet_etherType ?m = ETHER_TYPE_IPV6" "IPv6Packet_version ?m = 6"
    "IPv6Packet_payloadLength ?m = IPv6Packet_payloadLength (mem_of bs)"
    using assms(4,5,6) same [of 12] same [of 13] same [of 14] same [of 18] same [of 19]
    by (simp_all add: IPv6Packet_etherType_def IPv6Packet_version_def IPv6Packet_payloadLength_def ntohs_ld16)
  have l: "unat (IPv6Packet_length ?m) = length bs"
    using assms(2,6,7) by (simp add: IPv6Packet_length_def f unat_word_ariths)
  have fits: "54 + unat (IPv6Packet_payloadLength (mem_of bs)) \<le> 2048" using assms(2,6,7) by simp
  obtain c where c: "IPv6Packet_calculateChecksum 2048 (mem_of bs) = Some c"
    using calculateChecksum_Some [OF fits] by blast
  then have cm: "IPv6Packet_calculateChecksum 2048 ?m = Some c"
    using calculateChecksum_cong [of ?m "mem_of bs" 2048] same assms(6,7) f(3) by simp
  have "IPv6Packet_isValid 2048 (st16 (mem_of bs) (54 + k) (htons c)) = Some True"
    by (rule checksum_fill_in_valid_aux) (use assms fits c z in simp_all)
  moreover have "ipv6checksum_main (Some (name, Some inp)) uninit
      = Some (0, (((chars ''    Input filename: '' @ name @ [0x0A]
          @ chars '' Input file length: '' @ printf_d (int (length bs)) @ [0x0A])
        @ chars ''     Packet length: '' @ printf_u (length bs) @ [0x0A]
        @ chars ''    Payload length: '' @ printf_u (unat (IPv6Packet_payloadLength ?m)) @ [0x0A]))
        @ chars ''   Packet Checksum: 0x'' @ printf_04x c @ [0x0A])"
    using h(1,2) f(1,2) l cm by (simp add: ipv6checksum_main_def)
  ultimately show ?thesis by blast
qed

definition sample_packet_bytes :: "byte list" where
  "sample_packet_bytes = replicate 12 0
     @ [0x86, 0xdd, 0x60, 0, 0, 0, 0, 4, 17, 64] @ [0xfe, 0x80, 0, 0, 0, 0, 0, 0, 0, 0, 0, 0, 0, 0, 0, 1]
     @ [0xfe, 0x80, 0, 0, 0, 0, 0, 0, 0, 0, 0, 0, 0, 0, 0, 2] @ [0, 0, 1, 2]"

lemma ipv6checksum_prints_checksum_witness:
  "\<exists>out c. ipv6checksum_main (Some (chars ''udp.hext'', Some (concat (map printf_02x sample_packet_bytes)))) (replicate 2048 0xAA)
     = Some (0, out @ chars ''   Packet Checksum: 0x'' @ printf_04x c @ [0x0A])
     \<and> IPv6Packet_isValid 2048 (st16 (mem_of sample_packet_bytes) (54 + 0) (htons c)) = Some True"
proof (rule ipv6checksum_prints_checksum [OF hext_text_printed])
  show "length sample_packet_bytes < 2048" "54 \<le> length sample_packet_bytes"
    "IPv6Packet_etherType (mem_of sample_packet_bytes) = ETHER_TYPE_IPV6"
    "IPv6Packet_version (mem_of sample_packet_bytes) = 6"
    "unat (IPv6Packet_payloadLength (mem_of sample_packet_bytes)) = length sample_packet_bytes - 54"
    "0 + 2 \<le> length sample_packet_bytes - 54" "sample_packet_bytes ! (54 + 0) = 0"
    "sample_packet_bytes ! (55 + 0) = 0"
    by code_simp+
qed (simp_all only: length_replicate even_zero)

end
