(* ===== verification/WebToggler.thy ===== *)
theory WebToggler
  imports HTTP_Server Test_Tools
begin

text \<open>
  The sketch \<open>src/examples/WebToggler/WebToggler.ino\<close>: four outputs switched by debounced buttons, sampled by
  a timer interrupt every 50 ms, and over HTTP. The pins are reached through functions of the Arduino core,
  which are a parameter; \<open>True\<close> is \<open>HIGH\<close>.
\<close>

record 'b gpio =
  digitalRead :: "byte \<Rightarrow> 'b \<Rightarrow> bool"
  digitalWrite :: "byte \<Rightarrow> bool \<Rightarrow> 'b \<Rightarrow> 'b"
  pin_A0 :: byte

abbreviation (input) FIRST_OUTPUT_PIN :: byte where "FIRST_OUTPUT_PIN \<equiv> 5"
abbreviation (input) CHANNEL_COUNT :: nat where "CHANNEL_COUNT \<equiv> 4"

text \<open>The static counters of the interrupt routine, one for each channel, and the board.\<close>

record 'b toggler =
  board :: 'b
  ignore_count :: "byte list"
  trigger_count :: "byte list"

definition WebToggler_new :: "'b \<Rightarrow> 'b toggler" where
  "WebToggler_new b = \<lparr>board = b, ignore_count = [0, 0, 0, 0], trigger_count = [0, 0, 0, 0]\<rparr>"

definition digitalToggle :: "'b gpio \<Rightarrow> byte \<Rightarrow> 'b \<Rightarrow> 'b" where
  "digitalToggle g pin b = digitalWrite g pin (\<not> digitalRead g pin b) b"

section \<open>The buttons\<close>

text \<open>The body of the loop of \<open>checkButtons\<close> for channel \<open>i\<close>, and the loop.\<close>

definition checkButtons_channel :: "'b gpio \<Rightarrow> nat \<Rightarrow> 'b toggler \<Rightarrow> 'b toggler" where
  "checkButtons_channel g i t =
     (let state = digitalRead g (pin_A0 g + word_of_nat i) (board t) in
      if ignore_count t ! i = 0 then
        if state then
          if trigger_count t ! i < 3 then
            t\<lparr>trigger_count := (trigger_count t)[i := trigger_count t ! i + 1]\<rparr>
          else
            let t = t\<lparr>board := digitalToggle g (FIRST_OUTPUT_PIN + word_of_nat i) (board t)\<rparr> in
            t\<lparr>trigger_count := (trigger_count t)[i := 0], ignore_count := (ignore_count t)[i := 8]\<rparr>
        else if 0 < trigger_count t ! i then t\<lparr>trigger_count := (trigger_count t)[i := 0]\<rparr>
        else t
      else if \<not> state then t\<lparr>ignore_count := (ignore_count t)[i := ignore_count t ! i - 1]\<rparr>
      else t)"

fun checkButtons_loop :: "'b gpio \<Rightarrow> nat list \<Rightarrow> 'b toggler \<Rightarrow> 'b toggler" where
  "checkButtons_loop g [] t = t"
| "checkButtons_loop g (i # is) t = checkButtons_loop g is (checkButtons_channel g i t)"

definition checkButtons :: "'b gpio \<Rightarrow> 'b toggler \<Rightarrow> 'b toggler" where
  "checkButtons g t = checkButtons_loop g [0..<CHANNEL_COUNT] t"

section \<open>The web pages\<close>

definition WebToggler_label :: "nat \<Rightarrow> byte list" where
  "WebToggler_label i = [chars ''Output 1'', chars ''Output 2'', chars ''Output 3'', chars ''Output 4''] ! i"

text \<open>\<open>dq\<close> is the double quote.\<close>

abbreviation (input) dq :: "byte list" where "dq \<equiv> [0x22]"

text \<open>The rows of the table, for the channels \<open>is\<close>; \<open>http\<close> prints into the packet.\<close>

fun sendIndex_rows ::
    "'d platform \<Rightarrow> 'b gpio \<Rightarrow> 'b \<Rightarrow> nat list \<Rightarrow> http_server \<Rightarrow> 'd ether \<Rightarrow> (http_server \<times> 'd ether) option" where
  "sendIndex_rows p g b [] k s = Some (k, s)"
| "sendIndex_rows p g b (i # is) k s = do {
     (k, s) \<leftarrow> Socket_print TCPServer_vt p (chars ''<tr><th>'') k s;
     (k, s) \<leftarrow> Socket_print TCPServer_vt p (WebToggler_label i) k s;
     (k, s) \<leftarrow> Socket_print TCPServer_vt p (chars '': </th>'') k s;
     (k, s) \<leftarrow> (if digitalRead g (FIRST_OUTPUT_PIN + word_of_nat i) b
        then Socket_print TCPServer_vt p (chars ''<td class='' @ dq @ chars ''on'' @ dq @ chars ''>On</td>'') k s
        else Socket_print TCPServer_vt p (chars ''<td class='' @ dq @ chars ''off'' @ dq @ chars ''>Off</td>'') k s);
     (k, s) \<leftarrow> Socket_print TCPServer_vt p (chars ''<td><button type='' @ dq @ chars ''submit'' @ dq
        @ chars '' formaction='' @ dq @ chars ''/outputs/'') k s;
     (k, s) \<leftarrow> Socket_print TCPServer_vt p (Print_print_int (word_of_nat (i + 1)) 10) k s;
     (k, s) \<leftarrow> Socket_print TCPServer_vt p (dq @ chars ''>Toggle</button></td></tr>'') k s;
     sendIndex_rows p g b is k s
   }"

definition sendIndex ::
    "'d platform \<Rightarrow> 'b gpio \<Rightarrow> 'b toggler \<Rightarrow> http_server \<Rightarrow> 'd ether \<Rightarrow> (http_server \<times> 'd ether) option" where
  "sendIndex p g t k s = do {
     (k, s) \<leftarrow> HTTPServer_printHeaders p HTTPServer_typeHtml HTTPServer_status200 k s;
     (k, s) \<leftarrow> Socket_print TCPServer_vt p (chars ''<!DOCTYPE html>'') k s;
     (k, s) \<leftarrow> Socket_print TCPServer_vt p (chars ''<html><head><title>WebToggler</title>'') k s;
     (k, s) \<leftarrow> Socket_print TCPServer_vt p (chars ''<meta name='' @ dq @ chars ''viewport'' @ dq @ chars '' content='' @ dq
        @ chars ''width=device-width,initial-scale=1'' @ dq @ chars ''>'') k s;
     (k, s) \<leftarrow> Socket_print TCPServer_vt p (chars ''<link href='' @ dq @ chars ''http://njh.me/eswt.css'' @ dq
        @ chars '' rel='' @ dq @ chars ''stylesheet'' @ dq @ chars '' />'') k s;
     (k, s) \<leftarrow> Socket_print TCPServer_vt p (chars ''</head><body><h1>WebToggler</h1>'') k s;
     (k, s) \<leftarrow> Socket_print TCPServer_vt p (chars ''<form method='' @ dq @ chars ''POST'' @ dq @ chars ''><table>'') k s;
     (k, s) \<leftarrow> sendIndex_rows p g (board t) [0..<CHANNEL_COUNT] k s;
     (k, s) \<leftarrow> Socket_print TCPServer_vt p (chars ''</table></form></body></html>'') k s;
     Socket_sendReply_written TCPServer_vt p k s
   }"

text \<open>\<open>path()[9]\<close> is a character of the packet; the difference is stored in an \<open>int8_t\<close>.\<close>

definition pathToNum ::
    "'d platform \<Rightarrow> http_server \<Rightarrow> 'd ether \<Rightarrow> (int \<times> http_server \<times> 'd ether) option" where
  "pathToNum p k s = do {
     c \<leftarrow> buf_at (buffer s) (pathPtr k + 9);
     let num = sint (c - 0x31);
     if 0 \<le> num \<and> num < int CHANNEL_COUNT then Some (num, k, s)
     else do {
       (k, s) \<leftarrow> HTTPServer_notFound p k s;
       Some (- 1, k, s)
     }
   }"

section \<open>The main loop\<close>

type_synonym ('d, 'b) toggler_state = "'b toggler \<times> http_server \<times> 'd ether"

definition WebToggler_get ::
    "'d platform \<Rightarrow> 'b gpio \<Rightarrow> 'b toggler \<Rightarrow> http_server \<Rightarrow> 'd ether \<Rightarrow> ('d, 'b) toggler_state option" where
  "WebToggler_get p g t k s = do {
     (num, k, s) \<leftarrow> pathToNum p k s;
     if num \<noteq> - 1 then do {
       (k, s) \<leftarrow> HTTPServer_printHeaders p HTTPServer_typePlain HTTPServer_status200 k s;
       (k, s) \<leftarrow> (if digitalRead g (FIRST_OUTPUT_PIN + word_of_int num) (board t)
          then Socket_print TCPServer_vt p (chars ''on'') k s
          else Socket_print TCPServer_vt p (chars ''off'') k s);
       (k, s) \<leftarrow> Socket_sendReply_written TCPServer_vt p k s;
       Some (t, k, s)
     }
     else Some (t, k, s)
   }"

definition WebToggler_post ::
    "'d platform \<Rightarrow> 'b gpio \<Rightarrow> 'b toggler \<Rightarrow> http_server \<Rightarrow> 'd ether \<Rightarrow> ('d, 'b) toggler_state option" where
  "WebToggler_post p g t k s = do {
     (num, k, s) \<leftarrow> pathToNum p k s;
     if num \<noteq> - 1 then do {
       let pin = FIRST_OUTPUT_PIN + word_of_int num;
       t \<leftarrow> (if bodyPtr k = None then Some (t\<lparr>board := digitalToggle g pin (board t)\<rparr>)
          else do {
            on \<leftarrow> HTTPServer_bodyEquals (chars ''on'') k s;
            if on then Some (t\<lparr>board := digitalWrite g pin True (board t)\<rparr>)
            else do {
              off \<leftarrow> HTTPServer_bodyEquals (chars ''off'') k s;
              if off then Some (t\<lparr>board := digitalWrite g pin False (board t)\<rparr>) else Some t
            }
          });
       (k, s) \<leftarrow> HTTPServer_redirect p (chars ''/'') k s;
       Some (t, k, s)
     }
     else Some (t, k, s)
   }"

definition WebToggler_loop ::
    "'d platform \<Rightarrow> 'b gpio \<Rightarrow> ('d, 'b) toggler_state \<Rightarrow> ('d, 'b) toggler_state option" where
  "WebToggler_loop p g = (\<lambda>(t, k, s). do {
     (_, s) \<leftarrow> EtherSia_receivePacket p s;
     (index, k, s) \<leftarrow> HTTPServer_isGet p (chars ''/'') k s;
     if index then do { (k, s) \<leftarrow> sendIndex p g t k s; Some (t, k, s) }
     else do {
       (get, k, s) \<leftarrow> HTTPServer_isGet p (chars ''/outputs/?'') k s;
       if get then WebToggler_get p g t k s
       else do {
         (post, k, s) \<leftarrow> HTTPServer_isPost p (chars ''/outputs/?'') k s;
         if post then WebToggler_post p g t k s
         else do {
           (have_packet, k, s) \<leftarrow> TCPServer_havePacket p k s;
           if have_packet then do { (k, s) \<leftarrow> HTTPServer_notFound p k s; Some (t, k, s) }
           else do { s \<leftarrow> EtherSia_rejectPacket p s; Some (t, k, s) }
         }
       }
     }
   })"

section \<open>Debouncing\<close>

text \<open>
  What the code relies on of the pins: an output reads back what was written last, and writing it changes
  neither the other outputs nor the inputs.
\<close>

abbreviation output_pin :: "'b gpio \<Rightarrow> nat \<Rightarrow> 'b \<Rightarrow> bool" where
  "output_pin g i \<equiv> digitalRead g (FIRST_OUTPUT_PIN + word_of_nat i)"

abbreviation input_pin :: "'b gpio \<Rightarrow> nat \<Rightarrow> 'b \<Rightarrow> bool" where
  "input_pin g i \<equiv> digitalRead g (pin_A0 g + word_of_nat i)"

definition gpio_ok :: "'b gpio \<Rightarrow> bool" where
  "gpio_ok g \<longleftrightarrow> (\<forall>b v. \<forall>i < CHANNEL_COUNT. \<forall>j < CHANNEL_COUNT.
     output_pin g j (digitalWrite g (FIRST_OUTPUT_PIN + word_of_nat i) v b) = (if i = j then v else output_pin g j b)
     \<and> input_pin g j (digitalWrite g (FIRST_OUTPUT_PIN + word_of_nat i) v b) = input_pin g j b)"

lemma gpio_okD:
  assumes "gpio_ok g" "i < CHANNEL_COUNT" "j < CHANNEL_COUNT"
  shows "output_pin g j (digitalWrite g (FIRST_OUTPUT_PIN + word_of_nat i) v b) = (if i = j then v else output_pin g j b)"
    "input_pin g j (digitalWrite g (FIRST_OUTPUT_PIN + word_of_nat i) v b) = input_pin g j b"
  using assms by (simp_all add: gpio_ok_def)

definition wf_toggler :: "'b toggler \<Rightarrow> bool" where
  "wf_toggler t \<longleftrightarrow> length (ignore_count t) = CHANNEL_COUNT \<and> length (trigger_count t) = CHANNEL_COUNT"

text \<open>The counters of one channel, and what one sample does to them; the flag says that the output toggles.\<close>

definition channel :: "'b toggler \<Rightarrow> nat \<Rightarrow> nat \<times> nat" where
  "channel t i = (unat (ignore_count t ! i), unat (trigger_count t ! i))"

fun channel_step :: "bool \<Rightarrow> nat \<times> nat \<Rightarrow> bool \<times> nat \<times> nat" where
  "channel_step high (Suc n, trigger) = (False, if high then Suc n else n, trigger)"
| "channel_step high (0, trigger) =
     (if \<not> high then (False, 0, 0) else if trigger < 3 then (False, 0, trigger + 1) else (True, 8, 0))"

lemma unat_up: "(x :: byte) < 3 \<Longrightarrow> unat (x + 1) = unat x + 1"
  by (simp add: word_less_nat_alt unat_word_ariths)

lemma unat_down: "(x :: byte) \<noteq> 0 \<Longrightarrow> unat (x - 1) = unat x - 1"
  by (simp add: unat_minus_one)

lemma checkButtons_channel_step:
  assumes "gpio_ok g" "wf_toggler t" "i < CHANNEL_COUNT" "j < CHANNEL_COUNT"
  defines "r \<equiv> channel_step (input_pin g i (board t)) (channel t i)" and "t' \<equiv> checkButtons_channel g i t"
  shows "channel t' j = (if j = i then snd r else channel t j)"
    "output_pin g j (board t') = (output_pin g j (board t) \<noteq> (j = i \<and> fst r))"
    "input_pin g j (board t') = input_pin g j (board t)" "wf_toggler t'"
proof -
  have l: "i < length (ignore_count t)" "i < length (trigger_count t)"
    using assms(2,3) by (simp_all add: wf_toggler_def)
  have n: "unat (ignore_count t ! i) = 0 \<longleftrightarrow> ignore_count t ! i = 0" by (rule unat_eq_0)
  consider "ignore_count t ! i = 0" | k where "ignore_count t ! i \<noteq> 0" "unat (ignore_count t ! i) = Suc k"
    using n by (cases "unat (ignore_count t ! i)") auto
  then show "channel t' j = (if j = i then snd r else channel t j)"
    "output_pin g j (board t') = (output_pin g j (board t) \<noteq> (j = i \<and> fst r))"
    "input_pin g j (board t') = input_pin g j (board t)" "wf_toggler t'"
    using l gpio_okD [OF assms(1,3,4)] assms(2) unat_up [of "trigger_count t ! i"] unat_down [of "ignore_count t ! i"]
    by (cases; auto simp: t'_def r_def checkButtons_channel_def channel_def digitalToggle_def Let_def wf_toggler_def
        word_less_nat_alt nth_list_update)+
qed

lemma checkButtons_loop_steps:
  assumes "gpio_ok g" "wf_toggler t" "distinct is" "\<forall>i\<in>set is. i < CHANNEL_COUNT" "j < CHANNEL_COUNT"
  defines "r \<equiv> channel_step (input_pin g j (board t)) (channel t j)" and "t' \<equiv> checkButtons_loop g is t"
  shows "channel t' j = (if j \<in> set is then snd r else channel t j)
    \<and> output_pin g j (board t') = (output_pin g j (board t) \<noteq> (j \<in> set is \<and> fst r))
    \<and> wf_toggler t'"
  using assms(2,3,4) unfolding r_def t'_def
proof (induction "is" arbitrary: t)
  case (Cons i "is")
  let ?t = "checkButtons_channel g i t"
  have "i < CHANNEL_COUNT" using Cons.prems by simp
  note s = checkButtons_channel_step [OF assms(1) Cons.prems(1) this assms(5)]
  show ?case using Cons.IH [OF s(4)] s Cons.prems(2,3) by auto
qed simp

lemma checkButtons_steps:
  assumes "gpio_ok g" "wf_toggler t" "j < CHANNEL_COUNT"
  defines "r \<equiv> channel_step (input_pin g j (board t)) (channel t j)"
  shows "channel (checkButtons g t) j = snd r"
    "output_pin g j (board (checkButtons g t)) = (output_pin g j (board t) \<noteq> fst r)"
    "wf_toggler (checkButtons g t)"
  using checkButtons_loop_steps [OF assms(1,2), of "[0..<4]" j] assms(3)
  by (simp_all add: checkButtons_def r_def)

text \<open>
  A history of samples of one button, newest first, with the toggles it causes. \<open>lows\<close> counts the samples
  that found the button released.
\<close>

abbreviation lows :: "bool list \<Rightarrow> nat" where
  "lows h \<equiv> length (filter Not h)"

text \<open>
  When a sample toggles the output: the button has been down for this and the three samples before, and
  since each earlier toggle at least eight samples found it released.
\<close>

definition press :: "bool list \<Rightarrow> bool list \<Rightarrow> bool" where
  "press h toggles \<longleftrightarrow> 4 \<le> length h \<and> (\<forall>j<4. h ! j)
     \<and> (\<forall>k. k < length toggles \<longrightarrow> toggles ! k \<longrightarrow> 8 \<le> lows (take (k + 1) h))"

definition debounced :: "bool list \<Rightarrow> bool list \<Rightarrow> nat \<times> nat \<Rightarrow> bool" where
  "debounced h toggles c \<longleftrightarrow> length toggles = length h \<and>
     (if fst c = 0 then snd c \<le> 3 \<and> snd c = length (takeWhile id h)
        \<and> (\<forall>k < length h. toggles ! k \<longrightarrow> 8 \<le> lows (take k h))
      else fst c \<le> 8 \<and> snd c = 0
        \<and> (\<exists>k < length h. toggles ! k \<and> lows (take k h) = 8 - fst c \<and> (\<forall>j < k. \<not> toggles ! j)))"

lemma four_down: "4 \<le> length h \<and> (\<forall>j<4. h ! j) \<longleftrightarrow> 4 \<le> length (takeWhile id h)"
proof
  assume a: "4 \<le> length (takeWhile id h)"
  then have "h ! j" if "j < 4" for j
    using that takeWhile_nth [of j id h] set_takeWhileD [of "takeWhile id h ! j" id h] by (metis id_apply nth_mem order_less_le_trans)
  then show "4 \<le> length h \<and> (\<forall>j<4. h ! j)" using a length_takeWhile_le [of id h] by auto
next
  assume a: "4 \<le> length h \<and> (\<forall>j<4. h ! j)"
  show "4 \<le> length (takeWhile id h)"
  proof (rule ccontr)
    assume "\<not> 4 \<le> length (takeWhile id h)"
    then have "length (takeWhile id h) < length h" "length (takeWhile id h) < 4" using a by linarith+
    then show False using a nth_length_takeWhile [of id h] by auto
  qed
qed

lemma lows_mono: "j \<le> k \<Longrightarrow> lows (take j h) \<le> lows (take k h)"
proof -
  assume "j \<le> k"
  then have "take k h = take j h @ take (k - j) (drop j h)" by (metis le_add_diff_inverse take_add)
  then show ?thesis by simp
qed

lemma press_Cons: "press (x # h) toggles \<longleftrightarrow> x \<and> 3 \<le> length (takeWhile id h)
    \<and> (\<forall>k. k < length toggles \<longrightarrow> toggles ! k \<longrightarrow> 8 \<le> lows (take k h))"
  using four_down [of "x # h"] unfolding press_def by (cases x) auto

lemma debounced_step:
  fixes high :: bool
  assumes "debounced h toggles c"
  defines "r \<equiv> channel_step high c"
  shows "debounced (high # h) (fst r # toggles) (snd r)" "fst r = press (high # h) toggles"
proof -
  have l: "length toggles = length h" using assms(1) by (simp add: debounced_def)
  show "debounced (high # h) (fst r # toggles) (snd r)"
  proof (cases c)
    case (Pair n trigger)
    show ?thesis
    proof (cases n)
      case 0
      then show ?thesis using assms(1) Pair l by (auto simp: debounced_def r_def nth_Cons split: nat.split)
    next
      case (Suc m)
      then obtain k where k: "k < length h" "toggles ! k" "lows (take k h) = 7 - m" "\<forall>j<k. \<not> toggles ! j"
        "m \<le> 7" "trigger = 0"
        using assms(1) Pair by (auto simp: debounced_def)
      have later: "7 - m \<le> lows (take j h)" if "toggles ! j" for j
        using k(3,4) that lows_mono [of k j h] by (metis not_le_imp_less)
      show ?thesis
      proof (cases "high \<or> 0 < m")
        case True
        have "\<forall>j<Suc k. \<not> (False # toggles) ! j" using k(4) by (auto simp: nth_Cons split: nat.split)
        with True k Suc Pair l show ?thesis
          by (auto simp: debounced_def r_def intro!: exI [of _ "Suc k"])
      next
        case False
        with later k Suc Pair l show ?thesis
          by (auto simp: debounced_def r_def nth_Cons split: nat.split)
      qed
    qed
  qed
  show "fst r = press (high # h) toggles"
  proof (cases c)
    case (Pair n trigger)
    show ?thesis
    proof (cases n)
      case 0
      then show ?thesis using assms(1) Pair l by (auto simp: debounced_def r_def press_Cons)
    next
      case (Suc m)
      then obtain k where k: "k < length h" "toggles ! k" "lows (take k h) = 7 - m"
        using assms(1) Pair by (auto simp: debounced_def)
      then have "\<not> press (high # h) toggles"
        using l unfolding press_Cons by (intro notI) fastforce
      then show ?thesis using Suc Pair by (simp add: r_def)
    qed
  qed
qed

text \<open>
  Runs of the interrupt routine: before each sample the buttons and, through the web pages, the outputs change
  in any way; a sample records the buttons it sees and the outputs it changes.
\<close>

inductive button_run :: "'b gpio \<Rightarrow> bool list list \<Rightarrow> bool list list \<Rightarrow> 'b toggler \<Rightarrow> bool" for g where
  start: "button_run g [] [] (WebToggler_new b)"
| sample: "button_run g samples toggles t \<Longrightarrow> t' = t\<lparr>board := b\<rparr> \<Longrightarrow> t'' = checkButtons g t' \<Longrightarrow>
    button_run g (map (\<lambda>i. input_pin g i b) [0..<CHANNEL_COUNT] # samples)
      (map (\<lambda>i. output_pin g i (board t'') \<noteq> output_pin g i b) [0..<CHANNEL_COUNT] # toggles) t''"

abbreviation column :: "nat \<Rightarrow> bool list list \<Rightarrow> bool list" where
  "column i \<equiv> map (\<lambda>row. row ! i)"

lemma button_run_debounced:
  assumes "button_run g samples toggles t" "gpio_ok g"
  shows "wf_toggler t \<and> (\<forall>i < CHANNEL_COUNT. debounced (column i samples) (column i toggles) (channel t i))"
  using assms(1)
proof (induction rule: button_run.induct)
  case (start b)
  then show ?case by (simp add: WebToggler_new_def wf_toggler_def debounced_def channel_def less_Suc_eq numeral_eq_Suc)
next
  case (sample samples toggles t t' b t'')
  have t': "wf_toggler t'" "board t' = b" "channel t' i = channel t i" for i
    using sample by (simp_all add: wf_toggler_def channel_def)
  show ?case
  proof (intro conjI allI impI)
    show "wf_toggler t''" using checkButtons_steps(3) [OF assms(2) t'(1), of 0] sample by simp
  next
    fix i :: nat assume i: "i < CHANNEL_COUNT"
    note s = checkButtons_steps [OF assms(2) t'(1) i, unfolded t'(2,3)]
    have f: "(output_pin g i (board t'') \<noteq> output_pin g i b) = fst (channel_step (input_pin g i b) (channel t i))"
      using s(2) sample(3,2) by auto
    show "debounced (column i (map (\<lambda>i. input_pin g i b) [0..<CHANNEL_COUNT] # samples))
        (column i (map (\<lambda>i. output_pin g i (board t'') \<noteq> output_pin g i b) [0..<CHANNEL_COUNT] # toggles)) (channel t'' i)"
      using debounced_step(1) [of "column i samples" "column i toggles" "channel t i" "input_pin g i b"] sample i s(1) f
      by simp
  qed
qed

text \<open>
  C16. The buttons are debounced: in every run, whatever the web pages do to the outputs in between, a sample
  toggles output \<open>i\<close> exactly when its button has been found down in the last four samples (200 ms) and, since
  each earlier toggle of this output by the button, found released in at least eight samples.
\<close>

theorem checkButtons_debounces:
  assumes "gpio_ok g" "button_run g samples toggles t" "i < CHANNEL_COUNT"
    and "t' = checkButtons g (t\<lparr>board := b\<rparr>)"
  shows "output_pin g i (board t') \<noteq> output_pin g i b
    \<longleftrightarrow> press (input_pin g i b # column i samples) (column i toggles)"
proof -
  have d: "wf_toggler (t\<lparr>board := b\<rparr>)" "debounced (column i samples) (column i toggles) (channel t i)"
    using button_run_debounced [OF assms(2,1)] assms(3) by (simp_all add: wf_toggler_def)
  have "channel (t\<lparr>board := b\<rparr>) i = channel t i" by (simp add: channel_def)
  then show ?thesis
    using checkButtons_steps(2) [OF assms(1) d(1) assms(3)] debounced_step(2) [OF d(2)] assms(4) by auto
qed

section \<open>The index page\<close>

definition row_text :: "'b gpio \<Rightarrow> 'b \<Rightarrow> nat \<Rightarrow> byte list" where
  "row_text g b i = chars ''<tr><th>'' @ WebToggler_label i @ chars '': </th>''
     @ (if output_pin g i b then chars ''<td class='' @ dq @ chars ''on'' @ dq @ chars ''>On</td>''
        else chars ''<td class='' @ dq @ chars ''off'' @ dq @ chars ''>Off</td>'')
     @ (chars ''<td><button type='' @ dq @ chars ''submit'' @ dq @ chars '' formaction='' @ dq @ chars ''/outputs/'')
     @ Print_print_int (word_of_nat (i + 1)) 10 @ (dq @ chars ''>Toggle</button></td></tr>'')"

definition index_text :: "'b gpio \<Rightarrow> 'b \<Rightarrow> byte list" where
  "index_text g b = headers_text HTTPServer_typeHtml HTTPServer_status200 @ chars ''<!DOCTYPE html>''
     @ chars ''<html><head><title>WebToggler</title>''
     @ (chars ''<meta name='' @ dq @ chars ''viewport'' @ dq @ chars '' content='' @ dq
        @ chars ''width=device-width,initial-scale=1'' @ dq @ chars ''>'')
     @ (chars ''<link href='' @ dq @ chars ''http://njh.me/eswt.css'' @ dq @ chars '' rel='' @ dq
        @ chars ''stylesheet'' @ dq @ chars '' />'')
     @ chars ''</head><body><h1>WebToggler</h1>''
     @ (chars ''<form method='' @ dq @ chars ''POST'' @ dq @ chars ''><table>'')
     @ concat (map (row_text g b) [0..<CHANNEL_COUNT]) @ chars ''</table></form></body></html>''"

lemma sendIndex_rows_print:
  "sendIndex_rows p g b is k s = Socket_print TCPServer_vt p (concat (map (row_text g b) is)) k s"
proof (induction "is" arbitrary: k s)
  case (Cons i "is")
  show ?case
    by (cases "output_pin g i b")
      (simp_all only: sendIndex_rows.simps row_text_def list.map concat.simps Cons.IH Socket_print_append bind_assoc
        split_def if_True if_False)
qed simp

lemma sendIndex_print:
  "sendIndex p g t k s = do {
     (k, s) \<leftarrow> Socket_print TCPServer_vt p (index_text g (board t)) k s;
     Socket_sendReply_written TCPServer_vt p k s
   }"
  by (simp only: sendIndex_def index_text_def printHeaders_print sendIndex_rows_print Socket_print_append bind_assoc
      split_def)

lemma length_row_text: "i < CHANNEL_COUNT \<Longrightarrow> length (row_text g b i) \<ge> 119"
  by (auto simp: row_text_def WebToggler_label_def Print_print_int_full printf_d_def printf_u.simps less_Suc_eq
      numeral_eq_Suc)

lemma length_index_text: "700 \<le> length (index_text g b)"
proof -
  have "length (concat (map (row_text g b) [0..<CHANNEL_COUNT])) \<ge> 476"
    using length_row_text [of 0 g b] length_row_text [of 1 g b] length_row_text [of 2 g b] length_row_text [of 3 g b]
    by (simp add: upt_rec numeral_2_eq_2 numeral_3_eq_3)
  then show ?thesis
    by (simp add: index_text_def headers_text_def status_text_def HTTPServer_typeHtml_def HTTPServer_status200_def)
qed

text \<open>
  C35. The index page does not fit: answering \<open>GET /\<close> prints more than the 522 bytes that are left behind the
  headers in the packet buffer, whatever the outputs, so the sketch writes past the end of the buffer each time.
\<close>

theorem sendIndex_overflows:
  assumes "writePos k = -1"
  shows "sendIndex p g t k s = None"
proof -
  have "index_text g (board t) = 0x48 # tl (index_text g (board t))"
    by (simp add: index_text_def headers_text_def status_text_def chars_def)
  then have h: "hd (index_text g (board t)) = 0x48" by (metis list.sel(1))
  have "Socket_print TCPServer_vt p (index_text g (board t)) k s = None"
    using tcpserver_print.print_overrun [of "index_text g (board t)" k p s] assms length_index_text [of g "board t"] h
    by simp
  then show ?thesis by (simp add: sendIndex_print)
qed

section \<open>Switching an output over HTTP\<close>

definition redirect_text :: "byte list \<Rightarrow> byte list" where
  "redirect_text location = status_text HTTPServer_status302 @ chars ''Location: '' @ location @ crlf @ crlf
     @ HTTPServer_status302 @ crlf"

lemma redirect_print:
  "HTTPServer_redirect p location k s = do {
     (k, s) \<leftarrow> Socket_print TCPServer_vt p (redirect_text location) k s;
     Socket_sendReply_written TCPServer_vt p k s
   }"
  by (simp only: HTTPServer_redirect_def redirect_text_def printStatus_print Socket_println_print Socket_print_append
      bind_assoc split_def append_Nil)

lemma redirect_text_facts:
  "redirect_text (chars ''/'') \<noteq> []" "hd (redirect_text (chars ''/'')) = 0x48" "length (redirect_text (chars ''/'')) \<le> 522"
  by (simp_all add: redirect_text_def status_text_def HTTPServer_status302_def chars_def)

text \<open>What a request with this body makes of an output.\<close>

definition switched :: "byte list option \<Rightarrow> bool \<Rightarrow> bool" where
  "switched body level = (case body of
       None \<Rightarrow> \<not> level
     | Some text \<Rightarrow> if text = chars ''on'' then True else if text = chars ''off'' then False else level)"

definition output_path :: "nat \<Rightarrow> byte list" where
  "output_path i = chars ''/outputs/'' @ [0x31 + word_of_nat i]"

lemma output_path_facts:
  assumes "i < CHANNEL_COUNT"
  shows "path_matches (chars ''/outputs/?'') (output_path i)" "length (output_path i) = 10"
    "output_path i ! 9 = 0x31 + word_of_nat i" "sint (output_path i ! 9 - 0x31) = int i"
  using assms by (auto simp: output_path_def chars_def less_Suc_eq numeral_eq_Suc)

lemma post_patterns:
  "list_all pattern_char (chars ''/'')" "list_all pattern_char (chars ''/outputs/?'')"
  "list_all (\<lambda>c. c \<noteq> 0x20) HTTPServer_methodGet" "HTTPServer_methodPost \<noteq> HTTPServer_methodGet"
  "length HTTPServer_methodGet = 3" "length HTTPServer_methodPost = 4"
  by code_simp+

lemma loop_post:
  assumes "EtherSia_receivePacket p s = Some (n, s1)"
    "carries_request k s1 HTTPServer_methodPost request rest" "length (segment_data s1) \<le> 259" "0 < length request"
  shows "WebToggler_loop p g (t, k, s) = do {
     (post, k, s) \<leftarrow> HTTPServer_isPost p (chars ''/outputs/?'') (k\<lparr>writePos := -1\<rparr>) (seen s1);
     if post then WebToggler_post p g t k s
     else do {
       (have_packet, k, s) \<leftarrow> TCPServer_havePacket p k s;
       if have_packet then do { (k, s) \<leftarrow> HTTPServer_notFound p k s; Some (t, k, s) }
       else do { s \<leftarrow> EtherSia_rejectPacket p s; Some (t, k, s) }
     }
   }"
proof -
  have get: "HTTPServer_isGet p path k s = Some (False, k\<lparr>writePos := -1\<rparr>, seen s)"
    if "carries_request k s HTTPServer_methodPost request rest" "length (segment_data s) \<le> 259" "list_all pattern_char path"
    for path and k :: http_server and s :: "'a ether"
    using carried_request_outcome [OF that(1), of HTTPServer_methodGet path p] that(2,3) assms(4)
    by (simp add: HTTPServer_isGet_def post_patterns)
  have s: "length (segment_data (seen s1)) \<le> 259"
    using assms(3) segment_data_seen carries_requestD(2) [OF assms(2)] by metis
  show ?thesis
    using get [OF assms(2,3) post_patterns(1)] get [OF carries_request_seen [OF assms(2)] s post_patterns(2)]
    by (simp add: WebToggler_loop_def assms(1))
qed

lemma post_switches:
  assumes "gpio_ok g" "i < CHANNEL_COUNT" "cstr data" "bp = None \<or> (\<exists>b. bp = Some b \<and> b \<le> e \<and> e < 600 \<and> m e = 0)"
    "map_option (\<lambda>b. rd_bytes m b (e - b)) bp = body" "\<And>content. body = Some content \<Longrightarrow> cstr content"
    and "bodyPtr k = bp" "buffer s = m" "pathToNum p k s = Some (int i, k, s)"
  obtains b' where
    "WebToggler_post p g t k s = do {
       (k, s) \<leftarrow> HTTPServer_redirect p (chars ''/'') k s;
       Some (t\<lparr>board := b'\<rparr>, k, s)
     }"
    "\<forall>j < CHANNEL_COUNT. output_pin g j b' = (if j = i then switched body (output_pin g i (board t)) else output_pin g j (board t))"
proof -
  have cstrs: "cstr (chars ''on'')" "cstr (chars ''off'')" "chars ''on'' \<noteq> chars ''off''" by code_simp+
  let ?w = "\<lambda>v. digitalWrite g (FIRST_OUTPUT_PIN + word_of_nat i) v (board t)"
  have w: "output_pin g j (?w v) = (if j = i then v else output_pin g j (board t))" if "j < CHANNEL_COUNT" for j v
    using gpio_okD(1) [OF assms(1,2) that] by auto
  show thesis
  proof (cases bp)
    case None
    then show thesis
      using assms(5,7,9) w by (intro that [of "?w (\<not> output_pin g i (board t))"])
        (auto simp: WebToggler_post_def digitalToggle_def switched_def Let_def)
  next
    case (Some b)
    define content where "content = rd_bytes m b (e - b)"
    have b: "b \<le> e" "e < 600" "m e = 0" and body: "body = Some content" "cstr content"
      using Some assms(4-6) by (auto simp: content_def)
    have eq: "HTTPServer_bodyEquals str k s = Some (content = str)" if "cstr str" for str
      using strcmp_eq_text [of m b content str] b body(2) that assms(7,8) Some
      by (simp add: HTTPServer_bodyEquals_def content_def)
    let ?v = "switched body (output_pin g i (board t))"
    let ?b = "if content = chars ''on'' then ?w True else if content = chars ''off'' then ?w False else board t"
    show thesis
      by (rule that [of ?b])
        (use assms(7,9) Some eq [OF cstrs(1)] eq [OF cstrs(2)] cstrs(3) w body(1) in
          \<open>auto simp: WebToggler_post_def switched_def Let_def\<close>)
  qed
qed

text \<open>The redirection, whatever the request left behind the headers in the buffer.\<close>

lemma redirect_sends:
  assumes "wf_ether s" "IPv6Packet_isValid 600 (buffer s) = Some True" "writePos k = -1"
    and "\<And>i. i < 68 \<Longrightarrow> m i = buffer (seen s) i"
  obtains m' r where "do {
       (k, s) \<leftarrow> Socket_print TCPServer_vt p (redirect_text (chars ''/'')) k (s\<lparr>buffer := m\<rparr>);
       Socket_sendReply_written TCPServer_vt p k s
     } = map_option (Pair (k\<lparr>writePos := -1\<rparr>)) r" "sends p (s\<lparr>buffer := m\<rparr>) m' r"
    "rd_bytes m' 78 (length (redirect_text (chars ''/''))) = redirect_text (chars ''/'')"
    "IPv6Packet_destination m' = IPv6Packet_source (buffer s)"
proof -
  have "IPv6Packet_etherType m = ETHER_TYPE_IPV6" "IPv6Packet_version m = 6" "m tcp_flags = 0"
    "IPv6Packet_source m = IPv6Packet_source (buffer s)" "wf_ether (s\<lparr>buffer := m\<rparr>)"
    using valid_header [OF assms(2)] assms(4) assms(1) rd_bytes_cong [of 22 16 m "buffer s"]
    by (auto simp: IPv6Packet_etherType_def IPv6Packet_version_def IPv6Packet_source_def ntohs_ld16 st8_def wr_bytes_nth)
  then show thesis
    using print_and_send [of "s\<lparr>buffer := m\<rparr>" k "redirect_text (chars ''/'')" p] that assms(3) redirect_text_facts by auto
qed

text \<open>
  C18. An output is switched over HTTP: when the sketch receives a \<open>POST\<close> of \<open>/outputs/\<close> with a digit from 1 to 4, one
  round of the loop sets this output to what the body says, \<open>on\<close> or \<open>off\<close>, toggles it when there is no body and leaves it
  for any other body, changes no other output, and sends the client one valid segment with the redirection to the index page.
\<close>

theorem WebToggler_post_switches:
  assumes "gpio_ok g" "i < CHANNEL_COUNT" "wf_ether s1"
    and "EtherSia_receivePacket p s = Some (n, s1)" "IPv6Packet_isValid 600 (buffer s1) = Some True"
    and "carries_request k s1 HTTPServer_methodPost (output_path i) rest"
    and "cstr (segment_data s1)" "length (segment_data s1) \<le> 259"
  defines "body \<equiv> body_of (segment_data s1) 5"
  shows "\<exists>b k' m r. WebToggler_loop p g (t, k, s) = map_option (\<lambda>s'. (t\<lparr>board := b\<rparr>, k', s')) r
     \<and> (\<forall>j < CHANNEL_COUNT. output_pin g j b
          = (if j = i then switched body (output_pin g i (board t)) else output_pin g j (board t)))
     \<and> sends p s1 m r \<and> IPv6Packet_destination m = IPv6Packet_source (buffer s1)
     \<and> rd_bytes m 78 (length (redirect_text (chars ''/''))) = redirect_text (chars ''/'')"
proof -
  let ?k = "k\<lparr>writePos := -1\<rparr>" and ?P = "TCPServer_payload s1" and ?data = "segment_data s1"
  note c = carries_request_seen [OF assms(6), of "-1"]
  have d: "segment_data (seen s1) = ?data" "68 \<le> ?P" "?P + length ?data < 600"
    by (rule segment_data_seen [OF carries_requestD(2) [OF assms(6)]], rule carries_requestD [OF assms(6)],
        rule carries_requestD [OF assms(6)])
  obtain bp m where x: "HTTPServer_isPost p (chars ''/outputs/?'') ?k (seen s1)
      = Some (True, ?k\<lparr>pathPtr := 5 + ?P, bodyPtr := bp\<rparr>, s1\<lparr>buffer := m\<rparr>)"
    "rd_bytes m (5 + ?P) 10 = output_path i" "\<And>i. i < 68 \<Longrightarrow> m i = buffer (seen s1) i"
    "map_option (\<lambda>b. rd_bytes m b (?P + length ?data - b)) bp = body"
    "\<And>b. bp = Some b \<Longrightarrow> b \<le> ?P + length ?data \<and> m (?P + length ?data) = 0"
    using carried_request_matched [OF c, of "chars ''/outputs/?''" p] assms(8) d output_path_facts [OF assms(2)]
    by (auto simp: HTTPServer_isPost_def post_patterns body_def)
  let ?k2 = "?k\<lparr>pathPtr := 5 + ?P, bodyPtr := bp\<rparr>" and ?s2 = "s1\<lparr>buffer := m\<rparr>"
  have run: "WebToggler_loop p g (t, k, s) = WebToggler_post p g t ?k2 ?s2"
    using loop_post [OF assms(4,6,8)] x(1) output_path_facts(2) [OF assms(2)] by simp
  have "14 + ?P < 600"
    using d(3) carries_requestD(6) [OF assms(6)] output_path_facts(2) [OF assms(2)] post_patterns(6) by simp
  moreover have "m (14 + ?P) = output_path i ! 9"
    using x(2) nth_rd_bytes [of 9 10 m "5 + ?P"] by (simp add: add.commute)
  ultimately have num: "pathToNum p ?k2 ?s2 = Some (int i, ?k2, ?s2)"
    using output_path_facts(4) [OF assms(2)] assms(2) by (simp add: pathToNum_def buf_at_def Let_def)
  have cs: "cstr content" if "body = Some content" for content
    using that assms(7) by (auto simp: body_def body_of_def cstr_def dest: in_set_dropD)
  have e: "bp = None \<or> (\<exists>b. bp = Some b \<and> b \<le> ?P + length ?data \<and> ?P + length ?data < 600 \<and> m (?P + length ?data) = 0)"
    using x(5) d(3) by (cases bp) auto
  obtain b where b: "WebToggler_post p g t ?k2 ?s2 = do {
       (k, s) \<leftarrow> HTTPServer_redirect p (chars ''/'') ?k2 ?s2;
       Some (t\<lparr>board := b\<rparr>, k, s)
     }"
    "\<forall>j < CHANNEL_COUNT. output_pin g j b = (if j = i then switched body (output_pin g i (board t)) else output_pin g j (board t))"
    by (rule post_switches [OF assms(1,2,7) e x(4) cs _ _ num, of t]) simp_all
  obtain m' r where "do {
       (k, s) \<leftarrow> Socket_print TCPServer_vt p (redirect_text (chars ''/'')) ?k2 ?s2;
       Socket_sendReply_written TCPServer_vt p k s
     } = map_option (Pair (?k2\<lparr>writePos := -1\<rparr>)) r" "sends p ?s2 m' r"
    "rd_bytes m' 78 (length (redirect_text (chars ''/''))) = redirect_text (chars ''/'')"
    "IPv6Packet_destination m' = IPv6Packet_source (buffer s1)"
    by (rule redirect_sends [OF assms(3,5) _ x(3), of ?k2 p]) simp_all
  then show ?thesis
    using b(2) unfolding run b(1) redirect_print
    by (intro exI [of _ b] exI [of _ "?k2\<lparr>writePos := -1\<rparr>"] exI [of _ m'] exI [of _ r])
      (cases r; simp)
qed

text \<open>A board of pins that keep what is written to them, with the buttons on pins 14 to 17.\<close>

definition sample_gpio :: "(byte \<Rightarrow> bool) gpio" where
  "sample_gpio = \<lparr>digitalRead = (\<lambda>pin b. b pin), digitalWrite = (\<lambda>pin v b. b(pin := v)), pin_A0 = 14\<rparr>"

lemma sample_gpio_ok: "gpio_ok sample_gpio"
proof -
  have "\<forall>i\<in>set [0..<4]. \<forall>j\<in>set [0..<4]. (5 + word_of_nat j = (5 + word_of_nat i :: byte)) = (i = j)
      \<and> 14 + word_of_nat j \<noteq> (5 + word_of_nat i :: byte)"
    by code_simp
  then show ?thesis by (auto simp: gpio_ok_def sample_gpio_def)
qed

lemma checkButtons_debounces_witness:
  "output_pin sample_gpio 2 (board (checkButtons sample_gpio (WebToggler_new (\<lambda>pin. pin = 16)))) = False"
proof -
  have "\<not> press [True] []" by (simp add: press_def)
  moreover have "input_pin sample_gpio 2 (\<lambda>pin. pin = 16)" "\<not> output_pin sample_gpio 2 (\<lambda>pin. pin = 16)"
    by code_simp+
  ultimately show ?thesis
    using checkButtons_debounces [OF sample_gpio_ok button_run.start [of sample_gpio "\<lambda>_. False"], of 2 _ "\<lambda>pin. pin = 16"]
    by (simp add: WebToggler_new_def)
qed

lemma sendIndex_overflows_witness:
  "sendIndex quiet_platform sample_gpio (WebToggler_new (\<lambda>_. False)) (HTTPServer_new 80 0) sample_request = None"
  by (rule sendIndex_overflows) (simp add: HTTPServer_new_def)

definition sample_post_frame :: "byte list" where
  "sample_post_frame = [2, 0, 0, 0, 0, 1, 2, 0, 0, 0, 0, 9, 134, 221, 96, 0, 0, 0, 0, 50, 6, 64, 254, 128, 0, 0, 0, 0, 0, 0, 0, 0, 0, 0, 0, 0, 0, 1, 254, 128, 0, 0, 0, 0, 0, 0, 0, 0, 0, 0, 0, 0, 0, 2, 156, 64, 0, 80, 1, 2, 3, 4, 0, 0, 0, 7, 80, 24, 16, 0, 188, 7, 0, 0, 80, 79, 83, 84, 32, 47, 111, 117, 116, 112, 117, 116, 115, 47, 50, 32, 72, 84, 84, 80, 47, 49, 46, 48, 13, 10, 13, 10, 111, 110]"

lemma WebToggler_post_switches_witness:
  "\<exists>b k' s'. WebToggler_loop one_frame_platform sample_gpio
       (WebToggler_new (\<lambda>_. False), HTTPServer_new 80 0, with_frame sample_ether sample_post_frame)
       = Some ((WebToggler_new (\<lambda>_. False))\<lparr>board := b\<rparr>, k', s')
     \<and> output_pin sample_gpio 1 b \<and> \<not> output_pin sample_gpio 0 b"
proof -
  let ?s = "with_frame sample_ether sample_post_frame" and ?s1 = "received_frame sample_post_frame"
  have v: "length sample_post_frame \<le> 600" "sample_post_frame \<noteq> []" "IPv6Packet_isValid 600 (wr_bytes (\<lambda>_. 0) 0 sample_post_frame) = Some True"
    "EtherSia_checkEthernetAddresses sample_ether (wr_bytes (\<lambda>_. 0) 0 sample_post_frame)"
    "IPv6Packet_protocol (wr_bytes (\<lambda>_. 0) 0 sample_post_frame) \<noteq> IP6_PROTO_ICMP6"
    by code_simp+
  note recv = one_frame_receives [OF v]
  have data: "segment_data ?s1 = chars ''POST /outputs/2 HTTP/1.0'' @ [13, 10, 13, 10] @ chars ''on''" by code_simp
  have req: "carries_request (HTTPServer_new 80 0) ?s1 HTTPServer_methodPost (output_path 1)
      (chars '' HTTP/1.0'' @ [13, 10, 13, 10] @ chars ''on'')" by code_simp
  have other: "wf_ether ?s1" "cstr (segment_data ?s1)" "length (segment_data ?s1) \<le> 259"
    "body_of (segment_data ?s1) 5 = Some (chars ''on'')" by code_simp+
  have valid: "IPv6Packet_isValid 600 (buffer ?s1) = Some True" using v(3) by simp
  obtain b k' m r where x: "WebToggler_loop one_frame_platform sample_gpio (WebToggler_new (\<lambda>_. False), HTTPServer_new 80 0, ?s)
       = map_option (\<lambda>s'. ((WebToggler_new (\<lambda>_. False))\<lparr>board := b\<rparr>, k', s')) r"
    "\<forall>j < CHANNEL_COUNT. output_pin sample_gpio j b = (if j = 1 then switched (Some (chars ''on'')) (output_pin sample_gpio 1 (\<lambda>_. False))
        else output_pin sample_gpio j (\<lambda>_. False))"
    "sends one_frame_platform ?s1 m r"
    using WebToggler_post_switches [OF sample_gpio_ok _ other(1) recv valid req other(2,3), of "WebToggler_new (\<lambda>_. False)"]
    unfolding other(4) by (auto simp: WebToggler_new_def)
  moreover obtain s' where "r = Some s'" using one_frame_sends [OF x(3)] .
  ultimately show ?thesis
    using x(2) [rule_format, of 0] x(2) [rule_format, of 1] by (auto simp: switched_def sample_gpio_def)
qed

end
