(* ===== verification/Application_Monitor.thy ===== *)
theory Application_Monitor
  imports Test_Tools
begin

text \<open>
  \<open>src/examples/emonCMSClient/ApplicationMonitor.cpp\<close> (and its copy in \<open>EmonCMSClient_simple\<close>): a log of watchdog
  resets in the EEPROM, a header of two bytes and a ring of reports. The EEPROM is reached through functions of
  the AVR library, which are a parameter, with what the code relies on as \<open>eeprom_ok\<close>.
\<close>

section \<open>The EEPROM\<close>

record 'e eeprom_ops =
  eeprom_read :: "nat \<Rightarrow> 'e \<Rightarrow> byte"
  eeprom_write :: "nat \<Rightarrow> byte \<Rightarrow> 'e \<Rightarrow> 'e"

definition eeprom_ok :: "nat \<Rightarrow> 'e eeprom_ops \<Rightarrow> bool" where
  "eeprom_ok sz e \<longleftrightarrow> (\<forall>a < sz. \<forall>b < sz. \<forall>v st.
     eeprom_read e b (eeprom_write e a v st) = (if b = a then v else eeprom_read e b st))"

definition eeprom_bytes :: "'e eeprom_ops \<Rightarrow> 'e \<Rightarrow> nat \<Rightarrow> nat \<Rightarrow> byte list" where
  "eeprom_bytes e st a n = rd_bytes (\<lambda>i. eeprom_read e i st) a n"

fun eeprom_store :: "'e eeprom_ops \<Rightarrow> nat \<Rightarrow> byte list \<Rightarrow> 'e \<Rightarrow> 'e" where
  "eeprom_store e a [] st = st"
| "eeprom_store e a (v # vs) st = eeprom_store e (a + 1) vs (eeprom_write e a v st)"

lemma eeprom_store_read:
  assumes "eeprom_ok sz e"
  shows "a + length vs \<le> sz \<Longrightarrow> b < sz \<Longrightarrow>
    eeprom_read e b (eeprom_store e a vs st) = wr_bytes (\<lambda>i. eeprom_read e i st) a vs b"
proof (induction vs arbitrary: a st)
  case (Cons v vs)
  have "eeprom_read e i (eeprom_write e a v st) = (if i = a then v else eeprom_read e i st)" if "i < sz" for i
    using assms Cons.prems that by (simp add: eeprom_ok_def)
  with Cons show ?case by (auto simp: wr_bytes_nth nth_Cons')
qed simp

lemma eeprom_bytes_store:
  assumes "eeprom_ok sz e" "a + length vs \<le> sz" "b + n \<le> sz"
  shows "eeprom_bytes e (eeprom_store e a vs st) b n = rd_bytes (wr_bytes (\<lambda>i. eeprom_read e i st) a vs) b n"
  using eeprom_store_read [OF assms(1,2)] assms(3) unfolding eeprom_bytes_def by (intro rd_bytes_eqI) simp

lemma eeprom_bytes_same:
  "eeprom_ok sz e \<Longrightarrow> a + length vs \<le> sz \<Longrightarrow> n = length vs \<Longrightarrow> eeprom_bytes e (eeprom_store e a vs st) a n = vs"
  by (simp add: eeprom_bytes_store rd_wr_same)

lemma eeprom_bytes_other:
  "eeprom_ok sz e \<Longrightarrow> a + length vs \<le> sz \<Longrightarrow> b + n \<le> sz \<Longrightarrow> b + n \<le> a \<or> a + length vs \<le> b \<Longrightarrow>
   eeprom_bytes e (eeprom_store e a vs st) b n = eeprom_bytes e st b n"
  by (simp add: eeprom_bytes_store rd_wr_disjoint) (simp add: eeprom_bytes_def)

section \<open>The monitor\<close>

text \<open>\<open>pc_size\<close> is \<open>PROGRAM_COUNTER_SIZE\<close>, 2 or 3. Only the data of the report to be saved is kept between calls.\<close>

record 'e app_monitor =
  c_nBaseAddress :: int
  c_nMaxEntries :: int
  pc_size :: nat
  crash_address :: "byte list"
  crash_data :: u32
  eeprom :: 'e

record monitor_header =
  m_uSavedReports :: byte
  m_uNextReport :: byte

definition ApplicationMonitor_new :: "int \<Rightarrow> int \<Rightarrow> nat \<Rightarrow> byte list \<Rightarrow> 'e \<Rightarrow> 'e app_monitor" where
  "ApplicationMonitor_new base entries pcs uninit st = \<lparr>c_nBaseAddress = base, c_nMaxEntries = entries, pc_size = pcs,
     crash_address = uninit, crash_data = 0, eeprom = st\<rparr>"

definition ApplicationMonitor_SetData :: "u32 \<Rightarrow> 'e app_monitor \<Rightarrow> 'e app_monitor" where
  "ApplicationMonitor_SetData d am = am\<lparr>crash_data := d\<rparr>"

definition ApplicationMonitor_GetData :: "'e app_monitor \<Rightarrow> u32" where
  "ApplicationMonitor_GetData am = crash_data am"

text \<open>An address is an \<open>int\<close> cast to a pointer, which has 16 bits.\<close>

definition eeprom_pointer :: "int \<Rightarrow> nat" where
  "eeprom_pointer a = unat (word_of_int a :: u16)"

fun ApplicationMonitor_ReadBlock :: "'e eeprom_ops \<Rightarrow> int \<Rightarrow> nat \<Rightarrow> 'e \<Rightarrow> byte list" where
  "ApplicationMonitor_ReadBlock e a 0 st = []"
| "ApplicationMonitor_ReadBlock e a (Suc n) st = eeprom_read e (eeprom_pointer a) st # ApplicationMonitor_ReadBlock e (a + 1) n st"

fun ApplicationMonitor_WriteBlock :: "'e eeprom_ops \<Rightarrow> int \<Rightarrow> byte list \<Rightarrow> 'e \<Rightarrow> 'e" where
  "ApplicationMonitor_WriteBlock e a [] st = st"
| "ApplicationMonitor_WriteBlock e a (v # vs) st =
     ApplicationMonitor_WriteBlock e (a + 1) vs (eeprom_write e (eeprom_pointer a) v st)"

text \<open>The size of a report is that of the program counter and of a 32-bit word.\<close>

definition report_size :: "'e app_monitor \<Rightarrow> nat" where
  "report_size am = pc_size am + 4"

definition ApplicationMonitor_GetAddressForReport :: "int \<Rightarrow> 'e app_monitor \<Rightarrow> int" where
  "ApplicationMonitor_GetAddressForReport nReport am =
     (let nAddress = c_nBaseAddress am + 2 in
      if nReport < c_nMaxEntries am then nAddress + nReport * int (report_size am) else nAddress)"

definition ApplicationMonitor_LoadHeader :: "'e eeprom_ops \<Rightarrow> 'e app_monitor \<Rightarrow> monitor_header" where
  "ApplicationMonitor_LoadHeader e am =
     (let bs = ApplicationMonitor_ReadBlock e (c_nBaseAddress am) 2 (eeprom am);
          saved = bs ! 0; next = bs ! 1;
          saved = (if saved = 0xFF then 0
                   else if c_nMaxEntries am < int (unat saved) then word_of_int (c_nMaxEntries am)
                   else saved);
          next = (if c_nMaxEntries am \<le> int (unat next) then 0 else next)
      in \<lparr>m_uSavedReports = saved, m_uNextReport = next\<rparr>)"

definition ApplicationMonitor_SaveHeader :: "'e eeprom_ops \<Rightarrow> monitor_header \<Rightarrow> 'e app_monitor \<Rightarrow> 'e app_monitor" where
  "ApplicationMonitor_SaveHeader e h am =
     am\<lparr>eeprom := ApplicationMonitor_WriteBlock e (c_nBaseAddress am) [m_uSavedReports h, m_uNextReport h] (eeprom am)\<rparr>"

definition ApplicationMonitor_SaveCurrentReport :: "'e eeprom_ops \<Rightarrow> int \<Rightarrow> 'e app_monitor \<Rightarrow> 'e app_monitor" where
  "ApplicationMonitor_SaveCurrentReport e nReportSlot am =
     am\<lparr>eeprom := ApplicationMonitor_WriteBlock e (ApplicationMonitor_GetAddressForReport nReportSlot am)
        (crash_address am @ b32 (crash_data am)) (eeprom am)\<rparr>"

definition ApplicationMonitor_LoadReport :: "'e eeprom_ops \<Rightarrow> int \<Rightarrow> 'e app_monitor \<Rightarrow> byte list \<times> u32" where
  "ApplicationMonitor_LoadReport e nReport am =
     (let bs = ApplicationMonitor_ReadBlock e (ApplicationMonitor_GetAddressForReport nReport am) (report_size am) (eeprom am);
          address = take (pc_size am) bs;
          uTemp = address ! 0;
          address = address[0 := address ! (pc_size am - 1)];
          address = address[pc_size am - 1 := uTemp]
      in (address, le32 (drop (pc_size am) bs)))"

text \<open>
  The interrupt: \<open>puProgramAddress\<close> are the bytes on top of the stack. It ends in a loop that waits for the
  watchdog to reset the processor; the state is the one it waits in.
\<close>

definition ApplicationMonitor_WatchdogInterruptHandler ::
    "'e eeprom_ops \<Rightarrow> byte list \<Rightarrow> 'e app_monitor \<Rightarrow> 'e app_monitor" where
  "ApplicationMonitor_WatchdogInterruptHandler e puProgramAddress am =
     (let h = ApplicationMonitor_LoadHeader e am;
          am = am\<lparr>crash_address := take (pc_size am) puProgramAddress\<rparr>;
          am = ApplicationMonitor_SaveCurrentReport e (int (unat (m_uNextReport h))) am;
          h = h\<lparr>m_uNextReport := m_uNextReport h + 1\<rparr>;
          h = (if c_nMaxEntries am \<le> int (unat (m_uNextReport h)) then h\<lparr>m_uNextReport := 0\<rparr>
               else h\<lparr>m_uSavedReports := m_uSavedReports h + 1\<rparr>)
      in ApplicationMonitor_SaveHeader e h am)"

section \<open>The dump\<close>

definition ApplicationMonitor_PrintValue :: "string \<Rightarrow> u32 \<Rightarrow> nat \<Rightarrow> bool \<Rightarrow> byte list" where
  "ApplicationMonitor_PrintValue label value radix newLine =
     chars label @ Print_print_uint value radix @ (if newLine then [0x0D, 0x0A] else [])"

text \<open>The lines of the reports from number \<open>r\<close> on; \<open>memcpy\<close> fills the low bytes of the 32-bit address.\<close>

fun ApplicationMonitor_Dump_reports :: "'e eeprom_ops \<Rightarrow> nat \<Rightarrow> nat \<Rightarrow> 'e app_monitor \<Rightarrow> byte list" where
  "ApplicationMonitor_Dump_reports e r 0 am = []"
| "ApplicationMonitor_Dump_reports e r (Suc left) am =
     (let (address, data) = ApplicationMonitor_LoadReport e (int r) am;
          uAddress = le32 (address @ replicate (4 - pc_size am) 0)
      in Print_print_uint (word_of_nat r) 10
         @ ApplicationMonitor_PrintValue '': word-address=0x'' uAddress 16 False
         @ ApplicationMonitor_PrintValue '': byte-address=0x'' (uAddress * 2) 16 False
         @ ApplicationMonitor_PrintValue '', data=0x'' data 16 True
         @ ApplicationMonitor_Dump_reports e (r + 1) left am)"

definition ApplicationMonitor_Dump :: "'e eeprom_ops \<Rightarrow> bool \<Rightarrow> 'e app_monitor \<Rightarrow> byte list" where
  "ApplicationMonitor_Dump e bOnlyIfPresent am =
     (let h = ApplicationMonitor_LoadHeader e am in
      if \<not> bOnlyIfPresent \<or> m_uSavedReports h \<noteq> 0 then
        chars ''Application Monitor'' @ [0x0D, 0x0A] @ chars ''-------------------'' @ [0x0D, 0x0A]
        @ ApplicationMonitor_PrintValue ''Saved reports: '' (ucast (m_uSavedReports h)) 10 True
        @ ApplicationMonitor_PrintValue ''Next report: '' (ucast (m_uNextReport h)) 10 True
        @ ApplicationMonitor_Dump_reports e 0 (unat (m_uSavedReports h)) am
      else [])"

section \<open>The log as a ring\<close>

definition monitor_fits :: "nat \<Rightarrow> nat \<Rightarrow> nat \<Rightarrow> nat \<Rightarrow> bool" where
  "monitor_fits sz base entries pcs \<longleftrightarrow> sz \<le> 32768 \<and> base + 2 + entries * (pcs + 4) \<le> sz
     \<and> 0 < entries \<and> entries \<le> 253 \<and> (pcs = 2 \<or> pcs = 3)"

lemma eeprom_pointer_nat: "a < 65536 \<Longrightarrow> eeprom_pointer (int a) = a"
  by (simp add: eeprom_pointer_def unsigned_of_nat take_bit_eq_mod)

lemma ReadBlock_bytes: "a + n \<le> 65536 \<Longrightarrow> ApplicationMonitor_ReadBlock e (int a) n st = eeprom_bytes e st a n"
proof (induction n arbitrary: a)
  case (Suc n)
  then show ?case
    using Suc.IH [of "a + 1"] eeprom_pointer_nat [of a] by (simp add: eeprom_bytes_def rd_bytes_Suc add.commute)
qed (simp add: eeprom_bytes_def)

lemma WriteBlock_store: "a + length vs \<le> 65536 \<Longrightarrow> ApplicationMonitor_WriteBlock e (int a) vs st = eeprom_store e a vs st"
proof (induction vs arbitrary: a st)
  case (Cons v vs)
  then show ?case
    using Cons.IH [of "a + 1"] eeprom_pointer_nat [of a] by (simp add: add.commute)
qed simp

text \<open>The header and the reports in the EEPROM, as they are read back.\<close>

abbreviation monitor :: "nat \<Rightarrow> nat \<Rightarrow> nat \<Rightarrow> 'e \<Rightarrow> 'e app_monitor" where
  "monitor base entries pcs \<equiv> ApplicationMonitor_new (int base) (int entries) pcs []"

definition loaded :: "nat \<Rightarrow> byte list \<Rightarrow> monitor_header" where
  "loaded entries bs = \<lparr>
     m_uSavedReports = (if bs ! 0 = 0xFF then 0 else if entries < unat (bs ! 0) then word_of_nat entries else bs ! 0),
     m_uNextReport = (if entries \<le> unat (bs ! 1) then 0 else bs ! 1)\<rparr>"

definition slot :: "nat \<Rightarrow> nat \<Rightarrow> nat \<Rightarrow> nat" where
  "slot base pcs j = base + 2 + j * (pcs + 4)"

lemma int_uint_compare: "int n \<le> uint (x :: byte) \<longleftrightarrow> n \<le> unat x" "int n < uint (x :: byte) \<longleftrightarrow> n < unat x"
  by (simp_all only: uint_nat of_nat_le_iff of_nat_less_iff)

lemma LoadHeader_loaded:
  assumes "monitor_fits sz base entries pcs"
  shows "ApplicationMonitor_LoadHeader e (am\<lparr>c_nBaseAddress := int base, c_nMaxEntries := int entries\<rparr>)
    = loaded entries (eeprom_bytes e (eeprom am) base 2)"
proof -
  have "base + 2 \<le> 65536" using assms by (simp add: monitor_fits_def)
  then show ?thesis by (simp add: ApplicationMonitor_LoadHeader_def loaded_def ReadBlock_bytes int_uint_compare Let_def)
qed

lemma GetAddress_fields:
  "c_nBaseAddress am = int base \<Longrightarrow> c_nMaxEntries am = int entries \<Longrightarrow> pc_size am = pcs \<Longrightarrow> j < entries \<Longrightarrow>
   ApplicationMonitor_GetAddressForReport (int j) am = int (slot base pcs j)"
  by (simp add: ApplicationMonitor_GetAddressForReport_def report_size_def slot_def Let_def)

lemma GetAddress_slot:
  "j < entries \<Longrightarrow> ApplicationMonitor_GetAddressForReport (int j) (monitor base entries pcs st) = int (slot base pcs j)"
  by (rule GetAddress_fields) (simp_all add: ApplicationMonitor_new_def)

lemma slot_fits: "monitor_fits sz base entries pcs \<Longrightarrow> j < entries \<Longrightarrow> slot base pcs j + (pcs + 4) \<le> sz"
proof -
  assume a: "monitor_fits sz base entries pcs" "j < entries"
  then have "(j + 1) * (pcs + 4) \<le> entries * (pcs + 4)" by (intro mult_le_mono1) simp
  then show ?thesis using a(1) by (simp add: monitor_fits_def slot_def)
qed

lemma slots_disjoint:
  assumes "i \<noteq> j"
  shows "slot base pcs i + (pcs + 4) \<le> slot base pcs j \<or> slot base pcs j + (pcs + 4) \<le> slot base pcs i"
proof -
  have "i + 1 \<le> j \<or> j + 1 \<le> i" using assms by linarith
  then have "(i + 1) * (pcs + 4) \<le> j * (pcs + 4) \<or> (j + 1) * (pcs + 4) \<le> i * (pcs + 4)"
    using mult_le_mono1 by blast
  then show ?thesis by (auto simp: slot_def algebra_simps)
qed

text \<open>A crash: the sketch has been started, has set the data, and the watchdog fires.\<close>

definition crash :: "'e eeprom_ops \<Rightarrow> nat \<Rightarrow> nat \<Rightarrow> nat \<Rightarrow> byte list \<times> u32 \<Rightarrow> 'e \<Rightarrow> 'e" where
  "crash e base entries pcs c st = eeprom (ApplicationMonitor_WatchdogInterruptHandler e (fst c)
     (ApplicationMonitor_SetData (snd c) (monitor base entries pcs st)))"

definition next_header :: "nat \<Rightarrow> monitor_header \<Rightarrow> byte list" where
  "next_header entries h = (if entries \<le> unat (m_uNextReport h + 1) then [m_uSavedReports h, 0]
     else [m_uSavedReports h + 1, m_uNextReport h + 1])"

lemma crash_stores:
  fixes e :: "'e eeprom_ops" and st :: 'e
  assumes "eeprom_ok sz e" "monitor_fits sz base entries pcs" "length (fst c) \<ge> pcs"
  defines "h \<equiv> loaded entries (eeprom_bytes e st base 2)"
  shows "crash e base entries pcs c st = eeprom_store e base (next_header entries h)
     (eeprom_store e (slot base pcs (unat (m_uNextReport h))) (take pcs (fst c) @ b32 (snd c)) st)"
    and "unat (m_uNextReport h) < entries"
proof -
  show n: "unat (m_uNextReport h) < entries"
    using assms(2) by (auto simp: h_def loaded_def monitor_fits_def)
  let ?am = "ApplicationMonitor_SetData (snd c) (monitor base entries pcs st)"
  have h: "ApplicationMonitor_LoadHeader e ?am = h"
    using LoadHeader_loaded [OF assms(2), of e ?am] unfolding h_def
    by (simp add: ApplicationMonitor_SetData_def ApplicationMonitor_new_def)
  have a: "ApplicationMonitor_GetAddressForReport (uint (m_uNextReport h)) (?am\<lparr>crash_address := xs\<rparr>)
      = int (slot base pcs (unat (m_uNextReport h)))" for xs
    unfolding uint_nat
    by (rule GetAddress_fields [OF _ _ _ n]) (simp_all add: ApplicationMonitor_SetData_def ApplicationMonitor_new_def)
  have l: "slot base pcs (unat (m_uNextReport h)) + length (take pcs (fst c) @ b32 (snd c)) \<le> 65536" "base + 2 \<le> 65536"
    using slot_fits [OF assms(2) n] assms(2,3) by (simp_all add: monitor_fits_def)
  have f: "c_nBaseAddress ?am = int base" "c_nMaxEntries ?am = int entries" "pc_size ?am = pcs" "crash_data ?am = snd c"
    "eeprom ?am = st"
    by (simp_all add: ApplicationMonitor_SetData_def ApplicationMonitor_new_def)
  show "crash e base entries pcs c st = eeprom_store e base (next_header entries h)
     (eeprom_store e (slot base pcs (unat (m_uNextReport h))) (take pcs (fst c) @ b32 (snd c)) st)"
    using l by (simp add: crash_def ApplicationMonitor_WatchdogInterruptHandler_def h Let_def a f
        ApplicationMonitor_SaveCurrentReport_def ApplicationMonitor_SaveHeader_def WriteBlock_store next_header_def
        int_uint_compare del: ApplicationMonitor_WriteBlock.simps eeprom_store.simps)
qed

text \<open>What a report is read back as: the address with its bytes in the right order, and the data.\<close>

lemma swap_ends:
  "length a = 2 \<or> length a = 3 \<Longrightarrow> (a[0 := a ! (length a - 1)])[length a - 1 := a ! 0] = rev a"
  by (auto simp: length_Suc_conv numeral_2_eq_2 numeral_3_eq_3)

lemma LoadReport_bytes:
  assumes "monitor_fits sz base entries pcs" "j < entries"
    and "eeprom_bytes e st (slot base pcs j) (pcs + 4) = address @ b32 d" "length address = pcs"
  shows "ApplicationMonitor_LoadReport e (int j) (monitor base entries pcs st) = (rev address, d)"
proof -
  let ?am = "monitor base entries pcs st"
  have "slot base pcs j + (pcs + 4) \<le> 65536"
    using slot_fits [OF assms(1,2)] assms(1) by (simp add: monitor_fits_def)
  then have r: "ApplicationMonitor_ReadBlock e (ApplicationMonitor_GetAddressForReport (int j) ?am) (report_size ?am) (eeprom ?am)
      = address @ b32 d"
    using assms(3) GetAddress_slot [OF assms(2), of base pcs st]
    by (simp add: ReadBlock_bytes report_size_def ApplicationMonitor_new_def)
  have "pc_size ?am = length address" "length address = 2 \<or> length address = 3"
    using assms(1,4) by (auto simp: ApplicationMonitor_new_def monitor_fits_def)
  then show ?thesis
    using swap_ends [of address]
    by (auto simp: ApplicationMonitor_LoadReport_def r Let_def nth_append)
qed

text \<open>The state of the log after a list of crashes; the count of saved reports is one short after a full round.\<close>

definition saved_count :: "nat \<Rightarrow> nat \<Rightarrow> nat" where
  "saved_count entries n = (if n = entries then entries - 1 else min n entries)"

definition log_of :: "'e eeprom_ops \<Rightarrow> nat \<Rightarrow> nat \<Rightarrow> nat \<Rightarrow> (byte list \<times> u32) list \<Rightarrow> 'e \<Rightarrow> bool" where
  "log_of e base entries pcs cs st \<longleftrightarrow>
     (let h = loaded entries (eeprom_bytes e st base 2); n = length cs in
      unat (m_uNextReport h) = n mod entries \<and> unat (m_uSavedReports h) = saved_count entries n
      \<and> (\<forall>k < n. n \<le> k + entries \<longrightarrow>
           eeprom_bytes e st (slot base pcs (k mod entries)) (pcs + 4) = take pcs (fst (cs ! k)) @ b32 (snd (cs ! k))))"

lemma log_header_step:
  assumes "2 \<le> entries" "entries \<le> 253" "unat (m_uNextReport h) = n mod entries" "unat (m_uSavedReports h) = saved_count entries n"
  shows "unat (m_uNextReport (loaded entries (next_header entries h))) = Suc n mod entries"
    "unat (m_uSavedReports (loaded entries (next_header entries h))) = saved_count entries (Suc n)"
proof -
  have lt: "n mod entries < entries" using assms(1) by simp
  have n1: "unat (m_uNextReport h + 1) = n mod entries + 1"
    using assms(2,3) lt by (simp add: unat_word_ariths)
  have s: "saved_count entries n \<le> entries" by (simp add: saved_count_def)
  have s1: "unat (m_uSavedReports h + 1) = saved_count entries n + 1"
    using assms(2,4) s by (simp add: unat_word_ariths)
  have ff: "x \<noteq> 0xFF" if "unat x \<le> 254" for x :: byte using that by auto
  have w: "unat (word_of_nat entries :: byte) = entries"
    using assms(2) by (simp add: unsigned_of_nat take_bit_eq_mod)
  have sm: "Suc n mod entries = (if n mod entries + 1 = entries then 0 else n mod entries + 1)"
    by (simp add: mod_Suc)
  have wrap: "n mod entries + 1 = entries \<Longrightarrow> n + 1 = entries \<or> 2 * entries \<le> n + 1"
    using div_mult_mod_eq [of n entries] assms(1) by (cases "n div entries") auto
  have full: "n = entries \<Longrightarrow> n mod entries = 0" by simp
  show "unat (m_uNextReport (loaded entries (next_header entries h))) = Suc n mod entries"
    using n1 lt sm by (auto simp: next_header_def loaded_def)
  show "unat (m_uSavedReports (loaded entries (next_header entries h))) = saved_count entries (Suc n)"
  proof (cases "n mod entries + 1 = entries")
    case True
    then have "saved_count entries n = saved_count entries (Suc n)"
      using wrap [OF True] full assms(1) by (auto simp: saved_count_def)
    moreover have "m_uSavedReports h \<noteq> 0xFF" using assms(2,4) s by (intro ff) simp
    ultimately show ?thesis using True n1 assms(4) s by (auto simp: next_header_def loaded_def)
  next
    case False
    then have "\<not> entries \<le> unat (m_uNextReport h + 1)" using n1 lt by simp
    moreover have "m_uSavedReports h + 1 \<noteq> 0xFF" using assms(2) s s1 by (intro ff) simp
    moreover have "saved_count entries (Suc n) = (if entries < saved_count entries n + 1 then entries else saved_count entries n + 1)"
      using False assms(1) by (auto simp: saved_count_def mod_less)
    ultimately show ?thesis using s1 w by (auto simp: next_header_def loaded_def)
  qed
qed

lemma log_crash:
  assumes "eeprom_ok sz e" "monitor_fits sz base entries pcs" "2 \<le> entries" "log_of e base entries pcs cs st" "pcs \<le> length (fst c)"
  shows "log_of e base entries pcs (cs @ [c]) (crash e base entries pcs c st)"
proof -
  let ?h = "loaded entries (eeprom_bytes e st base 2)" and ?n = "length cs"
  let ?st = "crash e base entries pcs c st"
  let ?r = "take pcs (fst c) @ b32 (snd c)"
  have h: "unat (m_uNextReport ?h) = ?n mod entries" "unat (m_uSavedReports ?h) = saved_count entries ?n"
    and old: "\<And>k. k < ?n \<Longrightarrow> ?n \<le> k + entries \<Longrightarrow>
      eeprom_bytes e st (slot base pcs (k mod entries)) (pcs + 4) = take pcs (fst (cs ! k)) @ b32 (snd (cs ! k))"
    using assms(4) by (auto simp: log_of_def Let_def)
  let ?s = "slot base pcs (?n mod entries)"
  have nl: "length (next_header entries ?h) = 2" "length ?r = pcs + 4" using assms(5) by (simp_all add: next_header_def)
  have st: "?st = eeprom_store e base (next_header entries ?h) (eeprom_store e ?s ?r st)"
    using crash_stores(1) [OF assms(1,2,5), of st] h(1) by simp
  have lt: "j mod entries < entries" for j using assms(3) by simp
  have fit: "base + 2 \<le> sz" "slot base pcs (j mod entries) + (pcs + 4) \<le> sz" "base + 2 \<le> slot base pcs j" for j
    using slot_fits [OF assms(2) lt] assms(2) by (simp_all add: monitor_fits_def slot_def)
  have hd: "eeprom_bytes e ?st base 2 = next_header entries ?h"
    unfolding st by (rule eeprom_bytes_same [OF assms(1)]) (use fit nl in simp_all)
  have sl: "eeprom_bytes e ?st (slot base pcs (j mod entries)) (pcs + 4)
      = eeprom_bytes e (eeprom_store e ?s ?r st) (slot base pcs (j mod entries)) (pcs + 4)" for j
    unfolding st by (rule eeprom_bytes_other [OF assms(1)]) (use fit nl in auto)
  have new: "eeprom_bytes e ?st ?s (pcs + 4) = ?r"
    unfolding sl by (rule eeprom_bytes_same [OF assms(1)]) (use fit(2) [of ?n] nl in simp_all)
  have keep: "eeprom_bytes e ?st (slot base pcs (k mod entries)) (pcs + 4)
      = eeprom_bytes e st (slot base pcs (k mod entries)) (pcs + 4)" if "k < ?n" "?n < k + entries" for k
  proof -
    have "k mod entries \<noteq> ?n mod entries"
    proof
      assume "k mod entries = ?n mod entries"
      then have "entries dvd ?n - k" using that(1) by (metis less_or_eq_imp_le mod_eq_dvd_iff_nat)
      then show False using that by (auto dest: dvd_imp_le)
    qed
    from slots_disjoint [OF this, of base pcs] show ?thesis
      unfolding sl by (intro eeprom_bytes_other [OF assms(1)]) (use fit(2) [of ?n] fit(2) [of k] nl in auto)
  qed
  have all: "eeprom_bytes e ?st (slot base pcs (k mod entries)) (pcs + 4)
      = take pcs (fst ((cs @ [c]) ! k)) @ b32 (snd ((cs @ [c]) ! k))" if "k < Suc ?n" "Suc ?n \<le> k + entries" for k
  proof (cases "k = ?n")
    case True
    then show ?thesis using new by simp
  next
    case False
    then show ?thesis using that keep [of k] old [of k] by (simp add: nth_append)
  qed
  have e: "entries \<le> 253" using assms(2) by (simp add: monitor_fits_def)
  show ?thesis
    using log_header_step [OF assms(3) e h] all unfolding log_of_def Let_def hd by simp
qed

lemma log_crashes:
  assumes "eeprom_ok sz e" "monitor_fits sz base entries pcs" "2 \<le> entries" "eeprom_bytes e st base 2 = [0xFF, 0xFF]"
  shows "\<forall>c\<in>set cs. pcs \<le> length (fst c) \<Longrightarrow> log_of e base entries pcs cs (fold (crash e base entries pcs) cs st)"
proof (induction cs rule: rev_induct)
  case Nil
  have "entries \<le> 253" using assms(2) by (simp add: monitor_fits_def)
  then show ?case using assms(3,4) by (simp add: log_of_def loaded_def saved_count_def)
next
  case (snoc c cs)
  then show ?case using log_crash [OF assms(1-3)] by simp
qed

text \<open>
  C19. The log keeps the newest reports: whatever crashes happen one after the other, starting from an erased EEPROM,
  the last \<open>nMaxEntries\<close> of them can be read back, each with its address in the right byte order and its data, and the header
  points at the slot to be used next. The number of saved reports is right but for one case: when the ring has been
  filled exactly once, it is one too small, so \<open>Dump\<close> leaves out the newest report.
\<close>

theorem watchdog_log_keeps_newest:
  assumes "eeprom_ok sz e" "monitor_fits sz base entries pcs" "2 \<le> entries" "eeprom_bytes e st base 2 = [0xFF, 0xFF]"
    and "\<forall>c\<in>set cs. pcs \<le> length (fst c)"
  defines "am \<equiv> monitor base entries pcs (fold (crash e base entries pcs) cs st)" and "n \<equiv> length cs"
  shows "(\<forall>k < n. n \<le> k + entries \<longrightarrow>
       ApplicationMonitor_LoadReport e (int (k mod entries)) am = (rev (take pcs (fst (cs ! k))), snd (cs ! k)))
     \<and> unat (m_uNextReport (ApplicationMonitor_LoadHeader e am)) = n mod entries
     \<and> unat (m_uSavedReports (ApplicationMonitor_LoadHeader e am)) = (if n = entries then n - 1 else min n entries)"
proof -
  have log: "log_of e base entries pcs cs (eeprom am)"
    using log_crashes [OF assms(1-5)] by (simp add: am_def ApplicationMonitor_new_def)
  have am: "am = monitor base entries pcs (eeprom am)" by (simp add: am_def ApplicationMonitor_new_def)
  have h: "ApplicationMonitor_LoadHeader e am = loaded entries (eeprom_bytes e (eeprom am) base 2)"
    using LoadHeader_loaded [OF assms(2), of e am] by (simp add: am_def ApplicationMonitor_new_def)
  have "ApplicationMonitor_LoadReport e (int (k mod entries)) am = (rev (take pcs (fst (cs ! k))), snd (cs ! k))"
    if "k < n" "n \<le> k + entries" for k
  proof -
    have "pcs \<le> length (fst (cs ! k))" using assms(5) that(1) by (simp add: n_def)
    then show ?thesis
      by (subst am, intro LoadReport_bytes [OF assms(2)])
        (use that log assms(3) in \<open>auto simp: log_of_def Let_def n_def\<close>)
  qed
  with log h show ?thesis by (simp add: log_of_def Let_def n_def saved_count_def)
qed

text \<open>An EEPROM of the kind the code relies on.\<close>

definition sample_eeprom :: "mem eeprom_ops" where
  "sample_eeprom = \<lparr>eeprom_read = (\<lambda>a m. m a), eeprom_write = (\<lambda>a v m. m(a := v))\<rparr>"

lemma sample_eeprom_ok: "eeprom_ok sz sample_eeprom"
  by (simp add: eeprom_ok_def sample_eeprom_def)

lemma watchdog_log_keeps_newest_witness:
  "let am = monitor 500 2 2 (fold (crash sample_eeprom 500 2 2) [([0x12, 0x34], 7), ([0x56, 0x78], 8)] (\<lambda>_. 0xFF)) in
     ApplicationMonitor_LoadReport sample_eeprom 1 am = ([0x78, 0x56], 8)
     \<and> m_uSavedReports (ApplicationMonitor_LoadHeader sample_eeprom am) = 1"
proof -
  let ?cs = "[([0x12, 0x34], 7), ([0x56, 0x78], 8)] :: (byte list \<times> u32) list"
  have f: "monitor_fits 1024 500 2 2" "(2 :: nat) \<le> 2" "\<forall>c\<in>set ?cs. 2 \<le> length (fst c)"
    by (simp_all add: monitor_fits_def)
  have e: "eeprom_bytes sample_eeprom (\<lambda>_. 0xFF) 500 2 = [0xFF, 0xFF]"
    by (simp add: eeprom_bytes_def sample_eeprom_def rd_bytes_Suc numeral_2_eq_2)
  have one: "x = 1" if "unat x = 1" for x :: byte using that by (metis unat_1 word_unat_eq_iff)
  show ?thesis
    using watchdog_log_keeps_newest [OF sample_eeprom_ok f(1,2) e f(3)] one by (simp add: less_Suc_eq Let_def)
qed

end
