(* ===== verification/Syslog.thy ===== *)
theory Syslog
  imports DNS
begin

text \<open>
  \<open>src/src/Syslog.cpp\<close> and \<open>Syslog.h\<close>: a UDP socket whose two hooks of \<open>write\<close> put a header in front of
  a log line and send it at the line break. The state it adds is \<open>_pri\<close>.
\<close>

record syslog = socket +
  pri :: byte

abbreviation (input) LOG_INFO :: byte where "LOG_INFO \<equiv> 6"
abbreviation (input) LOG_LOCAL0 :: byte where "LOG_LOCAL0 \<equiv> 16"
abbreviation (input) SysLogPortNumber :: u16 where "SysLogPortNumber \<equiv> 514"

definition Syslog_new :: syslog where
  "Syslog_new = \<lparr>remoteAddress = IPv6Address_zero, remoteMac = MACAddress_zero, remotePort = 0,
     localPort = 0, writePos = -1, pri = push_bit 3 LOG_LOCAL0 OR LOG_INFO\<rparr>"

definition Syslog_setPriority :: "byte \<Rightarrow> syslog \<Rightarrow> syslog" where
  "Syslog_setPriority prio k = k\<lparr>pri := (pri k AND 0xF8) + prio\<rparr>"

definition Syslog_priority :: "syslog \<Rightarrow> byte" where
  "Syslog_priority k = pri k AND 0x07"

definition Syslog_setFacility :: "byte \<Rightarrow> syslog \<Rightarrow> syslog" where
  "Syslog_setFacility fac k = k\<lparr>pri := (pri k AND 0x07) + push_bit 3 fac\<rparr>"

definition Syslog_facility :: "syslog \<Rightarrow> byte" where
  "Syslog_facility k = drop_bit 3 (pri k AND 0xF8)"

definition Syslog_setRemoteAddress ::
    "'d platform \<Rightarrow> byte list \<Rightarrow> syslog \<Rightarrow> 'd ether \<Rightarrow> (bool \<times> syslog \<times> 'd ether) option" where
  "Syslog_setRemoteAddress p remote k s = Socket_setRemoteAddress_str p remote SysLogPortNumber k s"

text \<open>
  \<open>print(_pri, DEC)\<close> prints the decimal digits. The hook prints with \<open>_writePos\<close> at 0 and without line
  breaks, so no hook runs inside it and it prints like a plain UDP socket.
\<close>

fun dec_digits :: "nat \<Rightarrow> byte list" where
  "dec_digits n = (if n < 10 then [word_of_nat (48 + n)] else dec_digits (n div 10) @ [word_of_nat (48 + n mod 10)])"

declare dec_digits.simps [simp del]

definition Syslog_writePayloadHeader ::
    "'d platform \<Rightarrow> syslog \<Rightarrow> 'd ether \<Rightarrow> (syslog \<times> 'd ether) option" where
  "Syslog_writePayloadHeader p k s = do {
     (k, s) \<leftarrow> Socket_print UDPSocket_vt p (chars ''<'') k s;
     (k, s) \<leftarrow> Socket_print UDPSocket_vt p (dec_digits (unat (pri k))) k s;
     (k, s) \<leftarrow> Socket_print UDPSocket_vt p (chars ''>'') k s;
     Socket_print UDPSocket_vt p (chars ''EtherSia: '') k s
   }"

definition Syslog_handleWriteNewline ::
    "'d platform \<Rightarrow> syslog \<Rightarrow> 'd ether \<Rightarrow> (bool \<times> syslog \<times> 'd ether) option" where
  "Syslog_handleWriteNewline p k s =
     (let packetBuffer = UDPSocket_payload s in
      if 0 <s writePos k then do {
        m \<leftarrow> buf_wr (buffer s) (packetBuffer + unat (writePos k)) [0];
        let k = k\<lparr>writePos := writePos k + 1\<rparr>;
        (k, s) \<leftarrow> Socket_send UDPSocket_vt p (writePos k) False k (s\<lparr>buffer := m\<rparr>);
        Some (False, k\<lparr>writePos := -1\<rparr>, s)
      }
      else Some (False, k, s))"

definition Syslog_vt :: "('d, syslog) socket_vt" where
  "Syslog_vt = UDPSocket_vt\<lparr>vt_handleWriteNewline := Syslog_handleWriteNewline,
     vt_writePayloadHeader := Syslog_writePayloadHeader\<rparr>"

section \<open>Priority and facility\<close>

lemma pri_disjoint:
  fixes a b :: byte
  shows "(a AND 0xF8) + (b AND 7) = (a AND 0xF8) OR (b AND 7)"
    "((a AND 0xF8) OR (b AND 7)) AND 7 = b AND 7" "((a AND 0xF8) OR (b AND 7)) AND 0xF8 = a AND 0xF8"
proof -
  have m: "(7 :: byte) = mask 3" "(0xF8 :: byte) = NOT (mask 3)" by (simp_all add: mask_eq_exp_minus_1)
  show "(a AND 0xF8) + (b AND 7) = (a AND 0xF8) OR (b AND 7)"
    unfolding m by (rule disjunctive_add) (auto simp: bit_simps)
  show "((a AND 0xF8) OR (b AND 7)) AND 7 = b AND 7" "((a AND 0xF8) OR (b AND 7)) AND 0xF8 = a AND 0xF8"
    unfolding m by (rule bit_word_eqI; auto simp: bit_simps)+
qed

lemma small_mask: "unat (w :: byte) < 2 ^ n \<Longrightarrow> take_bit n w = w"
  by (simp only: word_unat_eq_iff unsigned_take_bit_eq take_bit_nat_eq_self)

lemma facility_bits:
  fixes fac :: byte
  assumes "fac < 32"
  shows "drop_bit 3 (push_bit 3 fac) = fac" "push_bit 3 fac AND 0xF8 = push_bit 3 fac"
proof -
  have "take_bit 5 fac = fac" using assms by (intro small_mask) (simp add: word_less_nat_alt)
  then have b: "bit fac n \<Longrightarrow> n < 5" for n by (metis bit_take_bit_iff)
  show "drop_bit 3 (push_bit 3 fac) = fac"
    by (rule bit_word_eqI) (auto simp: bit_simps dest: b)
  have m: "(0xF8 :: byte) = NOT (mask 3)" by (simp add: mask_eq_exp_minus_1)
  show "push_bit 3 fac AND 0xF8 = push_bit 3 fac"
    unfolding m by (rule bit_word_eqI) (auto simp: bit_simps)
qed

lemma priority_bits: "prio < 8 \<Longrightarrow> prio AND 7 = (prio :: byte)"
  using small_mask [of prio 3] by (simp add: word_less_nat_alt take_bit_eq_mask mask_eq_exp_minus_1)

text \<open>
  Priority and facility are stored side by side: setting one, within its range, is read back and
  leaves the other as it was.
\<close>

theorem Syslog_priority_facility:
  assumes "prio < 8" "fac < 32"
  shows "Syslog_priority (Syslog_setPriority prio k) = prio \<and> Syslog_facility (Syslog_setPriority prio k) = Syslog_facility k
     \<and> Syslog_facility (Syslog_setFacility fac k) = fac \<and> Syslog_priority (Syslog_setFacility fac k) = Syslog_priority k"
proof -
  have p: "(pri k AND 0xF8) + prio = (pri k AND 0xF8) OR (prio AND 7)"
    using pri_disjoint(1) [of "pri k" prio] priority_bits [OF assms(1)] by simp
  have f: "(pri k AND 7) + push_bit 3 fac = (push_bit 3 fac AND 0xF8) OR (pri k AND 7)"
    using pri_disjoint(1) [of "push_bit 3 fac" "pri k"] facility_bits(2) [OF assms(2)] by (simp add: add.commute)
  note pb = priority_bits [OF assms(1)] and fb = facility_bits [OF assms(2)]
  have "(pri k AND 0xF8 OR prio) AND 7 = prio" "(pri k AND 0xF8 OR prio) AND 0xF8 = pri k AND 0xF8"
    using pri_disjoint(2,3) [of "pri k" prio] by (simp_all only: pb)
  moreover have "(push_bit 3 fac OR (pri k AND 7)) AND 0xF8 = push_bit 3 fac"
    "(push_bit 3 fac OR (pri k AND 7)) AND 7 = pri k AND 7"
    using pri_disjoint(2,3) [of "push_bit 3 fac" "pri k"] by (simp_all only: fb)
  moreover have "pri (Syslog_setPriority prio k) = pri k AND 0xF8 OR prio"
    "pri (Syslog_setFacility fac k) = push_bit 3 fac OR (pri k AND 7)"
    unfolding Syslog_setPriority_def Syslog_setFacility_def p f pb fb by simp_all
  ultimately show ?thesis
    unfolding Syslog_priority_def Syslog_facility_def by (simp only: fb simp_thms)
qed

lemma Syslog_priority_facility_witness:
  "Syslog_priority (Syslog_setPriority 7 Syslog_new) = 7 \<and> Syslog_facility (Syslog_setFacility 3 Syslog_new) = 3"
  using Syslog_priority_facility [of 7 3 Syslog_new] by simp

section \<open>Log lines\<close>

definition syslog_header :: "byte \<Rightarrow> byte list" where
  "syslog_header v = chars ''<'' @ dec_digits (unat v) @ chars ''>EtherSia: ''"

text \<open>The digits of \<open>_pri\<close> are one to three bytes, none of them a line break.\<close>

lemma digit_char: "n < 10 \<Longrightarrow> unat (word_of_nat (48 + n) :: byte) = 48 + n"
  by (simp only: unsigned_of_nat take_bit_eq_mod) simp

lemma dec_digits_bytes: "b \<in> set (dec_digits n) \<Longrightarrow> 48 \<le> unat b \<and> unat b \<le> 57"
proof (induction n rule: dec_digits.induct)
  case (1 n)
  show ?case
  proof (cases "n < 10")
    case True
    with 1(2) show ?thesis by (subst (asm) dec_digits.simps) (auto simp: digit_char simp del: of_nat_add)
  next
    case False
    with 1(2) have "b \<in> set (dec_digits (n div 10)) \<or> b = word_of_nat (48 + n mod 10)"
      by (subst (asm) dec_digits.simps) (auto simp del: of_nat_add)
    with 1(1) False show ?thesis by (auto simp: digit_char simp del: of_nat_add)
  qed
qed

lemma dec_digits_not_Nil: "dec_digits n \<noteq> []"
  by (subst dec_digits.simps) simp

lemma length_dec_digits: "n < 10 ^ Suc k \<Longrightarrow> length (dec_digits n) \<le> Suc k"
proof (induction k arbitrary: n)
  case (Suc k)
  then have "n div 10 < 10 ^ Suc k" by (simp add: less_mult_imp_div_less)
  with Suc.IH [of "n div 10"] show ?case by (subst dec_digits.simps) simp
qed (subst dec_digits.simps, simp)

lemma length_syslog_header: "0 < length (syslog_header v)" "length (syslog_header v) \<le> 15"
  using length_dec_digits [of "unat v" 2] unat_byte_less [of v] by (simp_all add: syslog_header_def)

lemma print_at:
  assumes "str \<noteq> []" "n + length str < 500"
  shows "Socket_print UDPSocket_vt p str (k\<lparr>writePos := word_of_nat n\<rparr>) s
    = Some (k\<lparr>writePos := word_of_nat (n + length str)\<rparr>, s\<lparr>buffer := wr_bytes (buffer s) (62 + n) str\<rparr>)"
proof -
  let ?k = "k\<lparr>writePos := word_of_nat n\<rparr>"
  have w: "udp_print.written ?k = n" using assms(2) by (intro udp_print.written_set) simp
  have "unat (word_of_nat n :: u16) = n" using assms(2) by (simp add: unsigned_of_nat take_bit_eq_mod)
  then have "writePos ?k \<noteq> -1" using assms(2) by (auto simp: unsigned_minus_1_eq_mask mask_eq_exp_minus_1)
  then show ?thesis using udp_print.print_run [OF assms(1), of ?k p s] assms(2) w by simp
qed

lemma writePayloadHeader_run:
  assumes "writePos k = 0"
  shows "Syslog_writePayloadHeader p k s = Some (k\<lparr>writePos := word_of_nat (length (syslog_header (pri k)))\<rparr>,
     s\<lparr>buffer := wr_bytes (buffer s) 62 (syslog_header (pri k))\<rparr>)"
proof -
  have k: "k = k\<lparr>writePos := word_of_nat 0\<rparr>" using assms by simp
  have "Socket_print UDPSocket_vt p (chars ''<'') k s
      = Some (k\<lparr>writePos := word_of_nat 1\<rparr>, s\<lparr>buffer := wr_bytes (buffer s) 62 (chars ''<'')\<rparr>)"
    using print_at [of "chars ''<''" 0 p k s] k by (simp add: chars_def)
  moreover have "chars ''>EtherSia: '' = chars ''>'' @ chars ''EtherSia: ''" by (simp add: chars_def)
  ultimately have "Syslog_writePayloadHeader p k s = Socket_print UDPSocket_vt p (syslog_header (pri k)) k s"
    by (simp add: Syslog_writePayloadHeader_def syslog_header_def Socket_print_append split_def)
  also have "\<dots> = Some (k\<lparr>writePos := word_of_nat (length (syslog_header (pri k)))\<rparr>,
      s\<lparr>buffer := wr_bytes (buffer s) 62 (syslog_header (pri k))\<rparr>)"
    using print_at [of "syslog_header (pri k)" 0 p k s] length_syslog_header [of "pri k"] k by simp
  finally show ?thesis .
qed

text \<open>Behind the header the socket writes like a plain one, up to the line break.\<close>

lemma print_behind_header:
  assumes "list_all (\<lambda>c. c \<noteq> 0x0A \<and> c \<noteq> 0x0D) str" "0 < n" "n + length str < 500"
  shows "Socket_print Syslog_vt p str (k\<lparr>writePos := word_of_nat n\<rparr>) s
    = Some (k\<lparr>writePos := word_of_nat (n + length str)\<rparr>, s\<lparr>buffer := wr_bytes (buffer s) (62 + n) str\<rparr>)"
  using assms
proof (induction str arbitrary: n s)
  case (Cons c str)
  let ?k = "k\<lparr>writePos := word_of_nat n\<rparr>"
  have "unat (word_of_nat n :: u16) = n" using Cons.prems(3) by (simp add: unsigned_of_nat take_bit_eq_mod)
  then have m1: "writePos ?k \<noteq> -1" using Cons.prems(3) by (auto simp: unsigned_minus_1_eq_mask mask_eq_exp_minus_1)
  have "Socket_write Syslog_vt p c ?k s = Socket_write UDPSocket_vt p c ?k s"
    using Cons.prems(1) m1 by (simp add: Socket_write_def Syslog_vt_def UDPSocket_vt_def)
  then have "Socket_print Syslog_vt p [c] ?k s = Socket_print UDPSocket_vt p [c] ?k s" by (simp add: split_def)
  also have "\<dots> = Some (k\<lparr>writePos := word_of_nat (n + 1)\<rparr>, s\<lparr>buffer := wr_bytes (buffer s) (62 + n) [c]\<rparr>)"
    using print_at [of "[c]" n p k s] Cons.prems(3) by simp
  finally have one: "Socket_print Syslog_vt p [c] ?k s
      = Some (k\<lparr>writePos := word_of_nat (n + 1)\<rparr>, s\<lparr>buffer := wr_bytes (buffer s) (62 + n) [c]\<rparr>)" .
  have "Socket_print Syslog_vt p (c # str) ?k s
      = do { (k, s) \<leftarrow> Socket_print Syslog_vt p [c] ?k s; Socket_print Syslog_vt p str k s }"
    using Socket_print_append [of Syslog_vt p "[c]" str] by simp
  also have "\<dots> = Some (k\<lparr>writePos := word_of_nat (n + 1 + length str)\<rparr>,
      s\<lparr>buffer := wr_bytes (wr_bytes (buffer s) (62 + n) [c]) (62 + (n + 1)) str\<rparr>)"
    by (simp only: one bind.bind_lunit prod.case) (subst Cons.IH, use Cons.prems in simp_all)
  finally show ?case using wr_bytes_append [of "buffer s" "62 + n" "[c]" str] by simp
qed simp

lemma print_line:
  assumes "writePos k = -1" "msg \<noteq> []" "list_all (\<lambda>c. c \<noteq> 0x0A \<and> c \<noteq> 0x0D) msg" "length msg \<le> 480"
  defines "line \<equiv> syslog_header (pri k) @ msg"
  shows "Socket_print Syslog_vt p msg k s
    = Some (k\<lparr>writePos := word_of_nat (length line)\<rparr>, s\<lparr>buffer := wr_bytes (buffer s) 62 line\<rparr>)"
proof -
  obtain c rest where m: "msg = c # rest" using assms(2) by (cases msg) auto
  let ?h = "syslog_header (pri k)" and ?n = "length (syslog_header (pri k))"
  note l = length_syslog_header [of "pri k"]
  let ?k = "k\<lparr>writePos := word_of_nat ?n\<rparr>" and ?s = "s\<lparr>buffer := wr_bytes (buffer s) 62 ?h\<rparr>"
  have un: "unat (word_of_nat ?n :: u16) = ?n" using l by (simp add: unsigned_of_nat take_bit_eq_mod)
  then have m1: "writePos ?k \<noteq> -1" using l by (auto simp: unsigned_minus_1_eq_mask mask_eq_exp_minus_1)
  have "Syslog_writePayloadHeader p (k\<lparr>writePos := 0\<rparr>) s = Some (?k, ?s)"
    by (subst writePayloadHeader_run) simp_all
  then have "Socket_write Syslog_vt p c k s = Socket_write Syslog_vt p c ?k ?s"
    using assms(1,3) m m1 by (simp add: Socket_write_def Syslog_vt_def UDPSocket_vt_def UDPSocket_payload_def)
  then have "Socket_print Syslog_vt p msg k s = Socket_print Syslog_vt p msg ?k ?s" by (simp add: m)
  also have "\<dots> = Some (k\<lparr>writePos := word_of_nat (?n + length msg)\<rparr>,
      ?s\<lparr>buffer := wr_bytes (buffer ?s) (62 + ?n) msg\<rparr>)"
    using l assms(3,4) by (intro print_behind_header) auto
  finally show ?thesis by (simp add: line_def wr_bytes_append)
qed


text \<open>
  C26. One log line, one packet: printing a message with \<open>println\<close> on an idle Syslog socket hands one
  valid UDP packet to the driver, to the log server's address and port, whose payload is the priority
  in angle brackets, the program name, the message and a terminating zero, and nothing of the line
  break; the socket is idle again.
\<close>

theorem Syslog_println_sends:
  assumes "wf_ether s" "wf_socket k" "writePos k = -1" "msg \<noteq> []"
    "list_all (\<lambda>c. c \<noteq> 0x0A \<and> c \<noteq> 0x0D) msg" "length msg \<le> 480"
  defines "line \<equiv> syslog_header (pri k) @ msg @ [0]"
  shows "\<exists>m r. Socket_println Syslog_vt p msg k s = map_option (Pair k) r \<and> sends p s m r
     \<and> IPv6Packet_destination m = remoteAddress k \<and> ntohs (ld16 m udp_destinationPort) = remotePort k
     \<and> unat (ntohs (ld16 m udp_length)) = 8 + length line \<and> rd_bytes m 62 (length line) = line"
proof -
  let ?h = "syslog_header (pri k) @ msg" and ?w = "word_of_nat (length (syslog_header (pri k) @ msg)) :: u16"
  let ?k = "k\<lparr>writePos := ?w\<rparr>" and ?k1 = "k\<lparr>writePos := ?w + 1\<rparr>"
  let ?s = "s\<lparr>buffer := wr_bytes (buffer s) 62 ?h\<rparr>" and ?s1 = "s\<lparr>buffer := wr_bytes (buffer s) 62 line\<rparr>"
  note l = length_syslog_header [of "pri k"]
  have "length ?h < 65536" using l assms(6) by simp
  then have n: "unat ?w = length ?h" by (simp only: unsigned_of_nat take_bit_eq_mod) simp
  have n1: "?w + 1 = word_of_nat (length line)" by (simp add: line_def)
  have pos: "0 <s ?w" using n l assms(6) by (subst sgt0_u16) auto
  have ll: "length line \<le> 538" using l assms(6) by (simp add: line_def)
  have w: "wf_ether ?s1" "wf_socket ?k1" using assms(1,2) by (simp_all add: wf_socket_def)
  have data: "Socket_send_data UDPSocket_vt p line False ?k1 ?s1 = Socket_send UDPSocket_vt p (?w + 1) False ?k1 ?s1"
    using ll n1 by (simp add: Socket_send_data_def buf_wr_def UDPSocket_vt_def UDPSocket_payload_def wr_wr_same)
  obtain m r where x: "Socket_send UDPSocket_vt p (?w + 1) False ?k1 ?s1 = map_option (Pair ?k1) r"
    "sends p ?s1 m r" "IPv6Packet_destination m = remoteAddress k" "ntohs (ld16 m 56) = remotePort k"
    "unat (ntohs (ld16 m 58)) = 8 + length line" "rd_bytes m 62 (length line) = line"
    using UDP_send_data_run [OF w ll, of p] unfolding data by auto
  have "wr_bytes (wr_bytes (buffer s) 62 ?h) (62 + length ?h) [0] = wr_bytes (buffer s) 62 line"
    using wr_bytes_append [of "buffer s" 62 ?h "[0]"] by (simp add: line_def)
  then have nl: "Syslog_handleWriteNewline p ?k ?s = map_option (\<lambda>s'. (False, k, s')) r"
    using pos x(1) n ll assms(3)
    by (cases r) (simp_all add: Syslog_handleWriteNewline_def UDPSocket_payload_def buf_wr_def line_def Let_def)
  have idle: "Syslog_handleWriteNewline p k s' = Some (False, k, s')" for s' :: "'a ether"
    using assms(3) by (simp add: Syslog_handleWriteNewline_def)
  have "Socket_println Syslog_vt p msg k s = Socket_print Syslog_vt p [0x0D, 0x0A] ?k ?s"
    by (simp only: Socket_println_def print_line [OF assms(3-6)] bind.bind_lunit prod.case)
  also have "\<dots> = map_option (Pair k) r"
    using nl idle by (cases r) (simp_all add: Socket_write_def Syslog_vt_def UDPSocket_vt_def)
  finally show ?thesis using x by (intro exI [of _ m] exI [of _ r]) simp
qed

definition sample_syslog :: syslog where
  "sample_syslog = Syslog_new\<lparr>remoteAddress := [0xfe, 0x80, 0, 0, 0, 0, 0, 0, 0, 0, 0, 0, 0, 0, 0, 1],
     remoteMac := [2, 0, 0, 0, 0, 9], remotePort := 514\<rparr>"

lemma Syslog_println_sends_witness:
  "\<exists>m r. Socket_println Syslog_vt quiet_platform (chars ''Hello'') sample_syslog sample_ether
       = map_option (Pair sample_syslog) r
     \<and> sends quiet_platform sample_ether m r
     \<and> rd_bytes m 62 (length (chars ''<134>EtherSia: Hello'') + 1) = chars ''<134>EtherSia: Hello'' @ [0]"
proof -
  have k: "wf_socket sample_syslog" "writePos sample_syslog = -1" "chars ''Hello'' \<noteq> []"
    "list_all (\<lambda>c. c \<noteq> 0x0A \<and> c \<noteq> 0x0D) (chars ''Hello'')" "length (chars ''Hello'') \<le> 480"
    by code_simp+
  have l: "syslog_header (pri sample_syslog) @ chars ''Hello'' @ [0] = chars ''<134>EtherSia: Hello'' @ [0]"
    by code_simp
  from Syslog_println_sends [OF wf_sample_ether k, of quiet_platform] show ?thesis
    unfolding l by (metis length_append_singleton Suc_eq_plus1)
qed

end
