(* ===== verification/TCP_Client.thy ===== *)
theory TCP_Client
  imports TCP_Server
begin

text \<open>
  \<open>src/src/TCPClient.cpp\<close> and \<open>TCPClient.h\<close>: one active connection with retransmission. The method
  \<open>havePacket\<close> is a state machine written with \<open>goto\<close>; each of its labels is a function here, named
  after the label, so that a jump is a tail call. 8-bit counters and timers wrap as in the source.
  \<open>PRINT\<close> and \<open>PRINTLN\<close> expand to nothing.
\<close>

abbreviation (input) PERIODIC_TIME_OUT :: u32 where "PERIODIC_TIME_OUT \<equiv> 250"
abbreviation (input) TCP_STATE_DISCONNECTED :: byte where "TCP_STATE_DISCONNECTED \<equiv> 0x00"
abbreviation (input) TCP_STATE_WAIT_SYN_ACK :: byte where "TCP_STATE_WAIT_SYN_ACK \<equiv> 0x01"
abbreviation (input) TCP_STATE_CONNECTED :: byte where "TCP_STATE_CONNECTED \<equiv> 0x03"
abbreviation (input) TCP_STATE_LAST_ACK :: byte where "TCP_STATE_LAST_ACK \<equiv> 0x08"
abbreviation (input) TCP_STATE_MASK :: byte where "TCP_STATE_MASK \<equiv> 0x0f"
abbreviation (input) TCP_STATE_TIMEDOUT :: byte where "TCP_STATE_TIMEDOUT \<equiv> 0x10"
abbreviation (input) UIP_ACKDATA :: byte where "UIP_ACKDATA \<equiv> 1"
abbreviation (input) UIP_NEWDATA :: byte where "UIP_NEWDATA \<equiv> 2"
abbreviation (input) UIP_REXMIT :: byte where "UIP_REXMIT \<equiv> 8"
abbreviation (input) UIP_CLOSE :: byte where "UIP_CLOSE \<equiv> 16"
abbreviation (input) UIP_ABORT :: byte where "UIP_ABORT \<equiv> 32"
abbreviation (input) UIP_CONNECTED :: byte where "UIP_CONNECTED \<equiv> 64"
abbreviation (input) UIP_RESET :: byte where "UIP_RESET \<equiv> 128"
abbreviation (input) UIP_RTO :: byte where "UIP_RTO \<equiv> 3"
abbreviation (input) UIP_MAXRTX :: byte where "UIP_MAXRTX \<equiv> 8"
abbreviation (input) UIP_MAXSYNRTX :: byte where "UIP_MAXSYNRTX \<equiv> 5"

record tcp_client = socket +
  remoteSeqNum :: u32
  localSeqNum :: u32
  tcp_state :: byte
  appliFlags :: byte
  unAckLen :: u16
  inactivity :: u32
  periodic :: u32
  timer :: byte
  rto :: byte
  sa :: byte
  sv :: byte
  nrtx :: byte
  nrcvd :: u16
  ndropped :: u16
  nrexmitSynAck :: u16
  nrexmitData :: u16
  nrexmitFinAck :: u16

text \<open>The constructor leaves the other fields as it finds them in \<open>uninit\<close>.\<close>

definition TCPClient_new :: "tcp_client \<Rightarrow> tcp_client" where
  "TCPClient_new uninit = uninit\<lparr>remoteAddress := IPv6Address_zero, remoteMac := MACAddress_zero,
     remotePort := 0, localPort := 0, writePos := -1, tcp_state := TCP_STATE_DISCONNECTED,
     nrexmitSynAck := 0, nrexmitData := 0, nrexmitFinAck := 0, nrcvd := 0, ndropped := 0\<rparr>"

definition TCPClient_connected :: "'a tcp_client_scheme \<Rightarrow> bool" where
  "TCPClient_connected k \<longleftrightarrow> tcp_state k AND TCP_STATE_MASK = TCP_STATE_CONNECTED"

definition TCPClient_synacked :: "'a tcp_client_scheme \<Rightarrow> bool" where
  "TCPClient_synacked k \<longleftrightarrow> appliFlags k AND UIP_CONNECTED \<noteq> 0"

definition TCPClient_rexmit :: "'a tcp_client_scheme \<Rightarrow> bool" where
  "TCPClient_rexmit k \<longleftrightarrow> appliFlags k AND UIP_REXMIT \<noteq> 0"

definition TCPClient_timedout :: "'a tcp_client_scheme \<Rightarrow> bool" where
  "TCPClient_timedout k \<longleftrightarrow> tcp_state k AND TCP_STATE_TIMEDOUT \<noteq> 0"

definition TCPClient_life :: "'a tcp_client_scheme \<Rightarrow> bool" where
  "TCPClient_life k \<longleftrightarrow> appliFlags k \<noteq> 0"

definition TCPClient_aborted :: "'a tcp_client_scheme \<Rightarrow> bool" where
  "TCPClient_aborted k \<longleftrightarrow> appliFlags k AND UIP_ABORT \<noteq> 0"

definition TCPClient_closing :: "'a tcp_client_scheme \<Rightarrow> bool" where
  "TCPClient_closing k \<longleftrightarrow> appliFlags k AND UIP_CLOSE \<noteq> 0"

definition TCPClient_isReset :: "'a tcp_client_scheme \<Rightarrow> bool" where
  "TCPClient_isReset k \<longleftrightarrow> appliFlags k AND UIP_RESET \<noteq> 0"

definition TCPClient_payload :: "'d ether \<Rightarrow> nat" where
  "TCPClient_payload s = off_payload + unat (TCP_RECEIVE_HEADER_LEN (buffer s))"

definition TCPClient_payloadLength :: "'d ether \<Rightarrow> u16" where
  "TCPClient_payloadLength s = IPv6Packet_payloadLength (buffer s) - TCP_RECEIVE_HEADER_LEN (buffer s)"

definition TCPClient_transmitPayload :: "'d ether \<Rightarrow> nat" where
  "TCPClient_transmitPayload s = off_payload + TCP_TRANSMIT_HEADER_LEN"

definition TCPClient_printState :: "'a tcp_client_scheme \<Rightarrow> byte list" where
  "TCPClient_printState k = chars ''[x'' @ printPaddedHex (tcp_state k) @ chars '']''"

section \<open>Sending\<close>

definition TCPClient_fillTCPHeader :: "'a tcp_client_scheme \<Rightarrow> mem \<Rightarrow> mem option" where
  "TCPClient_fillTCPHeader k packet =
     (let packet = st16 packet tcp_destinationPort (htons (remotePort k));
          packet = st16 packet tcp_sourcePort (htons (localPort k));
          packet = st32 packet tcp_sequenceNum (htonl (localSeqNum k));
          packet = st32 packet tcp_acknowledgementNum (htonl (remoteSeqNum k));
          packet = IPv6Packet_setProtocol packet IP6_PROTO_TCP;
          packet = st16 packet tcp_window (htons TCP_WINDOW_SIZE);
          packet = (if packet tcp_dataOffset AND 0xF0 > 0x50 then
                      let packet = st8 packet tcp_mssOptionKind 2;
                          packet = st8 packet tcp_mssOptionLen 4
                      in st16 packet tcp_mssOptionValue (ld16 packet tcp_window)
                    else packet);
          packet = st16 packet tcp_urgentPointer 0;
          packet = st16 packet tcp_checksum 0
      in do {
        c \<leftarrow> buffer_checksum packet;
        Some (st16 packet tcp_checksum (htons c))
      })"

definition TCPClient_sendInternal ::
    "'d platform \<Rightarrow> u16 \<Rightarrow> bool \<Rightarrow> 'a tcp_client_scheme \<Rightarrow> 'd ether \<Rightarrow> ('a tcp_client_scheme \<times> 'd ether) option" where
  "TCPClient_sendInternal p len isReply k s =
     (let packet = st8 (buffer s) tcp_dataOffset (push_bit 4 6);
          packet = IPv6Packet_setPayloadLength packet (ucast (drop_bit 2 (packet tcp_dataOffset AND 0xF0)) + len)
      in do {
        packet \<leftarrow> TCPClient_fillTCPHeader k packet;
        s \<leftarrow> EtherSia_send p (s\<lparr>buffer := packet\<rparr>);
        Some (if appliFlags k AND UIP_REXMIT = 0
              then k\<lparr>unAckLen := unAckLen k + len, timer := rto k, nrtx := 0\<rparr> else k, s)
      })"

definition TCPClient_vt :: "('d, 'a tcp_client_scheme) socket_vt" where
  "TCPClient_vt = \<lparr>vt_payload = TCPClient_payload, vt_payloadLength = TCPClient_payloadLength,
     vt_transmitPayload = TCPClient_transmitPayload, vt_sendInternal = TCPClient_sendInternal,
     vt_handleWriteNewline = Socket_handleWriteNewline, vt_writePayloadHeader = Socket_writePayloadHeader\<rparr>"

interpretation tcpclient_print: plain_socket TCPClient_vt 78
  by unfold_locales (simp_all add: TCPClient_vt_def TCPClient_transmitPayload_def)

definition TCPClient_connect ::
    "'d platform \<Rightarrow> 'a tcp_client_scheme \<Rightarrow> 'd ether \<Rightarrow> ('a tcp_client_scheme \<times> 'd ether) option" where
  "TCPClient_connect p k s =
     (let (r, d) = random_long p (dev s);
          s = s\<lparr>dev := d\<rparr>;
          k = k\<lparr>localSeqNum := r, remoteSeqNum := 0, localPort := localPort k + 1, unAckLen := 1,
                timer := UIP_RTO, rto := UIP_RTO, sa := 0, sv := 16, nrtx := 0\<rparr>;
          s = s\<lparr>buffer := st8 (buffer s) tcp_flags TCP_FLAG_SYN\<rparr>;
          k = k\<lparr>tcp_state := TCP_STATE_WAIT_SYN_ACK\<rparr>;
          (now, s) = EtherSia_millis p s;
          k = k\<lparr>inactivity := now, periodic := now\<rparr>
      in Socket_send TCPClient_vt p 0 False k s)"

section \<open>The state machine of \<open>havePacket\<close>\<close>

type_synonym ('d, 'a) client_result = "(bool \<times> 'a tcp_client_scheme \<times> 'd ether) option"

definition TCPClient_drop :: "'a tcp_client_scheme \<Rightarrow> 'd ether \<Rightarrow> ('d, 'a) client_result" where
  "TCPClient_drop k s = Some (appliFlags k AND UIP_NEWDATA \<noteq> 0, k, s)"

definition TCPClient_tcp_send_nodata ::
    "'d platform \<Rightarrow> 'a tcp_client_scheme \<Rightarrow> 'd ether \<Rightarrow> ('d, 'a) client_result" where
  "TCPClient_tcp_send_nodata p k s = do {
     packet \<leftarrow> TCPClient_fillTCPHeader k (IPv6Packet_setPayloadLength (buffer s)
                 (ucast (drop_bit 2 (buffer s tcp_dataOffset AND 0xF0))));
     s \<leftarrow> EtherSia_send p (s\<lparr>buffer := packet\<rparr>);
     TCPClient_drop k s
   }"

definition TCPClient_tcp_send_nodata_reply ::
    "'d platform \<Rightarrow> 'a tcp_client_scheme \<Rightarrow> 'd ether \<Rightarrow> ('d, 'a) client_result" where
  "TCPClient_tcp_send_nodata_reply p k s =
     (let s = EtherSia_prepareReply s
      in TCPClient_tcp_send_nodata p k (s\<lparr>buffer := st8 (buffer s) tcp_dataOffset (push_bit 4 5)\<rparr>))"

definition TCPClient_tcp_send_ack ::
    "'d platform \<Rightarrow> 'a tcp_client_scheme \<Rightarrow> 'd ether \<Rightarrow> ('d, 'a) client_result" where
  "TCPClient_tcp_send_ack p k s =
     TCPClient_tcp_send_nodata_reply p k (s\<lparr>buffer := st8 (buffer s) tcp_flags TCP_FLAG_ACK\<rparr>)"

definition TCPClient_tcp_send_finack ::
    "'d platform \<Rightarrow> 'a tcp_client_scheme \<Rightarrow> 'd ether \<Rightarrow> ('d, 'a) client_result" where
  "TCPClient_tcp_send_finack p k s =
     TCPClient_tcp_send_nodata_reply p k
       (s\<lparr>buffer := st8 (buffer s) tcp_flags (TCP_FLAG_FIN OR TCP_FLAG_ACK)\<rparr>)"

definition TCPClient_tcp_resend ::
    "'d platform \<Rightarrow> byte \<Rightarrow> byte \<Rightarrow> 'a tcp_client_scheme \<Rightarrow> 'd ether \<Rightarrow> ('d, 'a) client_result" where
  "TCPClient_tcp_resend p flags dataOffset k s =
     (let packet = st8 (buffer s) tcp_flags flags;
          packet = st8 packet tcp_dataOffset dataOffset;
          s = EtherSia_prepareSend (s\<lparr>buffer := packet\<rparr>);
          packet = IPv6Packet_setDestination (buffer s) (remoteAddress k);
          packet = IPv6Packet_setEtherDestination packet (remoteMac k)
      in TCPClient_tcp_send_nodata p k (s\<lparr>buffer := packet\<rparr>))"

definition TCPClient_check_for_retransmit ::
    "'d platform \<Rightarrow> 'a tcp_client_scheme \<Rightarrow> 'd ether \<Rightarrow> ('d, 'a) client_result" where
  "TCPClient_check_for_retransmit p k s =
     (if unAckLen k > 0 \<and> timer k = 0 then
        let k = k\<lparr>timer := push_bit (unat (if nrtx k > 4 then 4 else nrtx k)) UIP_RTO\<rparr> in
        if nrtx k = UIP_MAXRTX \<or> (tcp_state k = TCP_STATE_WAIT_SYN_ACK \<and> nrtx k = UIP_MAXSYNRTX) then
          TCPClient_tcp_resend p (TCP_FLAG_RST OR TCP_FLAG_ACK) (push_bit 4 5)
            (k\<lparr>tcp_state := tcp_state k OR TCP_STATE_TIMEDOUT\<rparr>) s
        else
          let k = k\<lparr>nrtx := nrtx k + 1\<rparr> in
          if tcp_state k AND TCP_STATE_MASK = TCP_STATE_WAIT_SYN_ACK then
            TCPClient_tcp_resend p TCP_FLAG_SYN (push_bit 4 6) (k\<lparr>nrexmitSynAck := nrexmitSynAck k + 1\<rparr>) s
          else if tcp_state k AND TCP_STATE_MASK = TCP_STATE_CONNECTED then
            TCPClient_drop (k\<lparr>nrexmitData := nrexmitData k + 1, appliFlags := appliFlags k OR UIP_REXMIT\<rparr>)
              (s\<lparr>buffer := st8 (buffer s) tcp_flags TCP_FLAG_ACK\<rparr>)
          else if tcp_state k AND TCP_STATE_MASK = TCP_STATE_LAST_ACK then
            TCPClient_tcp_resend p (TCP_FLAG_FIN OR TCP_FLAG_ACK) (push_bit 4 5)
              (k\<lparr>nrexmitFinAck := nrexmitFinAck k + 1\<rparr>) s
          else TCPClient_drop k s
      else TCPClient_drop k s)"

text \<open>Both the received port and \<open>_remotePort\<close> are stored as they are: no byte swap for the latter.\<close>

definition TCPClient_reset ::
    "'d platform \<Rightarrow> 'a tcp_client_scheme \<Rightarrow> 'd ether \<Rightarrow> ('d, 'a) client_result" where
  "TCPClient_reset p k s =
     (if buffer s tcp_flags AND TCP_FLAG_RST \<noteq> 0 then TCPClient_drop k s
      else
        let s = s\<lparr>buffer := st8 (buffer s) tcp_flags (TCP_FLAG_RST OR TCP_FLAG_ACK)\<rparr>;
            s = EtherSia_prepareReply s;
            packet = IPv6Packet_setProtocol (buffer s) IP6_PROTO_TCP;
            packet = st16 packet tcp_sourcePort (ld16 packet tcp_destinationPort);
            packet = st16 packet tcp_destinationPort (remotePort k);
            tmp32 = ntohl (ld32 packet tcp_sequenceNum);
            packet = st32 packet tcp_sequenceNum (ld32 packet tcp_acknowledgementNum);
            packet = st32 packet tcp_acknowledgementNum (htonl (tmp32 + 1));
            packet = st8 packet tcp_dataOffset (push_bit 4 5);
            packet = IPv6Packet_setPayloadLength packet (ucast (drop_bit 2 (packet tcp_dataOffset AND 0xF0)));
            packet = st16 packet tcp_window (htons TCP_WINDOW_SIZE);
            packet = st16 packet tcp_urgentPointer 0;
            packet = st16 packet tcp_checksum 0
        in do {
          c \<leftarrow> buffer_checksum packet;
          s \<leftarrow> EtherSia_send p (s\<lparr>buffer := st16 packet tcp_checksum (htons c)\<rparr>);
          TCPClient_drop k s
        })"

text \<open>The round-trip estimate, in 8-bit arithmetic; \<open>m\<close> is a signed char.\<close>

definition TCPClient_updateRTT :: "'a tcp_client_scheme \<Rightarrow> 'a tcp_client_scheme" where
  "TCPClient_updateRTT k =
     (let m = rto k - timer k;
          m = m - drop_bit 3 (sa k);
          k = k\<lparr>sa := sa k + m\<rparr>;
          m = (if m <s 0 then - m else m);
          m = m - drop_bit 2 (sv k);
          k = k\<lparr>sv := sv k + m\<rparr>
      in k\<lparr>rto := drop_bit 3 (sa k) + sv k\<rparr>)"

definition TCPClient_ackingTest :: "mem \<Rightarrow> 'a tcp_client_scheme \<Rightarrow> 'a tcp_client_scheme" where
  "TCPClient_ackingTest packet k =
     (if packet tcp_flags AND TCP_FLAG_ACK \<noteq> 0 \<and> unAckLen k > 0
         \<and> ntohl (ld32 packet tcp_acknowledgementNum) = localSeqNum k + ucast (unAckLen k) then
        let k = k\<lparr>localSeqNum := localSeqNum k + ucast (unAckLen k)\<rparr>;
            k = (if nrtx k = 0 then TCPClient_updateRTT k else k)
        in k\<lparr>timer := rto k, unAckLen := 0, appliFlags := UIP_ACKDATA\<rparr>
      else k)"

definition TCPClient_found ::
    "'d platform \<Rightarrow> 'a tcp_client_scheme \<Rightarrow> 'd ether \<Rightarrow> ('d, 'a) client_result" where
  "TCPClient_found p k s =
     (let packet = buffer s;
          flags = packet tcp_flags;
          len = TCPClient_payloadLength s
      in if flags AND TCP_FLAG_RST \<noteq> 0 then
        TCPClient_drop (k\<lparr>tcp_state := TCP_STATE_DISCONNECTED, appliFlags := UIP_ABORT\<rparr>) s
      else if \<not> (tcp_state k = TCP_STATE_WAIT_SYN_ACK \<and> flags AND (TCP_FLAG_SYN OR TCP_FLAG_ACK) \<noteq> 0)
        \<and> (len > 0 \<or> flags AND TCP_FLAG_FIN \<noteq> 0)
        \<and> ntohl (ld32 packet tcp_sequenceNum) \<noteq> remoteSeqNum k then
        TCPClient_tcp_send_ack p k s
      else
        let k = TCPClient_ackingTest packet k;
            st = tcp_state k AND TCP_STATE_MASK
        in if st = TCP_STATE_WAIT_SYN_ACK then
             (if appliFlags k AND UIP_ACKDATA \<noteq> 0 \<and> flags AND (TCP_FLAG_SYN OR TCP_FLAG_ACK) \<noteq> 0 then
                TCPClient_tcp_send_ack p (k\<lparr>tcp_state := TCP_STATE_CONNECTED,
                  remoteSeqNum := ntohl (ld32 packet tcp_sequenceNum) + 1, appliFlags := UIP_CONNECTED\<rparr>) s
              else TCPClient_reset p (k\<lparr>appliFlags := UIP_ABORT, tcp_state := TCP_STATE_DISCONNECTED\<rparr>) s)
           else if st = TCP_STATE_CONNECTED then
             (if flags AND TCP_FLAG_FIN \<noteq> 0 then
                (if unAckLen k > 0 then TCPClient_check_for_retransmit p k s
                 else
                   let k = k\<lparr>remoteSeqNum := remoteSeqNum k + ucast (len + 1),
                             appliFlags := appliFlags k OR UIP_CLOSE\<rparr>;
                       k = (if len > 0 then k\<lparr>appliFlags := appliFlags k OR UIP_NEWDATA\<rparr> else k)
                   in TCPClient_tcp_send_finack p (k\<lparr>unAckLen := 1, tcp_state := TCP_STATE_LAST_ACK, nrtx := 0\<rparr>) s)
              else if len > 0 then
                TCPClient_tcp_send_ack p (k\<lparr>appliFlags := appliFlags k OR UIP_NEWDATA,
                  remoteSeqNum := remoteSeqNum k + ucast len\<rparr>) s
              else TCPClient_check_for_retransmit p k s)
           else if st = TCP_STATE_LAST_ACK then
             (if appliFlags k AND UIP_ACKDATA \<noteq> 0 then
                TCPClient_drop (k\<lparr>tcp_state := TCP_STATE_DISCONNECTED, appliFlags := UIP_CLOSE\<rparr>) s
              else TCPClient_check_for_retransmit p k s)
           else TCPClient_tcp_send_ack p k s)"

text \<open>The packet in the buffer, from \<open>bufferContainsReceived\<close> on.\<close>

definition TCPClient_incoming ::
    "'d platform \<Rightarrow> 'a tcp_client_scheme \<Rightarrow> 'd ether \<Rightarrow> ('d, 'a) client_result" where
  "TCPClient_incoming p k s =
     (let packet = buffer s in
      if \<not> bufferContainsReceived s then TCPClient_check_for_retransmit p k s
      else
        let k = k\<lparr>nrcvd := nrcvd k + 1\<rparr>;
            dropped = k\<lparr>ndropped := ndropped k + 1\<rparr>
        in if IPv6Address_neq (IPv6Packet_destination packet) (linkLocalAddress s)
              \<or> IPv6Address_neq (IPv6Packet_source packet) (remoteAddress k)
           then TCPClient_check_for_retransmit p dropped s
           else if IPv6Packet_protocol packet \<noteq> IP6_PROTO_TCP
           then TCPClient_check_for_retransmit p dropped s
           else if ntohs (ld16 packet tcp_sourcePort) \<noteq> remotePort k
           then TCPClient_check_for_retransmit p dropped s
           else if ntohs (ld16 packet tcp_destinationPort) = localPort k then TCPClient_found p k s
           else if packet tcp_flags AND TCP_FLAG_SYN \<noteq> 0
           then TCPClient_check_for_retransmit p dropped s
           else TCPClient_reset p k s)"

definition TCPClient_periodic ::
    "'d platform \<Rightarrow> 'a tcp_client_scheme \<Rightarrow> 'd ether \<Rightarrow> 'a tcp_client_scheme \<times> 'd ether" where
  "TCPClient_periodic p k s =
     (let (now, s) = EtherSia_millis p s in
      if PERIODIC_TIME_OUT \<le>s now - periodic k then
        let (now, s) = EtherSia_millis p s;
            k = k\<lparr>periodic := now\<rparr>
        in (if unAckLen k > 0 then k\<lparr>timer := timer k - 1\<rparr> else k, s)
      else (k, s))"

definition TCPClient_havePacket ::
    "'d platform \<Rightarrow> 'a tcp_client_scheme \<Rightarrow> 'd ether \<Rightarrow> ('d, 'a) client_result" where
  "TCPClient_havePacket p k s =
     (let (k, s) = (if appliFlags k \<noteq> 0
                    then let (now, s) = EtherSia_millis p s in (k\<lparr>inactivity := now\<rparr>, s) else (k, s));
          k = k\<lparr>appliFlags := 0\<rparr>;
          (now, s) = EtherSia_millis p s;
          k = (if 600000 \<le>s now - inactivity k then k\<lparr>appliFlags := appliFlags k OR UIP_RESET\<rparr> else k)
      in if tcp_state k = TCP_STATE_DISCONNECTED then TCPClient_drop k s
         else if tcp_state k AND TCP_STATE_TIMEDOUT \<noteq> 0
         then TCPClient_drop (k\<lparr>tcp_state := TCP_STATE_DISCONNECTED\<rparr>) s
         else
           let (k, s) = TCPClient_periodic p k s in TCPClient_incoming p k s)"

section \<open>What is sent\<close>

text \<open>The packet \<open>fillTCPHeader\<close> computes the checksum of.\<close>

definition client_header :: "'a tcp_client_scheme \<Rightarrow> mem \<Rightarrow> mem" where
  "client_header k m =
     (let m = st16 (st8 (st32 (st32 (st16 (st16 m 56 (htons (remotePort k))) 54 (htons (localPort k)))
        58 (htonl (localSeqNum k))) 62 (htonl (remoteSeqNum k))) 20 6) 68 (htons TCP_WINDOW_SIZE);
        m = (if m 66 AND 0xF0 > 0x50 then st16 (st8 (st8 m 74 2) 75 4) 76 (ld16 m 68) else m)
      in st16 m 72 0)"

lemma fill_seal:
  "do { m \<leftarrow> TCPClient_fillTCPHeader k m0; EtherSia_send p (s\<lparr>buffer := m\<rparr>) }
   = seal_and_send p 70 (s\<lparr>buffer := client_header k m0\<rparr>)"
  by (simp add: TCPClient_fillTCPHeader_def client_header_def seal_and_send_def Let_def hdr_simps)

lemma client_header_fields:
  "IPv6Packet_etherType (client_header k m) = IPv6Packet_etherType m"
  "IPv6Packet_version (client_header k m) = IPv6Packet_version m"
  "IPv6Packet_payloadLength (client_header k m) = IPv6Packet_payloadLength m"
  "IPv6Packet_protocol (client_header k m) = 6"
  "ntohs (ld16 (client_header k m) 54) = localPort k" "ntohs (ld16 (client_header k m) 56) = remotePort k"
  "ntohl (ld32 (client_header k m) 58) = localSeqNum k" "ntohl (ld32 (client_header k m) 62) = remoteSeqNum k"
  "client_header k m 66 = m 66" "client_header k m 67 = m 67"
  "i < 20 \<or> (21 \<le> i \<and> i < 54) \<or> 78 \<le> i \<Longrightarrow> client_header k m i = m i"
  by (auto simp: client_header_def Let_def hdr_simps ntohs_def)

text \<open>What a packet says of the connection it belongs to.\<close>

definition client_segment :: "'a tcp_client_scheme \<Rightarrow> mem \<Rightarrow> bool" where
  "client_segment k m \<longleftrightarrow> IPv6Packet_protocol m = 6 \<and> ntohs (ld16 m 54) = localPort k
     \<and> ntohs (ld16 m 56) = remotePort k \<and> ntohl (ld32 m 58) = localSeqNum k \<and> ntohl (ld32 m 62) = remoteSeqNum k"

lemma fill_sends:
  assumes "IPv6Packet_etherType m0 = ETHER_TYPE_IPV6" "IPv6Packet_version m0 = 6"
    "unat (IPv6Packet_payloadLength m0) \<le> 546" "20 \<le> unat (IPv6Packet_payloadLength m0)"
  shows "\<exists>m. sends p s m (do { m \<leftarrow> TCPClient_fillTCPHeader k m0; EtherSia_send p (s\<lparr>buffer := m\<rparr>) })
     \<and> client_segment k m \<and> m 66 = m0 66 \<and> m 67 = m0 67
     \<and> (\<forall>i. i < 20 \<or> (21 \<le> i \<and> i < 54) \<or> 78 \<le> i \<longrightarrow> m i = m0 i)"
proof -
  let ?h = "client_header k m0"
  obtain c where x: "sends p s (st16 ?h 70 (htons c)) (seal_and_send p 70 (s\<lparr>buffer := ?h\<rparr>))"
    using seal_and_send_sends [of "s\<lparr>buffer := ?h\<rparr>" 70 p] assms by (auto simp: client_header_fields)
  have "client_segment k (st16 ?h 70 (htons c))"
    using client_header_fields [where k = k and m = m0] by (simp add: client_segment_def hdr_simps)
  moreover have "st16 ?h 70 (htons c) i = m0 i" if "i < 20 \<or> (21 \<le> i \<and> i < 54) \<or> 78 \<le> i \<or> i = 66 \<or> i = 67" for i
  proof -
    have "st16 ?h 70 (htons c) i = ?h i" using that by (simp add: st16_def wr_bytes_nth) linarith
    with that show ?thesis using client_header_fields(9-11) [where k = k and m = m0] by auto
  qed
  ultimately show ?thesis using x unfolding fill_seal by blast
qed

text \<open>A segment without data sent in answer to the received packet.\<close>

lemma send_nodata_reply_sends:
  assumes "wf_ether s" "IPv6Packet_etherType (buffer s) = ETHER_TYPE_IPV6" "IPv6Packet_version (buffer s) = 6"
  shows "\<exists>m r. TCPClient_tcp_send_nodata_reply p k s
       = map_option (\<lambda>s'. (appliFlags k AND UIP_NEWDATA \<noteq> 0, k, s')) r \<and> sends p s m r
     \<and> client_segment k m \<and> m 67 = buffer s 67 \<and> IPv6Packet_payloadLength m = 20 \<and> m 66 = 0x50
     \<and> IPv6Packet_destination m = IPv6Packet_source (buffer s)
     \<and> IPv6Packet_etherDestination m = IPv6Packet_etherSource (buffer s) \<and> IPv6Packet_etherSource m = localMac s
     \<and> IPv6Packet_source m = reply_source s
     \<and> (\<forall>n. rd_bytes m 78 n = rd_bytes (buffer s) 78 n)"
proof -
  let ?t = "EtherSia_prepareReply s"
  let ?m0 = "IPv6Packet_setPayloadLength (st8 (buffer ?t) 66 0x50) 20"
  have m0: "?m0 66 = 0x50" "?m0 67 = buffer s 67" "IPv6Packet_etherType ?m0 = ETHER_TYPE_IPV6"
    "IPv6Packet_version ?m0 = 6" "IPv6Packet_payloadLength ?m0 = 20"
    "IPv6Packet_destination ?m0 = IPv6Packet_source (buffer s)"
    "IPv6Packet_etherDestination ?m0 = IPv6Packet_etherSource (buffer s)" "IPv6Packet_etherSource ?m0 = localMac s"
    "IPv6Packet_source ?m0 = reply_source s" "rd_bytes ?m0 78 n = rd_bytes (buffer s) 78 n" for n
    using assms by (simp_all add: hdr_simps prep_simps)
  obtain m where x: "sends p ?t m (do { m \<leftarrow> TCPClient_fillTCPHeader k ?m0; EtherSia_send p (?t\<lparr>buffer := m\<rparr>) })"
    "client_segment k m" "m 66 = ?m0 66" "m 67 = ?m0 67"
    and keep: "\<And>i. i < 20 \<or> (21 \<le> i \<and> i < 54) \<or> 78 \<le> i \<Longrightarrow> m i = ?m0 i"
    using fill_sends [of ?m0 p ?t k] m0(3-5) by auto
  let ?r = "do { m \<leftarrow> TCPClient_fillTCPHeader k ?m0; EtherSia_send p (?t\<lparr>buffer := m\<rparr>) }"
  have run: "TCPClient_tcp_send_nodata_reply p k s
      = map_option (\<lambda>s'. (appliFlags k AND UIP_NEWDATA \<noteq> 0, k, s')) ?r"
    by (simp add: TCPClient_tcp_send_nodata_reply_def TCPClient_tcp_send_nodata_def TCPClient_drop_def Let_def
        hdr_simps map_option_bind bind_map_option comp_def split: Option.bind_split)
  have "IPv6Packet_destination m = IPv6Packet_destination ?m0"
    "IPv6Packet_etherDestination m = IPv6Packet_etherDestination ?m0" "IPv6Packet_etherSource m = IPv6Packet_etherSource ?m0"
    "IPv6Packet_source m = IPv6Packet_source ?m0"
    unfolding IPv6Packet_destination_def IPv6Packet_source_def IPv6Packet_etherDestination_def IPv6Packet_etherSource_def
    by (rule rd_bytes_cong, rule keep, linarith)+
  moreover have "rd_bytes m 78 n = rd_bytes ?m0 78 n" for n
    by (rule rd_bytes_cong, rule keep) linarith
  moreover have "IPv6Packet_payloadLength m = IPv6Packet_payloadLength ?m0"
    by (rule payloadLength_cong; rule keep; simp)
  ultimately show ?thesis
    using x m0 run by (intro exI [of _ m] exI [of _ ?r]) simp
qed

section \<open>The connection as a state machine\<close>

text \<open>The specification: the phases of a connection and the steps \<open>havePacket\<close> may take.\<close>

datatype phase = Disconnected | Wait_Syn_Ack | Connected | Last_Ack | Timed_Out

inductive client_step :: "phase \<Rightarrow> phase \<Rightarrow> bool" where
  established: "client_step Wait_Syn_Ack Connected"
| closing: "client_step Connected Last_Ack"
| closed: "client_step Last_Ack Disconnected"
| aborted: "a \<noteq> Disconnected \<Longrightarrow> client_step a Disconnected"
| gave_up: "a \<noteq> Disconnected \<Longrightarrow> a \<noteq> Timed_Out \<Longrightarrow> client_step a Timed_Out"

inductive_simps client_step_simps: "client_step a b"

definition client_phase :: "byte \<Rightarrow> phase option" where
  "client_phase st =
     (if st = TCP_STATE_DISCONNECTED then Some Disconnected
      else if st = TCP_STATE_WAIT_SYN_ACK then Some Wait_Syn_Ack
      else if st = TCP_STATE_CONNECTED then Some Connected
      else if st = TCP_STATE_LAST_ACK then Some Last_Ack
      else if st = 0x11 \<or> st = 0x13 \<or> st = 0x18 then Some Timed_Out
      else None)"

definition client_inv :: "'a tcp_client_scheme \<Rightarrow> bool" where
  "client_inv k \<longleftrightarrow> client_phase (tcp_state k) \<noteq> None \<and> nrtx k \<le> UIP_MAXRTX
     \<and> (tcp_state k = TCP_STATE_WAIT_SYN_ACK \<longrightarrow> nrtx k \<le> UIP_MAXSYNRTX)"

text \<open>Sending on the client's socket: one valid segment with the numbers of the connection and the flags in the buffer.\<close>

lemma client_send_sends:
  fixes k :: "'a tcp_client_scheme"
  assumes "wf_ether s" "wf_socket k" "unat len \<le> 522"
  defines "k' \<equiv> if appliFlags k AND UIP_REXMIT = 0 then k\<lparr>unAckLen := unAckLen k + len, timer := rto k, nrtx := 0\<rparr> else k"
  shows "\<exists>m r. Socket_send TCPClient_vt p len False k s = map_option (Pair k') r \<and> sends p s m r
     \<and> client_segment k m \<and> m 66 = 0x60 \<and> m 67 = buffer s 67 \<and> unat (IPv6Packet_payloadLength m) = 24 + unat len
     \<and> IPv6Packet_destination m = remoteAddress k
     \<and> IPv6Packet_source m = (if IPv6Address_isLinkLocal (remoteAddress k) \<or> IPv6Address_isZero (globalAddress s)
         then linkLocalAddress s else globalAddress s)
     \<and> IPv6Packet_etherDestination m = remoteMac k \<and> IPv6Packet_etherSource m = localMac s
     \<and> (\<forall>n. rd_bytes m 78 n = rd_bytes (buffer s) 78 n)"
proof -
  let ?t = "Socket_prepare False k s"
  note t = Socket_prepare_not_reply [OF assms(1,2)]
  let ?m0 = "IPv6Packet_setPayloadLength (st8 (buffer ?t) 66 0x60) (24 + len)"
  have o: "push_bit 4 6 = (0x60 :: byte)" "ucast (drop_bit 2 (0x60 AND 0xF0 :: byte)) = (24 :: u16)" by code_simp+
  have l: "unat (24 + len) = 24 + unat len" using assms(3) by (simp add: unat_word_ariths)
  have b: "buffer ?t 67 = buffer s 67" using t(8) [of 67 1] by (simp add: rd_bytes_Suc)
  have m0: "?m0 66 = 0x60" "?m0 67 = buffer s 67" "IPv6Packet_etherType ?m0 = ETHER_TYPE_IPV6"
    "IPv6Packet_version ?m0 = 6" "IPv6Packet_payloadLength ?m0 = 24 + len"
    "IPv6Packet_destination ?m0 = remoteAddress k" "IPv6Packet_etherDestination ?m0 = remoteMac k"
    "IPv6Packet_etherSource ?m0 = localMac s" "IPv6Packet_source ?m0 = IPv6Packet_source (buffer ?t)"
    "rd_bytes ?m0 78 n = rd_bytes (buffer s) 78 n" for n
    using t(1-5,8) b by (simp_all add: hdr_simps)
  let ?r = "do { m \<leftarrow> TCPClient_fillTCPHeader k ?m0; EtherSia_send p (?t\<lparr>buffer := m\<rparr>) }"
  obtain m where x: "sends p ?t m ?r" "client_segment k m" "m 66 = ?m0 66" "m 67 = ?m0 67"
    and keep: "\<And>i. i < 20 \<or> (21 \<le> i \<and> i < 54) \<or> 78 \<le> i \<Longrightarrow> m i = ?m0 i"
    using fill_sends [of ?m0 p ?t k] m0(3-5) l assms(3) by auto
  have run: "Socket_send TCPClient_vt p len False k s = map_option (Pair k') ?r"
    by (simp add: Socket_send_def TCPClient_vt_def TCPClient_sendInternal_def Let_def o k'_def hdr_simps
        map_option_bind bind_map_option comp_def split: Option.bind_split)
  have "IPv6Packet_destination m = IPv6Packet_destination ?m0" "IPv6Packet_source m = IPv6Packet_source ?m0"
    "IPv6Packet_etherDestination m = IPv6Packet_etherDestination ?m0" "IPv6Packet_etherSource m = IPv6Packet_etherSource ?m0"
    unfolding IPv6Packet_destination_def IPv6Packet_source_def IPv6Packet_etherDestination_def IPv6Packet_etherSource_def
    by (rule rd_bytes_cong, rule keep, linarith)+
  moreover have "rd_bytes m 78 n = rd_bytes ?m0 78 n" for n
    by (rule rd_bytes_cong, rule keep) linarith
  moreover have "IPv6Packet_payloadLength m = IPv6Packet_payloadLength ?m0"
    by (rule payloadLength_cong; rule keep; simp)
  ultimately show ?thesis
    using x m0 run l t(7) by (intro exI [of _ m] exI [of _ ?r]) simp
qed

text \<open>No send changes the client.\<close>

lemma send_keeps_client:
  "TCPClient_tcp_send_nodata p k s = Some (b, k', s') \<Longrightarrow> k' = k"
  "TCPClient_tcp_send_nodata_reply p k s = Some (b, k', s') \<Longrightarrow> k' = k"
  "TCPClient_tcp_send_ack p k s = Some (b, k', s') \<Longrightarrow> k' = k"
  "TCPClient_tcp_send_finack p k s = Some (b, k', s') \<Longrightarrow> k' = k"
  "TCPClient_tcp_resend p fl off k s = Some (b, k', s') \<Longrightarrow> k' = k"
  "TCPClient_reset p k s = Some (b, k', s') \<Longrightarrow> k' = k"
  "TCPClient_drop k s = Some (b, k', s') \<Longrightarrow> k' = k"
  by (auto simp: TCPClient_tcp_send_nodata_def TCPClient_tcp_send_nodata_reply_def TCPClient_tcp_send_ack_def
      TCPClient_tcp_send_finack_def TCPClient_tcp_resend_def TCPClient_reset_def TCPClient_drop_def Let_def
      bind_eq_Some_conv split: if_splits)

lemma ackingTest_keeps:
  "tcp_state (TCPClient_ackingTest m k) = tcp_state k" "nrtx (TCPClient_ackingTest m k) = nrtx k"
  by (simp_all add: TCPClient_ackingTest_def TCPClient_updateRTT_def Let_def)

definition client_moves :: "'a tcp_client_scheme \<Rightarrow> 'a tcp_client_scheme \<Rightarrow> bool" where
  "client_moves k k' \<longleftrightarrow> (\<exists>a b. client_phase (tcp_state k) = Some a \<and> client_phase (tcp_state k') = Some b
     \<and> (a = b \<or> client_step a b)) \<and> nrtx k' \<le> 8 \<and> (tcp_state k' = 1 \<longrightarrow> nrtx k' \<le> 5)"

lemma client_movesI:
  "client_inv k \<Longrightarrow> tcp_state k' = tcp_state k \<Longrightarrow> nrtx k' = nrtx k \<Longrightarrow> client_moves k k'"
  by (auto simp: client_moves_def client_inv_def)

lemma phase_live:
  "client_phase st \<noteq> None \<Longrightarrow> st \<noteq> 0 \<Longrightarrow> st AND 0x10 = 0 \<Longrightarrow> st = 1 \<or> st = 3 \<or> st = 8"
  by (auto simp: client_phase_def split: if_splits)

lemma nrtx_incr: "(n :: byte) \<le> 8 \<Longrightarrow> n \<noteq> 8 \<Longrightarrow> n + 1 \<le> 8" "(n :: byte) \<le> 5 \<Longrightarrow> n \<noteq> 5 \<Longrightarrow> n + 1 \<le> 5"
  by (auto simp: word_le_nat_alt word_unat_eq_iff unat_word_ariths)

lemma check_for_retransmit_moves:
  assumes "client_inv k" "tcp_state k = 1 \<or> tcp_state k = 3 \<or> tcp_state k = 8"
    and run: "TCPClient_check_for_retransmit p k s = Some (b, k', s')"
  shows "client_moves k k'"
proof -
  let ?t = "k\<lparr>timer := push_bit (unat (if nrtx k > 4 then 4 else nrtx k)) UIP_RTO\<rparr>"
  consider (keep) "tcp_state k' = tcp_state k" "nrtx k' = nrtx k"
    | (give_up) "tcp_state k' = tcp_state k OR 0x10" "nrtx k' = nrtx k"
    | (again) "tcp_state k' = tcp_state k" "nrtx k' = nrtx k + 1" "nrtx k \<noteq> 8" "tcp_state k = 1 \<longrightarrow> nrtx k \<noteq> 5"
    using run
    by (auto simp: TCPClient_check_for_retransmit_def Let_def split: if_splits dest!: send_keeps_client)
  then show ?thesis
  proof cases
    case keep
    then show ?thesis using assms(1) by (intro client_movesI)
  next
    case give_up
    then show ?thesis using assms(1,2)
      by (auto simp: client_moves_def client_inv_def client_phase_def client_step_simps)
  next
    case again
    then show ?thesis using assms(1) nrtx_incr [of "nrtx k"] by (auto simp: client_moves_def client_inv_def)
  qed
qed

lemma client_moves_step:
  "client_inv k \<Longrightarrow> client_phase (tcp_state k) = Some a \<Longrightarrow> client_phase (tcp_state k') = Some b \<Longrightarrow>
   client_step a b \<Longrightarrow> nrtx k' \<le> 8 \<Longrightarrow> tcp_state k' \<noteq> 1 \<Longrightarrow> client_moves k k'"
  by (auto simp: client_moves_def client_inv_def)

lemma phase_simps [simp]:
  "client_phase 0 = Some Disconnected" "client_phase 1 = Some Wait_Syn_Ack" "client_phase 3 = Some Connected"
  "client_phase 8 = Some Last_Ack"
  by (simp_all add: client_phase_def)

lemma found_moves:
  assumes "client_inv k" and st: "tcp_state k = 1 \<or> tcp_state k = 3 \<or> tcp_state k = 8"
    and run: "TCPClient_found p k s = Some (b, k', s')"
  shows "client_moves k k'"
proof -
  define k1 where "k1 = TCPClient_ackingTest (buffer s) k"
  have k1: "tcp_state k1 = tcp_state k" "nrtx k1 = nrtx k" "client_inv k1"
    using assms(1) by (simp_all add: k1_def ackingTest_keeps client_inv_def)
  have n: "nrtx k \<le> 8" using assms(1) by (simp add: client_inv_def)
  have chk: "TCPClient_check_for_retransmit p k1 s = Some (b, k', s') \<Longrightarrow> client_moves k k'"
    using check_for_retransmit_moves [of k1 p s b k' s'] k1 st by (simp add: client_moves_def)
  consider (same) "k' = k"
    | (rst) "tcp_state k' = 0" "nrtx k' = nrtx k"
    | (est) "tcp_state k = 1" "tcp_state k' = 3" "nrtx k' = nrtx k"
    | (fin) "tcp_state k = 3" "tcp_state k' = 8" "nrtx k' = 0"
    | (data) "tcp_state k' = tcp_state k" "nrtx k' = nrtx k"
    | (check) "TCPClient_check_for_retransmit p k1 s = Some (b, k', s')"
    using run st
    by (simp add: TCPClient_found_def Let_def k1_def [symmetric] k1 split: if_splits)
      (auto dest!: send_keeps_client simp: k1)
  then show ?thesis
  proof cases
    case same
    then show ?thesis using assms(1) by (intro client_movesI) auto
  next
    case rst
    then show ?thesis using assms(1) st n
      by (intro client_moves_step [where b = Disconnected and a = "the (client_phase (tcp_state k))"])
        (auto intro: client_step.aborted)
  next
    case est
    then show ?thesis using assms(1) n
      by (intro client_moves_step [where b = Connected and a = Wait_Syn_Ack]) (auto intro: client_step.intros)
  next
    case fin
    then show ?thesis using assms(1)
      by (intro client_moves_step [where b = Last_Ack and a = Connected]) (auto intro: client_step.intros)
  next
    case data
    then show ?thesis using assms(1) by (intro client_movesI)
  next
    case check
    then show ?thesis by (rule chk)
  qed
qed

lemma incoming_moves:
  assumes "client_inv k" and st: "tcp_state k = 1 \<or> tcp_state k = 3 \<or> tcp_state k = 8"
    and run: "TCPClient_incoming p k s = Some (b, k', s')"
  shows "client_moves k k'"
proof -
  let ?r = "k\<lparr>nrcvd := nrcvd k + 1\<rparr>"
  let ?d = "?r\<lparr>ndropped := ndropped ?r + 1\<rparr>"
  have i: "client_inv ?r" "client_inv ?d" using assms(1) by (simp_all add: client_inv_def)
  have m: "client_moves ?r = client_moves k" "client_moves ?d = client_moves k"
    by (simp_all add: fun_eq_iff client_moves_def)
  consider (check) "TCPClient_check_for_retransmit p k s = Some (b, k', s')"
    | (dropped) "TCPClient_check_for_retransmit p ?d s = Some (b, k', s')"
    | (found) "TCPClient_found p ?r s = Some (b, k', s')"
    | (reset) "TCPClient_reset p ?r s = Some (b, k', s')"
    using run by (simp add: TCPClient_incoming_def Let_def split: if_splits)
  then show ?thesis
  proof cases
    case check
    with assms show ?thesis by (intro check_for_retransmit_moves)
  next
    case dropped
    with i st m show ?thesis using check_for_retransmit_moves [OF i(2), of p s b k' s'] by simp
  next
    case found
    with i st m show ?thesis using found_moves [OF i(1), of p s b k' s'] by simp
  next
    case reset
    then have "k' = ?r" by (rule send_keeps_client)
    then show ?thesis using assms(1) by (intro client_movesI) simp_all
  qed
qed

lemma havePacket_moves:
  assumes "client_inv k" and run: "TCPClient_havePacket p k s = Some (b, k', s')"
  shows "client_moves k k'"
proof -
  obtain k1 s1 where k1: "tcp_state k1 = tcp_state k" "nrtx k1 = nrtx k"
    and r: "(if tcp_state k1 = 0 then TCPClient_drop k1 s1
      else if tcp_state k1 AND 0x10 \<noteq> 0 then TCPClient_drop (k1\<lparr>tcp_state := 0\<rparr>) s1
      else let (k, s) = TCPClient_periodic p k1 s1 in TCPClient_incoming p k s) = Some (b, k', s')"
  proof -
    define ks where "ks = (if appliFlags k \<noteq> 0
      then let (now, s) = EtherSia_millis p s in (k\<lparr>inactivity := now\<rparr>, s) else (k, s))"
    define q where "q = (fst ks)\<lparr>appliFlags := 0\<rparr>"
    define now where "now = EtherSia_millis p (snd ks)"
    define k1 where "k1 = (if 600000 \<le>s fst now - inactivity q then q\<lparr>appliFlags := appliFlags q OR UIP_RESET\<rparr> else q)"
    have "tcp_state k1 = tcp_state k" "nrtx k1 = nrtx k"
      by (simp_all add: k1_def q_def ks_def split_beta)
    moreover have "TCPClient_havePacket p k s =
      (if tcp_state k1 = 0 then TCPClient_drop k1 (snd now)
      else if tcp_state k1 AND 0x10 \<noteq> 0 then TCPClient_drop (k1\<lparr>tcp_state := 0\<rparr>) (snd now)
      else let (k, s) = TCPClient_periodic p k1 (snd now) in TCPClient_incoming p k s)"
      unfolding TCPClient_havePacket_def ks_def [symmetric]
      by (simp add: Let_def split_beta k1_def now_def q_def del: fst_conv snd_conv)
    ultimately show ?thesis using that run by metis
  qed
  show ?thesis
  proof (cases "tcp_state k = 0")
    case True
    then have "k' = k1" using r k1 by (simp add: TCPClient_drop_def)
    then show ?thesis using assms(1) k1 by (intro client_movesI) simp_all
  next
    case nz: False
    show ?thesis
    proof (cases "tcp_state k AND 0x10 = 0")
      case False
      then have "tcp_state k' = 0" "nrtx k' = nrtx k" using r k1 nz by (auto simp: TCPClient_drop_def)
      then show ?thesis using assms(1) nz
        by (intro client_moves_step [where b = Disconnected and a = "the (client_phase (tcp_state k))"])
          (auto intro!: client_step.aborted simp: client_inv_def client_phase_def split: if_splits)
    next
      case True
      obtain k2 s2 where p: "TCPClient_periodic p k1 s1 = (k2, s2)" by fastforce
      then have k2: "tcp_state k2 = tcp_state k" "nrtx k2 = nrtx k"
        using k1 by (auto simp: TCPClient_periodic_def Let_def split_beta split: if_splits)
      then have "client_inv k2" "tcp_state k2 = 1 \<or> tcp_state k2 = 3 \<or> tcp_state k2 = 8"
        using assms(1) nz True phase_live [of "tcp_state k"] by (auto simp: client_inv_def)
      moreover have "TCPClient_incoming p k2 s2 = Some (b, k', s')" using r k1 nz True p by simp
      ultimately have "client_moves k2 k'" by (rule incoming_moves)
      then show ?thesis using k2 by (simp add: client_moves_def)
    qed
  qed
qed

text \<open>
  C4. The client refines the connection phases: from a proper state, whatever packet and time it is
  given, \<open>havePacket\<close> stays in its phase or takes a step of \<open>client_step\<close>, ends in a proper state, and
  never counts more than 8 retransmissions, 5 of them for a SYN.
\<close>

theorem TCPClient_havePacket_refines_phases:
  assumes "client_inv k" "TCPClient_havePacket p k s = Some (b, k', s')"
  shows "client_inv k' \<and> (\<exists>x y. client_phase (tcp_state k) = Some x \<and> client_phase (tcp_state k') = Some y
     \<and> (x = y \<or> client_step x y))"
  using havePacket_moves [OF assms] by (auto simp: client_moves_def client_inv_def)

definition sample_client :: tcp_client where
  "sample_client = \<lparr>remoteAddress = [0xfe, 0x80, 0, 0, 0, 0, 0, 0, 0, 0, 0, 0, 0, 0, 0, 1],
     remoteMac = [2, 0, 0, 0, 0, 9], remotePort = 80, localPort = 40001, writePos = -1,
     remoteSeqNum = 100, localSeqNum = 7, tcp_state = 3, appliFlags = 0, unAckLen = 0, inactivity = 0,
     periodic = 0, timer = 3, rto = 3, sa = 0, sv = 16, nrtx = 0, nrcvd = 0, ndropped = 0,
     nrexmitSynAck = 0, nrexmitData = 0, nrexmitFinAck = 0\<rparr>"

text \<open>Segments from port 80 of the peer to the client: two bytes of data, a SYN and ACK, a bare ACK.\<close>

definition sample_client_data :: "unit ether" where
  "sample_client_data = sample_ether\<lparr>buffer := wr_bytes (\<lambda>_. 0) 12
     ([0x86, 0xdd, 0x60, 0, 0, 0, 0, 22, 6, 64] @ [0xfe, 0x80, 0, 0, 0, 0, 0, 0, 0, 0, 0, 0, 0, 0, 0, 1]
      @ [0xfe, 0x80, 0, 0, 0, 0, 0, 0, 0, 0, 0, 0, 0, 0, 0, 2]
      @ [0, 0x50, 0x9c, 0x41, 0, 0, 0, 0x64, 0, 0, 0, 8, 0x50, 0x18, 0x10, 0, 0xbe, 0x83, 0, 0, 0x47, 0x45])\<rparr>"

definition sample_syn_ack :: "unit ether" where
  "sample_syn_ack = sample_ether\<lparr>buffer := wr_bytes (\<lambda>_. 0) 12
     ([0x86, 0xdd, 0x60, 0, 0, 0, 0, 20, 6, 64] @ [0xfe, 0x80, 0, 0, 0, 0, 0, 0, 0, 0, 0, 0, 0, 0, 0, 1]
      @ [0xfe, 0x80, 0, 0, 0, 0, 0, 0, 0, 0, 0, 0, 0, 0, 0, 2]
      @ [0, 0x50, 0x9c, 0x41, 0, 0, 0, 0x64, 0, 0, 0, 8, 0x50, 0x12, 0x10, 0, 5, 0xd1, 0, 0])\<rparr>"

definition sample_ack :: "unit ether" where
  "sample_ack = sample_ether\<lparr>buffer := wr_bytes (\<lambda>_. 0) 12
     ([0x86, 0xdd, 0x60, 0, 0, 0, 0, 20, 6, 64] @ [0xfe, 0x80, 0, 0, 0, 0, 0, 0, 0, 0, 0, 0, 0, 0, 0, 1]
      @ [0xfe, 0x80, 0, 0, 0, 0, 0, 0, 0, 0, 0, 0, 0, 0, 0, 2]
      @ [0, 0x50, 0x9c, 0x41, 0, 0, 0, 0x64, 0, 0, 0, 8, 0x50, 0x10, 0x10, 0, 5, 0xd3, 0, 0])\<rparr>"

lemma TCPClient_havePacket_refines_phases_witness:
  "\<exists>b k' s'. TCPClient_havePacket one_frame_platform (sample_client\<lparr>tcp_state := 0x11\<rparr>) (with_frame sample_ether [])
     = Some (b, k', s') \<and> client_inv k' \<and> tcp_state k' = 0"
proof -
  let ?k = "sample_client\<lparr>tcp_state := 0x11\<rparr>" and ?s = "with_frame sample_ether []"
  have i: "client_inv ?k" by code_simp
  have "map_option (\<lambda>(b, k, s). tcp_state k) (TCPClient_havePacket one_frame_platform ?k ?s) = Some 0"
    by code_simp
  then obtain b k' s' where r: "TCPClient_havePacket one_frame_platform ?k ?s = Some (b, k', s')" "tcp_state k' = 0"
    by auto
  show ?thesis using TCPClient_havePacket_refines_phases [OF i r(1)] r by blast
qed

definition for_client :: "'a tcp_client_scheme \<Rightarrow> 'd ether \<Rightarrow> bool" where
  "for_client k s \<longleftrightarrow> bufferContainsReceived s \<and> IPv6Packet_isValid 600 (buffer s) = Some True
     \<and> IPv6Address_eq (IPv6Packet_destination (buffer s)) (linkLocalAddress s)
     \<and> IPv6Address_eq (IPv6Packet_source (buffer s)) (remoteAddress k)
     \<and> IPv6Packet_protocol (buffer s) = IP6_PROTO_TCP
     \<and> ntohs (ld16 (buffer s) tcp_sourcePort) = remotePort k
     \<and> ntohs (ld16 (buffer s) tcp_destinationPort) = localPort k
     \<and> buffer s tcp_flags AND TCP_FLAG_RST = 0"

lemma incoming_found:
  "for_client k s \<Longrightarrow> TCPClient_incoming p k s = TCPClient_found p (k\<lparr>nrcvd := nrcvd k + 1\<rparr>) s"
  by (simp add: for_client_def TCPClient_incoming_def IPv6Address_neq_def Let_def)

lemma send_flags_sends:
  assumes "wf_ether s" "IPv6Packet_isValid 600 (buffer s) = Some True"
  shows "\<exists>m r. TCPClient_tcp_send_nodata_reply p k (s\<lparr>buffer := st8 (buffer s) 67 f\<rparr>)
       = map_option (\<lambda>s'. (appliFlags k AND UIP_NEWDATA \<noteq> 0, k, s')) r \<and> sends p s m r
     \<and> client_segment k m \<and> m 67 = f \<and> IPv6Packet_payloadLength m = 20 \<and> m 66 = 0x50
     \<and> IPv6Packet_destination m = IPv6Packet_source (buffer s)
     \<and> IPv6Packet_etherDestination m = IPv6Packet_etherSource (buffer s) \<and> IPv6Packet_etherSource m = localMac s
     \<and> IPv6Packet_source m = reply_source s
     \<and> (\<forall>n. rd_bytes m 78 n = rd_bytes (buffer s) 78 n)"
proof -
  let ?t = "s\<lparr>buffer := st8 (buffer s) 67 f\<rparr>"
  have "wf_ether ?t" "IPv6Packet_etherType (buffer ?t) = ETHER_TYPE_IPV6" "IPv6Packet_version (buffer ?t) = 6"
    "buffer ?t 67 = f" "IPv6Packet_source (buffer ?t) = IPv6Packet_source (buffer s)"
    "IPv6Packet_etherSource (buffer ?t) = IPv6Packet_etherSource (buffer s)" "reply_source ?t = reply_source s"
    "\<forall>n. rd_bytes (buffer ?t) 78 n = rd_bytes (buffer s) 78 n"
    using assms(1) valid_header [OF assms(2)] by (simp_all add: hdr_simps reply_source_def)
  then show ?thesis
    using send_nodata_reply_sends [of ?t p k] by simp
qed

lemma send_ack_sends:
  assumes "wf_ether s" "IPv6Packet_isValid 600 (buffer s) = Some True"
  shows "\<exists>m r. TCPClient_tcp_send_ack p k s
       = map_option (\<lambda>s'. (appliFlags k AND UIP_NEWDATA \<noteq> 0, k, s')) r \<and> sends p s m r
     \<and> client_segment k m \<and> m 67 = TCP_FLAG_ACK \<and> IPv6Packet_payloadLength m = 20 \<and> m 66 = 0x50
     \<and> IPv6Packet_destination m = IPv6Packet_source (buffer s)
     \<and> IPv6Packet_etherDestination m = IPv6Packet_etherSource (buffer s) \<and> IPv6Packet_etherSource m = localMac s
     \<and> IPv6Packet_source m = reply_source s
     \<and> (\<forall>n. rd_bytes m 78 n = rd_bytes (buffer s) 78 n)"
  unfolding TCPClient_tcp_send_ack_def by (rule send_flags_sends [OF assms])



lemma and_or_neq_0: "(x :: byte) AND a \<noteq> 0 \<Longrightarrow> x AND (b OR a) \<noteq> 0"
  by (auto simp: bit.conj_disj_distrib or_eq_0_iff)

text \<open>
  A connection is established by a segment that acknowledges the SYN: the client moves to the
  connected state, expects the number after the peer's, tells the application it is connected, and
  acknowledges with one valid segment. The SYN flag of the segment is not needed: a bare ACK with the
  right number does the same.
\<close>

theorem TCPClient_establishes:
  assumes "wf_ether s" "for_client k s" "tcp_state k = TCP_STATE_WAIT_SYN_ACK" "0 < unAckLen k"
    "buffer s tcp_flags AND TCP_FLAG_ACK \<noteq> 0"
    "ntohl (ld32 (buffer s) tcp_acknowledgementNum) = localSeqNum k + ucast (unAckLen k)"
  shows "\<exists>m r k'. TCPClient_incoming p k s = map_option (\<lambda>s'. (False, k', s')) r \<and> sends p s m r
     \<and> TCPClient_connected k' \<and> TCPClient_synacked k' \<and> unAckLen k' = 0
     \<and> remoteSeqNum k' = ntohl (ld32 (buffer s) tcp_sequenceNum) + 1
     \<and> localSeqNum k' = localSeqNum k + ucast (unAckLen k)
     \<and> m tcp_flags = TCP_FLAG_ACK \<and> client_segment k' m \<and> IPv6Packet_payloadLength m = 20 \<and> m tcp_dataOffset = 0x50
     \<and> IPv6Packet_destination m = IPv6Packet_source (buffer s)
     \<and> IPv6Packet_etherDestination m = IPv6Packet_etherSource (buffer s) \<and> IPv6Packet_etherSource m = localMac s
     \<and> IPv6Packet_source m = reply_source s
     \<and> tcp_state k' = TCP_STATE_CONNECTED \<and> remoteAddress k' = remoteAddress k \<and> remoteMac k' = remoteMac k
     \<and> remotePort k' = remotePort k \<and> localPort k' = localPort k \<and> appliFlags k' = UIP_CONNECTED
     \<and> inactivity k' = inactivity k \<and> periodic k' = periodic k"
proof -
  define k1 where "k1 = k\<lparr>nrcvd := nrcvd k + 1\<rparr>"
  define k2 where "k2 = TCPClient_ackingTest (buffer s) k1"
  define k3 where "k3 = k2\<lparr>tcp_state := 3, remoteSeqNum := ntohl (ld32 (buffer s) 58) + 1, appliFlags := 64\<rparr>"
  have v: "IPv6Packet_isValid 600 (buffer s) = Some True" using assms(2) by (simp add: for_client_def)
  have k2: "appliFlags k2 = 1" "unAckLen k2 = 0" "localSeqNum k2 = localSeqNum k + ucast (unAckLen k)"
    "tcp_state k2 = 1" "remoteAddress k2 = remoteAddress k" "remoteMac k2 = remoteMac k" "remotePort k2 = remotePort k"
    "localPort k2 = localPort k" "inactivity k2 = inactivity k" "periodic k2 = periodic k"
    using assms(3-6)
    by (simp_all add: k2_def k1_def TCPClient_ackingTest_def TCPClient_updateRTT_def Let_def)
  have fl: "buffer s 67 AND (2 OR 16) \<noteq> 0" by (rule and_or_neq_0 [OF assms(5)])
  have run: "TCPClient_incoming p k s = TCPClient_tcp_send_ack p k3 s"
    unfolding incoming_found [OF assms(2)] k1_def [symmetric] TCPClient_found_def Let_def k2_def [symmetric]
    using fl k2 assms(2,3) by (simp add: for_client_def k3_def) (simp add: k1_def)
  have nd: "(appliFlags k3 AND UIP_NEWDATA \<noteq> 0) = False" by (simp add: k3_def)
  obtain m r where "TCPClient_tcp_send_ack p k3 s = map_option (\<lambda>s'. (False, k3, s')) r" "sends p s m r"
    "client_segment k3 m" "m 67 = 16" "IPv6Packet_payloadLength m = 20" "m 66 = 0x50"
    "IPv6Packet_destination m = IPv6Packet_source (buffer s)"
    "IPv6Packet_etherDestination m = IPv6Packet_etherSource (buffer s)" "IPv6Packet_etherSource m = localMac s"
    "IPv6Packet_source m = reply_source s"
    using send_ack_sends [OF assms(1) v, of p k3] unfolding nd by blast
  then show ?thesis
    by (intro exI [of _ m] exI [of _ r] exI [of _ k3])
      (simp add: run k3_def k2 TCPClient_connected_def TCPClient_synacked_def)
qed

lemma TCPClient_establishes_witness:
  "\<exists>m r k'. TCPClient_incoming quiet_platform (sample_client\<lparr>tcp_state := 1, unAckLen := 1, remoteSeqNum := 0\<rparr>) sample_ack
       = map_option (\<lambda>s'. (False, k', s')) r
     \<and> TCPClient_connected k' \<and> remoteSeqNum k' = 101"
proof -
  let ?k = "sample_client\<lparr>tcp_state := 1, unAckLen := 1, remoteSeqNum := 0\<rparr>"
  have "wf_ether sample_ack" "for_client ?k sample_ack" "tcp_state ?k = 1" "0 < unAckLen ?k"
    "buffer sample_ack 67 AND 16 \<noteq> 0" "ntohl (ld32 (buffer sample_ack) 62) = localSeqNum ?k + ucast (unAckLen ?k)"
    by code_simp+
  note t = TCPClient_establishes [OF this, of quiet_platform]
  have "ntohl (ld32 (buffer sample_ack) 58) + 1 = 101" by code_simp
  with t show ?thesis by simp blast
qed

text \<open>
  The reset sent for a segment to a port no longer in use goes to the wrong port: the destination
  port field is stored without conversion, so on the network it is the byte-swapped remote port.
\<close>

theorem TCPClient_reset_swaps_port:
  assumes "wf_ether s" "IPv6Packet_isValid 600 (buffer s) = Some True" "buffer s tcp_flags AND TCP_FLAG_RST = 0"
  shows "\<exists>m r. TCPClient_reset p k s = map_option (\<lambda>s'. (appliFlags k AND UIP_NEWDATA \<noteq> 0, k, s')) r
     \<and> sends p s m r \<and> m tcp_flags = TCP_FLAG_RST OR TCP_FLAG_ACK
     \<and> IPv6Packet_destination m = IPv6Packet_source (buffer s)
     \<and> ntohl (ld32 m tcp_acknowledgementNum) = ntohl (ld32 (buffer s) tcp_sequenceNum) + 1
     \<and> ntohs (ld16 m tcp_destinationPort) = htons (remotePort k)"
proof -
  let ?t = "EtherSia_prepareReply (s\<lparr>buffer := st8 (buffer s) 67 20\<rparr>)"
  let ?m0 = "st16 (st16 (IPv6Packet_setPayloadLength (st8 (st32 (st32 (st16 (st16 (IPv6Packet_setProtocol (buffer ?t) 6)
      54 (ld16 (buffer s) 56)) 56 (remotePort k)) 58 (ld32 (buffer s) 62)) 62 (htonl (ntohl (ld32 (buffer s) 58) + 1)))
      66 0x50) 20) 68 (htons (600 - 14 - 40 - 24 - 32))) 72 0"
  have w: "wf_ether (s\<lparr>buffer := st8 (buffer s) 67 20\<rparr>)" using assms(1) by simp
  have h: "IPv6Packet_etherType ?m0 = ETHER_TYPE_IPV6" "IPv6Packet_version ?m0 = 6" "IPv6Packet_payloadLength ?m0 = 20"
    using valid_header [OF assms(2)] w by (simp_all add: hdr_simps prep_simps del: wf_ether_upd)
  then obtain c where x: "sends p ?t (st16 ?m0 70 (htons c)) (seal_and_send p 70 (?t\<lparr>buffer := ?m0\<rparr>))"
    using seal_and_send_sends [of "?t\<lparr>buffer := ?m0\<rparr>" 70 p] by auto
  have run: "TCPClient_reset p k s = map_option (\<lambda>s'. (appliFlags k AND UIP_NEWDATA \<noteq> 0, k, s'))
      (seal_and_send p 70 (?t\<lparr>buffer := ?m0\<rparr>))"
    using assms(3) w
    by (simp add: TCPClient_reset_def TCPClient_drop_def seal_and_send_def Let_def hdr_simps prep_simps map_option_bind
        bind_map_option comp_def split: Option.bind_split del: wf_ether_upd)
  show ?thesis
    by (rule exI [of _ "st16 ?m0 70 (htons c)"], rule exI [of _ "seal_and_send p 70 (?t\<lparr>buffer := ?m0\<rparr>)"])
      (use x run w in \<open>simp add: hdr_simps prep_simps ntohs_def ntohl_def del: wf_ether_upd\<close>)
qed

lemma TCPClient_reset_swaps_port_witness:
  "\<exists>m r. TCPClient_reset quiet_platform sample_client sample_ack = map_option (\<lambda>s'. (False, sample_client, s')) r
     \<and> sends quiet_platform sample_ack m r \<and> ntohs (ld16 m tcp_destinationPort) = 20480"
proof -
  have "wf_ether sample_ack" "IPv6Packet_isValid 600 (buffer sample_ack) = Some True" "buffer sample_ack 67 AND 4 = 0"
    by code_simp+
  note t = TCPClient_reset_swaps_port [OF this, of quiet_platform sample_client]
  have "htons (remotePort sample_client) = 20480" "appliFlags sample_client AND 2 = 0" by code_simp+
  with t show ?thesis by simp blast
qed

end
