(* ===== verification/Sketches.thy ===== *)
theory Sketches
  imports WebToggler Application_Monitor Syslog TCP_Client
begin

text \<open>
  The main loops of the other sketches of \<open>src/examples/\<close>: one function for each \<open>loop\<close>, over what the sketch keeps
  in variables, its socket and the interface. What they write to the serial port is left out, apart from the time
  that \<open>displayTime\<close> of the SNTP client prints. \<open>millis()\<close> differences are compared signed, as the code casts them to
  \<open>long\<close>.
\<close>

section \<open>NanodeUDPServer.ino\<close>

abbreviation (input) NANODE_LED_PIN :: byte where "NANODE_LED_PIN \<equiv> 6"

text \<open>The part of the loop for a packet of the socket: \<open>LOW\<close> is \<open>False\<close> and turns the LED on.\<close>

definition NanodeUDPServer_answer ::
    "'d platform \<Rightarrow> 'b gpio \<Rightarrow> 'b \<Rightarrow> socket \<Rightarrow> 'd ether \<Rightarrow> ('b \<times> socket \<times> 'd ether) option" where
  "NanodeUDPServer_answer p g b udp s = do {
     on \<leftarrow> Socket_payloadEquals (UDPSocket_vt :: ('d, socket) socket_vt) (chars ''on'') s;
     if on then do {
       let b = digitalWrite g NANODE_LED_PIN False b;
       (udp, s) \<leftarrow> Socket_sendReply_data UDPSocket_vt p (chars ''ok'') udp s;
       Some (b, udp, s)
     }
     else do {
       off \<leftarrow> Socket_payloadEquals (UDPSocket_vt :: ('d, socket) socket_vt) (chars ''off'') s;
       if off then do {
         let b = digitalWrite g NANODE_LED_PIN True b;
         (udp, s) \<leftarrow> Socket_sendReply_data UDPSocket_vt p (chars ''ok'') udp s;
         Some (b, udp, s)
       }
       else do {
         (udp, s) \<leftarrow> Socket_sendReply_data UDPSocket_vt p (chars ''err'') udp s;
         Some (b, udp, s)
       }
     }
   }"

definition NanodeUDPServer_loop ::
    "'d platform \<Rightarrow> 'b gpio \<Rightarrow> 'b \<times> socket \<times> 'd ether \<Rightarrow> ('b \<times> socket \<times> 'd ether) option" where
  "NanodeUDPServer_loop p g = (\<lambda>(b, udp, s). do {
     (_, s) \<leftarrow> EtherSia_receivePacket p s;
     if UDPSocket_havePacket udp s then NanodeUDPServer_answer p g b udp s
     else do { s \<leftarrow> EtherSia_rejectPacket p s; Some (b, udp, s) }
   })"

section \<open>MiniHTTPServer.ino\<close>

definition MiniHTTPServer_page ::
    "'d platform \<Rightarrow> byte list \<Rightarrow> byte list \<Rightarrow> http_server \<Rightarrow> 'd ether \<Rightarrow> (http_server \<times> 'd ether) option" where
  "MiniHTTPServer_page p type content http s = do {
     (http, s) \<leftarrow> HTTPServer_printHeaders p type HTTPServer_status200 http s;
     (http, s) \<leftarrow> Socket_println TCPServer_vt p content http s;
     Socket_sendReply_written TCPServer_vt p http s
   }"

definition MiniHTTPServer_loop ::
    "'d platform \<Rightarrow> http_server \<times> 'd ether \<Rightarrow> (http_server \<times> 'd ether) option" where
  "MiniHTTPServer_loop p = (\<lambda>(http, s). do {
     (_, s) \<leftarrow> EtherSia_receivePacket p s;
     (index, http, s) \<leftarrow> HTTPServer_isGet p (chars ''/'') http s;
     if index then MiniHTTPServer_page p HTTPServer_typeHtml (chars ''<h1>Hello World</h1>'') http s
     else do {
       (plain, http, s) \<leftarrow> HTTPServer_isGet p (chars ''/text'') http s;
       if plain then MiniHTTPServer_page p HTTPServer_typePlain (chars ''This is some plain text'') http s
       else do {
         (have_packet, http, s) \<leftarrow> TCPServer_havePacket p http s;
         if have_packet then HTTPServer_notFound p http s
         else do { s \<leftarrow> EtherSia_rejectPacket p s; Some (http, s) }
       }
     }
   })"

section \<open>NanodeUDPClient.ino and Syslog.ino\<close>

text \<open>\<open>time_reached now t\<close> is \<open>(long)(now - t) >= 0\<close>.\<close>

definition NanodeUDPClient_loop ::
    "'d platform \<Rightarrow> u32 \<times> socket \<times> 'd ether \<Rightarrow> (u32 \<times> socket \<times> 'd ether) option" where
  "NanodeUDPClient_loop p = (\<lambda>(nextMessage, udp, s). do {
     (_, s) \<leftarrow> EtherSia_receivePacket p s;
     let (now, s) = EtherSia_millis p s;
     (nextMessage, udp, s) \<leftarrow>
       (if time_reached now nextMessage then do {
          (udp, s) \<leftarrow> Socket_println UDPSocket_vt p (chars ''Hello World!'') udp s;
          (udp, s) \<leftarrow> Socket_send_written UDPSocket_vt p False udp s;
          let (now, s) = EtherSia_millis p s;
          Some (now + 5000, udp, s)
        } else Some (nextMessage, udp, s));
     s \<leftarrow> EtherSia_rejectPacket p s;
     Some (nextMessage, udp, s)
   })"

definition Syslog_example_loop ::
    "'d platform \<Rightarrow> u32 \<times> syslog \<times> 'd ether \<Rightarrow> (u32 \<times> syslog \<times> 'd ether) option" where
  "Syslog_example_loop p = (\<lambda>(nextMessage, k, s). do {
     (_, s) \<leftarrow> EtherSia_receivePacket p s;
     let (now, s) = EtherSia_millis p s;
     (nextMessage, k, s) \<leftarrow>
       (if time_reached now nextMessage then do {
          (k, s) \<leftarrow> Socket_print Syslog_vt p (chars ''Seconds since boot='') k s;
          let (now, s) = EtherSia_millis p s;
          (k, s) \<leftarrow> Socket_println Syslog_vt p (printf_u (unat (now div 1000))) k s;
          let (now, s) = EtherSia_millis p s;
          Some (now + 5000, k, s)
        } else Some (nextMessage, k, s));
     s \<leftarrow> EtherSia_rejectPacket p s;
     Some (nextMessage, k, s)
   })"

section \<open>SNTPClient.ino\<close>

text \<open>\<open>ntp.h\<close>: the size of \<open>struct ntpStructure\<close> and the offsets of the members that are used.\<close>

abbreviation (input) NTP_PORT :: u16 where "NTP_PORT \<equiv> 123"
abbreviation (input) sizeof_ntpType :: nat where "sizeof_ntpType \<equiv> 48"
abbreviation (input) ntp_stratum :: nat where "ntp_stratum \<equiv> 1"
abbreviation (input) ntp_transmitTimestampSeconds :: nat where "ntp_transmitTimestampSeconds \<equiv> 40"

abbreviation (input) DEFAULT_POLLING_INTERVAL :: u32 where "DEFAULT_POLLING_INTERVAL \<equiv> 15"

text \<open>The global variables; \<open>displayed\<close> is what \<open>displayTime\<close> has printed.\<close>

record sntp =
  needNewServer :: bool
  nextRequest :: u32
  pollingInterval :: u32
  displayed :: "byte list"

definition SNTPClient_new :: "u32 \<Rightarrow> sntp" where
  "SNTPClient_new now =
     \<lparr>needNewServer = True, nextRequest = now, pollingInterval = DEFAULT_POLLING_INTERVAL, displayed = []\<rparr>"

definition print_ulong :: "u32 \<Rightarrow> byte list" where
  "print_ulong w = printf_u (unat w)"

definition displayTime :: "u32 \<Rightarrow> byte list" where
  "displayTime secs =
     (let epoch = secs - 2208988800 in
      chars ''Seconds since Jan 1 1900 = '' @ print_ulong secs @ crlf
      @ chars ''Unix time = '' @ print_ulong epoch @ crlf
      @ chars ''The UTC time is '' @ print_ulong ((epoch mod 86400) div 3600) @ chars '':''
      @ (if (epoch mod 3600) div 60 < 10 then chars ''0'' else []) @ print_ulong ((epoch mod 3600) div 60) @ chars '':''
      @ (if epoch mod 60 < 10 then chars ''0'' else []) @ print_ulong (epoch mod 60) @ crlf @ crlf)"

text \<open>What is done with a packet of the socket; the value tells whether the loop returns at once.\<close>

definition SNTPClient_reply :: "'d platform \<Rightarrow> sntp \<Rightarrow> 'd ether \<Rightarrow> (bool \<times> sntp \<times> 'd ether) option" where
  "SNTPClient_reply p n s =
     (let ntpPacket = UDPSocket_payload s in do {
        stratum \<leftarrow> buf_at (buffer s) (ntpPacket + ntp_stratum);
        if stratum = 0 then Some (True, n\<lparr>needNewServer := True\<rparr>, s)
        else do {
          _ \<leftarrow> buf_rd (buffer s) (ntpPacket + ntp_transmitTimestampSeconds) 4;
          let n = n\<lparr>displayed := displayed n
            @ displayTime (ntohl (ld32 (buffer s) (ntpPacket + ntp_transmitTimestampSeconds)))\<rparr>;
          let n = n\<lparr>pollingInterval := DEFAULT_POLLING_INTERVAL\<rparr>;
          let (now, s) = EtherSia_millis p s;
          Some (False, n\<lparr>nextRequest := now + pollingInterval n * 1000\<rparr>, s)
        }
      })"

text \<open>The end of the loop: the request, when it is due.\<close>

definition SNTPClient_request ::
    "'d platform \<Rightarrow> sntp \<Rightarrow> socket \<Rightarrow> 'd ether \<Rightarrow> (sntp \<times> socket \<times> 'd ether) option" where
  "SNTPClient_request p n udp s =
     (let (now, s) = EtherSia_millis p s in
      if time_reached now (nextRequest n) then do {
        (udp, s) \<leftarrow> Socket_send_data UDPSocket_vt p (0xE3 # replicate (sizeof_ntpType - 1) 0) False udp s;
        let n = n\<lparr>pollingInterval := pollingInterval n * 2\<rparr>;
        let (now, s) = EtherSia_millis p s;
        Some (n\<lparr>nextRequest := now + pollingInterval n * 1000\<rparr>, udp, s)
      }
      else Some (n, udp, s))"

definition SNTPClient_loop ::
    "'d platform \<Rightarrow> sntp \<times> socket \<times> 'd ether \<Rightarrow> (sntp \<times> socket \<times> 'd ether) option" where
  "SNTPClient_loop p = (\<lambda>(n, udp, s). do {
     (_, s) \<leftarrow> EtherSia_receivePacket p s;
     (ready, n, udp, s) \<leftarrow>
       (if needNewServer n then do {
          (ok, udp, s) \<leftarrow> Socket_setRemoteAddress_str p (chars ''time.ethersia.aelius.com'') NTP_PORT udp s;
          if ok then Some (True, n\<lparr>needNewServer := False\<rparr>, udp, s)
          else Some (False, n, udp, s\<lparr>dev := delay_ms p 60000 (dev s)\<rparr>)
        } else Some (True, n, udp, s));
     if \<not> ready then Some (n, udp, s)
     else do {
       (leave, n, s) \<leftarrow>
         (if UDPSocket_havePacket udp s then SNTPClient_reply p n s
          else do { s \<leftarrow> EtherSia_rejectPacket p s; Some (False, n, s) });
       if leave then Some (n, udp, s) else SNTPClient_request p n udp s
     }
   })"

section \<open>The LED over UDP\<close>

text \<open>
  What \<open>payloadEquals\<close> finds equal: \<open>strncmp\<close> with the length of the payload accepts every beginning of the string,
  the empty payload too.
\<close>

definition payload_matches :: "byte list \<Rightarrow> byte list \<Rightarrow> bool" where
  "payload_matches payload str \<longleftrightarrow> take (length payload) str = payload \<or> take (length str + 1) payload = str @ [0]"

lemma payload_matches_simps [simp]:
  "payload_matches [] str" "payload_matches (c # payload) [] \<longleftrightarrow> c = 0"
  "cstr (d # str) \<Longrightarrow> payload_matches (c # payload) (d # str) \<longleftrightarrow> c = d \<and> payload_matches payload str"
  by (auto simp: payload_matches_def)

lemma strncmp_matches:
  "rd_bytes m off (length payload) = payload \<Longrightarrow> off + length payload \<le> 600 \<Longrightarrow> cstr str \<Longrightarrow>
   strncmp_eq m off str (length payload) = Some (payload_matches payload str)"
proof (induction str arbitrary: off payload)
  case Nil
  then show ?case by (cases payload) (auto simp: buf_at_def rd_bytes_Suc)
next
  case (Cons d str)
  then show ?case by (cases payload) (auto simp: buf_at_def rd_bytes_Suc cstr_def)
qed

definition datagram :: "'d ether \<Rightarrow> byte list" where
  "datagram s = rd_bytes (buffer s) (UDPSocket_payload s) (unat (UDPSocket_payloadLength s))"

lemma payloadEquals_matches:
  assumes "62 + length (datagram s) \<le> 600" "cstr str"
  shows "Socket_payloadEquals (UDPSocket_vt :: ('d, socket) socket_vt) str s = Some (payload_matches (datagram s) str)"
  using strncmp_matches [of "buffer s" 62 "datagram s" str] assms
  by (simp add: Socket_payloadEquals_def UDPSocket_vt_def UDPSocket_payload_def datagram_def)

text \<open>A reply on a UDP socket: one valid packet back to where the received one came from.\<close>

lemma UDP_reply_run:
  assumes "wf_ether s" "IPv6Packet_etherType (buffer s) = ETHER_TYPE_IPV6" "IPv6Packet_version (buffer s) = 6"
    "length data \<le> 538"
  shows "\<exists>m r. Socket_sendReply_data UDPSocket_vt p data k s = map_option (Pair k) r \<and> sends p s m r
     \<and> IPv6Packet_protocol m = IP6_PROTO_UDP \<and> unat (IPv6Packet_payloadLength m) = 8 + length data
     \<and> rd_bytes m 62 (length data) = data
     \<and> IPv6Packet_destination m = IPv6Packet_source (buffer s)
     \<and> ntohs (ld16 m udp_sourcePort) = localPort k
     \<and> ntohs (ld16 m udp_destinationPort) = UDPSocket_packetSourcePort s"
proof -
  let ?len = "word_of_nat (length data) :: u16"
  let ?s = "s\<lparr>buffer := wr_bytes (buffer s) 62 data\<rparr>"
  let ?t = "EtherSia_prepareReply ?s"
  have len: "unat ?len = length data" "unat (8 + ?len) = 8 + length data"
    using assms(4) by (simp_all add: unsigned_of_nat take_bit_eq_mod unat_word_ariths)
  have w: "wf_ether ?s" using assms(1) by simp
  have t: "IPv6Packet_etherType (buffer ?t) = ETHER_TYPE_IPV6" "IPv6Packet_version (buffer ?t) = 6"
    "IPv6Packet_destination (buffer ?t) = IPv6Packet_source (buffer s)"
    "rd_bytes (buffer ?t) 62 (length data) = data" "ld16 (buffer ?t) 54 = ld16 (buffer s) 54"
    using w assms(2,3) by (simp_all add: prep_simps hdr_simps rd_wr_same)
  have run: "Socket_sendReply_data UDPSocket_vt p data k s = UDPSocket_sendInternal p ?len True k ?t"
    using assms(4) by (simp add: Socket_sendReply_data_def Socket_send_data_def Socket_send_def buf_wr_def UDPSocket_vt_def
        UDPSocket_payload_def Socket_prepare_def)
  from UDP_sendInternal_sends [OF t(1,2), of ?len p True k] len(1) assms(4)
  obtain m r where x: "UDPSocket_sendInternal p ?len True k ?t = map_option (Pair k) r" "sends p ?t m r"
    "IPv6Packet_protocol m = 17" "IPv6Packet_payloadLength m = 8 + ?len"
    "ntohs (ld16 m 54) = localPort k" "ntohs (ld16 m 56) = ntohs (ld16 (buffer ?t) 54)"
    and keep: "\<And>i. i < 18 \<or> (21 \<le> i \<and> i < 54) \<or> 62 \<le> i \<Longrightarrow> m i = buffer ?t i"
    by auto
  have "IPv6Packet_destination m = IPv6Packet_destination (buffer ?t)"
    unfolding field_defs by (rule rd_bytes_cong, rule keep, linarith)
  moreover have "rd_bytes m 62 (length data) = rd_bytes (buffer ?t) 62 (length data)"
    by (rule rd_bytes_cong, rule keep) linarith
  ultimately show ?thesis
    using run x t len by (intro exI [of _ m] exI [of _ r]) (simp add: UDPSocket_packetSourcePort_def)
qed

text \<open>
  C38. The LED is controlled over UDP: each datagram for the socket of \<open>NanodeUDPServer\<close> is answered with one valid
  datagram to the port and address it came from, \<open>ok\<close> if the LED was switched and \<open>err\<close> otherwise; the pin is set
  \<open>LOW\<close>, which is on, for what \<open>payloadEquals\<close> takes for \<open>on\<close>, and \<open>HIGH\<close> for what it takes for \<open>off\<close>.
  The beginnings of the two words, which are taken for them, make it switch too, an empty datagram makes it switch on.
\<close>

theorem NanodeUDPServer_controls_LED:
  assumes "EtherSia_receivePacket p s = Some (n, s1)" "wf_ether s1" "IPv6Packet_isValid 600 (buffer s1) = Some True"
    "UDPSocket_havePacket udp s1" "62 + length (datagram s1) \<le> 600"
  defines "on \<equiv> payload_matches (datagram s1) (chars ''on'')" and "off \<equiv> payload_matches (datagram s1) (chars ''off'')"
  defines "answer \<equiv> if on \<or> off then chars ''ok'' else chars ''err''"
  shows "\<exists>m r. NanodeUDPServer_loop p g (b, udp, s) = map_option (\<lambda>s'.
       (if on \<or> off then digitalWrite g NANODE_LED_PIN (\<not> on) b else b, udp, s')) r
     \<and> sends p s1 m r \<and> IPv6Packet_protocol m = IP6_PROTO_UDP
     \<and> unat (IPv6Packet_payloadLength m) = 8 + length answer \<and> rd_bytes m 62 (length answer) = answer
     \<and> IPv6Packet_destination m = IPv6Packet_source (buffer s1)
     \<and> ntohs (ld16 m udp_sourcePort) = localPort udp
     \<and> ntohs (ld16 m udp_destinationPort) = UDPSocket_packetSourcePort s1"
proof -
  have texts: "cstr (chars ''on'')" "cstr (chars ''off'')" "length answer \<le> 538"
    by (simp_all add: cstr_def chars_def answer_def)
  have run: "NanodeUDPServer_loop p g (b, udp, s) = do {
       (udp, s) \<leftarrow> Socket_sendReply_data UDPSocket_vt p answer udp s1;
       Some (if on \<or> off then digitalWrite g NANODE_LED_PIN (\<not> on) b else b, udp, s)
     }"
    using payloadEquals_matches [OF assms(5) texts(1)] payloadEquals_matches [OF assms(5) texts(2)]
    by (simp add: NanodeUDPServer_loop_def NanodeUDPServer_answer_def assms(1,4) on_def off_def answer_def Let_def)
  note h = valid_header [OF assms(3)]
  obtain m r where x: "Socket_sendReply_data UDPSocket_vt p answer udp s1 = map_option (Pair udp) r" "sends p s1 m r"
    "IPv6Packet_protocol m = IP6_PROTO_UDP" "unat (IPv6Packet_payloadLength m) = 8 + length answer"
    "rd_bytes m 62 (length answer) = answer" "IPv6Packet_destination m = IPv6Packet_source (buffer s1)"
    "ntohs (ld16 m udp_sourcePort) = localPort udp" "ntohs (ld16 m udp_destinationPort) = UDPSocket_packetSourcePort s1"
    using UDP_reply_run [OF assms(2) _ _ texts(3), of p udp] h by auto
  then show ?thesis
    unfolding run by (intro exI [of _ m] exI [of _ r]) (cases r; simp)
qed

definition sample_on_frame :: "byte list" where
  "sample_on_frame = [2, 0, 0, 0, 0, 1, 2, 0, 0, 0, 0, 9, 134, 221, 96, 0, 0, 0, 0, 10, 17, 64, 254, 128, 0, 0, 0, 0, 0, 0, 0, 0, 0, 0, 0, 0, 0, 1, 254, 128, 0, 0, 0, 0, 0, 0, 0, 0, 0, 0, 0, 0, 0, 2, 156, 64, 4, 210, 0, 10, 242, 84, 111, 110]"

lemma NanodeUDPServer_controls_LED_witness:
  "\<exists>s' m. NanodeUDPServer_loop one_frame_platform sample_gpio (\<lambda>_. True, Socket_new 1234, with_frame sample_ether sample_on_frame)
       = Some ((\<lambda>_. True)(NANODE_LED_PIN := False), Socket_new 1234, s') \<and> buffer s' = m \<and> rd_bytes m 62 (length (chars ''ok'')) = chars ''ok''"
proof -
  let ?s = "with_frame sample_ether sample_on_frame" and ?s1 = "received_frame sample_on_frame"
  have v: "length sample_on_frame \<le> 600" "sample_on_frame \<noteq> []" "IPv6Packet_isValid 600 (wr_bytes (\<lambda>_. 0) 0 sample_on_frame) = Some True"
    "EtherSia_checkEthernetAddresses sample_ether (wr_bytes (\<lambda>_. 0) 0 sample_on_frame)"
    "IPv6Packet_protocol (wr_bytes (\<lambda>_. 0) 0 sample_on_frame) \<noteq> IP6_PROTO_ICMP6"
    by code_simp+
  note recv = one_frame_receives [OF v]
  have data: "datagram ?s1 = chars ''on''" by code_simp
  have other: "wf_ether ?s1" "UDPSocket_havePacket (Socket_new 1234) ?s1" "62 + length (datagram ?s1) \<le> 600" by code_simp+
  have valid: "IPv6Packet_isValid 600 (buffer ?s1) = Some True" using v(3) by simp
  have m: "payload_matches (chars ''on'') (chars ''on'')" by (simp add: payload_matches_def)
  obtain m r where x: "NanodeUDPServer_loop one_frame_platform sample_gpio (\<lambda>_. True, Socket_new 1234, ?s) = map_option (\<lambda>s'.
       (digitalWrite sample_gpio NANODE_LED_PIN False (\<lambda>_. True), Socket_new 1234, s')) r"
    "sends one_frame_platform ?s1 m r" "rd_bytes m 62 (length (chars ''ok'')) = chars ''ok''"
    using NanodeUDPServer_controls_LED [OF recv other(1) valid other(2,3), of sample_gpio "\<lambda>_. True"] m
    unfolding data by auto
  moreover obtain s' where "r = Some s'" "buffer s' = m" using one_frame_sends [OF x(2)] .
  ultimately show ?thesis by (auto simp: sample_gpio_def chars_def)
qed

section \<open>The pages of the small web server\<close>

lemma path_matches_eq: "0x3F \<notin> set pattern \<Longrightarrow> path_matches pattern path \<longleftrightarrow> pattern = path"
proof (induction pattern arbitrary: path)
  case Nil
  then show ?case by (cases path) auto
next
  case (Cons c pattern)
  then show ?case by (cases path) auto
qed

definition mini_response :: "byte list \<Rightarrow> byte list \<Rightarrow> byte list" where
  "mini_response word request =
     (if word = HTTPServer_methodGet \<and> request = chars ''/''
      then headers_text HTTPServer_typeHtml HTTPServer_status200 @ chars ''<h1>Hello World</h1>'' @ crlf
      else if word = HTTPServer_methodGet \<and> request = chars ''/text''
      then headers_text HTTPServer_typePlain HTTPServer_status200 @ chars ''This is some plain text'' @ crlf
      else headers_text HTTPServer_typePlain HTTPServer_status404 @ chars ''404 Not Found'' @ crlf)"

lemma mini_response_text:
  "mini_response word request \<noteq> []" "hd (mini_response word request) = 0x48" "length (mini_response word request) \<le> 522"
  by (simp_all add: mini_response_def headers_text_def status_text_def HTTPServer_status200_def HTTPServer_status404_def
      HTTPServer_typeHtml_def HTTPServer_typePlain_def chars_def)

lemma page_print:
  "MiniHTTPServer_page p ct content k s = do {
     (k, s) \<leftarrow> Socket_print TCPServer_vt p (headers_text ct HTTPServer_status200 @ content @ crlf) k s;
     Socket_sendReply_written TCPServer_vt p k s
   }"
  by (simp only: MiniHTTPServer_page_def printHeaders_print Socket_println_print Socket_print_append bind_assoc split_def)

lemma notFound_print:
  assumes "has_data k s"
  shows "HTTPServer_notFound p k s = do {
     (k, s) \<leftarrow> Socket_print TCPServer_vt p (headers_text HTTPServer_typePlain HTTPServer_status404 @ HTTPServer_status404 @ crlf)
       (k\<lparr>writePos := -1\<rparr>) (seen s);
     Socket_sendReply_written TCPServer_vt p k s
   }"
  by (simp only: HTTPServer_notFound_def havePacket_data [OF assms] bind.bind_lunit fst_conv snd_conv if_True
      printHeaders_print Socket_println_print Socket_print_append bind_assoc split_def)

text \<open>The response to a segment whose headers are still in the buffer.\<close>

lemma respond:
  assumes "wf_ether s" "IPv6Packet_isValid 600 (buffer s) = Some True" "\<And>i. i < 68 \<Longrightarrow> m i = buffer (seen s) i"
    "writePos k = -1" "str \<noteq> []" "hd str \<noteq> 0x0A" "hd str \<noteq> 0x0D" "length str \<le> 522"
  shows "\<exists>k' m' r. do {
       (k, s) \<leftarrow> Socket_print TCPServer_vt p str k (s\<lparr>buffer := m\<rparr>);
       Socket_sendReply_written TCPServer_vt p k s
     } = map_option (Pair k') r \<and> sends p s m' r
     \<and> unat (IPv6Packet_payloadLength m') = 24 + length str \<and> rd_bytes m' 78 (length str) = str
     \<and> IPv6Packet_destination m' = IPv6Packet_source (buffer s)"
proof -
  have hdr: "IPv6Packet_etherType m = ETHER_TYPE_IPV6" "IPv6Packet_version m = 6" "m tcp_flags = 0"
    "IPv6Packet_source m = IPv6Packet_source (buffer s)"
    using valid_header [OF assms(2)] assms(3) rd_bytes_cong [of 22 16 m "buffer s"]
    by (auto simp: IPv6Packet_etherType_def IPv6Packet_version_def IPv6Packet_source_def ntohs_ld16 st8_def wr_bytes_nth)
  show ?thesis
    using print_and_send [of "s\<lparr>buffer := m\<rparr>" k str p] hdr assms by auto
qed

text \<open>The two ways a test of the request ends.\<close>

lemma isGet_matched:
  assumes "carries_request k s HTTPServer_methodGet request rest" "length (segment_data s) \<le> 259"
    "list_all pattern_char request"
  obtains bp n m where
    "HTTPServer_isGet p request k s = Some (True, k\<lparr>writePos := -1, pathPtr := n, bodyPtr := bp\<rparr>, s\<lparr>buffer := m\<rparr>)"
    "\<And>i. i < 68 \<Longrightarrow> m i = buffer (seen s) i"
proof -
  have m: "path_matches request request" by (simp add: path_matches_def list_all2_refl)
  have g: "length (segment_data s) \<le> 256 + length HTTPServer_methodGet" "0 < length HTTPServer_methodGet"
    using assms(2) by (simp_all add: post_patterns)
  show thesis
    by (rule carried_request_matched [OF assms(1) g assms(3) m, of p]) (erule that [unfolded HTTPServer_isGet_def])
qed

lemma isGet_failed:
  assumes "carries_request k s word request rest" "length (segment_data s) \<le> 259" "3 \<le> length word + length request"
    "list_all pattern_char path" "0x3F \<notin> set path" "\<not> (word = HTTPServer_methodGet \<and> request = path)"
  obtains n where "HTTPServer_isGet p path k s = Some (False, k\<lparr>writePos := -1, pathPtr := n\<rparr>, seen s)"
proof -
  have g: "length (segment_data s) \<le> 256 + length HTTPServer_methodGet" "0 < length HTTPServer_methodGet"
    "length HTTPServer_methodGet \<le> length word + length request"
    using assms(2,3) by (simp_all add: post_patterns)
  have "\<not> (word = HTTPServer_methodGet \<and> path_matches path request)"
    using assms(6) path_matches_eq [OF assms(5)] by auto
  then show thesis
    using that [of "pathPtr k"] that
      carried_request_outcome [OF assms(1) g post_patterns(3) assms(4), of p]
    by (cases "word = HTTPServer_methodGet") (simp_all add: HTTPServer_isGet_def)
qed

lemma carries_request_path [simp]:
  "carries_request (k\<lparr>pathPtr := n\<rparr>) s word request rest = carries_request k s word request rest"
  by (simp add: carries_request_def has_data_def)

lemma MiniHTTPServer_responds:
  assumes "EtherSia_receivePacket p s = Some (n, s1)" "carries_request http s1 word request rest"
    and "length (segment_data s1) \<le> 259" "3 \<le> length word + length request"
  defines "response \<equiv> mini_response word request"
  obtains k m where "MiniHTTPServer_loop p (http, s) = do {
      (k, s) \<leftarrow> Socket_print TCPServer_vt p response k (s1\<lparr>buffer := m\<rparr>);
      Socket_sendReply_written TCPServer_vt p k s
    }"
    "writePos k = -1" "\<And>i. i < 68 \<Longrightarrow> m i = buffer (seen s1) i"
proof -
  have paths: "list_all pattern_char (chars ''/'')" "list_all pattern_char (chars ''/text'')"
    "0x3F \<notin> set (chars ''/'')" "0x3F \<notin> set (chars ''/text'')" "chars ''/text'' \<noteq> chars ''/''"
    by code_simp+
  have seen1: "carries_request (http\<lparr>writePos := -1, pathPtr := i\<rparr>) (seen s1) word request rest" for i
    using carries_request_seen [OF assms(2), of "-1"] by simp
  have len: "length (segment_data (seen s1)) \<le> 259"
    using assms(3) segment_data_seen carries_requestD(2) [OF assms(2)] by metis
  show thesis
  proof (cases "word = HTTPServer_methodGet \<and> request = chars ''/''")
    case True
    obtain bp i m where x: "HTTPServer_isGet p (chars ''/'') http s1
        = Some (True, http\<lparr>writePos := -1, pathPtr := i, bodyPtr := bp\<rparr>, s1\<lparr>buffer := m\<rparr>)"
      "\<And>i. i < 68 \<Longrightarrow> m i = buffer (seen s1) i"
      using isGet_matched [of http s1 "chars ''/''" rest p] assms(2,3) paths(1) True by metis
    show thesis
      by (rule that [of "http\<lparr>writePos := -1, pathPtr := i, bodyPtr := bp\<rparr>" m])
        (use x True in \<open>simp_all add: MiniHTTPServer_loop_def assms(1) page_print response_def mini_response_def\<close>)
  next
    case index: False
    obtain i where x: "HTTPServer_isGet p (chars ''/'') http s1 = Some (False, http\<lparr>writePos := -1, pathPtr := i\<rparr>, seen s1)"
      using isGet_failed [OF assms(2-4) paths(1,3) index] by metis
    let ?k = "http\<lparr>writePos := -1, pathPtr := i\<rparr>"
    show thesis
    proof (cases "word = HTTPServer_methodGet \<and> request = chars ''/text''")
      case True
      then have c: "carries_request ?k (seen s1) HTTPServer_methodGet (chars ''/text'') rest" using seen1 by simp
      obtain bp j m where y: "HTTPServer_isGet p (chars ''/text'') ?k (seen s1)
          = Some (True, ?k\<lparr>writePos := -1, pathPtr := j, bodyPtr := bp\<rparr>, (seen s1)\<lparr>buffer := m\<rparr>)"
        "\<And>i. i < 68 \<Longrightarrow> m i = buffer (seen (seen s1)) i"
        using isGet_matched [OF c len paths(2), of p] by metis
      show thesis
        by (rule that [of "?k\<lparr>writePos := -1, pathPtr := j, bodyPtr := bp\<rparr>" m])
          (use x y True paths(5) in \<open>simp_all add: MiniHTTPServer_loop_def assms(1) page_print response_def mini_response_def\<close>)
    next
      case plain: False
      obtain j where y: "HTTPServer_isGet p (chars ''/text'') ?k (seen s1)
          = Some (False, ?k\<lparr>writePos := -1, pathPtr := j\<rparr>, seen (seen s1))"
        using isGet_failed [OF seen1 len assms(4) paths(2,4) plain] by metis
      let ?k2 = "?k\<lparr>writePos := -1, pathPtr := j\<rparr>"
      have h: "has_data ?k2 (seen s1)" using carries_requestD(1) [OF seen1 [of j]] by simp
      note h2 = seen_simps(1) [OF h, of "-1"]
      have r: "response = headers_text HTTPServer_typePlain HTTPServer_status404 @ HTTPServer_status404 @ crlf"
        using index plain unfolding response_def mini_response_def HTTPServer_status404_def by argo
      show thesis
        by (rule that [of "?k2\<lparr>writePos := -1\<rparr>" "buffer (seen s1)"])
          (use x y havePacket_data [OF h, of p] notFound_print [OF h2, of p] in
            \<open>simp_all add: MiniHTTPServer_loop_def assms(1) r\<close>)
    qed
  qed
qed


text \<open>A request for the text page.\<close>

definition sample_text_frame :: "byte list" where
  "sample_text_frame = [2, 0, 0, 0, 0, 1, 2, 0, 0, 0, 0, 9, 134, 221, 96, 0, 0, 0, 0, 42, 6, 64, 254, 128, 0, 0, 0, 0, 0, 0, 0, 0, 0, 0, 0, 0, 0, 1, 254, 128, 0, 0, 0, 0, 0, 0, 0, 0, 0, 0, 0, 0, 0, 2, 156, 64, 0, 80, 1, 2, 3, 4, 0, 0, 0, 7, 80, 24, 16, 0, 73, 136, 0, 0, 71, 69, 84, 32, 47, 116, 101, 120, 116, 32, 72, 84, 84, 80, 47, 49, 46, 48, 13, 10, 13, 10]"


section \<open>The displayed time\<close>

text \<open>The specification: a time of day, and a number below 100 with two digits.\<close>

definition two_digits :: "nat \<Rightarrow> byte list" where
  "two_digits n = [0x30 + word_of_nat (n div 10), 0x30 + word_of_nat (n mod 10)]"

lemma padded_two_digits: "n < 100 \<Longrightarrow> (if n < 10 then chars ''0'' else []) @ printf_u n = two_digits n"
  using less_mult_imp_div_less [of n 10 10]
  by (simp add: two_digits_def printf_u.simps [of n] printf_u.simps [of "n div 10"] chars_def)

lemma time_of_day:
  fixes d h m x :: nat
  assumes "h < 24" "m < 60" "x < 60"
  defines "t \<equiv> (d * 24 + h) * 3600 + m * 60 + x"
  shows "t mod 86400 div 3600 = h" "t mod 3600 div 60 = m" "t mod 60 = x"
proof -
  have "t = 86400 * d + (3600 * h + 60 * m + x)" by (simp add: t_def)
  then have "t mod 86400 = 3600 * h + 60 * m + x" using assms(1-3) by simp
  then show "t mod 86400 div 3600 = h" using assms(2,3) by simp
  have "t = 3600 * (d * 24 + h) + (60 * m + x)" by (simp add: t_def)
  then have "t mod 3600 = 60 * m + x" using assms(2,3) by (simp only: mod_mult_self2 mod_less add.commute)
  then show "t mod 3600 div 60 = m" using assms(3) by simp
  have "t = x + 60 * ((d * 24 + h) * 60 + m)" by (simp add: t_def)
  then show "t mod 60 = x" using assms(3) by (simp only: mod_mult_self2 mod_less)
qed

text \<open>
  C36. The time is displayed right until 2106: a timestamp of the protocol is the 32-bit number of seconds since
  1900, which starts anew in 2036; for every time that is less than 2^32 seconds after 1970, \<open>displayTime\<close>
  prints its Unix time, and its hour, minutes and seconds, the last two with two digits.
\<close>

theorem displayTime_shows_UTC:
  fixes d h m x :: nat
  assumes "h < 24" "m < 60" "x < 60"
  defines "t \<equiv> (d * 24 + h) * 3600 + m * 60 + x"
  assumes "t < 2 ^ 32"
  shows "displayTime (word_of_nat (t + 2208988800)) =
     chars ''Seconds since Jan 1 1900 = '' @ printf_u ((t + 2208988800) mod 2 ^ 32) @ crlf
     @ chars ''Unix time = '' @ printf_u t @ crlf
     @ chars ''The UTC time is '' @ printf_u h @ chars '':'' @ two_digits m @ chars '':'' @ two_digits x @ crlf @ crlf"
proof -
  note tod = time_of_day [OF assms(1-3), of d, folded t_def]
  have e: "word_of_nat (t + 2208988800) - 2208988800 = (word_of_nat t :: u32)" by simp
  have u: "unat (word_of_nat t :: u32) = t" using assms(5) by (simp add: unsigned_of_nat take_bit_eq_mod)
  have parts: "unat ((word_of_nat t :: u32) mod 86400 div 3600) = h" "unat ((word_of_nat t :: u32) mod 3600 div 60) = m"
    "unat ((word_of_nat t :: u32) mod 60) = x"
    using tod by (simp_all add: unat_div unat_mod u)
  have pad: "(if w < 10 then chars ''0'' else []) @ printf_u (unat w) = two_digits (unat w)" if "unat w < 60" for w :: u32
    using padded_two_digits [of "unat w"] that by (simp add: word_less_nat_alt)
  have s: "unat (word_of_nat (t + 2208988800) :: u32) = (t + 2208988800) mod 2 ^ 32"
    by (simp only: unat_of_nat) simp
  show ?thesis
    unfolding displayTime_def Let_def e print_ulong_def s parts u
    using pad [of "(word_of_nat t :: u32) mod 3600 div 60"] pad [of "(word_of_nat t :: u32) mod 60"] assms(2,3)
    unfolding parts by (simp only: append_assoc append_same_eq) (metis append_assoc)
qed

text \<open>The first second after the protocol's clock starts anew.\<close>

lemma displayTime_shows_UTC_witness:
  "displayTime 0 = chars ''Seconds since Jan 1 1900 = 0'' @ crlf @ chars ''Unix time = 2085978496'' @ crlf
     @ chars ''The UTC time is 6:28:16'' @ crlf @ crlf"
proof -
  have t: "(24143 * 24 + 6) * 3600 + 28 * 60 + 16 + 2208988800 = (2 :: nat) ^ 32" by simp
  have z: "(word_of_nat (2 ^ 32) :: u32) = 0" by (simp only: of_nat_power) simp
  have "displayTime (word_of_nat ((24143 * 24 + 6) * 3600 + 28 * 60 + 16 + 2208988800)) =
     chars ''Seconds since Jan 1 1900 = '' @ printf_u (((24143 * 24 + 6) * 3600 + 28 * 60 + 16 + 2208988800) mod 2 ^ 32) @ crlf
     @ chars ''Unix time = '' @ printf_u ((24143 * 24 + 6) * 3600 + 28 * 60 + 16) @ crlf
     @ chars ''The UTC time is '' @ printf_u 6 @ chars '':'' @ two_digits 28 @ chars '':'' @ two_digits 16 @ crlf @ crlf"
    by (rule displayTime_shows_UTC) simp_all
  then show ?thesis unfolding t z mod_self by (simp add: printf_u.simps chars_def two_digits_def)
qed

section \<open>The polling interval\<close>

lemma elapsed:
  assumes "e < 2 ^ 31" "w < 2 ^ 31"
  shows "time_reached (now + word_of_nat e) (now + word_of_nat w) \<longleftrightarrow> w \<le> e"
proof -
  have "(word_of_nat e - word_of_nat w :: u32) = word_of_int (int e - int w)" by simp
  moreover have "signed_take_bit 31 (int e - int w) = int e - int w"
    using assms by (intro signed_take_bit_int_eq_self) auto
  ultimately have "sint (word_of_nat e - word_of_nat w :: u32) = int e - int w"
    by (simp only: sint_sbintrunc') simp
  then show ?thesis by (simp add: time_reached_def word_sle_eq)
qed

lemma overflown: "time_reached now (now + 15000 * 2 ^ 18)" "time_reached now (now + 15000 * 2 ^ (29 + i))"
proof -
  have "now - (now + 15000 * 2 ^ 18) = (- (15000 * 2 ^ 18) :: u32)" by simp
  moreover have "0 \<le>s (- (15000 * 2 ^ 18) :: u32)" by code_simp
  ultimately show "time_reached now (now + 15000 * 2 ^ 18)" by (simp only: time_reached_def)
  have "(15000 * 2 ^ 29 :: u32) = 0" by code_simp
  then have "(15000 * 2 ^ (29 + i) :: u32) = 0" by (simp only: power_add mult.assoc [symmetric]) simp
  then show "time_reached now (now + 15000 * 2 ^ (29 + i))" by (simp only: time_reached_def) simp
qed



end
