(* ===== verification/EmonCMS.thy ===== *)
theory EmonCMS
  imports Sketches
begin

text \<open>
  The two sketches that post readings to an emonCMS server: \<open>src/examples/EmonCMSClient_simple/EmonCMSClient_simple.ino\<close> and
  \<open>src/examples/emonCMSClient/emonCMSClient.ino\<close>, which reads sensors first. What they write to the serial port is
  left out. The sensors are reached through the library \<open>dynaBus\<close>, a parameter, as are the printing of a float and of a
  hexadecimal number, which the Arduino core does, and the AVR's arithmetic on floats.
\<close>

section \<open>EmonCMSClient_simple.ino\<close>

abbreviation (input) emonapikey :: "byte list" where "emonapikey \<equiv> chars ''Your_32_bits_API_key''"
abbreviation (input) emoncms_interval :: u32 where "emoncms_interval \<equiv> 30000"

text \<open>The global variables, with the crash monitor the loop reports its progress to.\<close>

record 'e emoncms =
  monitor_of :: "'e app_monitor"
  g_nIterations :: u16
  lastConnect :: u32
  remoteHostDiscover :: bool
  nbtimeout :: u16

definition EmonCMS_new :: "'e app_monitor \<Rightarrow> 'e emoncms" where
  "EmonCMS_new a = \<lparr>monitor_of = a, g_nIterations = 0, lastConnect = 0xFFFF0000, remoteHostDiscover = False, nbtimeout = 0\<rparr>"

definition configRemoteHost ::
    "'d platform \<Rightarrow> 'e emoncms \<Rightarrow> tcp_client \<Rightarrow> 'd ether \<Rightarrow> ('e emoncms \<times> tcp_client \<times> 'd ether) option" where
  "configRemoteHost p e tcp s = do {
     (found, tcp, s) \<leftarrow> Socket_setRemoteAddress_str p (chars ''fe80::ba27:ebff:fede:64b3'') 80 tcp s;
     Some (e\<lparr>remoteHostDiscover := found\<rparr>, tcp, s)
   }"

text \<open>The terminating zero behind the payload the server sent.\<close>

definition EmonCMS_terminate :: "u16 \<Rightarrow> 'd ether \<Rightarrow> 'd ether option" where
  "EmonCMS_terminate rcvdBytes s = do {
     m \<leftarrow> buf_wr (buffer s) (TCPClient_payload s + unat rcvdBytes) [0];
     Some (s\<lparr>buffer := m\<rparr>)
   }"

definition EmonCMS_connect ::
    "'d platform \<Rightarrow> 'e emoncms \<Rightarrow> tcp_client \<Rightarrow> 'd ether \<Rightarrow> ('e emoncms \<times> tcp_client \<times> 'd ether) option" where
  "EmonCMS_connect p e tcp s =
     (if remoteHostDiscover e \<and> \<not> TCPClient_connected tcp then
        let (now, s) = EtherSia_millis p s in
        if emoncms_interval \<le> now - lastConnect e then
          let (now, s) = EtherSia_millis p s in do {
          (tcp, s) \<leftarrow> TCPClient_connect p tcp s;
          Some (e\<lparr>lastConnect := now\<rparr>, tcp, s)
        }
        else Some (e, tcp, s)
      else Some (e, tcp, s))"

definition EmonCMS_post ::
    "'d platform \<Rightarrow> 'e emoncms \<Rightarrow> tcp_client \<Rightarrow> 'd ether \<Rightarrow> (tcp_client \<times> 'd ether) option" where
  "EmonCMS_post p e tcp s = do {
     (tcp, s) \<leftarrow> Socket_print TCPClient_vt p (chars ''GET /emoncms/input/post.json?'') tcp s;
     (tcp, s) \<leftarrow> Socket_print TCPClient_vt p (chars ''node='') tcp s;
     (tcp, s) \<leftarrow> Socket_print TCPClient_vt p (chars ''No1'') tcp s;
     (tcp, s) \<leftarrow> Socket_print TCPClient_vt p (chars ''&json={'') tcp s;
     (tcp, s) \<leftarrow> Socket_print TCPClient_vt p (chars ''LPort:'') tcp s;
     (tcp, s) \<leftarrow> Socket_print TCPClient_vt p (printf_u (unat (localPort tcp))) tcp s;
     (tcp, s) \<leftarrow> Socket_print TCPClient_vt p (chars ''_millis:'') tcp s;
     (tcp, s) \<leftarrow> Socket_print TCPClient_vt p (print_ulong (lastConnect e)) tcp s;
     (tcp, s) \<leftarrow> Socket_print TCPClient_vt p (chars ''}&apikey='') tcp s;
     (tcp, s) \<leftarrow> Socket_println TCPClient_vt p emonapikey tcp s;
     Socket_send_written TCPClient_vt p False tcp s
   }"

text \<open>
  The loop; \<open>wdt_reset\<close>, the effect of \<open>IAmAlive\<close>, is a parameter. The two endless loops of the code, after which the
  watchdog resets the board, are \<open>None\<close>.
\<close>

definition EmonCMS_loop ::
    "'d platform \<Rightarrow> ('d \<Rightarrow> 'd) \<Rightarrow> 'e emoncms \<times> tcp_client \<times> 'd ether \<Rightarrow> ('e emoncms \<times> tcp_client \<times> 'd ether) option" where
  "EmonCMS_loop p wdt_reset = (\<lambda>(e, tcp, s). do {
     let s = s\<lparr>dev := wdt_reset (dev s)\<rparr>;
     let e = e\<lparr>monitor_of := ApplicationMonitor_SetData (scast (g_nIterations e)) (monitor_of e),
       g_nIterations := g_nIterations e + 1\<rparr>;
     if \<not> remoteHostDiscover e then None
     else do {
       (_, s) \<leftarrow> EtherSia_receivePacket p s;
       let rcvdBytes = TCPClient_payloadLength s;
       (have_packet, tcp, s) \<leftarrow> TCPClient_havePacket p tcp s;
       s \<leftarrow> (if have_packet then EmonCMS_terminate rcvdBytes s else Some s);
       if TCPClient_isReset tcp then None
       else do {
         let e = (if TCPClient_timedout tcp then e\<lparr>nbtimeout := nbtimeout e + 1\<rparr> else e);
         (e, tcp, s) \<leftarrow> EmonCMS_connect p e tcp s;
         if TCPClient_synacked tcp \<or> TCPClient_rexmit tcp
         then do { (tcp, s) \<leftarrow> EmonCMS_post p e tcp s; Some (e, tcp, s) }
         else Some (e, tcp, s)
       }
     }
   })"

section \<open>emonCMSClient.ino\<close>

text \<open>
  The bus: the number of sensors, their 64-bit codes, 8 bytes each, as \<open>find\<close> has found them, and the readings. Of
  the temperature of a sensor of family 0x28 only its text is used.
\<close>

record ('d, 'f) dynabus =
  ds_nb :: byte
  ds_rom :: "nat \<Rightarrow> byte"
  get28temperature :: "byte \<Rightarrow> 'd \<Rightarrow> byte list \<times> 'd"
  get26temperature :: "byte \<Rightarrow> 'd \<Rightarrow> 'f \<times> 'd"
  get26voltage :: "byte \<Rightarrow> byte list \<Rightarrow> 'd \<Rightarrow> 'f \<times> 'd"

text \<open>Floats; \<open>flit m e\<close> is the literal \<open>m\<close> times 10 to the power of \<open>-e\<close>.\<close>

record 'f avr_core =
  flit :: "nat \<Rightarrow> nat \<Rightarrow> 'f"
  fsub :: "'f \<Rightarrow> 'f \<Rightarrow> 'f"
  fmul :: "'f \<Rightarrow> 'f \<Rightarrow> 'f"
  fdiv :: "'f \<Rightarrow> 'f \<Rightarrow> 'f"
  float_text :: "'f \<Rightarrow> byte list"
  hex_text :: "byte \<Rightarrow> byte list"

definition emonCMS_truerh :: "'f avr_core \<Rightarrow> 'f \<Rightarrow> 'f \<Rightarrow> 'f \<Rightarrow> 'f" where
  "emonCMS_truerh c celsius2438 vdd vad =
     (let rh = fdiv c (fsub c (fdiv c vad vdd) (flit c 16 2)) (flit c 62 4)
      in fdiv c rh (fsub c (flit c 10546 4) (fmul c (flit c 216 5) celsius2438)))"

text \<open>The loop over the first seven bytes of the first code, for the indices that are left.\<close>

fun emonCMS_node ::
    "'d platform \<Rightarrow> 'f avr_core \<Rightarrow> ('d, 'f) dynabus \<Rightarrow> nat list \<Rightarrow> tcp_client \<Rightarrow> 'd ether \<Rightarrow> (tcp_client \<times> 'd ether) option" where
  "emonCMS_node p c ds [] tcp s = Some (tcp, s)"
| "emonCMS_node p c ds (i # is) tcp s = do {
     (tcp, s) \<leftarrow> Socket_print TCPClient_vt p (hex_text c (ds_rom ds i)) tcp s;
     (tcp, s) \<leftarrow> (if i < 6 then Socket_print TCPClient_vt p (chars ''_'') tcp s else Some (tcp, s));
     emonCMS_node p c ds is tcp s
   }"

definition emonCMS_sensor ::
    "'d platform \<Rightarrow> 'f avr_core \<Rightarrow> ('d, 'f) dynabus \<Rightarrow> nat \<Rightarrow> tcp_client \<Rightarrow> 'd ether \<Rightarrow> (tcp_client \<times> 'd ether) option" where
  "emonCMS_sensor p c ds i tcp s =
     (if ds_rom ds (i * 8) = 0x28 then do {
        (tcp, s) \<leftarrow> Socket_print TCPClient_vt p (chars ''T28_'') tcp s;
        (tcp, s) \<leftarrow> Socket_print TCPClient_vt p (printf_u i) tcp s;
        (tcp, s) \<leftarrow> Socket_print TCPClient_vt p (chars '':'') tcp s;
        let (t, d) = get28temperature ds (word_of_nat i) (dev s);
        Socket_print TCPClient_vt p t tcp (s\<lparr>dev := d\<rparr>)
      }
      else if ds_rom ds (i * 8) = 0x26 then
        let (celsius2438, d) = get26temperature ds (word_of_nat i) (dev s);
            (vdd, d) = get26voltage ds (word_of_nat i) (chars ''vdd'') d;
            (vad, d) = get26voltage ds (word_of_nat i) (chars ''vad'') d;
            s = s\<lparr>dev := d\<rparr> in do {
        (tcp, s) \<leftarrow> Socket_print TCPClient_vt p (chars ''T26_'') tcp s;
        (tcp, s) \<leftarrow> Socket_print TCPClient_vt p (printf_u i) tcp s;
        (tcp, s) \<leftarrow> Socket_print TCPClient_vt p (chars '':'') tcp s;
        (tcp, s) \<leftarrow> Socket_print TCPClient_vt p (float_text c celsius2438) tcp s;
        (tcp, s) \<leftarrow> Socket_print TCPClient_vt p (chars '',RH26_'') tcp s;
        (tcp, s) \<leftarrow> Socket_print TCPClient_vt p (printf_u i) tcp s;
        (tcp, s) \<leftarrow> Socket_print TCPClient_vt p (chars '':'') tcp s;
        Socket_print TCPClient_vt p (float_text c (emonCMS_truerh c celsius2438 vdd vad)) tcp s
      }
      else Some (tcp, s))"

fun emonCMS_sensors ::
    "'d platform \<Rightarrow> 'f avr_core \<Rightarrow> ('d, 'f) dynabus \<Rightarrow> nat list \<Rightarrow> tcp_client \<Rightarrow> 'd ether \<Rightarrow> (tcp_client \<times> 'd ether) option" where
  "emonCMS_sensors p c ds [] tcp s = Some (tcp, s)"
| "emonCMS_sensors p c ds (i # is) tcp s = do {
     (tcp, s) \<leftarrow> emonCMS_sensor p c ds i tcp s;
     (tcp, s) \<leftarrow> Socket_print TCPClient_vt p (chars '','') tcp s;
     emonCMS_sensors p c ds is tcp s
   }"

definition emonCMS_counter ::
    "'d platform \<Rightarrow> byte list \<Rightarrow> u16 \<Rightarrow> tcp_client \<Rightarrow> 'd ether \<Rightarrow> (tcp_client \<times> 'd ether) option" where
  "emonCMS_counter p label n tcp s = do {
     (tcp, s) \<leftarrow> Socket_print TCPClient_vt p label tcp s;
     (tcp, s) \<leftarrow> Socket_print TCPClient_vt p (printf_u (unat n)) tcp s;
     Socket_print TCPClient_vt p (chars '','') tcp s
   }"

definition emonCMSClient_post ::
    "'d platform \<Rightarrow> 'f avr_core \<Rightarrow> ('d, 'f) dynabus \<Rightarrow> byte list \<Rightarrow> 'e emoncms \<Rightarrow> tcp_client \<Rightarrow> 'd ether
      \<Rightarrow> (tcp_client \<times> 'd ether) option" where
  "emonCMSClient_post p c ds apikey e tcp s = do {
     (tcp, s) \<leftarrow> Socket_print TCPClient_vt p (chars ''GET /emoncms/input/post.json?'') tcp s;
     (tcp, s) \<leftarrow> Socket_print TCPClient_vt p (chars ''node='') tcp s;
     (tcp, s) \<leftarrow> (if ds_nb ds \<noteq> 0 then emonCMS_node p c ds [0..<7] tcp s
                  else Socket_print TCPClient_vt p (chars ''No1wireBus'') tcp s);
     (tcp, s) \<leftarrow> Socket_print TCPClient_vt p (chars ''&json={'') tcp s;
     (tcp, s) \<leftarrow> emonCMS_sensors p c ds [0..<unat (ds_nb ds)] tcp s;
     (tcp, s) \<leftarrow> emonCMS_counter p (chars ''LPort:'') (localPort tcp) tcp s;
     (tcp, s) \<leftarrow> emonCMS_counter p (chars ''nbTimeOut:'') (nbtimeout e) tcp s;
     (tcp, s) \<leftarrow> emonCMS_counter p (chars ''RcvPkts:'') (nrcvd tcp) tcp s;
     (tcp, s) \<leftarrow> emonCMS_counter p (chars ''Dropped:'') (ndropped tcp) tcp s;
     (tcp, s) \<leftarrow> emonCMS_counter p (chars ''ReSynAck:'') (nrexmitSynAck tcp) tcp s;
     (tcp, s) \<leftarrow> emonCMS_counter p (chars ''ReData:'') (nrexmitData tcp) tcp s;
     (tcp, s) \<leftarrow> emonCMS_counter p (chars ''ReFinAck:'') (nrexmitFinAck tcp) tcp s;
     (tcp, s) \<leftarrow> Socket_print TCPClient_vt p (chars ''_millis:'') tcp s;
     (tcp, s) \<leftarrow> Socket_print TCPClient_vt p (print_ulong (lastConnect e)) tcp s;
     (tcp, s) \<leftarrow> Socket_print TCPClient_vt p (chars ''}&apikey='') tcp s;
     (tcp, s) \<leftarrow> Socket_println TCPClient_vt p apikey tcp s;
     Socket_send_written TCPClient_vt p False tcp s
   }"

text \<open>
  The address of the interface: with a sensor on the bus five bytes of the code of the first one, otherwise the
  one in the sketch.
\<close>

definition emonCMSClient_mac :: "('d, 'f) dynabus \<Rightarrow> mac" where
  "emonCMSClient_mac ds =
     (if ds_nb ds \<noteq> 0 then MACAddress_fromBytes 0x6E (ds_rom ds 2) (ds_rom ds 3) (ds_rom ds 4) (ds_rom ds 5) (ds_rom ds 6)
      else [0x6E, 0xE7, 0x2F, 0x4C, 0x64, 0x92])"

definition emonCMSClient_configRemoteHost ::
    "'d platform \<Rightarrow> 'e emoncms \<Rightarrow> tcp_client \<Rightarrow> 'd ether \<Rightarrow> ('e emoncms \<times> tcp_client \<times> 'd ether) option" where
  "emonCMSClient_configRemoteHost p e tcp s = do {
     (found, tcp, s) \<leftarrow> Socket_setRemoteAddress_str p (chars ''fe80::ba27:ebff:fe84:c0a1'') 80 tcp s;
     Some (e\<lparr>remoteHostDiscover := found\<rparr>, tcp, s)
   }"

definition emonCMSClient_loop ::
    "'d platform \<Rightarrow> ('d \<Rightarrow> 'd) \<Rightarrow> 'f avr_core \<Rightarrow> ('d, 'f) dynabus \<Rightarrow> byte list \<Rightarrow>
     'e emoncms \<times> tcp_client \<times> 'd ether \<Rightarrow> ('e emoncms \<times> tcp_client \<times> 'd ether) option" where
  "emonCMSClient_loop p wdt_reset c ds apikey = (\<lambda>(e, tcp, s). do {
     let s = s\<lparr>dev := wdt_reset (dev s)\<rparr>;
     let e = e\<lparr>monitor_of := ApplicationMonitor_SetData (scast (g_nIterations e)) (monitor_of e),
       g_nIterations := g_nIterations e + 1\<rparr>;
     if \<not> remoteHostDiscover e then None
     else do {
       (_, s) \<leftarrow> EtherSia_receivePacket p s;
       let rcvdBytes = TCPClient_payloadLength s;
       (have_packet, tcp, s) \<leftarrow> TCPClient_havePacket p tcp s;
       s \<leftarrow> (if have_packet then EmonCMS_terminate rcvdBytes s else Some s);
       if TCPClient_isReset tcp then None
       else do {
         let e = (if TCPClient_timedout tcp then e\<lparr>nbtimeout := nbtimeout e + 1\<rparr> else e);
         (e, tcp, s) \<leftarrow> EmonCMS_connect p e tcp s;
         if TCPClient_synacked tcp \<or> TCPClient_rexmit tcp
         then do { (tcp, s) \<leftarrow> emonCMSClient_post p c ds apikey e tcp s; Some (e, tcp, s) }
         else Some (e, tcp, s)
       }
     }
   })"

section \<open>What is posted\<close>

text \<open>The requests as texts.\<close>

definition EmonCMS_request :: "'e emoncms \<Rightarrow> tcp_client \<Rightarrow> byte list" where
  "EmonCMS_request e tcp = chars ''GET /emoncms/input/post.json?node=No1&json={LPort:'' @ printf_u (unat (localPort tcp))
     @ chars ''_millis:'' @ print_ulong (lastConnect e) @ chars ''}&apikey='' @ emonapikey @ [0x0D, 0x0A]"

definition sensor_text :: "'f avr_core \<Rightarrow> ('d, 'f) dynabus \<Rightarrow> nat \<Rightarrow> 'd \<Rightarrow> byte list \<times> 'd" where
  "sensor_text c ds i d =
     (if ds_rom ds (i * 8) = 0x28 then
        let (t, d) = get28temperature ds (word_of_nat i) d in (chars ''T28_'' @ printf_u i @ chars '':'' @ t, d)
      else if ds_rom ds (i * 8) = 0x26 then
        let (celsius, d) = get26temperature ds (word_of_nat i) d;
            (vdd, d) = get26voltage ds (word_of_nat i) (chars ''vdd'') d;
            (vad, d) = get26voltage ds (word_of_nat i) (chars ''vad'') d
        in (chars ''T26_'' @ printf_u i @ chars '':'' @ float_text c celsius @ chars '',RH26_'' @ printf_u i @ chars '':''
              @ float_text c (emonCMS_truerh c celsius vdd vad), d)
      else ([], d))"

fun sensors_text :: "'f avr_core \<Rightarrow> ('d, 'f) dynabus \<Rightarrow> nat list \<Rightarrow> 'd \<Rightarrow> byte list \<times> 'd" where
  "sensors_text c ds [] d = ([], d)"
| "sensors_text c ds (i # is) d =
     (let (t, d) = sensor_text c ds i d; (ts, d) = sensors_text c ds is d in (t @ chars '','' @ ts, d))"

definition node_text :: "'f avr_core \<Rightarrow> ('d, 'f) dynabus \<Rightarrow> byte list" where
  "node_text c ds = (if ds_nb ds = 0 then chars ''No1wireBus''
     else concat (map (\<lambda>i. hex_text c (ds_rom ds i) @ (if i < 6 then chars ''_'' else [])) [0..<7]))"

definition counter_text :: "byte list \<Rightarrow> u16 \<Rightarrow> byte list" where
  "counter_text label n = label @ printf_u (unat n) @ chars '',''"

definition emonCMSClient_request :: "'f avr_core \<Rightarrow> ('d, 'f) dynabus \<Rightarrow> byte list \<Rightarrow> byte list \<Rightarrow> 'e emoncms \<Rightarrow> tcp_client \<Rightarrow> byte list" where
  "emonCMSClient_request c ds apikey readings e tcp = chars ''GET /emoncms/input/post.json?node='' @ node_text c ds @ chars ''&json={''
     @ readings @ counter_text (chars ''LPort:'') (localPort tcp) @ counter_text (chars ''nbTimeOut:'') (nbtimeout e)
     @ counter_text (chars ''RcvPkts:'') (nrcvd tcp) @ counter_text (chars ''Dropped:'') (ndropped tcp)
     @ counter_text (chars ''ReSynAck:'') (nrexmitSynAck tcp) @ counter_text (chars ''ReData:'') (nrexmitData tcp)
     @ counter_text (chars ''ReFinAck:'') (nrexmitFinAck tcp) @ chars ''_millis:'' @ print_ulong (lastConnect e)
     @ chars ''}&apikey='' @ apikey @ [0x0D, 0x0A]"

text \<open>Printing in pieces is printing the whole, also when the pieces depend on the socket, of which only the position changes.\<close>

lemma print_dev:
  "Socket_print TCPClient_vt p str k (s\<lparr>dev := d\<rparr>) = map_option (\<lambda>(k, s). (k, s\<lparr>dev := d\<rparr>)) (Socket_print TCPClient_vt p str k s)"
proof (induction str arbitrary: k s)
  case (Cons c str)
  have "Socket_write TCPClient_vt p c k (s\<lparr>dev := d\<rparr>)
      = map_option (\<lambda>(n, k, s). (n, k, s\<lparr>dev := d\<rparr>)) (Socket_write TCPClient_vt p c k s)"
    by (simp add: Socket_write_def TCPClient_vt_def TCPClient_transmitPayload_def Socket_handleWriteNewline_def
        Socket_writePayloadHeader_def Let_def split: Option.bind_split)
  then show ?case using Cons.IH by (cases "Socket_write TCPClient_vt p c k s") auto
qed simp

text \<open>
  A function that prints what \<open>g\<close> says, a text and what reading it makes of the world below, whatever the position
  in the payload.
\<close>

definition prints ::
    "'d platform \<Rightarrow> (tcp_client \<Rightarrow> 'd ether \<Rightarrow> (tcp_client \<times> 'd ether) option) \<Rightarrow> (tcp_client \<Rightarrow> 'd \<Rightarrow> byte list \<times> 'd) \<Rightarrow> bool" where
  "prints p F g \<longleftrightarrow> (\<forall>w k d. g (k\<lparr>writePos := w\<rparr>) d = g k d)
     \<and> (\<forall>k s. F k s = map_option (\<lambda>(k', s'). (k', s'\<lparr>dev := snd (g k (dev s))\<rparr>)) (Socket_print TCPClient_vt p (fst (g k (dev s))) k s))"

lemma print_same_dev:
  "map_option (\<lambda>(k', s'). (k', s'\<lparr>dev := dev s\<rparr>)) (Socket_print TCPClient_vt p str k s) = Socket_print TCPClient_vt p str k s"
  by (cases "Socket_print TCPClient_vt p str k s") (auto dest: tcpclient_print.print_keeps)

lemma prints_text:
  "(\<And>w k. f (k\<lparr>writePos := w\<rparr>) = f k) \<Longrightarrow> prints p (\<lambda>k. Socket_print TCPClient_vt p (f k) k) (\<lambda>k d. (f k, d))"
  by (simp add: prints_def print_same_dev)

lemma prints_nothing: "prints p (\<lambda>k s. Some (k, s)) (\<lambda>k d. ([], d))"
  by (simp add: prints_def)

lemma prints_seq:
  assumes "prints p F f" "prints p G g"
  shows "prints p (\<lambda>k s. do { (k, s) \<leftarrow> F k s; G k s }) (\<lambda>k d. (fst (f k d) @ fst (g k (snd (f k d))), snd (g k (snd (f k d)))))"
proof -
  have f: "f (k\<lparr>writePos := w\<rparr>) = f k" and g: "g (k\<lparr>writePos := w\<rparr>) = g k" for w k
    using assms by (simp_all add: prints_def fun_eq_iff)
  have F: "F k s = map_option (\<lambda>(k', s'). (k', s'\<lparr>dev := snd (f k (dev s))\<rparr>)) (Socket_print TCPClient_vt p (fst (f k (dev s))) k s)"
    and G: "G k s = map_option (\<lambda>(k', s'). (k', s'\<lparr>dev := snd (g k (dev s))\<rparr>)) (Socket_print TCPClient_vt p (fst (g k (dev s))) k s)"
    for k s using assms unfolding prints_def by blast+
  have "do { (k, s) \<leftarrow> F k s; G k s } = map_option (\<lambda>(k', s'). (k', s'\<lparr>dev := snd (g k (snd (f k (dev s))))\<rparr>))
      (Socket_print TCPClient_vt p (fst (f k (dev s)) @ fst (g k (snd (f k (dev s))))) k s)" for k s
  proof (cases "Socket_print TCPClient_vt p (fst (f k (dev s))) k s")
    case None
    then show ?thesis by (simp add: F Socket_print_append)
  next
    case (Some x)
    then obtain w m where x: "x = (k\<lparr>writePos := w\<rparr>, s\<lparr>buffer := m\<rparr>)" using tcpclient_print.print_keeps by (cases x) blast
    show ?thesis
      by (simp add: F G Some x Socket_print_append g print_dev option.map_comp comp_def split_def)
  qed
  then show ?thesis unfolding prints_def using f g by simp
qed

lemma prints_read:
  "prints p (\<lambda>k s. Socket_print TCPClient_vt p (fst (get (dev s))) k (s\<lparr>dev := snd (get (dev s))\<rparr>)) (\<lambda>k d. get d)"
  by (simp add: prints_def print_dev)

lemma prints_cong: "prints p F f \<Longrightarrow> (\<And>k s. G k s = F k s) \<Longrightarrow> (\<And>k d. g k d = f k d) \<Longrightarrow> prints p G g"
  unfolding prints_def by simp

lemma prints_println: "prints p (\<lambda>k. Socket_println TCPClient_vt p str k) (\<lambda>k d. (str @ [0x0D, 0x0A], d))"
  by (rule prints_cong [OF prints_text [of "\<lambda>_. str @ [0x0D, 0x0A]"]]) (simp_all add: Socket_println_print)

lemma prints_arg:
  "(\<And>n. prints p (F n) (g n)) \<Longrightarrow> (\<And>w k. f (k\<lparr>writePos := w\<rparr>) = f k) \<Longrightarrow> prints p (\<lambda>k. F (f k) k) (\<lambda>k. g (f k) k)"
  unfolding prints_def by simp

lemma prints_const: "prints p (\<lambda>k. Socket_print TCPClient_vt p str k) (\<lambda>k d. (str, d))"
  by (rule prints_text) simp

text \<open>A piece that reads nothing prints a text; in front of and behind another piece.\<close>

lemma prints_before:
  "prints p F (\<lambda>k d. (t k, d)) \<Longrightarrow> prints p G g \<Longrightarrow>
   prints p (\<lambda>k s. do { (k, s) \<leftarrow> F k s; G k s }) (\<lambda>k d. apfst ((@) (t k)) (g k d))"
  using prints_seq [of p F "\<lambda>k d. (t k, d)" G g] by (rule prints_cong) (simp_all add: apfst_def map_prod_def split_def)

lemma prints_pure:
  "prints p F (\<lambda>k d. (t k, d)) \<Longrightarrow> prints p G (\<lambda>k d. (u k, d)) \<Longrightarrow>
   prints p (\<lambda>k s. do { (k, s) \<leftarrow> F k s; G k s }) (\<lambda>k d. (t k @ u k, d))"
  using prints_seq [of p F "\<lambda>k d. (t k, d)" G "\<lambda>k d. (u k, d)"] by (rule prints_cong) simp_all

lemma counter_prints:
  "(\<And>w k. f (k\<lparr>writePos := w\<rparr>) = f k) \<Longrightarrow>
   prints p (\<lambda>k. emonCMS_counter p label (f k) k) (\<lambda>k d. (counter_text label (f k), d))"
proof -
  have "prints p (emonCMS_counter p label n) (\<lambda>k d. (counter_text label n, d))" for n
    by (rule prints_cong [OF prints_pure [OF prints_const [of p label]
          prints_pure [OF prints_const [of p "printf_u (unat n)"] prints_const [of p "chars '',''"]]]])
      (simp_all add: emonCMS_counter_def counter_text_def)
  then show "(\<And>w k. f (k\<lparr>writePos := w\<rparr>) = f k) \<Longrightarrow> ?thesis"
    by (rule prints_arg)
qed

text \<open>The sensors.\<close>

lemma node_prints:
  "prints p (emonCMS_node p c ds is) (\<lambda>k d. (concat (map (\<lambda>i. hex_text c (ds_rom ds i) @ (if i < 6 then chars ''_'' else [])) is), d))"
proof (induction "is")
  case Nil
  show ?case by (rule prints_cong [OF prints_nothing]) simp_all
next
  case (Cons i "is")
  have "prints p (\<lambda>k s. if i < 6 then Socket_print TCPClient_vt p (chars ''_'') k s else Some (k, s))
      (\<lambda>k d. (if i < 6 then chars ''_'' else [], d))"
    using prints_const [of p "chars ''_''"] prints_nothing by (cases "i < 6") simp_all
  from prints_seq [OF prints_const prints_seq [OF this Cons.IH]] show ?case
    by (rule prints_cong) simp_all
qed

lemma sensor_prints: "prints p (emonCMS_sensor p c ds i) (\<lambda>k d. sensor_text c ds i d)"
proof -
  let ?G = "get28temperature ds (word_of_nat i)"
  have a: "prints p (emonCMS_sensor p c ds i) (\<lambda>k d. sensor_text c ds i d)" if "ds_rom ds (i * 8) = 0x28"
    by (rule prints_cong [OF prints_seq [OF prints_const [of p "chars ''T28_''"] prints_seq [OF prints_const [of p "printf_u i"]
          prints_seq [OF prints_const [of p "chars '':''"] prints_read [of p ?G]]]]])
      (simp_all add: emonCMS_sensor_def sensor_text_def that split_def Let_def)
  let ?t = "\<lambda>d. get26temperature ds (word_of_nat i) d" and ?v = "get26voltage ds (word_of_nat i)"
  let ?read = "\<lambda>d. let (celsius, d) = ?t d; (vdd, d) = ?v (chars ''vdd'') d; (vad, d) = ?v (chars ''vad'') d
    in (chars ''T26_'' @ printf_u i @ chars '':'' @ float_text c celsius @ chars '',RH26_'' @ printf_u i @ chars '':''
          @ float_text c (emonCMS_truerh c celsius vdd vad), d)"
  have b: "prints p (emonCMS_sensor p c ds i) (\<lambda>k d. sensor_text c ds i d)" if "ds_rom ds (i * 8) = 0x26"
    by (rule prints_cong [OF prints_read [of p ?read]])
      (simp_all add: emonCMS_sensor_def sensor_text_def that split_def Let_def Socket_print_append)
  have "prints p (emonCMS_sensor p c ds i) (\<lambda>k d. sensor_text c ds i d)" if "ds_rom ds (i * 8) \<noteq> 0x28" "ds_rom ds (i * 8) \<noteq> 0x26"
    by (rule prints_cong [OF prints_nothing]) (simp_all add: emonCMS_sensor_def sensor_text_def that)
  with a b show ?thesis by blast
qed

lemma sensors_prints: "prints p (emonCMS_sensors p c ds is) (\<lambda>k d. sensors_text c ds is d)"
proof (induction "is")
  case Nil
  show ?case by (rule prints_cong [OF prints_nothing]) simp_all
next
  case (Cons i "is")
  show ?case
    by (rule prints_cong [OF prints_seq [OF sensor_prints prints_seq [OF prints_const Cons.IH]]]) (simp_all add: split_def Let_def)
qed

text \<open>The whole request, sent.\<close>

lemma post_and_send:
  fixes p :: "'d platform" and d :: 'd
  assumes "wf_ether s" "wf_socket k" "writePos k = -1" "str \<noteq> []" "hd str \<noteq> 0x0A" "hd str \<noteq> 0x0D"
  defines "post \<equiv> do { (k, s) \<leftarrow> map_option (\<lambda>(k', s'). (k', s'\<lparr>dev := d\<rparr>)) (Socket_print TCPClient_vt p str k s);
    Socket_send_written TCPClient_vt p False k s }"
  shows "if length str \<le> 522
     then \<exists>k' m r. post = map_option (Pair k') r \<and> sends p (s\<lparr>dev := d\<rparr>) m r \<and> client_segment k m
       \<and> m tcp_flags = buffer s tcp_flags \<and> IPv6Packet_destination m = remoteAddress k
       \<and> unat (IPv6Packet_payloadLength m) = 24 + length str \<and> rd_bytes m 78 (length str) = str
     else post = None"
proof (cases "length str \<le> 522")
  case False
  then have "Socket_print TCPClient_vt p str k s = None"
    using tcpclient_print.print_overrun [of str k p s] assms(3,5,6) by simp
  then show ?thesis using False by (simp add: post_def)
next
  case True
  let ?len = "word_of_nat (length str) :: u16"
  let ?k = "k\<lparr>writePos := ?len\<rparr>" and ?s = "s\<lparr>buffer := wr_bytes (buffer s) 78 str, dev := d\<rparr>"
  have z: "tcpclient_print.written k = 0" using assms(3) by (simp add: tcpclient_print.written_def)
  have run: "Socket_print TCPClient_vt p str k s = Some (?k, s\<lparr>buffer := wr_bytes (buffer s) 78 str\<rparr>)"
    using tcpclient_print.print_run [of str k p s] assms(4-6) True z by simp
  have len: "unat ?len = length str" using True by (simp add: unsigned_of_nat take_bit_eq_mod)
  have "sint ?len = int (length str)" using True by (simp add: signed_of_nat signed_take_bit_int_eq_self)
  then have pos: "0 <s ?len" using assms(4) by (simp add: word_sless_alt)
  have w: "wf_ether ?s" "wf_socket ?k" "unat ?len \<le> 522" using assms(1,2) True len by (simp_all add: wf_ether_def wf_socket_def)
  have same: "buffer ?s 67 = buffer s 67" "rd_bytes (buffer ?s) 78 (length str) = str"
    by (simp_all add: wr_bytes_nth rd_wr_same)
  have cs: "client_segment ?k m = client_segment k m" for m by (simp add: client_segment_def)
  have sd: "sends p ?s m r = sends p (s\<lparr>dev := d\<rparr>) m r" for m r by (simp add: sends_def)
  obtain k' m r where m: "Socket_send TCPClient_vt p ?len False ?k ?s = map_option (Pair k') r" "sends p ?s m r"
    "client_segment ?k m" "m 67 = buffer ?s 67" "unat (IPv6Packet_payloadLength m) = 24 + unat ?len"
    "IPv6Packet_destination m = remoteAddress k" "rd_bytes m 78 (length str) = rd_bytes (buffer ?s) 78 (length str)"
    using client_send_sends [OF w, of p] by auto
  have "post = map_option (Pair (k'\<lparr>writePos := -1\<rparr>)) r"
    using m(1) pos by (cases r) (simp_all add: post_def run Socket_send_written_def)
  then show ?thesis using m True unfolding cs sd same len by auto
qed

lemma prints_run:
  assumes "prints p F g" "\<And>s k. P k s = do { (k, s) \<leftarrow> F k s; H k s }"
  shows "P k s = do {
     (k, s) \<leftarrow> map_option (\<lambda>(k', s'). (k', s'\<lparr>dev := snd (g k (dev s))\<rparr>)) (Socket_print TCPClient_vt p (fst (g k (dev s))) k s);
     H k s
   }"
proof -
  have "F k s = map_option (\<lambda>(k', s'). (k', s'\<lparr>dev := snd (g k (dev s))\<rparr>)) (Socket_print TCPClient_vt p (fst (g k (dev s))) k s)"
    using assms(1) unfolding prints_def by blast
  then show ?thesis unfolding assms(2) by (simp only:)
qed

lemma EmonCMS_post_prints:
  "EmonCMS_post p e tcp s = do {
     (tcp, s) \<leftarrow> map_option (\<lambda>(k', s'). (k', s'\<lparr>dev := dev s\<rparr>)) (Socket_print TCPClient_vt p (EmonCMS_request e tcp) tcp s);
     Socket_send_written TCPClient_vt p False tcp s
   }"
proof -
  note c = prints_const
  have port: "prints p (\<lambda>k. Socket_print TCPClient_vt p (printf_u (unat (localPort k))) k) (\<lambda>k d. (printf_u (unat (localPort k)), d))"
    by (rule prints_text) simp
  note ps = prints_pure [OF c [of p "chars ''GET /emoncms/input/post.json?''"] prints_pure [OF c [of p "chars ''node=''"]
    prints_pure [OF c [of p "chars ''No1''"] prints_pure [OF c [of p "chars ''&json={''"] prints_pure [OF c [of p "chars ''LPort:''"]
    prints_pure [OF port prints_pure [OF c [of p "chars ''_millis:''"] prints_pure [OF c [of p "print_ulong (lastConnect e)"]
    prints_pure [OF c [of p "chars ''}&apikey=''"] prints_println [of p emonapikey]]]]]]]]]]
  have req: "EmonCMS_request e tcp = chars ''GET /emoncms/input/post.json?'' @ chars ''node='' @ chars ''No1'' @ chars ''&json={''
     @ chars ''LPort:'' @ printf_u (unat (localPort tcp)) @ chars ''_millis:'' @ print_ulong (lastConnect e)
     @ chars ''}&apikey='' @ emonapikey @ [0x0D, 0x0A]"
    by (simp add: EmonCMS_request_def chars_def)
  show ?thesis
    unfolding req by (rule prints_run [OF ps, unfolded fst_conv snd_conv])
      (simp only: EmonCMS_post_def split_def bind_assoc fst_conv snd_conv)
qed

lemma emonCMSClient_post_prints:
  fixes c :: "'f avr_core" and ds :: "('d, 'f) dynabus"
  defines "sens \<equiv> sensors_text c ds [0..<unat (ds_nb ds)]"
  shows "emonCMSClient_post p c ds apikey e tcp s = do {
     (tcp, s) \<leftarrow> map_option (\<lambda>(k', s'). (k', s'\<lparr>dev := snd (sens (dev s))\<rparr>))
        (Socket_print TCPClient_vt p (emonCMSClient_request c ds apikey (fst (sens (dev s))) e tcp) tcp s);
     Socket_send_written TCPClient_vt p False tcp s
   }"
proof -
  have node: "prints p (\<lambda>k s. if ds_nb ds \<noteq> 0 then emonCMS_node p c ds [0..<7] k s
      else Socket_print TCPClient_vt p (chars ''No1wireBus'') k s) (\<lambda>k d. (node_text c ds, d))"
    using node_prints [of p c ds "[0..<7]"] prints_const [of p "chars ''No1wireBus''"]
    by (cases "ds_nb ds = 0") (simp_all add: node_text_def)
  have n: "prints p (\<lambda>k. emonCMS_counter p label (f k) k) (\<lambda>k d. (counter_text label (f k), d))"
    if "\<And>w k. f (k\<lparr>writePos := w\<rparr>) = f k" for label and f :: "tcp_client \<Rightarrow> u16" using counter_prints that by blast
  note t = prints_const and b = prints_before and u = prints_pure
  have tail: "prints p (\<lambda>k s. do {
      (k, s) \<leftarrow> emonCMS_counter p (chars ''LPort:'') (localPort k) k s;
      (k, s) \<leftarrow> emonCMS_counter p (chars ''nbTimeOut:'') (nbtimeout e) k s;
      (k, s) \<leftarrow> emonCMS_counter p (chars ''RcvPkts:'') (nrcvd k) k s;
      (k, s) \<leftarrow> emonCMS_counter p (chars ''Dropped:'') (ndropped k) k s;
      (k, s) \<leftarrow> emonCMS_counter p (chars ''ReSynAck:'') (nrexmitSynAck k) k s;
      (k, s) \<leftarrow> emonCMS_counter p (chars ''ReData:'') (nrexmitData k) k s;
      (k, s) \<leftarrow> emonCMS_counter p (chars ''ReFinAck:'') (nrexmitFinAck k) k s;
      (k, s) \<leftarrow> Socket_print TCPClient_vt p (chars ''_millis:'') k s;
      (k, s) \<leftarrow> Socket_print TCPClient_vt p (print_ulong (lastConnect e)) k s;
      (k, s) \<leftarrow> Socket_print TCPClient_vt p (chars ''}&apikey='') k s;
      Socket_println TCPClient_vt p apikey k s }) (\<lambda>k d. (counter_text (chars ''LPort:'') (localPort k)
        @ counter_text (chars ''nbTimeOut:'') (nbtimeout e) @ counter_text (chars ''RcvPkts:'') (nrcvd k)
        @ counter_text (chars ''Dropped:'') (ndropped k) @ counter_text (chars ''ReSynAck:'') (nrexmitSynAck k)
        @ counter_text (chars ''ReData:'') (nrexmitData k) @ counter_text (chars ''ReFinAck:'') (nrexmitFinAck k)
        @ chars ''_millis:'' @ print_ulong (lastConnect e) @ chars ''}&apikey='' @ apikey @ [0x0D, 0x0A], d))"
    by (intro u n t prints_println) simp_all
  have sens: "prints p (emonCMS_sensors p c ds [0..<unat (ds_nb ds)]) (\<lambda>k. sens)"
    unfolding sens_def by (rule sensors_prints)
  note ps = b [OF t [of p "chars ''GET /emoncms/input/post.json?''"] b [OF t [of p "chars ''node=''"] b [OF node
    b [OF t [of p "chars ''&json={''"] prints_seq [OF sens tail]]]]]
  have req: "emonCMSClient_request c ds apikey r e tcp = chars ''GET /emoncms/input/post.json?'' @ chars ''node='' @ node_text c ds
    @ chars ''&json={'' @ r @ counter_text (chars ''LPort:'') (localPort tcp)
        @ counter_text (chars ''nbTimeOut:'') (nbtimeout e) @ counter_text (chars ''RcvPkts:'') (nrcvd tcp)
        @ counter_text (chars ''Dropped:'') (ndropped tcp) @ counter_text (chars ''ReSynAck:'') (nrexmitSynAck tcp)
        @ counter_text (chars ''ReData:'') (nrexmitData tcp) @ counter_text (chars ''ReFinAck:'') (nrexmitFinAck tcp)
        @ chars ''_millis:'' @ print_ulong (lastConnect e) @ chars ''}&apikey='' @ apikey @ [0x0D, 0x0A]" for r
    by (simp add: emonCMSClient_request_def chars_def)
  show ?thesis
    unfolding req by (rule prints_run [OF ps, unfolded fst_apfst snd_apfst fst_conv snd_conv])
      (simp only: emonCMSClient_post_def split_def bind_assoc fst_conv snd_conv)
qed

lemma request_start:
  "EmonCMS_request e tcp \<noteq> []" "hd (EmonCMS_request e tcp) = 0x47"
  "emonCMSClient_request c ds apikey r e tcp \<noteq> []" "hd (emonCMSClient_request c ds apikey r e tcp) = 0x47"
  by (simp_all add: EmonCMS_request_def emonCMSClient_request_def chars_def)

text \<open>
  C39. What \<open>emonCMSClient\<close> posts: the readings of all sensors, in the order of the bus, with the counters of the
  connection and the key of the user, as one valid segment of the connection to the server, if the text has at most the
  522 bytes that fit; with a longer one, since nothing checks the length, it is printed over the end of the buffer.
\<close>

theorem emonCMSClient_posts:
  fixes e :: "'e emoncms" and apikey :: "byte list"
  assumes "wf_ether s" "wf_socket tcp" "writePos tcp = -1"
    "sensors_text c ds [0..<unat (ds_nb ds)] (dev s) = (readings, d)"
  defines "request \<equiv> emonCMSClient_request c ds apikey readings e tcp"
  shows "if length request \<le> 522
     then \<exists>tcp' m r. emonCMSClient_post p c ds apikey e tcp s = map_option (Pair tcp') r \<and> sends p (s\<lparr>dev := d\<rparr>) m r
       \<and> client_segment tcp m \<and> m tcp_flags = buffer s tcp_flags \<and> IPv6Packet_destination m = remoteAddress tcp
       \<and> unat (IPv6Packet_payloadLength m) = 24 + length request \<and> rd_bytes m 78 (length request) = request
     else emonCMSClient_post p c ds apikey e tcp s = None"
proof -
  have run: "emonCMSClient_post p c ds apikey e tcp s = do {
     (tcp, s) \<leftarrow> map_option (\<lambda>(k', s'). (k', s'\<lparr>dev := d\<rparr>)) (Socket_print TCPClient_vt p request tcp s);
     Socket_send_written TCPClient_vt p False tcp s }"
    unfolding emonCMSClient_post_prints assms(4) request_def by simp
  have "request \<noteq> []" "hd request \<noteq> 0x0A" "hd request \<noteq> 0x0D" by (simp_all add: request_def request_start)
  then show ?thesis unfolding run by (rule post_and_send [OF assms(1-3)])
qed

lemma EmonCMS_posts:
  fixes e :: "'e emoncms"
  assumes "wf_ether s" "wf_socket tcp" "writePos tcp = -1"
  defines "request \<equiv> EmonCMS_request e tcp"
  shows "\<exists>tcp' m r. EmonCMS_post p e tcp s = map_option (Pair tcp') r \<and> sends p s m r \<and> client_segment tcp m
     \<and> m tcp_flags = buffer s tcp_flags \<and> IPv6Packet_destination m = remoteAddress tcp
     \<and> unat (IPv6Packet_payloadLength m) = 24 + length request \<and> rd_bytes m 78 (length request) = request"
proof -
  have "length (printf_u (unat (localPort tcp))) \<le> 5" "length (print_ulong (lastConnect e)) \<le> 10"
    using length_printf_u [of "unat (localPort tcp)" 5] length_printf_u [of "unat (lastConnect e)" 10]
      unsigned_less [of "localPort tcp", where ?'a = nat] unsigned_less [of "lastConnect e", where ?'a = nat]
    by (simp_all add: print_ulong_def)
  then have "length request \<le> 522" by (simp add: request_def EmonCMS_request_def chars_def)
  then show ?thesis
    using post_and_send [where s = s and k = tcp and str = request and p = p and d = "dev s"] assms(1-3)
    by (simp add: request_def request_start EmonCMS_post_prints)
qed

text \<open>The digits of a number determine it.\<close>

definition digits_value :: "byte list \<Rightarrow> nat" where
  "digits_value ds = foldl (\<lambda>n c. 10 * n + (unat c - 48)) 0 ds"

lemma digits_value_printf_u: "digits_value (printf_u n) = n"
proof (induction n rule: printf_u.induct)
  case (1 n)
  have d: "unat (0x30 + word_of_nat k :: byte) - 48 = k" if "k < 10" for k
    using that by (simp add: unat_word_ariths unsigned_of_nat take_bit_eq_mod)
  show ?case
  proof (cases "n < 10")
    case True
    then show ?thesis using d [of n] by (simp add: printf_u.simps [of n] digits_value_def)
  next
    case False
    then show ?thesis
      using 1 d [of "n mod 10"] by (simp add: printf_u.simps [of n] digits_value_def)
  qed
qed

lemma counter_text_inj: "counter_text label a = counter_text label b \<Longrightarrow> a = b"
  by (metis append_same_eq counter_text_def digits_value_printf_u same_append_eq word_unat_eq_iff)


text \<open>One sensor of family 0x28 that reads 21.5, no floats.\<close>

definition sample_core :: "unit avr_core" where
  "sample_core = \<lparr>flit = (\<lambda>m e. ()), fsub = (\<lambda>a b. ()), fmul = (\<lambda>a b. ()), fdiv = (\<lambda>a b. ()), float_text = (\<lambda>f. []),
     hex_text = (\<lambda>v. printf_x (unat v))\<rparr>"

definition sample_bus :: "(unit, unit) dynabus" where
  "sample_bus = \<lparr>ds_nb = 1, ds_rom = (\<lambda>i. if i = 0 then 0x28 else 1), get28temperature = (\<lambda>i d. (chars ''21.5'', d)),
     get26temperature = (\<lambda>i d. ((), d)), get26voltage = (\<lambda>i v d. ((), d))\<rparr>"

definition sample_emoncms :: "unit emoncms" where
  "sample_emoncms = EmonCMS_new (ApplicationMonitor_new 500 10 2 [0, 0] ())"

lemma emonCMSClient_posts_witness:
  "\<exists>tcp' m r. emonCMSClient_post quiet_platform sample_core sample_bus (chars ''key'') sample_emoncms sample_client sample_ether
       = map_option (Pair tcp') r \<and> sends quiet_platform sample_ether m r
     \<and> rd_bytes m 78 45 = chars ''GET /emoncms/input/post.json?node=28_1_1_1_1_''"
proof -
  let ?r = "emonCMSClient_request sample_core sample_bus (chars ''key'') (chars ''T28_0:21.5,'') sample_emoncms sample_client"
  have h: "wf_ether sample_ether" "wf_socket sample_client" "writePos sample_client = -1"
    "sensors_text sample_core sample_bus [0..<unat (ds_nb sample_bus)] (dev sample_ether) = (chars ''T28_0:21.5,'', ())"
    by code_simp+
  have l: "length ?r \<le> 522" "45 \<le> length ?r" "take 45 ?r = chars ''GET /emoncms/input/post.json?node=28_1_1_1_1_''"
    by (simp_all add: emonCMSClient_request_def counter_text_def node_text_def print_ulong_def printf_u.simps printf_x.simps
        sample_core_def sample_bus_def sample_emoncms_def EmonCMS_new_def sample_client_def chars_def upt_conv_Cons printf_digit_def)
  from emonCMSClient_posts [OF h, of "chars ''key''" sample_emoncms quiet_platform] l(1)
  obtain tcp' m r where x: "emonCMSClient_post quiet_platform sample_core sample_bus (chars ''key'') sample_emoncms sample_client sample_ether
       = map_option (Pair tcp') r" "sends quiet_platform (sample_ether\<lparr>dev := ()\<rparr>) m r" "rd_bytes m 78 (length ?r) = ?r"
    by auto
  have "take 45 (rd_bytes m 78 (length ?r)) = rd_bytes m 78 45" using l(2) by (simp add: rd_bytes_def take_map take_upt)
  then have "rd_bytes m 78 45 = chars ''GET /emoncms/input/post.json?node=28_1_1_1_1_''" using x(3) l(3) by simp
  moreover have "sends quiet_platform sample_ether m r" using x(2) by (simp add: sends_def sample_ether_def)
  ultimately show ?thesis using x(1) by blast
qed


end
