(* ===== verification/TFTP_Server.thy ===== *)
theory TFTP_Server
  imports UDP_Socket
begin

text \<open>
  \<open>src/src/TFTPServer.cpp\<close> and \<open>TFTPServer.h\<close>: answering a read or write request and running the
  transfer it starts, block by block. The class is abstract: the file operations of the subclass are
  the record \<open>f\<close>, over the state \<open>'d\<close> of the platform. \<open>openFile\<close> is given the packet from the file
  name on, which it reads up to the terminating zero; \<open>readBytes\<close> gives its result and the bytes it
  stores behind the DATA header.
\<close>

record 'd tftp_files =
  openFile :: "byte list \<Rightarrow> 'd \<Rightarrow> byte \<times> 'd"
  writeBytes :: "byte \<Rightarrow> u16 \<Rightarrow> byte list \<Rightarrow> 'd \<Rightarrow> 'd"
  readBytes :: "byte \<Rightarrow> u16 \<Rightarrow> 'd \<Rightarrow> u16 \<times> byte list \<times> 'd"

abbreviation (input) TFTP_BLOCK_SIZE :: u16 where "TFTP_BLOCK_SIZE \<equiv> 512"
abbreviation (input) TFTP_DATA_TIMEOUT :: u32 where "TFTP_DATA_TIMEOUT \<equiv> 10000"
abbreviation (input) TFTP_ACK_TIMEOUT :: u32 where "TFTP_ACK_TIMEOUT \<equiv> 100"
abbreviation (input) TFTP_RETRIES :: byte where "TFTP_RETRIES \<equiv> 10"

abbreviation (input) TFTP_OPCODE_READ :: byte where "TFTP_OPCODE_READ \<equiv> 1"
abbreviation (input) TFTP_OPCODE_WRITE :: byte where "TFTP_OPCODE_WRITE \<equiv> 2"
abbreviation (input) TFTP_OPCODE_DATA :: byte where "TFTP_OPCODE_DATA \<equiv> 3"
abbreviation (input) TFTP_OPCODE_ACK :: byte where "TFTP_OPCODE_ACK \<equiv> 4"
abbreviation (input) TFTP_OPCODE_ERROR :: byte where "TFTP_OPCODE_ERROR \<equiv> 5"

abbreviation (input) TFTP_NOT_FOUND :: byte where "TFTP_NOT_FOUND \<equiv> 1"
abbreviation (input) TFTP_ILLEGAL_OPERATION :: byte where "TFTP_ILLEGAL_OPERATION \<equiv> 4"

definition TFTPServer_new :: "u16 \<Rightarrow> socket" where
  "TFTPServer_new local_port = Socket_new local_port"

definition TFTPServer_sendError ::
    "'d platform \<Rightarrow> byte \<Rightarrow> 'a socket_scheme \<Rightarrow> 'd ether \<Rightarrow> ('a socket_scheme \<times> 'd ether) option" where
  "TFTPServer_sendError p errorCode k s =
     (let payload = UDPSocket_payload s;
          packet = st8 (buffer s) payload 0x00;
          packet = st8 packet (payload + 1) TFTP_OPCODE_ERROR;
          packet = st8 packet (payload + 2) 0x00;
          packet = st8 packet (payload + 3) errorCode;
          errstr = (if errorCode = TFTP_NOT_FOUND then chars ''Not Found''
                    else if errorCode = TFTP_ILLEGAL_OPERATION then chars ''Illegal Op''
                    else chars ''Error'');
          len = (4 :: u16) + word_of_nat (length errstr) + 1
      in do {
        packet \<leftarrow> buf_wr packet (payload + 4) (errstr @ [0]);
        Socket_sendReply UDPSocket_vt p len k (s\<lparr>buffer := packet\<rparr>)
      })"

definition TFTPServer_sendAck ::
    "'d platform \<Rightarrow> u16 \<Rightarrow> 'a socket_scheme \<Rightarrow> 'd ether \<Rightarrow> ('a socket_scheme \<times> 'd ether) option" where
  "TFTPServer_sendAck p block sock s =
     (let payload = UDPSocket_payload s;
          packet = st8 (buffer s) payload 0x00;
          packet = st8 packet (payload + 1) TFTP_OPCODE_ACK;
          packet = st8 packet (payload + 2) (ucast (drop_bit 8 (block AND 0xFF00)));
          packet = st8 packet (payload + 3) (ucast (block AND 0xFF))
      in Socket_send UDPSocket_vt p 4 False sock (s\<lparr>buffer := packet\<rparr>))"

text \<open>What \<open>waitForAck\<close> makes of the packet received: \<open>None\<close> is going on waiting.\<close>

definition TFTPServer_ackReceived :: "u16 \<Rightarrow> 'a socket_scheme \<Rightarrow> 'd ether \<Rightarrow> bool option" where
  "TFTPServer_ackReceived expectedBlock sock s =
     (let payload = UDPSocket_payload s; packet = buffer s in
      if UDPSocket_havePacket sock s \<and> packet payload = 0x00 \<and> packet (payload + 1) = TFTP_OPCODE_ACK
      then Some (bytesToWord (packet (payload + 2)) (packet (payload + 3)) = expectedBlock)
      else None)"

partial_function (option) TFTPServer_waitForAck_loop ::
    "'d platform \<Rightarrow> u16 \<Rightarrow> u32 \<Rightarrow> 'a socket_scheme \<Rightarrow> 'd ether \<Rightarrow> (bool \<times> 'd ether) option" where
  "TFTPServer_waitForAck_loop p expectedBlock timeout sock s = do {
     r \<leftarrow> EtherSia_receivePacket p s;
     case TFTPServer_ackReceived expectedBlock sock (snd r) of
       Some ok \<Rightarrow> Some (ok, snd r)
     | None \<Rightarrow>
         (let t = EtherSia_millis p (snd r) in
          if 0 <s timeout - fst t then TFTPServer_waitForAck_loop p expectedBlock timeout sock (snd t)
          else Some (False, snd t))
   }"

definition TFTPServer_waitForAck ::
    "'d platform \<Rightarrow> u16 \<Rightarrow> 'a socket_scheme \<Rightarrow> 'd ether \<Rightarrow> (bool \<times> 'd ether) option" where
  "TFTPServer_waitForAck p expectedBlock sock s =
     (let (now, s) = EtherSia_millis p s
      in TFTPServer_waitForAck_loop p expectedBlock (now + TFTP_ACK_TIMEOUT) sock s)"

section \<open>Read requests\<close>

text \<open>Sending one DATA block.\<close>

definition TFTPServer_sendBlock ::
    "'d platform \<Rightarrow> 'd tftp_files \<Rightarrow> byte \<Rightarrow> u16 \<Rightarrow> 'a socket_scheme \<Rightarrow> 'd ether \<Rightarrow>
     (u16 \<times> 'a socket_scheme \<times> 'd ether) option" where
  "TFTPServer_sendBlock p f fileno block data s =
     (let payload = UDPSocket_payload s;
          packet = st8 (buffer s) payload 0x00;
          packet = st8 packet (payload + 1) TFTP_OPCODE_DATA;
          packet = st8 packet (payload + 2) (ucast (drop_bit 8 (block AND 0xFF00)));
          packet = st8 packet (payload + 3) (ucast (block AND 0xFF));
          (len, bytes, d) = readBytes f fileno block (dev s)
      in do {
        packet \<leftarrow> buf_wr packet (payload + 4) bytes;
        (data, s) \<leftarrow> Socket_send UDPSocket_vt p (len + 4) False data (s\<lparr>buffer := packet, dev := d\<rparr>);
        Some (len, data, s)
      })"

text \<open>
  The loop: the next block after an acknowledgement, the same one again up to \<open>TFTP_RETRIES\<close> times
  without; a block shorter than 512 bytes is the last.
\<close>

function TFTPServer_handleReadRequest_loop ::
    "'d platform \<Rightarrow> 'd tftp_files \<Rightarrow> byte \<Rightarrow> u16 \<Rightarrow> byte \<Rightarrow> 'a socket_scheme \<Rightarrow> 'd ether \<Rightarrow> 'd ether option" where
  "TFTPServer_handleReadRequest_loop p f fileno block retries data s =
     (if block < 0xFFFF then do {
        (len, data, s) \<leftarrow> TFTPServer_sendBlock p f fileno block data s;
        (gotAck, s) \<leftarrow> TFTPServer_waitForAck p block data s;
        if gotAck then
          (if len < TFTP_BLOCK_SIZE then Some s
           else TFTPServer_handleReadRequest_loop p f fileno (block + 1) 0 data s)
        else if retries + 1 > TFTP_RETRIES then Some s
        else TFTPServer_handleReadRequest_loop p f fileno block (retries + 1) data s
      }
      else Some s)"
  by pat_completeness auto
termination
proof (relation "measures [\<lambda>(_, _, _, block, _). 65535 - unat block, \<lambda>(_, _, _, _, retries, _). unat (10 - retries)]",
    goal_cases)
  case (2 p f fileno block)
  then have "unat block < 65535" by (simp add: word_less_nat_alt)
  then show ?case by (simp add: unat_word_ariths) arith
next
  case (3 p f fileno block retries)
  have "retries \<noteq> 10" using 3 by auto
  then have "10 - retries \<noteq> 0" by simp
  then have "unat (10 - retries - 1) < unat (10 - retries)" using unat_minus_one [of "10 - retries"]
    by (simp add: unat_gt_0)
  moreover have "10 - (retries + 1) = 10 - retries - 1" by simp
  ultimately show ?case by (simp only: prod.case measures_less in_measures) simp
qed simp

declare TFTPServer_handleReadRequest_loop.simps [simp del]

definition TFTPServer_handleReadRequest ::
    "'d platform \<Rightarrow> 'd tftp_files \<Rightarrow> byte \<Rightarrow> ip6 \<Rightarrow> u16 \<Rightarrow> 'd ether \<Rightarrow> 'd ether option" where
  "TFTPServer_handleReadRequest p f fileno address port s = do {
     (ok, data, s) \<leftarrow> Socket_setRemoteAddress p address port (Socket_new 0) s;
     TFTPServer_handleReadRequest_loop p f fileno 1 0 data s
   }"

section \<open>Write requests\<close>

text \<open>
  A DATA packet in the buffer. An expected or earlier block is acknowledged; the expected one is
  written and restarts the timeout. The first component tells whether it was the last block.
\<close>

definition TFTPServer_dataReceived ::
    "'d platform \<Rightarrow> 'd tftp_files \<Rightarrow> byte \<Rightarrow> u16 \<Rightarrow> u32 \<Rightarrow> 'a socket_scheme \<Rightarrow> 'd ether \<Rightarrow>
     (bool \<times> u16 \<times> u32 \<times> 'a socket_scheme \<times> 'd ether) option" where
  "TFTPServer_dataReceived p f fileno expectedBlock timeout data s =
     (let payload = UDPSocket_payload s;
          len = UDPSocket_payloadLength s - 4;
          block = bytesToWord (buffer s (payload + 2)) (buffer s (payload + 3))
      in do {
        (data, s) \<leftarrow> (if block \<le> expectedBlock then TFTPServer_sendAck p block data s else Some (data, s));
        if block = expectedBlock then do {
          bytes \<leftarrow> buf_rd (buffer s) (payload + 4) (unat len);
          let s = s\<lparr>dev := writeBytes f fileno block bytes (dev s)\<rparr>;
          let (now, s) = EtherSia_millis p s;
          Some (len \<noteq> TFTP_BLOCK_SIZE, expectedBlock + 1, now + TFTP_DATA_TIMEOUT, data, s)
        }
        else Some (False, expectedBlock, timeout, data, s)
      })"

text \<open>One round of the loop, up to the test of the timeout.\<close>

definition TFTPServer_writeRound ::
    "'d platform \<Rightarrow> 'd tftp_files \<Rightarrow> byte \<Rightarrow> u16 \<Rightarrow> u32 \<Rightarrow> 'a socket_scheme \<Rightarrow> 'd ether \<Rightarrow>
     (bool \<times> u16 \<times> u32 \<times> 'a socket_scheme \<times> 'd ether) option" where
  "TFTPServer_writeRound p f fileno expectedBlock timeout data s = do {
     (n, s) \<leftarrow> EtherSia_receivePacket p s;
     if UDPSocket_havePacket data s \<and> buffer s (UDPSocket_payload s) = 0x00
        \<and> buffer s (UDPSocket_payload s + 1) = TFTP_OPCODE_DATA
     then TFTPServer_dataReceived p f fileno expectedBlock timeout data s
     else Some (False, expectedBlock, timeout, data, s)
   }"

partial_function (option) TFTPServer_handleWriteRequest_loop ::
    "'d platform \<Rightarrow> 'd tftp_files \<Rightarrow> byte \<Rightarrow> u16 \<Rightarrow> u32 \<Rightarrow> 'a socket_scheme \<Rightarrow> 'd ether \<Rightarrow> 'd ether option" where
  "TFTPServer_handleWriteRequest_loop p f fileno expectedBlock timeout data s = do {
     r \<leftarrow> TFTPServer_writeRound p f fileno expectedBlock timeout data s;
     (case r of (final, expectedBlock, timeout, data, s) \<Rightarrow>
        if final then Some s
        else case EtherSia_millis p s of (now, s) \<Rightarrow>
          if timeout - now \<le>s 0 then Some s
          else TFTPServer_handleWriteRequest_loop p f fileno expectedBlock timeout data s)
   }"

definition TFTPServer_handleWriteRequest ::
    "'d platform \<Rightarrow> 'd tftp_files \<Rightarrow> byte \<Rightarrow> ip6 \<Rightarrow> u16 \<Rightarrow> 'd ether \<Rightarrow> 'd ether option" where
  "TFTPServer_handleWriteRequest p f fileno address port s = do {
     (ok, data, s) \<leftarrow> Socket_setRemoteAddress p address port (Socket_new 0) s;
     (data, s) \<leftarrow> TFTPServer_sendAck p 0 data s;
     let (now, s) = EtherSia_millis p s;
     TFTPServer_handleWriteRequest_loop p f fileno 1 (now + TFTP_DATA_TIMEOUT) data s
   }"

section \<open>Requests\<close>

definition TFTPServer_handleRequest ::
    "'d platform \<Rightarrow> 'd tftp_files \<Rightarrow> 'a socket_scheme \<Rightarrow> 'd ether \<Rightarrow> (bool \<times> 'a socket_scheme \<times> 'd ether) option" where
  "TFTPServer_handleRequest p f k s =
     (if \<not> UDPSocket_havePacket k s then Some (False, k, s)
      else
        let payload = UDPSocket_payload s; packet = buffer s; opcode = packet (payload + 1) in
        if packet payload = 0x00 \<and> (opcode = TFTP_OPCODE_READ \<or> opcode = TFTP_OPCODE_WRITE) then
          let (fileno, d) = openFile f (rd_bytes packet (payload + 2) (ETHERSIA_MAX_PACKET_SIZE - (payload + 2))) (dev s);
              s = s\<lparr>dev := d\<rparr>
          in if fileno \<le>s 0 then do {
               (k, s) \<leftarrow> TFTPServer_sendError p TFTP_NOT_FOUND k s;
               Some (True, k, s)
             }
             else if opcode = TFTP_OPCODE_READ then do {
               s \<leftarrow> TFTPServer_handleReadRequest p f fileno (Socket_packetSource s) (UDPSocket_packetSourcePort s) s;
               Some (True, k, s)
             }
             else do {
               s \<leftarrow> TFTPServer_handleWriteRequest p f fileno (Socket_packetSource s) (UDPSocket_packetSourcePort s) s;
               Some (True, k, s)
             }
        else do {
          (k, s) \<leftarrow> TFTPServer_sendError p TFTP_ILLEGAL_OPERATION k s;
          Some (True, k, s)
        })"


section \<open>Acknowledgements\<close>

text \<open>The header of a TFTP packet: the opcode and the block number, both in network order.\<close>

definition tftp_header :: "byte \<Rightarrow> u16 \<Rightarrow> byte list" where
  "tftp_header opcode block = [0, opcode, ucast (drop_bit 8 block), ucast block]"

lemma block_bytes:
  "(ucast (drop_bit 8 (block AND 0xFF00)) :: byte) = ucast (drop_bit 8 (block :: u16))"
  "(ucast (block AND 0xFF) :: byte) = ucast block"
  by (rule bit_word_eqI; auto simp: bit_simps mask_bits dest: bit_imp_le_length)+

lemma st8_header:
  "st8 (st8 (st8 (st8 m q a) (Suc q) b) (Suc (Suc q)) c) (Suc (Suc (Suc q))) d = wr_bytes m q [a, b, c, d]"
  by (rule ext) (auto simp: st8_def wr_bytes_nth nth_Cons')

lemma sendAck_send_data:
  "TFTPServer_sendAck p block sock s
   = Socket_send_data UDPSocket_vt p (tftp_header TFTP_OPCODE_ACK block) False sock s"
proof -
  have "buf_wr m 62 (tftp_header 4 block) = Some (wr_bytes m 62 (tftp_header 4 block))" for m
    by (simp add: buf_wr_def tftp_header_def)
  then show ?thesis
    using st8_header [of "buffer s" 62]
    by (simp add: TFTPServer_sendAck_def Socket_send_data_def UDPSocket_vt_def UDPSocket_payload_def Let_def
        block_bytes tftp_header_def)
qed

text \<open>An acknowledgement leaves the data behind the TFTP header in the buffer.\<close>

lemma sendAck_sends:
  assumes "wf_ether s" "wf_socket sock"
  shows "\<exists>m r. TFTPServer_sendAck p block sock s = map_option (Pair sock) r \<and> sends p s m r
     \<and> IPv6Packet_destination m = remoteAddress sock
     \<and> ntohs (ld16 m udp_destinationPort) = remotePort sock \<and> ntohs (ld16 m udp_sourcePort) = localPort sock
     \<and> rd_bytes m 62 4 = tftp_header TFTP_OPCODE_ACK block \<and> (\<forall>i\<ge>66. m i = buffer s i)"
proof -
  have l: "length (tftp_header TFTP_OPCODE_ACK block) = 4" by (simp add: tftp_header_def)
  obtain m r where "Socket_send_data UDPSocket_vt p (tftp_header TFTP_OPCODE_ACK block) False sock s
      = map_option (Pair sock) r" "sends p s m r"
    "IPv6Packet_destination m = remoteAddress sock"
    "ntohs (ld16 m 56) = remotePort sock" "ntohs (ld16 m 54) = localPort sock"
    "rd_bytes m 62 4 = tftp_header TFTP_OPCODE_ACK block" "\<forall>i\<ge>66. m i = buffer s i"
    using UDP_send_data_run [OF assms, of "tftp_header TFTP_OPCODE_ACK block" p] unfolding l by auto
  then show ?thesis unfolding sendAck_send_data by blast
qed


text \<open>What \<open>dataReceived\<close> does with the result of the driver.\<close>

lemma dataReceived_run:
  assumes "TFTPServer_sendAck p block data s = map_option (Pair data) r" "sends p s m r"
    "\<forall>i\<ge>66. m i = buffer s i"
    "bytesToWord (buffer s 64) (buffer s 65) = block" "unat (UDPSocket_payloadLength s) = 4 + n" "n \<le> 534"
    "block \<le> expected"
  shows "TFTPServer_dataReceived p f fileno expected timeout data s =
     do {
       s1 \<leftarrow> r;
       if block = expected then
         let s2 = s1\<lparr>dev := writeBytes f fileno block (rd_bytes (buffer s) 66 n) (dev s1)\<rparr>;
             (now, s3) = EtherSia_millis p s2
         in Some (n \<noteq> 512, expected + 1, now + 10000, data, s3)
       else Some (False, expected, timeout, data, s1)
     }"
proof -
  have len: "unat (UDPSocket_payloadLength s - 4) = n"
    using assms(5) by (simp add: unat_sub_if')
  then have full: "(UDPSocket_payloadLength s - 4 = 512) = (n = 512)"
    by (simp add: word_unat_eq_iff)
  show ?thesis
  proof (cases r)
    case (Some s1)
    then have m: "buffer s1 = m" using assms(2) sendsD(7) by blast
    have "rd_bytes (buffer s1) 66 n = rd_bytes (buffer s) 66 n"
      unfolding m by (rule rd_bytes_cong) (use assms(3) in simp)
    then show ?thesis
      using assms(1,4,6,7) Some len full
      by (simp add: TFTPServer_dataReceived_def UDPSocket_payload_def Let_def buf_rd_def split_def)
  qed (use assms(1,4,7) in \<open>simp add: TFTPServer_dataReceived_def UDPSocket_payload_def Let_def\<close>)
qed


text \<open>
  C13. Lock step of a write transfer: of the DATA packets received, an expected block is acknowledged
  and written once with exactly its data, the next one is expected then and a block of other than 512
  bytes ends the transfer; an earlier block is acknowledged again and not written; a later one is
  ignored. The acknowledgement is one valid packet to the client with the number of the block.
\<close>

theorem TFTPServer_dataReceived_lock_step:
  assumes "wf_ether s" "wf_socket data" "bytesToWord (buffer s 64) (buffer s 65) = block"
    "unat (UDPSocket_payloadLength s) = 4 + n" "n \<le> 534"
  shows "if expected < block
    then TFTPServer_dataReceived p f fileno expected timeout data s = Some (False, expected, timeout, data, s)
    else \<exists>m r. sends p s m r \<and> IPv6Packet_destination m = remoteAddress data
      \<and> ntohs (ld16 m udp_destinationPort) = remotePort data
      \<and> rd_bytes m 62 4 = tftp_header TFTP_OPCODE_ACK block
      \<and> TFTPServer_dataReceived p f fileno expected timeout data s =
        do {
          s1 \<leftarrow> r;
          if block = expected then
            let s2 = s1\<lparr>dev := writeBytes f fileno block (rd_bytes (buffer s) 66 n) (dev s1)\<rparr>;
                (now, s3) = EtherSia_millis p s2
            in Some (n \<noteq> 512, expected + 1, now + 10000, data, s3)
          else Some (False, expected, timeout, data, s1)
        }"
proof (cases "expected < block")
  case True
  then have "\<not> block \<le> expected" "block \<noteq> expected" by auto
  with True assms(3) show ?thesis
    by (simp add: TFTPServer_dataReceived_def UDPSocket_payload_def Let_def)
next
  case False
  then have le: "block \<le> expected" by simp
  obtain m r where x: "TFTPServer_sendAck p block data s = map_option (Pair data) r" "sends p s m r"
    "\<forall>i\<ge>66. m i = buffer s i" "IPv6Packet_destination m = remoteAddress data"
    "ntohs (ld16 m 56) = remotePort data" "rd_bytes m 62 4 = tftp_header TFTP_OPCODE_ACK block"
    using sendAck_sends [OF assms(1,2), of p block] by blast
  from dataReceived_run [OF x(1-3) assms(3-5) le, of f fileno timeout] x(2,4-6) False show ?thesis
    by (simp only: if_False) blast
qed

text \<open>A transfer of one block of three bytes, kept in the state of the platform.\<close>

definition sample_files :: "byte list tftp_files" where
  "sample_files = \<lparr>openFile = (\<lambda>name d. (1, d)), writeBytes = (\<lambda>fileno block bytes d. bytes),
     readBytes = (\<lambda>fileno block d. (0, [], d))\<rparr>"

definition sample_transfer :: "byte list ether" where
  "sample_transfer = (let s = with_frame sample_ether [] in
     s\<lparr>buffer := wr_bytes (buffer s) 58 [0, 15, 0, 0, 0, 3, 0, 1, 7, 8, 9]\<rparr>)"

lemma TFTPServer_dataReceived_lock_step_witness:
  "\<exists>s. TFTPServer_dataReceived one_frame_platform sample_files 1 1 0 sample_socket sample_transfer
       = Some (True, 2, 10000, sample_socket, s) \<and> dev s = [7, 8, 9]"
proof -
  have h: "wf_ether sample_transfer" "wf_socket sample_socket"
    "bytesToWord (buffer sample_transfer 64) (buffer sample_transfer 65) = 1"
    "unat (UDPSocket_payloadLength sample_transfer) = 4 + 3"
    by code_simp+
  have d: "rd_bytes (buffer sample_transfer) 66 3 = [7, 8, 9]" by code_simp
  from TFTPServer_dataReceived_lock_step [OF h, of 1 one_frame_platform sample_files 1 0]
  obtain m r where "sends one_frame_platform sample_transfer m r"
    "TFTPServer_dataReceived one_frame_platform sample_files 1 1 0 sample_socket sample_transfer =
       do {
         s1 \<leftarrow> r;
         let s2 = s1\<lparr>dev := writeBytes sample_files 1 1 [7, 8, 9] (dev s1)\<rparr>;
             (now, s3) = EtherSia_millis one_frame_platform s2
         in Some (True, 2, now + 10000, sample_socket, s3)
       }"
    by (auto simp: d)
  moreover then have "r \<noteq> None" by (auto simp: sends_def one_frame_platform_def)
  ultimately show ?thesis
    by (auto simp: sample_files_def EtherSia_millis_def one_frame_platform_def Let_def)
qed

text \<open>A DATA packet shorter than its header makes the block longer than the packet buffer.\<close>

lemma dataReceived_short:
  assumes "bytesToWord (buffer s 64) (buffer s 65) = expected" "unat (UDPSocket_payloadLength s) < 4"
  shows "TFTPServer_dataReceived p f fileno expected timeout data s = None"
proof -
  have "600 < unat (UDPSocket_payloadLength s - 4)"
    using assms(2) by (simp add: unat_sub_if')
  then show ?thesis using assms(1)
    by (cases "TFTPServer_sendAck p expected data s")
      (auto simp: TFTPServer_dataReceived_def UDPSocket_payload_def Let_def buf_rd_def)
qed

end
