(* ===== verification/Custom_TFTP_Server.thy ===== *)
theory Custom_TFTP_Server
  imports TFTP_Server Application_Monitor
begin

text \<open>
  \<open>src/examples/TFTPServer/CustomTFTPServer.h\<close> and \<open>TFTPServer.ino\<close>: the files of the TFTP example, the serial port, the
  internal EEPROM and an EEPROM on the I2C bus. The functions of the \<open>Serial\<close>, \<open>EEPROM\<close> and \<open>Wire\<close> libraries are a
  parameter over the state of the platform.
\<close>

record 'd storage =
  internal :: "'d eeprom_ops"
  EEPROM_length :: u16
  Serial_write :: "byte list \<Rightarrow> 'd \<Rightarrow> 'd"
  Wire_beginTransmission :: "byte \<Rightarrow> 'd \<Rightarrow> 'd"
  Wire_write :: "byte \<Rightarrow> 'd \<Rightarrow> 'd"
  Wire_endTransmission :: "'d \<Rightarrow> 'd"
  Wire_requestFrom :: "byte \<Rightarrow> byte \<Rightarrow> 'd \<Rightarrow> 'd"
  Wire_available :: "'d \<Rightarrow> bool"
  Wire_read :: "'d \<Rightarrow> byte \<times> 'd"
  Arduino_delay :: "u32 \<Rightarrow> 'd \<Rightarrow> 'd"

abbreviation (input) AT24C128_LENGTH :: u16 where "AT24C128_LENGTH \<equiv> 16384"
abbreviation (input) AT24C128_ADDRESS :: byte where "AT24C128_ADDRESS \<equiv> 0x50"
abbreviation (input) AT24C128_BUF_SIZE :: nat where "AT24C128_BUF_SIZE \<equiv> 32"

definition strcmp_name :: "byte list \<Rightarrow> string \<Rightarrow> bool" where
  "strcmp_name filename str \<longleftrightarrow> take (length str + 1) filename = chars str @ [0]"

definition CustomTFTPServer_openFile :: "byte list \<Rightarrow> byte" where
  "CustomTFTPServer_openFile filename =
     (if strcmp_name filename ''serial'' then 1
      else if strcmp_name filename ''eeprom'' then 2
      else if strcmp_name filename ''i2c'' then 3
      else - 1)"

text \<open>The loop over the bytes of a block written to the internal EEPROM.\<close>

fun CustomTFTPServer_updateEeprom :: "'d storage \<Rightarrow> u16 \<Rightarrow> u16 \<Rightarrow> byte list \<Rightarrow> 'd \<Rightarrow> 'd" where
  "CustomTFTPServer_updateEeprom st offset i [] d = d"
| "CustomTFTPServer_updateEeprom st offset i (v # vs) d =
     (let idx = i + offset;
          d = (if idx < EEPROM_length st then eeprom_write (internal st) (unat idx) v d else d)
      in CustomTFTPServer_updateEeprom st offset (i + 1) vs d)"

definition Wire_address :: "'d storage \<Rightarrow> u16 \<Rightarrow> 'd \<Rightarrow> 'd" where
  "Wire_address st eeaddress d =
     (let d = Wire_beginTransmission st AT24C128_ADDRESS d;
          d = Wire_write st (ucast (drop_bit 8 eeaddress)) d
      in Wire_write st (ucast (eeaddress AND 0xFF)) d)"

text \<open>
  Writing in pieces of half a wire buffer; \<open>vs\<close> are the bytes from number \<open>i\<close> on. The caller has at most the data of
  one packet, so that the 16-bit counter does not wrap.
\<close>

function CustomTFTPServer_writeToI2c :: "'d storage \<Rightarrow> u16 \<Rightarrow> u16 \<Rightarrow> byte list \<Rightarrow> 'd \<Rightarrow> 'd" where
  "CustomTFTPServer_writeToI2c st offset i vs d =
     (if vs = [] then d
      else
        let eeaddress = i + offset in
        if AT24C128_LENGTH \<le> eeaddress then d
        else
          let d = Wire_address st eeaddress d;
              n = AT24C128_BUF_SIZE div 2;
              d = fold (Wire_write st) (take n vs) d;
              d = Wire_endTransmission st d;
              d = Arduino_delay st 5 d
          in CustomTFTPServer_writeToI2c st offset (i + word_of_nat (length (take n vs))) (drop n vs) d)"
  by pat_completeness auto
termination
  by (relation "measure (\<lambda>(_, _, _, vs, _). length vs)") auto

declare CustomTFTPServer_writeToI2c.simps [simp del]

text \<open>The inner loop of \<open>readFromI2c\<close>: the bytes that are available, \<open>n\<close> at most; the flag says that there were fewer.\<close>

fun CustomTFTPServer_readWire :: "'d storage \<Rightarrow> nat \<Rightarrow> 'd \<Rightarrow> bool \<times> byte list \<times> 'd" where
  "CustomTFTPServer_readWire st 0 d = (False, [], d)"
| "CustomTFTPServer_readWire st (Suc n) d =
     (if \<not> Wire_available st d then (True, [], d)
      else let (v, d) = Wire_read st d;
               (eof, vs, d) = CustomTFTPServer_readWire st n d
           in (eof, v # vs, d))"

function CustomTFTPServer_readFromI2c_loop ::
    "'d storage \<Rightarrow> u16 \<Rightarrow> nat \<Rightarrow> nat \<Rightarrow> byte list \<Rightarrow> 'd \<Rightarrow> u16 \<times> byte list \<times> 'd" where
  "CustomTFTPServer_readFromI2c_loop st offset len i data d =
     (if i < len then
        let d = Wire_endTransmission st (Wire_address st (word_of_nat i + offset) d);
            d = Wire_requestFrom st AT24C128_ADDRESS (word_of_nat AT24C128_BUF_SIZE) d;
            (eof, vs, d) = CustomTFTPServer_readWire st AT24C128_BUF_SIZE d;
            data = data @ vs
        in if eof then (word_of_nat (i + length vs), data, Serial_write st (chars ''No more data available'' @ [0x0D, 0x0A]) d)
           else CustomTFTPServer_readFromI2c_loop st offset len (i + AT24C128_BUF_SIZE) data d
      else (word_of_nat len, data, d))"
  by pat_completeness auto
termination
  by (relation "measure (\<lambda>(_, _, len, i, _). len - i)") auto

declare CustomTFTPServer_readFromI2c_loop.simps [simp del]

definition CustomTFTPServer_readFromI2c :: "'d storage \<Rightarrow> u16 \<Rightarrow> 'd \<Rightarrow> u16 \<times> byte list \<times> 'd" where
  "CustomTFTPServer_readFromI2c st offset d =
     (let len = AT24C128_LENGTH - offset;
          len = (if TFTP_BLOCK_SIZE < len then TFTP_BLOCK_SIZE else len)
      in CustomTFTPServer_readFromI2c_loop st offset (unat len) 0 [] d)"

definition CustomTFTPServer_writeBytes :: "'d storage \<Rightarrow> byte \<Rightarrow> u16 \<Rightarrow> byte list \<Rightarrow> 'd \<Rightarrow> 'd" where
  "CustomTFTPServer_writeBytes st fileno block data d =
     (let offset = (block - 1) * TFTP_BLOCK_SIZE in
      if fileno = 1 then Serial_write st data d
      else if fileno = 2 then CustomTFTPServer_updateEeprom st offset 0 data d
      else if fileno = 3 then CustomTFTPServer_writeToI2c st offset 0 data d
      else d)"

definition CustomTFTPServer_readBytes :: "'d storage \<Rightarrow> byte \<Rightarrow> u16 \<Rightarrow> 'd \<Rightarrow> u16 \<times> byte list \<times> 'd" where
  "CustomTFTPServer_readBytes st fileno block d =
     (let offset = (block - 1) * TFTP_BLOCK_SIZE in
      if fileno = 2 then
        let len = EEPROM_length st - offset;
            len = (if TFTP_BLOCK_SIZE < len then TFTP_BLOCK_SIZE else len)
        in (len, map (\<lambda>i. eeprom_read (internal st) (unat (word_of_nat i + offset)) d) [0..<unat len], d)
      else if fileno = 3 then CustomTFTPServer_readFromI2c st offset d
      else (0, [], d))"

text \<open>The class as a subclass of \<open>TFTPServer\<close>, and the loop of the sketch.\<close>

definition CustomTFTPServer_files :: "'d storage \<Rightarrow> 'd tftp_files" where
  "CustomTFTPServer_files st = \<lparr>openFile = (\<lambda>name d. (CustomTFTPServer_openFile name, d)),
     writeBytes = CustomTFTPServer_writeBytes st, readBytes = CustomTFTPServer_readBytes st\<rparr>"

definition TFTPServer_example_loop ::
    "'d platform \<Rightarrow> 'd storage \<Rightarrow> socket \<Rightarrow> 'd ether \<Rightarrow> (socket \<times> 'd ether) option" where
  "TFTPServer_example_loop p st k s = do {
     (_, s) \<leftarrow> EtherSia_receivePacket p s;
     (handled, k, s) \<leftarrow> TFTPServer_handleRequest p (CustomTFTPServer_files st) k s;
     if \<not> handled then do { s \<leftarrow> EtherSia_rejectPacket p s; Some (k, s) }
     else Some (k, s)
   }"

section \<open>The EEPROM as a file\<close>

text \<open>The blocks a file is transferred in: the last one is short.\<close>

function tftp_blocks :: "byte list \<Rightarrow> byte list list" where
  "tftp_blocks data = (if length data < 512 then [data] else take 512 data # tftp_blocks (drop 512 data))"
  by pat_completeness auto
termination
  by (relation "measure length") auto

declare tftp_blocks.simps [simp del]

lemma tftp_blocks_nth:
  "k < length (tftp_blocks data) \<Longrightarrow> tftp_blocks data ! k = take 512 (drop (512 * k) data) \<and> 512 * k \<le> length data"
proof (induction data arbitrary: k rule: tftp_blocks.induct)
  case (1 data)
  show ?case
  proof (cases "length data < 512")
    case True
    then show ?thesis using "1.prems" by (simp add: tftp_blocks.simps [of data])
  next
    case False
    then show ?thesis
      using "1.prems" "1.IH" [of "k - 1"]
      by (cases k) (auto simp: tftp_blocks.simps [of data] add.commute)
  qed
qed

lemma concat_tftp_blocks: "concat (tftp_blocks data) = data"
  by (induction data rule: tftp_blocks.induct) (subst tftp_blocks.simps, simp)

lemma tftp_blocks_last: "length (last (tftp_blocks data)) < 512" "tftp_blocks data \<noteq> []"
proof -
  show ne: "tftp_blocks data \<noteq> []" for data by (subst tftp_blocks.simps) simp
  show "length (last (tftp_blocks data)) < 512"
  proof (induction data rule: tftp_blocks.induct)
    case (1 data)
    then show ?case using ne by (subst tftp_blocks.simps) simp
  qed
qed

lemma eeprom_store_append:
  "eeprom_store e a (xs @ ys) d = eeprom_store e (a + length xs) ys (eeprom_store e a xs d)"
  by (induction xs arbitrary: a d) simp_all

lemma updateEeprom_store:
  "unat offset + unat i + length vs \<le> unat (EEPROM_length st) \<Longrightarrow>
   CustomTFTPServer_updateEeprom st offset i vs d = eeprom_store (internal st) (unat offset + unat i) vs d"
proof (induction vs arbitrary: i d)
  case (Cons v vs)
  have l: "unat offset + unat i < unat (EEPROM_length st)" "unat (EEPROM_length st) < 65536"
    using Cons.prems unat_u16_less [of "EEPROM_length st"] by simp_all
  have idx: "unat (i + offset) = unat offset + unat i" "i + offset < EEPROM_length st"
  proof -
    have "unat (i + offset) = (unat i + unat offset) mod 65536" by (simp add: unat_word_ariths)
    also have "\<dots> = unat offset + unat i" using l by (subst mod_less) linarith+
    finally show "unat (i + offset) = unat offset + unat i" .
    with l show "i + offset < EEPROM_length st" by (simp only: word_less_nat_alt)
  qed
  show ?case
  proof (cases vs)
    case Nil
    then show ?thesis using idx by simp
  next
    case (Cons w ws)
    then have "unat (i + 1) = unat i + 1" using Cons.prems l by (simp add: unat_word_ariths)
    then show ?thesis using Cons.IH [of "i + 1"] Cons.prems idx by simp
  qed
qed simp

lemma block_offset: "512 * k < 65536 \<Longrightarrow> unat ((word_of_nat (k + 1) - 1) * (512 :: u16)) = 512 * k"
proof -
  assume "512 * k < 65536"
  moreover have "(word_of_nat (k + 1) - 1) * (512 :: u16) = word_of_nat (512 * k)" by simp
  ultimately show ?thesis by (simp only: unsigned_of_nat take_bit_eq_mod) simp
qed

text \<open>A whole file written block by block, as the TFTP server does with the blocks it is sent in order.\<close>

definition write_file :: "'d storage \<Rightarrow> nat \<Rightarrow> byte list \<Rightarrow> 'd \<Rightarrow> 'd" where
  "write_file st j data d =
     fold (\<lambda>(k, b). CustomTFTPServer_writeBytes st 2 (word_of_nat (k + 1)) b) (enumerate j (tftp_blocks data)) d"

lemma writeBytes_block:
  assumes "512 * k + length b \<le> unat (EEPROM_length st)"
  shows "CustomTFTPServer_writeBytes st 2 (word_of_nat (k + 1)) b d = eeprom_store (internal st) (512 * k) b d"
proof -
  have "512 * k < 65536" using assms unat_u16_less [of "EEPROM_length st"] by simp
  then have "unat ((word_of_nat (k + 1) - 1) * (512 :: u16)) = 512 * k" by (rule block_offset)
  then show ?thesis
    using assms updateEeprom_store [of "(word_of_nat (k + 1) - 1) * 512" 0 b st d]
    by (simp add: CustomTFTPServer_writeBytes_def Let_def)
qed

lemma write_file_store:
  "512 * j + length data \<le> unat (EEPROM_length st) \<Longrightarrow> write_file st j data d = eeprom_store (internal st) (512 * j) data d"
proof (induction data arbitrary: j d rule: tftp_blocks.induct)
  case (1 data)
  show ?case
  proof (cases "length data < 512")
    case True
    then show ?thesis
      using "1.prems" writeBytes_block [of j data st d] by (simp add: write_file_def tftp_blocks.simps [of data])
  next
    case False
    then have s: "write_file st j data d = write_file st (Suc j) (drop 512 data)
        (CustomTFTPServer_writeBytes st 2 (word_of_nat (j + 1)) (take 512 data) d)"
      by (simp add: write_file_def tftp_blocks.simps [of data])
    have "write_file st (Suc j) (drop 512 data) d' = eeprom_store (internal st) (512 * Suc j) (drop 512 data) d'" for d'
      using "1.IH" [OF False, of "Suc j"] "1.prems" False by simp
    moreover have "CustomTFTPServer_writeBytes st 2 (word_of_nat (j + 1)) (take 512 data) d
        = eeprom_store (internal st) (512 * j) (take 512 data) d"
      using "1.prems" False by (intro writeBytes_block) simp
    moreover have "512 * Suc j = 512 * j + length (take 512 data)" using False by simp
    ultimately show ?thesis
      using eeprom_store_append [of "internal st" "512 * j" "take 512 data" "drop 512 data" d]
      unfolding s by (simp add: add.commute)
  qed
qed

lemma readBytes_block:
  assumes "k < length (tftp_blocks (eeprom_bytes (internal st) d 0 (unat (EEPROM_length st))))" 
  defines "b \<equiv> tftp_blocks (eeprom_bytes (internal st) d 0 (unat (EEPROM_length st))) ! k"
  shows "CustomTFTPServer_readBytes st 2 (word_of_nat (k + 1)) d = (word_of_nat (length b), b, d)"
proof -
  let ?L = "unat (EEPROM_length st)" and ?c = "eeprom_bytes (internal st) d 0 (unat (EEPROM_length st))"
  let ?o = "(word_of_nat (k + 1) - 1) * (512 :: u16)"
  have b: "b = take 512 (drop (512 * k) ?c)" "512 * k \<le> ?L"
    using tftp_blocks_nth [OF assms(1)] by (simp_all add: b_def eeprom_bytes_def)
  have o: "unat ?o = 512 * k" using b(2) unat_u16_less [of "EEPROM_length st"] by (intro block_offset) simp
  have diff: "unat (EEPROM_length st - ?o) = ?L - 512 * k"
    using b(2) o by (subst unat_sub) (simp_all add: word_le_nat_alt)
  define l where "l = (if 512 < EEPROM_length st - ?o then 512 else EEPROM_length st - ?o)"
  have len: "unat l = length b"
    using diff by (auto simp: l_def b(1) eeprom_bytes_def word_less_nat_alt)
  have "map (\<lambda>i. eeprom_read (internal st) (unat (word_of_nat i + ?o)) d) [0..<unat l] = b"
  proof (rule nth_equalityI)
    fix i assume "i < length (map (\<lambda>i. eeprom_read (internal st) (unat (word_of_nat i + ?o)) d) [0..<unat l])"
    then have i: "i < length b" "512 * k + i < ?L" using len b(2) by (auto simp: b(1) eeprom_bytes_def)
    have "unat (word_of_nat i + ?o) = 512 * k + i"
      using i(2) o unat_u16_less [of "EEPROM_length st"]
      by (simp add: unat_word_ariths unsigned_of_nat take_bit_eq_mod)
    then show "map (\<lambda>i. eeprom_read (internal st) (unat (word_of_nat i + ?o)) d) [0..<unat l] ! i = b ! i"
      using i len by (simp add: b(1) eeprom_bytes_def)
  qed (simp add: len)
  moreover have "word_of_nat (length b) = l" using len [symmetric] by simp
  moreover have "CustomTFTPServer_readBytes st 2 (word_of_nat (k + 1)) d
      = (l, map (\<lambda>i. eeprom_read (internal st) (unat (word_of_nat i + ?o)) d) [0..<unat l], d)"
    by (simp only: CustomTFTPServer_readBytes_def Let_def l_def refl if_True)
  ultimately show ?thesis by (simp only:)
qed

text \<open>
  C22. What is uploaded is what is downloaded: a file that fits the internal EEPROM, written in TFTP blocks, is what
  reading gives back block by block from the first to the last, short one, followed by what the EEPROM held
  behind it.
\<close>

theorem CustomTFTPServer_eeprom_roundtrip:
  fixes st :: "'d storage" and d :: 'd
  assumes "eeprom_ok (unat (EEPROM_length st)) (internal st)" "length contents \<le> unat (EEPROM_length st)"
  defines "old \<equiv> eeprom_bytes (internal st) d 0 (unat (EEPROM_length st))" and "d' \<equiv> write_file st 0 contents d"
  defines "blocks \<equiv> tftp_blocks (contents @ drop (length contents) old)"
  assumes k: "k < length blocks"
  shows "CustomTFTPServer_readBytes st 2 (word_of_nat (k + 1)) d' = (word_of_nat (length (blocks ! k)), blocks ! k, d')"
proof -
  have "d' = eeprom_store (internal st) 0 contents d" using assms(2) by (simp add: d'_def write_file_store)
  then have "eeprom_bytes (internal st) d' 0 (unat (EEPROM_length st))
      = rd_bytes (wr_bytes (\<lambda>i. eeprom_read (internal st) i d) 0 contents) 0 (unat (EEPROM_length st))"
    using eeprom_bytes_store [OF assms(1), of 0 contents 0] assms(2) by simp
  also have "\<dots> = contents @ drop (length contents) old"
    using assms(2) by (intro nth_equalityI) (auto simp: old_def eeprom_bytes_def wr_bytes_nth nth_append)
  finally show ?thesis
    using readBytes_block [of k st d'] k unfolding blocks_def by simp
qed

text \<open>A storage with an EEPROM of eight bytes and nothing on the other buses.\<close>

definition sample_storage :: "mem storage" where
  "sample_storage = \<lparr>internal = sample_eeprom, EEPROM_length = 8, Serial_write = (\<lambda>_ d. d),
     Wire_beginTransmission = (\<lambda>_ d. d), Wire_write = (\<lambda>_ d. d), Wire_endTransmission = (\<lambda>d. d),
     Wire_requestFrom = (\<lambda>_ _ d. d), Wire_available = (\<lambda>_. False), Wire_read = (\<lambda>d. (0xFF, d)), Arduino_delay = (\<lambda>_ d. d)\<rparr>"

lemma CustomTFTPServer_eeprom_roundtrip_witness:
  "fst (snd (CustomTFTPServer_readBytes sample_storage 2 1 (write_file sample_storage 0 [1, 2, 3] (\<lambda>_. 0xFF))))
     = [1, 2, 3, 0xFF, 0xFF, 0xFF, 0xFF, 0xFF]"
proof -
  let ?old = "eeprom_bytes (internal sample_storage) (\<lambda>_. 0xFF) 0 (unat (EEPROM_length sample_storage))"
  have o: "?old = [0xFF, 0xFF, 0xFF, 0xFF, 0xFF, 0xFF, 0xFF, 0xFF]" by code_simp
  have b: "tftp_blocks ([1, 2, 3] @ drop (length [1, 2, 3 :: byte]) ?old) = [[1, 2, 3, 0xFF, 0xFF, 0xFF, 0xFF, 0xFF]]"
    unfolding o by (subst tftp_blocks.simps) simp
  have "eeprom_ok (unat (EEPROM_length sample_storage)) (internal sample_storage)"
    "length [1, 2, 3 :: byte] \<le> unat (EEPROM_length sample_storage)"
    by (simp_all add: sample_storage_def sample_eeprom_ok)
  from CustomTFTPServer_eeprom_roundtrip [OF this, of 0 "\<lambda>_. 0xFF"] show ?thesis unfolding b by simp
qed

end
