(* ===== verification/Sketch_Setup.thy ===== *)
theory Sketch_Setup
  imports EmonCMS Custom_TFTP_Server
begin

text \<open>
  The functions \<open>setup\<close> of the sketches in \<open>src/examples/\<close>, and the sketches that do nothing else but print the packets
  they receive. The result has what is printed to the serial port. \<open>drv_begin\<close> is \<open>begin\<close> of the driver the sketch
  uses; the libraries for the timer, the watchdog, the modes of the pins and the chip with the address of a Nanode
  are parameters.
\<close>

type_synonym 'd drv_begin = "mac \<Rightarrow> 'd ether \<Rightarrow> (bool \<times> 'd ether) option"

text \<open>A line on the serial port, and one that is only printed when something has failed.\<close>

abbreviation (input) line :: "string \<Rightarrow> byte list" where "line s \<equiv> chars s @ crlf"
abbreviation (input) failure :: "bool \<Rightarrow> string \<Rightarrow> byte list" where "failure ok s \<equiv> if ok then [] else line s"

text \<open>The constructor \<open>MACAddress(const char*)\<close>, over memory it finds as \<open>uninit\<close>; the addresses of the sketches fill it.\<close>

definition MACAddress_of_string :: "mac \<Rightarrow> byte list \<Rightarrow> mac option" where
  "MACAddress_of_string uninit macstr = do { (_, m) \<leftarrow> MACAddress_fromString uninit macstr; Some m }"

section \<open>Minimal.ino, MinimalStatic.ino and PacketPrinter.ino\<close>

definition Minimal_setup :: "mac \<Rightarrow> 'd drv_begin \<Rightarrow> 'd ether \<Rightarrow> (byte list \<times> 'd ether) option" where
  "Minimal_setup uninit drv_begin s = do {
     macAddress \<leftarrow> MACAddress_of_string uninit (chars ''3e:ad:93:36:7d:9d'');
     let serial = line ''[EtherSia Minimal]'';
     (ok, s) \<leftarrow> drv_begin macAddress s;
     let serial = serial @ failure ok ''Failed to configure Ethernet'';
     Some (serial @ chars ''Global address: '' @ IPv6Address_println (globalAddress s), s)
   }"

definition Minimal_loop :: "'d platform \<Rightarrow> 'd ether \<Rightarrow> 'd ether option" where
  "Minimal_loop p s = do { (_, s) \<leftarrow> EtherSia_receivePacket p s; Some s }"

definition MinimalStatic_setup :: "'d platform \<Rightarrow> mac \<Rightarrow> 'd drv_begin \<Rightarrow> 'd ether \<Rightarrow> (byte list \<times> 'd ether) option" where
  "MinimalStatic_setup p uninit drv_begin s = do {
     macAddress \<leftarrow> MACAddress_of_string uninit (chars ''e6:a6:57:21:ec:d1'');
     let serial = line ''[EtherSia MinimalStatic]'';
     let s = EtherSia_disableAutoconfiguration s;
     (ok, s) \<leftarrow> drv_begin macAddress s;
     let serial = serial @ failure ok ''Failed to configure Ethernet'';
     s \<leftarrow> EtherSia_setGlobalAddress_str s (chars ''2001:1234::5000'');
     (ok, s) \<leftarrow> EtherSia_setRouter_str p (chars ''fe80::f4c0:4ff:fefb:4186'') s;
     Some (serial @ failure ok ''Failed to configure router address'' @ line ''Ready'', s)
   }"

definition MinimalStatic_loop :: "'d platform \<Rightarrow> 'd ether \<Rightarrow> 'd ether option" where
  "MinimalStatic_loop p s = do { (_, s) \<leftarrow> EtherSia_receivePacket p s; Some s }"

definition PacketPrinter_setup :: "mac \<Rightarrow> 'd drv_begin \<Rightarrow> 'd ether \<Rightarrow> (byte list \<times> 'd ether) option" where
  "PacketPrinter_setup uninit drv_begin s = do {
     macAddress \<leftarrow> MACAddress_of_string uninit (chars ''e2:d7:66:39:6b:5e'');
     let serial = line ''[EtherSia PacketPrinter]'' @ chars ''Our MAC is: '' @ MACAddress_println macAddress;
     (ok, s) \<leftarrow> drv_begin macAddress s;
     Some (serial @ failure ok ''Failed to configure Ethernet'', s)
   }"

definition PacketPrinter_packet :: "mem \<Rightarrow> byte list" where
  "PacketPrinter_packet packet =
     chars ''Source MAC: '' @ MACAddress_println (IPv6Packet_etherSource packet)
     @ chars ''Destination MAC: '' @ MACAddress_println (IPv6Packet_etherDestination packet)
     @ chars ''Source Address: '' @ IPv6Address_println (IPv6Packet_source packet)
     @ chars ''Destination Address: '' @ IPv6Address_println (IPv6Packet_destination packet)
     @ chars ''Protocol: '' @ printf_u (unat (IPv6Packet_protocol packet)) @ crlf
     @ chars ''Length: '' @ printf_u (unat (IPv6Packet_payloadLength packet)) @ crlf
     @ crlf"

definition PacketPrinter_loop :: "'d platform \<Rightarrow> 'd ether \<Rightarrow> (byte list \<times> 'd ether) option" where
  "PacketPrinter_loop p s = do {
     (n, s) \<leftarrow> EtherSia_receivePacket p s;
     Some (if n \<noteq> 0 then PacketPrinter_packet (buffer s) else [], s)
   }"

section \<open>The servers\<close>

text \<open>\<open>unio\<close> reads the address from the chip on a Nanode and says whether it could; the address is all 0 before.\<close>

definition NanodeUDPServer_setup ::
    "('d \<Rightarrow> (bool \<times> mac) \<times> 'd) \<Rightarrow> 'd drv_begin \<Rightarrow> (byte \<Rightarrow> 'b \<Rightarrow> 'b) \<Rightarrow> 'b gpio \<Rightarrow> 'b \<Rightarrow> 'd ether
      \<Rightarrow> (byte list \<times> 'b \<times> 'd ether) option" where
  "NanodeUDPServer_setup unio drv_begin pin_output g b s = do {
     let ((r, macAddress), d) = unio (dev s);
     let s = s\<lparr>dev := d\<rparr>;
     let serial = line ''[EtherSia NanodeUDPServer]'' @ chars ''Reading MAC address... ''
       @ (if r then line ''success'' else line ''failure'') @ MACAddress_println macAddress;
     (ok, s) \<leftarrow> drv_begin macAddress s;
     let serial = serial @ failure ok ''Failed to configure Ethernet''
       @ chars ''Our link-local address is: '' @ IPv6Address_println (linkLocalAddress s)
       @ chars ''Our global address is: '' @ IPv6Address_println (globalAddress s);
     let b = digitalWrite g NANODE_LED_PIN True (pin_output NANODE_LED_PIN b);
     Some (serial @ line ''Ready.'', b, s)
   }"

definition MiniHTTPServer_setup :: "mac \<Rightarrow> 'd drv_begin \<Rightarrow> 'd ether \<Rightarrow> (byte list \<times> 'd ether) option" where
  "MiniHTTPServer_setup uninit drv_begin s = do {
     macAddress \<leftarrow> MACAddress_of_string uninit (chars ''9e:b3:19:c7:1b:10'');
     let serial = line ''[EtherSia MiniHTTPServer]'' @ MACAddress_println macAddress;
     (ok, s) \<leftarrow> drv_begin macAddress s;
     Some (serial @ failure ok ''Failed to configure Ethernet''
       @ chars ''Our link-local address is: '' @ IPv6Address_println (linkLocalAddress s)
       @ chars ''Our global address is: '' @ IPv6Address_println (globalAddress s) @ line ''Ready.'', s)
   }"

definition TFTPServer_example_setup :: "('d \<Rightarrow> 'd) \<Rightarrow> mac \<Rightarrow> 'd drv_begin \<Rightarrow> 'd ether \<Rightarrow> (byte list \<times> 'd ether) option" where
  "TFTPServer_example_setup i2c_begin uninit drv_begin s = do {
     macAddress \<leftarrow> MACAddress_of_string uninit (chars ''62:84:98:22:09:2c'');
     let serial = line ''[EtherSia TFTPServer]'';
     let s = s\<lparr>dev := i2c_begin (dev s)\<rparr>;
     (ok, s) \<leftarrow> drv_begin macAddress s;
     Some (serial @ failure ok ''Failed to configure Ethernet''
       @ chars ''Our link-local address is: '' @ IPv6Address_println (linkLocalAddress s)
       @ chars ''Our global address is: '' @ IPv6Address_println (globalAddress s) @ line ''Ready.'', s)
   }"

text \<open>
  The four pins of the outputs and of the buttons get their modes; \<open>timer_start\<close> starts the timer whose interrupt calls
  \<open>checkButtons\<close>, \<open>wdt_enable\<close> the watchdog.
\<close>

definition WebToggler_setup ::
    "(byte \<Rightarrow> bool \<Rightarrow> 'b \<Rightarrow> 'b) \<Rightarrow> 'b gpio \<Rightarrow> ('d \<Rightarrow> 'd) \<Rightarrow> ('d \<Rightarrow> 'd) \<Rightarrow> mac \<Rightarrow> 'd drv_begin \<Rightarrow> 'b toggler \<Rightarrow> 'd ether
      \<Rightarrow> (byte list \<times> 'b toggler \<times> 'd ether) option" where
  "WebToggler_setup pin_mode g timer_start wdt_enable uninit drv_begin t s = do {
     macAddress \<leftarrow> MACAddress_of_string uninit (chars ''d6:9c:e1:1c:0b:32'');
     let serial = line ''[EtherSia WebToggler]'' @ MACAddress_println macAddress;
     let t = t\<lparr>board := fold (\<lambda>i b. pin_mode (pin_A0 g + word_of_nat i) False
         (pin_mode (FIRST_OUTPUT_PIN + word_of_nat i) True b)) [0..<4] (board t)\<rparr>;
     let s = s\<lparr>dev := wdt_enable (timer_start (dev s))\<rparr>;
     (ok, s) \<leftarrow> drv_begin macAddress s;
     Some (serial @ failure ok ''Failed to configure Ethernet''
       @ chars ''Our address is: '' @ IPv6Address_println (globalAddress s) @ line ''Ready.'', t, s)
   }"

section \<open>The clients\<close>

definition NanodeUDPClient_setup ::
    "'d platform \<Rightarrow> ('d \<Rightarrow> (bool \<times> mac) \<times> 'd) \<Rightarrow> 'd drv_begin \<Rightarrow> socket \<Rightarrow> 'd ether \<Rightarrow> (byte list \<times> socket \<times> 'd ether) option" where
  "NanodeUDPClient_setup p unio drv_begin udp s = do {
     let ((r, macAddress), d) = unio (dev s);
     let s = s\<lparr>dev := d\<rparr>;
     let serial = line ''[EtherSia NanodeUDPClient]'' @ chars ''Reading MAC address... ''
       @ (if r then line ''success'' else line ''failure'') @ MACAddress_println macAddress;
     (ok, s) \<leftarrow> drv_begin macAddress s;
     let serial = serial @ failure ok ''Failed to configure Ethernet'';
     (found, udp, s) \<leftarrow> Socket_setRemoteAddress_str p (chars ''2001:41c8:51:7cf::6'') 1234 udp s;
     Some (serial @ (if found then chars ''Remote address: '' @ IPv6Address_println (remoteAddress udp) else [])
       @ line ''Ready.'', udp, s)
   }"

definition Syslog_example_setup ::
    "'d platform \<Rightarrow> mac \<Rightarrow> 'd drv_begin \<Rightarrow> syslog \<Rightarrow> 'd ether \<Rightarrow> (syslog \<times> 'd ether) option" where
  "Syslog_example_setup p uninit drv_begin k s = do {
     macAddress \<leftarrow> MACAddress_of_string uninit (chars ''0a:2c:8c:ba:66:2d'');
     (_, s) \<leftarrow> drv_begin macAddress s;
     (_, k, s) \<leftarrow> Syslog_setRemoteAddress p (chars ''logger.example.com'') k s;
     Some (k, s)
   }"

definition SNTPClient_setup :: "mac \<Rightarrow> 'd drv_begin \<Rightarrow> 'd ether \<Rightarrow> (byte list \<times> 'd ether) option" where
  "SNTPClient_setup uninit drv_begin s = do {
     macAddress \<leftarrow> MACAddress_of_string uninit (chars ''76:73:19:ba:b8:19'');
     let serial = line ''[EtherSia SNTPClient]'' @ MACAddress_println macAddress;
     (ok, s) \<leftarrow> drv_begin macAddress s;
     Some (serial @ failure ok ''Failed to configure Ethernet''
       @ chars ''Our global address is: '' @ IPv6Address_println (globalAddress s) @ line ''Ready.'', s)
   }"

definition EmonCMS_setup ::
    "'d platform \<Rightarrow> ('d \<Rightarrow> 'd) \<Rightarrow> 'e eeprom_ops \<Rightarrow> mac \<Rightarrow> 'd drv_begin \<Rightarrow> 'e emoncms \<times> tcp_client \<times> 'd ether
      \<Rightarrow> (byte list \<times> 'e emoncms \<times> tcp_client \<times> 'd ether) option" where
  "EmonCMS_setup p wdt_enable ee uninit drv_begin = (\<lambda>(e, tcp, s). do {
     macAddress \<leftarrow> MACAddress_of_string uninit (chars ''6e:e7:2f:4c:64:92'');
     let s = EtherSia_disableAutoconfiguration s;
     let s = s\<lparr>dev := delay_ms p 5000 (dev s)\<rparr>;
     let serial = line ''[EtherSia EMONclient]'' @ MACAddress_println macAddress;
     (ok, s) \<leftarrow> drv_begin macAddress s;
     let serial = serial @ failure ok ''Failed to get a global address''
       @ chars ''Our link-local address : '' @ IPv6Address_println (linkLocalAddress s);
     (e, tcp, s) \<leftarrow> configRemoteHost p e tcp s;
     let serial = serial @ (if remoteHostDiscover e then chars ''Srv IPv6 addr : '' @ IPv6Address_println (remoteAddress tcp)
       else line ''err. conn. srv'');
     let serial = serial @ ApplicationMonitor_Dump ee True (monitor_of e);
     Some (serial, e, tcp, s\<lparr>dev := wdt_enable (dev s)\<rparr>)
   })"

text \<open>\<open>ds_find\<close> starts the bus and searches it for sensors; what it finds is the bus the other functions are given.\<close>

definition emonCMSClient_setup ::
    "'d platform \<Rightarrow> ('d \<Rightarrow> 'd) \<Rightarrow> 'e eeprom_ops \<Rightarrow> ('d \<Rightarrow> ('d, 'f) dynabus \<times> 'd) \<Rightarrow> 'd drv_begin \<Rightarrow>
     'e emoncms \<times> tcp_client \<times> 'd ether \<Rightarrow> (byte list \<times> ('d, 'f) dynabus \<times> 'e emoncms \<times> tcp_client \<times> 'd ether) option" where
  "emonCMSClient_setup p wdt_enable ee ds_find drv_begin = (\<lambda>(e, tcp, s). do {
     let s = EtherSia_disableAutoconfiguration s;
     let (ds, d) = ds_find (dev s);
     let s = s\<lparr>dev := d\<rparr>;
     let serial = printf_u (unat (ds_nb ds)) @ line '' 1wire dev.'';
     let macAddress = emonCMSClient_mac ds;
     let s = s\<lparr>dev := delay_ms p 5000 (dev s)\<rparr>;
     let serial = serial @ line ''[EtherSia EMONclient]'' @ MACAddress_println macAddress;
     (ok, s) \<leftarrow> drv_begin macAddress s;
     let serial = serial @ failure ok ''Failed to get a global addr''
       @ chars ''Our link-local address : '' @ IPv6Address_println (linkLocalAddress s);
     (e, tcp, s) \<leftarrow> emonCMSClient_configRemoteHost p e tcp s;
     let serial = serial @ (if remoteHostDiscover e then chars ''Srv IPv6 addr : '' @ IPv6Address_println (remoteAddress tcp)
       else line ''err. conn. srv'');
     let serial = serial @ ApplicationMonitor_Dump ee True (monitor_of e);
     Some (serial, ds, e, tcp, s\<lparr>dev := wdt_enable (dev s)\<rparr>)
   })"

end
