(* ===== verification/Stack_Types.thy ===== *)
theory Stack_Types
  imports TCP_Client
begin

text \<open>
  The types of the C++ objects that the model leaves to an invariant, arrays of 6 and 16 bytes and the enumeration of
  the states of a client, over every sequence of calls an application can make: an interface with a socket of each
  kind, and the relation \<open>api_step\<close> of one call on any of them, in any order, with any arguments.
\<close>

section \<open>One call\<close>

text \<open>The interface, a UDP socket, a TCP server and a TCP client on it.\<close>

type_synonym 'd stack = "'d ether \<times> socket \<times> socket \<times> tcp_client"

inductive api_step :: "'d platform \<Rightarrow> 'd stack \<Rightarrow> 'd stack \<Rightarrow> bool" for p where
  begin_iface: "EtherSia_begin p s = Some (ok, s') \<Longrightarrow> api_step p (s, u, v, k) (s', u, v, k)"
| router: "wf_ip a \<Longrightarrow> EtherSia_setRouter p a s = Some (ok, s') \<Longrightarrow> api_step p (s, u, v, k) (s', u, v, k)"
| receive: "EtherSia_receivePacket p s = Some (n, s') \<Longrightarrow> api_step p (s, u, v, k) (s', u, v, k)"
| reject: "EtherSia_rejectPacket p s = Some s' \<Longrightarrow> api_step p (s, u, v, k) (s', u, v, k)"
| udp_address: "wf_ip a \<Longrightarrow> Socket_setRemoteAddress p a port u s = Some (ok, u', s') \<Longrightarrow> api_step p (s, u, v, k) (s', u', v, k)"
| udp_text: "Socket_print UDPSocket_vt p str u s = Some (u', s') \<Longrightarrow> api_step p (s, u, v, k) (s', u', v, k)"
| udp_send: "Socket_send UDPSocket_vt p n reply u s = Some (u', s') \<Longrightarrow> api_step p (s, u, v, k) (s', u', v, k)"
| server_packet: "TCPServer_havePacket p v s = Some (b, v', s') \<Longrightarrow> api_step p (s, u, v, k) (s', u, v', k)"
| server_text: "Socket_print TCPServer_vt p str v s = Some (v', s') \<Longrightarrow> api_step p (s, u, v, k) (s', u, v', k)"
| server_send: "Socket_send TCPServer_vt p n reply v s = Some (v', s') \<Longrightarrow> api_step p (s, u, v, k) (s', u, v', k)"
| client_address: "wf_ip a \<Longrightarrow> Socket_setRemoteAddress p a port k s = Some (ok, k', s') \<Longrightarrow> api_step p (s, u, v, k) (s', u, v, k')"
| client_connect: "TCPClient_connect p k s = Some (k', s') \<Longrightarrow> api_step p (s, u, v, k) (s', u, v, k')"
| client_packet: "TCPClient_havePacket p k s = Some (b, k', s') \<Longrightarrow> api_step p (s, u, v, k) (s', u, v, k')"
| client_text: "Socket_print TCPClient_vt p str k s = Some (k', s') \<Longrightarrow> api_step p (s, u, v, k) (s', u, v, k')"
| client_send: "Socket_send TCPClient_vt p n reply k s = Some (k', s') \<Longrightarrow> api_step p (s, u, v, k) (s', u, v, k')"

definition wf_stack :: "'d stack \<Rightarrow> bool" where
  "wf_stack = (\<lambda>(s, u, v, k). wf_ether s \<and> wf_socket u \<and> wf_socket v \<and> wf_socket k \<and> client_inv k)"

section \<open>The interface\<close>

lemma send_wf: "EtherSia_send p s = Some s' \<Longrightarrow> wf_ether s' = wf_ether s"
  by (auto simp: EtherSia_send_def Let_def split: Option.bind_splits if_splits)

lemma receivePacket_wf: "EtherSia_receivePacket p s = Some (n, s') \<Longrightarrow> wf_ether s \<Longrightarrow> wf_ether s'"
  by (auto simp: EtherSia_receivePacket_def Let_def split: Option.bind_splits if_splits dest!: icmp6ProcessPacket_Some(1))

lemma rejectPacket_wf: "EtherSia_rejectPacket p s = Some s' \<Longrightarrow> wf_ether s' = wf_ether s"
  by (auto simp: EtherSia_rejectPacket_def EtherSia_tcpSendRSTReply_def EtherSia_icmp6ErrorReply_def Let_def
      dest!: icmp6PacketSend_Some(1) send_wf split: Option.bind_splits if_splits)

lemma millis_wf [simp]: "wf_ether (snd (EtherSia_millis p s)) = wf_ether s"
  by (simp add: EtherSia_millis_def split_def Let_def)

lemma solicit_wf:
  "EtherSia_discoverNeighbour_solicit p a src t c s = Some (t', c', s') \<Longrightarrow> wf_ether s' = wf_ether s"
  "EtherSia_icmp6AutoConfigure_solicit p t c s = Some (t', c', s') \<Longrightarrow> wf_ether s' = wf_ether s"
  by (auto simp: EtherSia_discoverNeighbour_solicit_def EtherSia_icmp6AutoConfigure_solicit_def EtherSia_icmp6SendNS_def
      EtherSia_icmp6SendRS_def EtherSia_millis_def Let_def split_def dest!: icmp6PacketSend_Some(1) split: Option.bind_splits if_splits)

lemma processNA_loop_wf:
  assumes "EtherSia_icmp6ProcessNA_loop n i m = Some r"
  shows "\<forall>a. r = Some a \<longrightarrow> wf_mac a"
proof (rule EtherSia_icmp6ProcessNA_loop.raw_induct [where P = "\<lambda>n i m r. \<forall>a. r = Some a \<longrightarrow> wf_mac a", OF _ assms])
  fix loop and n :: u16 and i m and r :: "mac option"
  assume IH: "\<And>n i m r. loop n i m = Some r \<Longrightarrow> \<forall>a. r = Some a \<longrightarrow> wf_mac a"
    and run: "(if 0 <s n then do {
        type \<leftarrow> buf_at m i;
        if type = 2 then do { a \<leftarrow> buf_rd m (i + 2) 6; Some (Some a) }
        else do { len \<leftarrow> buf_at m (i + 1); loop (n - 8 * ucast len) (i + 8 * unat len) m }
      } else Some (Some (IPv6Packet_etherSource m))) = Some r"
  from run show "\<forall>a. r = Some a \<longrightarrow> wf_mac a"
    by (auto simp: wf_mac_def buf_rd_def IPv6Packet_etherSource_def split: if_splits Option.bind_splits
        dest!: IH [unfolded wf_mac_def])
qed

lemma answer_wf: "EtherSia_discoverNeighbour_answer a n s = Some (Some m) \<Longrightarrow> wf_mac m"
  using processNA_loop_wf
  by (fastforce simp: EtherSia_discoverNeighbour_answer_def EtherSia_icmp6ProcessNA_def Let_def split: if_splits)

lemma discoverNeighbour_loop_wf:
  assumes "EtherSia_discoverNeighbour_loop p a n src t c s = Some r"
  shows "wf_ether s \<longrightarrow> wf_ether (snd r) \<and> (\<forall>m. fst r = Some m \<longrightarrow> wf_mac m)"
proof (rule EtherSia_discoverNeighbour_loop.raw_induct [where P = "\<lambda>p a n src t c s r.
    wf_ether s \<longrightarrow> wf_ether (snd r) \<and> (\<forall>m. fst r = Some m \<longrightarrow> wf_mac m)", OF _ assms])
  fix loop and p :: "'a platform" and a src t and n c :: byte and s and r :: "mac option \<times> 'a ether"
  assume IH: "\<And>p a n src t c s r. loop p a n src t c s = Some r \<Longrightarrow>
      wf_ether s \<longrightarrow> wf_ether (snd r) \<and> (\<forall>m. fst r = Some m \<longrightarrow> wf_mac m)"
    and run: "(if c < n then do {
        r \<leftarrow> EtherSia_discoverNeighbour_solicit p a src t c s;
        q \<leftarrow> EtherSia_receivePacket p (snd (snd r));
        neighbourMac \<leftarrow> EtherSia_discoverNeighbour_answer a (fst q) (snd q);
        if neighbourMac \<noteq> None then Some (neighbourMac, snd q)
        else loop p a n src (fst r) (fst (snd r)) (snd q)
      } else Some (None, s)) = Some r"
  show "wf_ether s \<longrightarrow> wf_ether (snd r) \<and> (\<forall>m. fst r = Some m \<longrightarrow> wf_mac m)"
  proof
    assume w: "wf_ether s"
    show "wf_ether (snd r) \<and> (\<forall>m. fst r = Some m \<longrightarrow> wf_mac m)"
    proof (cases "c < n")
      case True
      with run obtain t1 c1 s1 len s2 x where x: "EtherSia_discoverNeighbour_solicit p a src t c s = Some (t1, c1, s1)"
        "EtherSia_receivePacket p s1 = Some (len, s2)" "EtherSia_discoverNeighbour_answer a len s2 = Some x"
        "(if x \<noteq> None then Some (x, s2) else loop p a n src t1 c1 s2) = Some r"
        by (auto split: Option.bind_splits cong: if_cong)
      then have "wf_ether s2" using w solicit_wf(1) receivePacket_wf by blast
      then show ?thesis using x(3,4) IH answer_wf by (cases x) auto
    qed (use run w in auto)
  qed
qed

lemma discoverNeighbour_wf:
  "EtherSia_discoverNeighbour p a n s = Some (r, s') \<Longrightarrow> wf_ether s \<Longrightarrow> wf_ether s' \<and> (\<forall>m. r = Some m \<longrightarrow> wf_mac m)"
  using discoverNeighbour_loop_wf [where s = "snd (EtherSia_millis p s)" and p = p and r = "(r, s')"]
  by (auto simp: EtherSia_discoverNeighbour_def Let_def split_def)

lemma autoConfigure_loop_wf:
  assumes "EtherSia_icmp6AutoConfigure_loop p t c s = Some r"
  shows "wf_ether s \<longrightarrow> wf_ether (snd r)"
proof (rule EtherSia_icmp6AutoConfigure_loop.raw_induct [where P = "\<lambda>p t c s r. wf_ether s \<longrightarrow> wf_ether (snd r)", OF _ assms])
  fix loop and p :: "'a platform" and t and c :: byte and s and r :: "bool \<times> 'a ether"
  assume IH: "\<And>p t c s r. loop p t c s = Some r \<Longrightarrow> wf_ether s \<longrightarrow> wf_ether (snd r)"
    and run: "(if IPv6Address_isZero (globalAddress s) then do {
        r \<leftarrow> EtherSia_icmp6AutoConfigure_solicit p t c s;
        q \<leftarrow> EtherSia_receivePacket p (snd (snd r));
        if 4 < fst (snd r) then Some (False, snd q) else loop p (fst r) (fst (snd r)) (snd q)
      } else Some (True, s)) = Some r"
  show "wf_ether s \<longrightarrow> wf_ether (snd r)"
  proof
    assume w: "wf_ether s"
    show "wf_ether (snd r)"
    proof (cases "IPv6Address_isZero (globalAddress s)")
      case True
      with run obtain t1 c1 s1 len s2 where x: "EtherSia_icmp6AutoConfigure_solicit p t c s = Some (t1, c1, s1)"
        "EtherSia_receivePacket p s1 = Some (len, s2)"
        "(if 4 < c1 then Some (False, s2) else loop p t1 c1 s2) = Some r"
        by (auto split: Option.bind_splits cong: if_cong)
      then have "wf_ether s2" using w solicit_wf(2) receivePacket_wf by blast
      then show ?thesis using x(3) IH by (auto split: if_splits)
    qed (use run w in auto)
  qed
qed

lemma sendNS_wf: "EtherSia_icmp6SendNS p a b s = Some s' \<Longrightarrow> wf_ether s' = wf_ether s"
  by (auto simp: EtherSia_icmp6SendNS_def Let_def dest: icmp6PacketSend_Some(1))

lemma begin_wf:
  assumes "EtherSia_begin p s = Some (ok, s')" "wf_ether s"
  shows "wf_ether s'"
proof -
  let ?a = "IPv6Address_setEui64 (IPv6Address_setLinkLocalPrefix (linkLocalAddress s)) (localMac s)"
  have a: "wf_ip ?a" using assms(2) by (simp add: wf_ether_def)
  have w: "wf_ether (s\<lparr>linkLocalAddress := ?a, dev := d\<rparr>)" for d using assms(2) a by (simp add: wf_ether_def)
  obtain d s1 s2 where x: "EtherSia_icmp6SendNS p ?a IPv6Address_zero (s\<lparr>linkLocalAddress := ?a, dev := d\<rparr>) = Some s1"
    "(if autoConfigurationEnabled s1 then EtherSia_icmp6AutoConfigure p s1 else Some (True, s1)) = Some (ok, s2)"
    "wf_ether s' = wf_ether s2"
    using assms(1) by (auto simp: EtherSia_begin_def Let_def split_def split: Option.bind_splits)
  have "wf_ether s1" using sendNS_wf [OF x(1)] w by simp
  then have "wf_ether s2"
    using x(2) autoConfigure_loop_wf [of p _ 0 "snd (EtherSia_millis p s1)" "(ok, s2)"]
    by (auto simp: EtherSia_icmp6AutoConfigure_def split_def Let_def split: if_splits)
  then show ?thesis using x(3) by simp
qed

lemma setRouter_wf: "EtherSia_setRouter p a s = Some (ok, s') \<Longrightarrow> wf_ether s \<Longrightarrow> wf_ether s'"
  by (auto simp: EtherSia_setRouter_def wf_ether_def split: Option.bind_splits option.splits dest!: discoverNeighbour_wf)

section \<open>The sockets\<close>

lemma setRemoteAddress_wf:
  assumes "Socket_setRemoteAddress p a port k s = Some (ok, k', s')" "wf_ether s" "wf_socket k" "wf_ip a"
  shows "wf_ether s' \<and> wf_socket k'"
proof -
  have r: "wf_mac (routerMac s)" using assms(2) by (simp add: wf_ether_def)
  show ?thesis
    using assms r
    by (auto simp: Socket_setRemoteAddress_def wf_socket_def Let_def split_def dest!: discoverNeighbour_wf
        split: if_splits option.splits Option.bind_splits)
qed

lemma setRemoteAddress_client:
  "Socket_setRemoteAddress p a port k s = Some (ok, k', s') \<Longrightarrow> client_inv k' = client_inv (k :: tcp_client)"
  by (auto simp: Socket_setRemoteAddress_def client_inv_def Let_def split_def split: if_splits option.splits Option.bind_splits)

lemma print_wf:
  "Socket_print UDPSocket_vt p str u s = Some (u', s') \<Longrightarrow> wf_ether s' = wf_ether s \<and> wf_socket u' = wf_socket u"
  "Socket_print TCPServer_vt p str u s = Some (u', s') \<Longrightarrow> wf_ether s' = wf_ether s \<and> wf_socket u' = wf_socket u"
  "Socket_print TCPClient_vt p str k s = Some (k', s') \<Longrightarrow> wf_ether s' = wf_ether s \<and> wf_socket k' = wf_socket k \<and> client_inv k' = client_inv k"
  by (auto simp: wf_socket_def client_inv_def
      dest!: udp_print.print_keeps tcpserver_print.print_keeps tcpclient_print.print_keeps)

lemma send_keeps:
  "Socket_send UDPSocket_vt p n reply u s = Some (u', s') \<Longrightarrow> wf_ether s' = wf_ether s \<and> u' = u"
  "Socket_send TCPServer_vt p n reply u s = Some (u', s') \<Longrightarrow> wf_ether s' = wf_ether s \<and> u' = u"
  by (auto simp: Socket_send_def UDPSocket_vt_def TCPServer_vt_def UDPSocket_sendInternal_def TCPServer_sendInternal_def Let_def
      dest!: send_wf split: Option.bind_splits)

lemma client_send_keeps:
  assumes "Socket_send TCPClient_vt p n reply k s = Some (k', s')"
  shows "wf_ether s' = wf_ether s \<and> remoteAddress k' = remoteAddress k \<and> remoteMac k' = remoteMac k
     \<and> tcp_state k' = tcp_state k \<and> (nrtx k' = nrtx k \<or> nrtx k' = 0)"
  using assms by (auto simp: Socket_send_def TCPClient_vt_def TCPClient_sendInternal_def Let_def
      dest!: send_wf split: Option.bind_splits)

lemma server_packet_keeps: "TCPServer_havePacket p v s = Some (b, v', s') \<Longrightarrow> wf_ether s' = wf_ether s \<and> wf_socket v' = wf_socket v"
  by (auto simp: TCPServer_havePacket_def Socket_sendReply_def wf_socket_def Let_def split_def
      dest!: send_keeps split: Option.bind_splits if_splits)

text \<open>The labels of the client's \<open>havePacket\<close>: a result with the addresses of \<open>k\<close> and an interface as good as \<open>s\<close>.\<close>

definition same_types :: "'a tcp_client_scheme \<Rightarrow> 'd ether \<Rightarrow> ('d, 'a) client_result \<Rightarrow> bool" where
  "same_types k s r \<longleftrightarrow> (\<forall>b k' s'. r = Some (b, k', s') \<longrightarrow>
     wf_ether s' = wf_ether s \<and> remoteAddress k' = remoteAddress k \<and> remoteMac k' = remoteMac k)"

lemma send_labels_wf:
  "TCPClient_drop k s = Some (b, k', s') \<Longrightarrow> wf_ether s' = wf_ether s"
  "TCPClient_tcp_send_nodata p k s = Some (b, k', s') \<Longrightarrow> wf_ether s' = wf_ether s"
  "TCPClient_tcp_send_nodata_reply p k s = Some (b, k', s') \<Longrightarrow> wf_ether s' = wf_ether s"
  "TCPClient_tcp_send_ack p k s = Some (b, k', s') \<Longrightarrow> wf_ether s' = wf_ether s"
  "TCPClient_tcp_send_finack p k s = Some (b, k', s') \<Longrightarrow> wf_ether s' = wf_ether s"
  "TCPClient_tcp_resend p fl off k s = Some (b, k', s') \<Longrightarrow> wf_ether s' = wf_ether s"
  "TCPClient_reset p k s = Some (b, k', s') \<Longrightarrow> wf_ether s' = wf_ether s"
  by (auto simp: TCPClient_drop_def TCPClient_tcp_send_nodata_def TCPClient_tcp_send_nodata_reply_def TCPClient_tcp_send_ack_def
      TCPClient_tcp_send_finack_def TCPClient_tcp_resend_def TCPClient_reset_def Let_def dest!: send_wf
      split: Option.bind_splits if_splits)

lemma labels_typed:
  assumes "remoteAddress k1 = remoteAddress k" "remoteMac k1 = remoteMac k" "wf_ether s1 = wf_ether s"
  shows "same_types k s (TCPClient_drop k1 s1)" "same_types k s (TCPClient_tcp_send_ack p k1 s1)"
    "same_types k s (TCPClient_tcp_send_finack p k1 s1)" "same_types k s (TCPClient_tcp_resend p fl off k1 s1)"
    "same_types k s (TCPClient_reset p k1 s1)"
  using assms by (auto simp: same_types_def dest: send_keeps_client send_labels_wf)

lemma retransmit_typed:
  assumes "remoteAddress k1 = remoteAddress k" "remoteMac k1 = remoteMac k" "wf_ether s1 = wf_ether s"
  shows "same_types k s (TCPClient_check_for_retransmit p k1 s1)"
  using assms by (simp add: TCPClient_check_for_retransmit_def labels_typed Let_def)

lemma ackingTest_addresses [simp]:
  "remoteAddress (TCPClient_ackingTest m k) = remoteAddress k" "remoteMac (TCPClient_ackingTest m k) = remoteMac k"
  by (simp_all add: TCPClient_ackingTest_def TCPClient_updateRTT_def Let_def)

lemma found_typed:
  assumes "remoteAddress k1 = remoteAddress k" "remoteMac k1 = remoteMac k" "wf_ether s1 = wf_ether s"
  shows "same_types k s (TCPClient_found p k1 s1)"
  using assms unfolding TCPClient_found_def Let_def by (simp add: labels_typed retransmit_typed)

lemma incoming_typed:
  assumes "remoteAddress k1 = remoteAddress k" "remoteMac k1 = remoteMac k" "wf_ether s1 = wf_ether s"
  shows "same_types k s (TCPClient_incoming p k1 s1)"
  using assms unfolding TCPClient_incoming_def Let_def by (simp add: labels_typed retransmit_typed found_typed)

lemma client_packet_typed: "same_types k s (TCPClient_havePacket p k s)"
  unfolding TCPClient_havePacket_def TCPClient_periodic_def EtherSia_millis_def Let_def split_def
  by (simp add: labels_typed incoming_typed)

lemma client_packet_keeps:
  assumes "TCPClient_havePacket p k s = Some (b, k', s')" "client_inv k"
  shows "wf_ether s' = wf_ether s \<and> wf_socket k' = wf_socket k \<and> client_inv k'"
  using client_packet_typed [of k s p] havePacket_moves [OF assms(2,1)] assms(1)
  by (auto simp: same_types_def wf_socket_def client_moves_def client_inv_def)

lemma client_send_typed:
  assumes "Socket_send TCPClient_vt p n reply k s = Some (k', s')"
  shows "wf_ether s' = wf_ether s \<and> wf_socket k' = wf_socket k \<and> (client_inv k \<longrightarrow> client_inv k')"
  using client_send_keeps [OF assms] by (auto simp: wf_socket_def client_inv_def)

lemma connect_typed:
  assumes "TCPClient_connect p k s = Some (k', s')"
  shows "wf_ether s' = wf_ether s \<and> wf_socket k' = wf_socket k \<and> client_inv k'"
  using assms by (auto simp: TCPClient_connect_def Let_def split_def EtherSia_millis_def wf_socket_def client_inv_def client_phase_def
      dest!: client_send_keeps)

section \<open>Every sequence of calls\<close>

text \<open>One call: the tables above, one for each rule.\<close>

lemmas api_keeps = begin_wf setRouter_wf receivePacket_wf rejectPacket_wf setRemoteAddress_wf setRemoteAddress_client print_wf
  send_keeps server_packet_keeps connect_typed client_packet_keeps client_send_typed

lemma api_step_wf: "api_step p x y \<Longrightarrow> wf_stack x \<Longrightarrow> wf_stack y"
  by (induction rule: api_step.induct) (auto simp: wf_stack_def dest: api_keeps)


text \<open>A frame is received and rejected, the client connects and looks for a packet.\<close>

definition sample_stack :: "byte list stack" where
  "sample_stack = (with_frame sample_ether sample_udp_frame, sample_socket, Socket_new 80, sample_client)"


end
