(* ===== verification/Quiet_Network.thy ===== *)
theory Quiet_Network
  imports TFTP_Server
begin

text \<open>
  Giving up: the loops of \<open>icmp6.cpp\<close> and \<open>TFTPServer.cpp\<close> that send, wait and send again return on a
  network where nobody answers, after the number of attempts they promise. A quiet network is a platform
  whose driver sends every frame and receives none, with a clock \<open>us\<close> counting microseconds, which goes
  on with every reading and with no call takes more than a second. \<open>sent\<close> lists the frames sent.
\<close>

definition passes :: "('d \<Rightarrow> nat) \<Rightarrow> 'd \<Rightarrow> 'd \<Rightarrow> bool" where
  "passes us d d' \<longleftrightarrow> us d \<le> us d' \<and> us d' \<le> us d + 1000000"

definition quiet_network :: "'d platform \<Rightarrow> ('d \<Rightarrow> nat) \<Rightarrow> ('d \<Rightarrow> byte list list) \<Rightarrow> bool" where
  "quiet_network p us sent \<longleftrightarrow>
     (\<forall>n d. \<exists>d'. readFrame p n d = Some ([], d') \<and> passes us d d' \<and> sent d' = sent d)
   \<and> (\<forall>f d. \<exists>d'. sendFrame p f d = Some d' \<and> passes us d d' \<and> sent d' = sent d @ [f])
   \<and> (\<forall>d. \<exists>d'. millis p d = (word_of_nat (us d div 1000), d') \<and> passes us d d' \<and> us d < us d' \<and> sent d' = sent d)"

section \<open>Time\<close>

lemma clock_diff:
  assumes "int t - int n < 2 ^ 31" "int n - int t \<le> 2 ^ 31"
  shows "sint (word_of_nat t - word_of_nat n :: u32) = int t - int n"
proof -
  have "(word_of_nat t - word_of_nat n :: u32) = word_of_int (int t - int n)" by simp
  moreover have "signed_take_bit 31 (int t - int n) = int t - int n"
    using assms by (intro signed_take_bit_int_eq_self) auto
  ultimately show ?thesis by (simp only: sint_sbintrunc') simp
qed

lemma time_reached_iff:
  "t < n + 1000000 \<Longrightarrow> n < t + 1000000 \<Longrightarrow> time_reached (word_of_nat t) (word_of_nat n) \<longleftrightarrow> n \<le> t"
  using clock_diff [of t n] by (simp add: time_reached_def word_sle_eq)

section \<open>The operations on a quiet network\<close>

lemma quiet_receive:
  assumes "quiet_network p us sent"
  obtains d where "EtherSia_receivePacket p s = Some (0, s\<lparr>dev := d, bufferContainsReceived := False\<rparr>)"
    "passes us (dev s) d" "sent d = sent (dev s)"
proof -
  obtain d where d: "readFrame p 600 (dev s) = Some ([], d)" "passes us (dev s) d" "sent d = sent (dev s)"
    using assms unfolding quiet_network_def by blast
  then show ?thesis by (intro that [of d]) (simp_all add: EtherSia_receivePacket_def)
qed

lemma quiet_millis:
  assumes "quiet_network p us sent"
  obtains d where "EtherSia_millis p s = (word_of_nat (us (dev s) div 1000), s\<lparr>dev := d\<rparr>)"
    "passes us (dev s) d" "us (dev s) < us d" "sent d = sent (dev s)"
proof -
  obtain d where d: "millis p (dev s) = (word_of_nat (us (dev s) div 1000), d)" "passes us (dev s) d"
    "us (dev s) < us d" "sent d = sent (dev s)"
    using assms unfolding quiet_network_def by blast
  then show ?thesis by (intro that [of d]) (simp_all add: EtherSia_millis_def)
qed

lemma quiet_sends:
  assumes "quiet_network p us sent" "sends p s m r"
  obtains s' where "r = Some s'" "sends p s m (Some s')" "passes us (dev s) (dev s')"
    "sent (dev s') = sent (dev s) @ [rd_bytes m 0 (54 + unat (IPv6Packet_payloadLength m))]"
proof -
  let ?f = "rd_bytes m 0 (54 + unat (IPv6Packet_payloadLength m))"
  obtain d where "sendFrame p ?f (dev s) = Some d" "passes us (dev s) d" "sent d = sent (dev s) @ [?f]"
    using assms(1) unfolding quiet_network_def by blast
  with assms(2) show ?thesis
    by (intro that [of "s\<lparr>buffer := m, bufferContainsReceived := False, dev := d\<rparr>"]) (auto simp: sends_def)
qed

section \<open>Retrying\<close>

text \<open>
  What the two solicitation loops have in common: sending again once the time has come, then
  receiving. \<open>near\<close> says that the next attempt, at \<open>n\<close> milliseconds, is neither long over nor far off.
\<close>

definition solicit ::
    "'d platform \<Rightarrow> ('d ether \<Rightarrow> 'd ether option) \<Rightarrow> u32 \<Rightarrow> u32 \<Rightarrow> byte \<Rightarrow> 'd ether \<Rightarrow> (u32 \<times> byte \<times> 'd ether) option" where
  "solicit p send timeout nxt count s =
     (let (now, s) = EtherSia_millis p s in
      if time_reached now nxt then do {
        s \<leftarrow> send s;
        let (now, s) = EtherSia_millis p s;
        Some (now + timeout, count + 1, s)
      }
      else Some (nxt, count, s))"

definition near :: "nat \<Rightarrow> nat \<Rightarrow> bool" where
  "near n u \<longleftrightarrow> u div 1000 \<le> n + 2000 \<and> n \<le> u div 1000 + 3000"

definition same_config :: "'d ether \<Rightarrow> 'd ether \<Rightarrow> bool" where
  "same_config s s' \<longleftrightarrow> linkLocalAddress s' = linkLocalAddress s \<and> globalAddress s' = globalAddress s
     \<and> wf_ether s' = wf_ether s"

lemma same_config_upd [simp]:
  "same_config s (s'\<lparr>dev := d\<rparr>) = same_config s s'" "same_config (s\<lparr>dev := d\<rparr>) s' = same_config s s'"
  "same_config s (s'\<lparr>bufferContainsReceived := b\<rparr>) = same_config s s'" "same_config s s"
  by (simp_all add: same_config_def)

lemma passes_near: "passes us d d' \<Longrightarrow> us d div 1000 \<le> us d' div 1000 \<and> us d' div 1000 \<le> us d div 1000 + 1000"
proof -
  assume "passes us d d'"
  then have "us d \<le> us d'" "us d' \<le> us d + 1000 * 1000" by (simp_all add: passes_def)
  then show ?thesis using div_le_mono [of "us d" "us d'" 1000] div_le_mono [of "us d'" "us d + 1000 * 1000" 1000] by simp
qed

lemma solicit_quiet:
  assumes q: "quiet_network p us sent" and n: "near n (us (dev s))" "k \<le> 3000"
    and send: "\<And>d. \<exists>m. sends p (s\<lparr>dev := d\<rparr>) m (send (s\<lparr>dev := d\<rparr>)) \<and> Q (rd_bytes m 0 (54 + unat (IPv6Packet_payloadLength m)))"
  obtains (wait) s' where "us (dev s) < 1000 * n"
      "solicit p send (word_of_nat k) (word_of_nat n) count s = Some (word_of_nat n, count, s')"
      "same_config s s'" "us (dev s) < us (dev s')" "sent (dev s') = sent (dev s)"
      "us (dev s') div 1000 \<le> n + 1000" "n \<le> us (dev s') div 1000 + 3000"
  | (due) n' f s' where
      "solicit p send (word_of_nat k) (word_of_nat n) count s = Some (word_of_nat n', count + 1, s')"
      "same_config s s'" "sent (dev s') = sent (dev s) @ [f]" "Q f"
      "us (dev s') div 1000 \<le> n' + 1000" "n' \<le> us (dev s') div 1000 + 3000"
proof -
  let ?t = "us (dev s) div 1000"
  obtain d where d: "EtherSia_millis p s = (word_of_nat ?t, s\<lparr>dev := d\<rparr>)" "passes us (dev s) d"
    "us (dev s) < us d" "sent d = sent (dev s)" using quiet_millis [OF q] by metis
  have reached: "time_reached (word_of_nat ?t) (word_of_nat n) \<longleftrightarrow> n \<le> ?t"
    using n(1) by (intro time_reached_iff) (simp_all add: near_def)
  show ?thesis
  proof (cases "n \<le> ?t")
    case False
    then have "us (dev s) < 1000 * n" by (simp add: not_le div_less_iff_less_mult mult.commute)
    then show ?thesis
      using False d n(1) passes_near [OF d(2)] reached
      by (intro wait [of "s\<lparr>dev := d\<rparr>"]) (simp_all add: solicit_def near_def)
  next
    case True
    obtain m s1 where m: "send (s\<lparr>dev := d\<rparr>) = Some s1" "sends p (s\<lparr>dev := d\<rparr>) m (Some s1)"
      "Q (rd_bytes m 0 (54 + unat (IPv6Packet_payloadLength m)))"
      "sent (dev s1) = sent d @ [rd_bytes m 0 (54 + unat (IPv6Packet_payloadLength m))]"
    proof -
      obtain m where m: "sends p (s\<lparr>dev := d\<rparr>) m (send (s\<lparr>dev := d\<rparr>))"
        "Q (rd_bytes m 0 (54 + unat (IPv6Packet_payloadLength m)))" using send by blast
      obtain s1 where s1: "send (s\<lparr>dev := d\<rparr>) = Some s1" "sends p (s\<lparr>dev := d\<rparr>) m (Some s1)"
        "sent (dev s1) = sent (dev (s\<lparr>dev := d\<rparr>)) @ [rd_bytes m 0 (54 + unat (IPv6Packet_payloadLength m))]"
        by (rule quiet_sends [OF q m(1)])
      show ?thesis by (rule that [OF s1(1,2) m(2)]) (use s1(3) in simp)
    qed
    obtain d2 where d2: "EtherSia_millis p s1 = (word_of_nat (us (dev s1) div 1000), s1\<lparr>dev := d2\<rparr>)"
      "passes us (dev s1) d2" "sent d2 = sent (dev s1)" using quiet_millis [OF q] by metis
    have "same_config s s1" using sendsD [OF m(2)] by (simp add: same_config_def)
    then show ?thesis
      using True d(1,4) reached m(1,3,4) d2 n(2) passes_near [OF d2(2)]
      by (intro due [of "us (dev s1) div 1000 + k" "s1\<lparr>dev := d2\<rparr>"]) (simp_all add: solicit_def)
  qed
qed

text \<open>A round of a loop: \<open>rank\<close> falls with every one of them.\<close>

definition rank :: "nat \<Rightarrow> nat \<Rightarrow> nat \<Rightarrow> nat" where
  "rank left n u = left * 10000000 + (1000 * n - u)"

lemma rank_wait: "u < 1000 * n \<Longrightarrow> u < u' \<Longrightarrow> rank left n u' < rank left n u"
  by (simp add: rank_def)

lemma rank_due: "left < left' \<Longrightarrow> near n' u' \<Longrightarrow> rank left n' u' < rank left' n u"
proof -
  assume "left < left'" "near n' u'"
  then have "1000 * n' - u' \<le> 3000000" "Suc left * 10000000 \<le> left' * 10000000" by (auto simp: near_def)
  then show "rank left n' u' < rank left' n u" by (simp add: rank_def)
qed

lemma round_quiet:
  assumes q: "quiet_network p us sent" and n: "near n (us (dev s))" "k \<le> 3000"
    and send: "\<And>d. \<exists>m. sends p (s\<lparr>dev := d\<rparr>) m (send (s\<lparr>dev := d\<rparr>)) \<and> Q (rd_bytes m 0 (54 + unat (IPv6Packet_payloadLength m)))"
  obtains (wait) s1 s' where
      "solicit p send (word_of_nat k) (word_of_nat n) count s = Some (word_of_nat n, count, s1)"
      "EtherSia_receivePacket p s1 = Some (0, s')" "same_config s s'" "near n (us (dev s'))"
      "sent (dev s') = sent (dev s)" "\<And>left. rank left n (us (dev s')) < rank left n (us (dev s))"
  | (due) n' f s1 s' where
      "solicit p send (word_of_nat k) (word_of_nat n) count s = Some (word_of_nat n', count + 1, s1)"
      "EtherSia_receivePacket p s1 = Some (0, s')" "same_config s s'" "near n' (us (dev s'))"
      "sent (dev s') = sent (dev s) @ [f]" "Q f"
proof -
  note receive = quiet_receive [OF q]
  show ?thesis
  proof (cases rule: solicit_quiet [where Q = Q and count = count, OF q n send, case_names wait due])
    case (wait s1)
    obtain d where "EtherSia_receivePacket p s1 = Some (0, s1\<lparr>dev := d, bufferContainsReceived := False\<rparr>)"
      "passes us (dev s1) d" "sent d = sent (dev s1)" by (rule receive)
    with wait passes_near [of us "dev s1" d] that(1) [of s1] rank_wait [of "us (dev s)" n "us d"]
    show ?thesis by (auto simp: near_def passes_def)
  next
    case (due n' f s1)
    obtain d where "EtherSia_receivePacket p s1 = Some (0, s1\<lparr>dev := d, bufferContainsReceived := False\<rparr>)"
      "passes us (dev s1) d" "sent d = sent (dev s1)" by (rule receive)
    with due passes_near [of us "dev s1" d] that(2) [of n' s1] show ?thesis by (auto simp: near_def)
  qed
qed

section \<open>Neighbour discovery\<close>

lemma unat_Suc_less: "(c :: byte) < a \<Longrightarrow> unat (c + 1) = unat c + 1"
  using unsigned_less [of a, where ?'a = nat] by (simp add: word_less_nat_alt unat_word_ariths)

lemma discoverNeighbour_solicit:
  "EtherSia_discoverNeighbour_solicit p address source nxt count s
   = solicit p (\<lambda>s. EtherSia_icmp6SendNS p address (source s) s) (word_of_nat 500) nxt count s"
  by (simp add: EtherSia_discoverNeighbour_solicit_def solicit_def)

definition solicitation_for :: "ip6 \<Rightarrow> byte list \<Rightarrow> bool" where
  "solicitation_for address f \<longleftrightarrow> length f = 78 \<and> f ! 54 = ICMP6_TYPE_NS \<and> take 16 (drop 62 f) = address"

lemma sendNS_solicitation:
  assumes "wf_ether s" "wf_ip address" "wf_ip source"
  shows "\<exists>m. sends p s m (EtherSia_icmp6SendNS p address source s)
     \<and> solicitation_for address (rd_bytes m 0 (54 + unat (IPv6Packet_payloadLength m)))"
  using icmp6SendNS_run [OF assms, of p] by (fastforce simp: solicitation_for_def)

lemma discoverNeighbour_loop_quiet:
  assumes q: "quiet_network p us sent" and "wf_ip address" "source = linkLocalAddress \<or> source = globalAddress"
  shows "wf_ether s \<Longrightarrow> near n (us (dev s)) \<Longrightarrow>
    \<exists>s' fs. EtherSia_discoverNeighbour_loop p address attempts source (word_of_nat n) count s = Some (None, s')
      \<and> sent (dev s') = sent (dev s) @ fs \<and> length fs = unat attempts - unat count
      \<and> list_all (solicitation_for address) fs"
proof (induction "rank (unat attempts - unat count) n (us (dev s))" arbitrary: n count s rule: less_induct)
  case less
  show ?case
  proof (cases "count < attempts")
    case True
    let ?send = "\<lambda>s. EtherSia_icmp6SendNS p address (source s) s"
    have send: "\<exists>m. sends p (s\<lparr>dev := d\<rparr>) m (?send (s\<lparr>dev := d\<rparr>))
        \<and> solicitation_for address (rd_bytes m 0 (54 + unat (IPv6Packet_payloadLength m)))" for d
      by (rule sendNS_solicitation) (use less.prems(1) assms(2,3) in \<open>auto simp: wf_ether_def\<close>)
    note step = EtherSia_discoverNeighbour_loop.simps [of p address attempts source "word_of_nat n" count s]
      discoverNeighbour_solicit EtherSia_discoverNeighbour_answer_def
    have c: "unat (count + 1) = unat count + 1" "unat count < unat attempts"
      using True unat_Suc_less [OF True] by (simp_all add: word_less_nat_alt)
    show ?thesis
    proof (cases rule: round_quiet [where Q = "solicitation_for address" and k = 500 and count = count,
          OF q less.prems(2) _ send, case_names _ wait due])
      case (wait s1 s')
      have "wf_ether s'" using wait(3) less.prems(1) by (simp add: same_config_def)
      from less.hyps [OF wait(6) this wait(4)] show ?thesis
        using True wait by (simp add: step)
    next
      case (due n' f s1 s')
      have "wf_ether s'" using due(3) less.prems(1) by (simp add: same_config_def)
      moreover have "rank (unat attempts - unat (count + 1)) n' (us (dev s')) < rank (unat attempts - unat count) n (us (dev s))"
        using c by (intro rank_due due) simp
      ultimately obtain t fs where "EtherSia_discoverNeighbour_loop p address attempts source (word_of_nat n') (count + 1) s' = Some (None, t)"
        "sent (dev t) = sent (dev s') @ fs" "length fs = unat attempts - unat (count + 1)"
        "list_all (solicitation_for address) fs" using less.hyps due(4) by blast
      then show ?thesis
        using True due c by (intro exI [of _ t] exI [of _ "f # fs"]) (auto simp: step)
    qed simp_all
  next
    case False
    then have "unat attempts \<le> unat count" by (simp add: word_le_nat_alt not_less)
    with False show ?thesis by (subst EtherSia_discoverNeighbour_loop.simps) simp
  qed
qed

lemma near_now: "passes us d d' \<Longrightarrow> near (us d div 1000) (us d')"
  using passes_near [of us d d'] by (simp add: near_def)

text \<open>
  C23. Neighbour discovery gives up: on a quiet network \<open>discoverNeighbour\<close> returns without an address
  after sending exactly \<open>attempts\<close> frames, each a solicitation for the address asked for.
\<close>

theorem discoverNeighbour_gives_up:
  assumes "quiet_network p us sent" "wf_ether s" "wf_ip address"
  shows "\<exists>s' fs. EtherSia_discoverNeighbour p address attempts s = Some (None, s')
    \<and> sent (dev s') = sent (dev s) @ fs \<and> length fs = unat attempts \<and> list_all (solicitation_for address) fs"
proof -
  obtain d where d: "EtherSia_millis p s = (word_of_nat (us (dev s) div 1000), s\<lparr>dev := d\<rparr>)"
    "passes us (dev s) d" "sent d = sent (dev s)" using quiet_millis [OF assms(1)] by metis
  let ?source = "if IPv6Address_isLinkLocal address then linkLocalAddress else globalAddress"
  have "\<exists>s' fs. EtherSia_discoverNeighbour_loop p address attempts ?source (word_of_nat (us (dev s) div 1000)) 0 (s\<lparr>dev := d\<rparr>)
        = Some (None, s')
      \<and> sent (dev s') = sent (dev (s\<lparr>dev := d\<rparr>)) @ fs \<and> length fs = unat attempts - unat (0 :: byte)
      \<and> list_all (solicitation_for address) fs"
    by (rule discoverNeighbour_loop_quiet [OF assms(1,3)]) (use assms(2) near_now [OF d(2)] in auto)
  then show ?thesis using d by (simp add: EtherSia_discoverNeighbour_def)
qed

section \<open>Autoconfiguration\<close>

lemma autoConfigure_solicit:
  "EtherSia_icmp6AutoConfigure_solicit p nxt count s
   = solicit p (EtherSia_icmp6SendRS p) (word_of_nat 3000) nxt count s"
  by (simp add: EtherSia_icmp6AutoConfigure_solicit_def solicit_def)

definition router_solicitation :: "byte list \<Rightarrow> bool" where
  "router_solicitation f \<longleftrightarrow> length f = 70 \<and> f ! 54 = ICMP6_TYPE_RS"

lemma sendRS_solicitation:
  assumes "wf_ether s"
  shows "\<exists>m. sends p s m (EtherSia_icmp6SendRS p s)
     \<and> router_solicitation (rd_bytes m 0 (54 + unat (IPv6Packet_payloadLength m)))"
  using icmp6SendRS_run [OF assms, of p] by (fastforce simp: router_solicitation_def)

lemma autoConfigure_loop_quiet:
  assumes q: "quiet_network p us sent"
  shows "wf_ether s \<Longrightarrow> IPv6Address_isZero (globalAddress s) \<Longrightarrow> near n (us (dev s)) \<Longrightarrow> count \<le> 4 \<Longrightarrow>
    \<exists>s' fs. EtherSia_icmp6AutoConfigure_loop p (word_of_nat n) count s = Some (False, s')
      \<and> sent (dev s') = sent (dev s) @ fs \<and> length fs = 5 - unat count \<and> list_all router_solicitation fs"
proof (induction "rank (5 - unat count) n (us (dev s))" arbitrary: n count s rule: less_induct)
  case less
  have send: "\<exists>m. sends p (s\<lparr>dev := d\<rparr>) m (EtherSia_icmp6SendRS p (s\<lparr>dev := d\<rparr>))
      \<and> router_solicitation (rd_bytes m 0 (54 + unat (IPv6Packet_payloadLength m)))" for d
    by (rule sendRS_solicitation) (use less.prems(1) in simp)
  note step = EtherSia_icmp6AutoConfigure_loop.simps [of p "word_of_nat n" count s] autoConfigure_solicit
  have c: "unat (count + 1) = unat count + 1" "unat count \<le> 4"
    using less.prems(4) unat_Suc_less [of count 5] by (auto simp: word_le_nat_alt word_less_nat_alt)
  show ?case
  proof (cases rule: round_quiet [where Q = router_solicitation and k = 3000 and count = count,
        OF q less.prems(3) _ send, case_names _ wait due])
    case (wait s1 s')
    have "wf_ether s'" "IPv6Address_isZero (globalAddress s')"
      using wait(3) less.prems(1,2) by (simp_all add: same_config_def)
    from less.hyps [OF wait(6) this wait(4) less.prems(4)] show ?thesis
      using less.prems(2) leD [OF less.prems(4)] wait by (simp add: step)
  next
    case (due n' f s1 s')
    have s': "wf_ether s'" "IPv6Address_isZero (globalAddress s')"
      using due(3) less.prems(1,2) by (simp_all add: same_config_def)
    show ?thesis
    proof (cases "count + 1 > 4")
      case True
      then have "length [f] = 5 - unat count" using c by (simp add: word_less_nat_alt)
      then show ?thesis
        using True due less.prems by (intro exI [of _ s'] exI [of _ "[f]"]) (simp add: step)
    next
      case False
      have "rank (5 - unat (count + 1)) n' (us (dev s')) < rank (5 - unat count) n (us (dev s))"
        using c by (intro rank_due due) simp
      then obtain t fs where "EtherSia_icmp6AutoConfigure_loop p (word_of_nat n') (count + 1) s' = Some (False, t)"
        "sent (dev t) = sent (dev s') @ fs" "length fs = 5 - unat (count + 1)" "list_all router_solicitation fs"
        using less.hyps s' due(4) False by (metis linorder_not_less)
      then show ?thesis
        using False due c less.prems by (intro exI [of _ t] exI [of _ "f # fs"]) (auto simp: step)
    qed
  qed simp_all
qed

text \<open>
  C24. Autoconfiguration gives up: without an answer \<open>icmp6AutoConfigure\<close> returns false after exactly
  five router solicitations, one more than \<open>ROUTER_SOLICITATION_ATTEMPTS\<close>.
\<close>

theorem autoConfigure_gives_up:
  assumes "quiet_network p us sent" "wf_ether s" "IPv6Address_isZero (globalAddress s)"
  shows "\<exists>s' fs. EtherSia_icmp6AutoConfigure p s = Some (False, s')
    \<and> sent (dev s') = sent (dev s) @ fs \<and> length fs = unat ROUTER_SOLICITATION_ATTEMPTS + 1
    \<and> list_all router_solicitation fs"
proof -
  obtain d where d: "EtherSia_millis p s = (word_of_nat (us (dev s) div 1000), s\<lparr>dev := d\<rparr>)"
    "passes us (dev s) d" "sent d = sent (dev s)" using quiet_millis [OF assms(1)] by metis
  have "\<exists>s' fs. EtherSia_icmp6AutoConfigure_loop p (word_of_nat (us (dev s) div 1000)) 0 (s\<lparr>dev := d\<rparr>) = Some (False, s')
      \<and> sent (dev s') = sent (dev (s\<lparr>dev := d\<rparr>)) @ fs \<and> length fs = 5 - unat (0 :: byte) \<and> list_all router_solicitation fs"
    by (rule autoConfigure_loop_quiet [OF assms(1)]) (use assms(2,3) near_now [OF d(2)] in auto)
  then show ?thesis using d by (simp add: EtherSia_icmp6AutoConfigure_def)
qed

section \<open>TFTP read requests\<close>

lemma waitForAck_loop_quiet:
  assumes q: "quiet_network p us sent"
  shows "us (dev s) div 1000 \<le> n + 2000 \<Longrightarrow> n \<le> us (dev s) div 1000 + 3000 \<Longrightarrow>
    \<exists>s'. TFTPServer_waitForAck_loop p block (word_of_nat n) k s = Some (False, s')
      \<and> same_config s s' \<and> us (dev s) < us (dev s') \<and> sent (dev s') = sent (dev s)"
proof (induction "1000 * n - us (dev s)" arbitrary: s rule: less_induct)
  case less
  obtain d where d: "EtherSia_receivePacket p s = Some (0, s\<lparr>dev := d, bufferContainsReceived := False\<rparr>)"
    "passes us (dev s) d" "sent d = sent (dev s)" by (rule quiet_receive [OF q])
  let ?s = "s\<lparr>dev := d, bufferContainsReceived := False\<rparr>" and ?t = "us d div 1000"
  obtain d2 where d2: "EtherSia_millis p ?s = (word_of_nat (us (dev ?s) div 1000), ?s\<lparr>dev := d2\<rparr>)"
    "passes us (dev ?s) d2" "us (dev ?s) < us d2" "sent d2 = sent (dev ?s)" by (rule quiet_millis [OF q])
  have no_ack: "TFTPServer_ackReceived block k ?s = None"
    by (simp add: TFTPServer_ackReceived_def UDPSocket_havePacket_def)
  have t: "?t \<le> us (dev s) div 1000 + 1000" "us (dev s) div 1000 \<le> ?t" using passes_near [OF d(2)] by simp_all
  then have diff: "0 <s (word_of_nat n - word_of_nat ?t :: u32) \<longleftrightarrow> ?t < n"
    using less.prems clock_diff [of n ?t] by (simp add: word_sless_alt)
  have now: "us (dev s) < us d2" using d(2) d2(3) by (simp add: passes_def)
  show ?case
  proof (cases "?t < n")
    case False
    then show ?thesis
      using d d2 no_ack diff now by (subst TFTPServer_waitForAck_loop.simps) simp
  next
    case True
    then have "us d < 1000 * n" by (simp add: div_less_iff_less_mult mult.commute)
    then have "1000 * n - us d2 < 1000 * n - us (dev s)" using d(2) d2(3) by (auto simp: passes_def)
    moreover have "us d2 div 1000 \<le> n + 2000" "n \<le> us d2 div 1000 + 3000"
      using passes_near [of us d d2] d2(2) True t less.prems by simp_all
    ultimately obtain s' where "TFTPServer_waitForAck_loop p block (word_of_nat n) k (?s\<lparr>dev := d2\<rparr>) = Some (False, s')"
      "same_config (?s\<lparr>dev := d2\<rparr>) s'" "us d2 < us (dev s')" "sent (dev s') = sent d2"
      using less.hyps [of "?s\<lparr>dev := d2\<rparr>"] by auto
    then show ?thesis
      using True d d2 no_ack diff now
      by (subst TFTPServer_waitForAck_loop.simps) (auto simp: same_config_def)
  qed
qed

lemma waitForAck_quiet:
  assumes q: "quiet_network p us sent"
  shows "\<exists>s'. TFTPServer_waitForAck p block k s = Some (False, s') \<and> same_config s s' \<and> sent (dev s') = sent (dev s)"
proof -
  obtain d where d: "EtherSia_millis p s = (word_of_nat (us (dev s) div 1000), s\<lparr>dev := d\<rparr>)"
    "passes us (dev s) d" "us (dev s) < us d" "sent d = sent (dev s)" by (rule quiet_millis [OF q])
  have "\<exists>s'. TFTPServer_waitForAck_loop p block (word_of_nat (us (dev s) div 1000 + 100)) k (s\<lparr>dev := d\<rparr>) = Some (False, s')
      \<and> same_config (s\<lparr>dev := d\<rparr>) s' \<and> us (dev (s\<lparr>dev := d\<rparr>)) < us (dev s') \<and> sent (dev s') = sent (dev (s\<lparr>dev := d\<rparr>))"
    by (rule waitForAck_loop_quiet [OF q]) (use passes_near [OF d(2)] in simp_all)
  then show ?thesis using d by (auto simp: TFTPServer_waitForAck_def same_config_def)
qed

text \<open>A file of the server: every block has its length, at most 512 bytes, and reading sends nothing.\<close>

definition readable :: "'d tftp_files \<Rightarrow> ('d \<Rightarrow> byte list list) \<Rightarrow> bool" where
  "readable f sent \<longleftrightarrow> (\<forall>fileno block d. case readBytes f fileno block d of (len, bytes, d') \<Rightarrow>
     length bytes = unat len \<and> length bytes \<le> 512 \<and> sent d' = sent d)"

definition data_block :: "u16 \<Rightarrow> byte list \<Rightarrow> bool" where
  "data_block block f \<longleftrightarrow> take 4 (drop 62 f) = tftp_header TFTP_OPCODE_DATA block"

lemma sendBlock_send_data:
  assumes "readBytes f fileno block (dev s) = (len, bytes, d)" "length bytes = unat len" "length bytes \<le> 512"
  shows "TFTPServer_sendBlock p f fileno block k s =
    map_option (\<lambda>(k, s). (len, k, s))
      (Socket_send_data UDPSocket_vt p (tftp_header TFTP_OPCODE_DATA block @ bytes) False k (s\<lparr>dev := d\<rparr>))"
proof -
  let ?h = "tftp_header TFTP_OPCODE_DATA block"
  let ?send = "\<lambda>s. Socket_send UDPSocket_vt p (len + 4) False k s"
  have l: "length ?h = 4" by (simp add: tftp_header_def)
  have len: "word_of_nat (length (?h @ bytes)) = len + 4" using assms(2) by (simp add: l)
  have hdr: "st8 (st8 (st8 (st8 m 62 0) 63 3) 64 (ucast (drop_bit 8 block))) 65 (ucast block) = wr_bytes m 62 ?h" for m
    using st8_header [of m 62] by (simp add: tftp_header_def)
  have wr: "buf_wr (wr_bytes m 62 ?h) 66 bytes = Some (wr_bytes m 62 (?h @ bytes))"
    "buf_wr m 62 (?h @ bytes) = Some (wr_bytes m 62 (?h @ bytes))" for m
    using assms(3) l wr_bytes_append [of m 62 ?h bytes] by (simp_all add: buf_wr_def)
  have "TFTPServer_sendBlock p f fileno block k s =
      ?send (s\<lparr>buffer := wr_bytes (buffer s) 62 (?h @ bytes), dev := d\<rparr>) \<bind> (\<lambda>(k, s). Some (len, k, s))"
    by (simp only: TFTPServer_sendBlock_def block_bytes) (simp add: UDPSocket_payload_def assms(1) hdr wr)
  moreover have "Socket_send_data UDPSocket_vt p (?h @ bytes) False k (s\<lparr>dev := d\<rparr>) =
      ?send (s\<lparr>dev := d, buffer := wr_bytes (buffer s) 62 (?h @ bytes)\<rparr>)"
    by (simp only: Socket_send_data_def len)
      (simp add: UDPSocket_vt_def UDPSocket_payload_def wr)
  moreover have "s\<lparr>buffer := m, dev := d\<rparr> = s\<lparr>dev := d, buffer := m\<rparr>" for m by simp
  ultimately show ?thesis
    by (cases "?send (s\<lparr>dev := d, buffer := wr_bytes (buffer s) 62 (?h @ bytes)\<rparr>)") auto
qed

lemma sendBlock_quiet:
  assumes q: "quiet_network p us sent" and "readable f sent" "wf_ether s" "wf_socket k"
  shows "\<exists>len s' fr. TFTPServer_sendBlock p f fileno block k s = Some (len, k, s') \<and> wf_ether s'
    \<and> sent (dev s') = sent (dev s) @ [fr] \<and> data_block block fr"
proof -
  obtain len bytes d where rd: "readBytes f fileno block (dev s) = (len, bytes, d)"
    by (cases "readBytes f fileno block (dev s)")
  then have b: "length bytes = unat len" "length bytes \<le> 512" "sent d = sent (dev s)"
    using assms(2) [unfolded readable_def, THEN spec [of _ fileno], THEN spec [of _ block], THEN spec [of _ "dev s"]] by simp_all
  let ?data = "tftp_header TFTP_OPCODE_DATA block @ bytes"
  have w: "wf_ether (s\<lparr>dev := d\<rparr>)" "length ?data \<le> 538"
    using assms(3) b(2) by (simp_all add: tftp_header_def)
  obtain m r where m: "Socket_send_data UDPSocket_vt p ?data False k (s\<lparr>dev := d\<rparr>) = map_option (Pair k) r"
    "sends p (s\<lparr>dev := d\<rparr>) m r" "unat (IPv6Packet_payloadLength m) = 8 + length ?data"
    "rd_bytes m 62 (length ?data) = ?data"
    using UDP_send_data_run [OF w(1) assms(4) w(2), of p] by auto
  obtain s' where s': "r = Some s'" "sends p (s\<lparr>dev := d\<rparr>) m (Some s')"
    "sent (dev s') = sent (dev (s\<lparr>dev := d\<rparr>)) @ [rd_bytes m 0 (54 + unat (IPv6Packet_payloadLength m))]"
    by (rule quiet_sends [OF q m(2)])
  have "take 4 (rd_bytes m 62 (length ?data)) = tftp_header TFTP_OPCODE_DATA block"
    unfolding m(4) by (simp add: tftp_header_def)
  then have "data_block block (rd_bytes m 0 (54 + unat (IPv6Packet_payloadLength m)))"
    by (simp add: data_block_def m(3) tftp_header_def eval_nat_numeral)
  then show ?thesis
    using sendBlock_send_data [OF rd b(1,2), of p k] m(1) s' b(3) sendsD(9) [OF s'(2)] assms(3) by auto
qed

lemma handleReadRequest_loop_quiet:
  assumes q: "quiet_network p us sent" and f: "readable f sent" and k: "wf_socket k" and block: "block < 0xFFFF"
  shows "wf_ether s \<Longrightarrow> retries \<le> 10 \<Longrightarrow>
    \<exists>s' fs. TFTPServer_handleReadRequest_loop p f fileno block retries k s = Some s'
      \<and> sent (dev s') = sent (dev s) @ fs \<and> length fs = 11 - unat retries \<and> list_all (data_block block) fs"
proof (induction "11 - unat retries" arbitrary: retries s rule: less_induct)
  case less
  obtain len s1 fr where s1: "TFTPServer_sendBlock p f fileno block k s = Some (len, k, s1)" "wf_ether s1"
    "sent (dev s1) = sent (dev s) @ [fr]" "data_block block fr"
    using sendBlock_quiet [OF q f less.prems(1) k] by blast
  obtain s2 where s2: "TFTPServer_waitForAck p block k s1 = Some (False, s2)" "same_config s1 s2"
    "sent (dev s2) = sent (dev s1)" using waitForAck_quiet [OF q] by blast
  have w: "wf_ether s2" using s1(2) s2(2) by (simp add: same_config_def)
  have r: "unat (retries + 1) = unat retries + 1" "unat retries \<le> 10"
    using less.prems(2) unat_Suc_less [of retries 11] by (auto simp: word_le_nat_alt word_less_nat_alt)
  note step = TFTPServer_handleReadRequest_loop.simps [of p f fileno block retries k s]
  show ?case
  proof (cases "retries + 1 > TFTP_RETRIES")
    case True
    then have "length [fr] = 11 - unat retries" using r by (simp add: word_less_nat_alt)
    then show ?thesis
      using True block s1 s2 by (intro exI [of _ s2] exI [of _ "[fr]"]) (simp add: step)
  next
    case False
    then have "retries + 1 \<le> 10" by simp
    moreover have "11 - unat (retries + 1) < 11 - unat retries" using r by simp
    ultimately obtain t fs where "TFTPServer_handleReadRequest_loop p f fileno block (retries + 1) k s2 = Some t"
      "sent (dev t) = sent (dev s2) @ fs" "length fs = 11 - unat (retries + 1)" "list_all (data_block block) fs"
      using less.hyps w by blast
    then show ?thesis
      using False block s1 s2 r by (intro exI [of _ t] exI [of _ "fr # fs"]) (auto simp: step)
  qed
qed

text \<open>
  C25. A client that never acknowledges is given up: on a quiet network the transfer of a read request
  returns after sending the first block exactly eleven times, once and \<open>TFTP_RETRIES\<close> times again.
\<close>

theorem TFTPServer_read_gives_up:
  assumes "quiet_network p us sent" "readable f sent" "wf_ether s" "wf_socket k"
  shows "\<exists>s' fs. TFTPServer_handleReadRequest_loop p f fileno 1 0 k s = Some s'
    \<and> sent (dev s') = sent (dev s) @ fs \<and> length fs = unat TFTP_RETRIES + 1 \<and> list_all (data_block 1) fs"
proof -
  have "(1 :: u16) < 0xFFFF" "(0 :: byte) \<le> 10" by simp_all
  from handleReadRequest_loop_quiet [OF assms(1,2,4) this(1) assms(3) this(2)] show ?thesis by simp
qed

section \<open>A quiet network\<close>

text \<open>Such a platform: the frames sent and a clock that goes on by a millisecond with each call.\<close>

type_synonym recorder = "nat \<times> byte list list"

definition recording_platform :: "recorder platform" where
  "recording_platform = \<lparr>readFrame = (\<lambda>n (u, fs). Some ([], u + 1000, fs)),
     sendFrame = (\<lambda>f (u, fs). Some (u + 1000, fs @ [f])),
     millis = (\<lambda>(u, fs). (word_of_nat (u div 1000), u + 1000, fs)),
     micros = (\<lambda>(u, fs). (word_of_nat u, u + 1000, fs)), delay_ms = (\<lambda>t (u, fs). (u + 1000, fs)),
     randomSeed = (\<lambda>t d. d), random_long = (\<lambda>d. (0, d)), random_range = (\<lambda>a b d. (a, d))\<rparr>"

lemma quiet_recording: "quiet_network recording_platform fst snd"
  by (simp add: quiet_network_def recording_platform_def passes_def)

definition sample_quiet :: "recorder ether" where
  "sample_quiet = \<lparr>linkLocalAddress = linkLocalAddress sample_ether, globalAddress = IPv6Address_zero,
     dnsServerAddress = dnsServerAddress sample_ether, localMac = localMac sample_ether,
     routerMac = routerMac sample_ether, buffer = (\<lambda>_. 0), bufferContainsReceived = False,
     autoConfigurationEnabled = True, dev = (5000, [])\<rparr>"

lemma wf_sample_quiet: "wf_ether sample_quiet"
  by code_simp

lemma discoverNeighbour_gives_up_witness:
  "\<exists>s' fs. EtherSia_discoverNeighbour recording_platform IPv6Address_linkLocalAllNodes 3 sample_quiet = Some (None, s')
    \<and> snd (dev s') = fs \<and> length fs = 3"
proof -
  have "wf_ip IPv6Address_linkLocalAllNodes" by code_simp
  from discoverNeighbour_gives_up [OF quiet_recording wf_sample_quiet this, of 3] show ?thesis
    by (auto simp: sample_quiet_def)
qed

lemma autoConfigure_gives_up_witness:
  "\<exists>s'. EtherSia_icmp6AutoConfigure recording_platform sample_quiet = Some (False, s') \<and> length (snd (dev s')) = 5"
proof -
  have "IPv6Address_isZero (globalAddress sample_quiet)" by code_simp
  from autoConfigure_gives_up [OF quiet_recording wf_sample_quiet this] show ?thesis
    by (auto simp: sample_quiet_def)
qed

definition one_block_file :: "recorder tftp_files" where
  "one_block_file = \<lparr>openFile = (\<lambda>name d. (1, d)), writeBytes = (\<lambda>fileno block bytes d. d),
     readBytes = (\<lambda>fileno block d. (2, [7, 8], d))\<rparr>"

lemma TFTPServer_read_gives_up_witness:
  "\<exists>s'. TFTPServer_handleReadRequest_loop recording_platform one_block_file 1 1 0 sample_socket sample_quiet = Some s'
    \<and> length (snd (dev s')) = 11"
proof -
  have "wf_socket sample_socket" by code_simp
  moreover have "readable one_block_file snd" by (simp add: readable_def one_block_file_def)
  ultimately show ?thesis
    using TFTPServer_read_gives_up [OF quiet_recording _ wf_sample_quiet, of one_block_file sample_socket 1]
    by (auto simp: sample_quiet_def)
qed

end
