(* ===== verification/Driver.thy ===== *)
theory Driver
  imports ICMPv6
begin

text \<open>
  What the Ethernet drivers share: the contract \<open>EtherSia\<close> relies on when it hands its buffer to
  \<open>readFrame\<close>, and the SPI bus and pins of the Arduino core through which the chips are driven. The
  bus is a parameter, over the state \<open>'h\<close> of the hardware.
\<close>

record 'h spi =
  spi_begin :: "'h \<Rightarrow> 'h"
  spi_setClockDivider :: "byte \<Rightarrow> 'h \<Rightarrow> 'h"
  spi_setBitOrder :: "byte \<Rightarrow> 'h \<Rightarrow> 'h"
  spi_setDataMode :: "byte \<Rightarrow> 'h \<Rightarrow> 'h"
  spi_transfer :: "byte \<Rightarrow> 'h \<Rightarrow> byte \<times> 'h"
  spi_pinMode :: "byte \<Rightarrow> bool \<Rightarrow> 'h \<Rightarrow> 'h"
  spi_digitalWrite :: "byte \<Rightarrow> bool \<Rightarrow> 'h \<Rightarrow> 'h"
  spi_delay :: "u32 \<Rightarrow> 'h \<Rightarrow> 'h"
  spi_delayMicroseconds :: "u32 \<Rightarrow> 'h \<Rightarrow> 'h"

abbreviation (input) SPI_CLOCK_DIV2 :: byte where "SPI_CLOCK_DIV2 \<equiv> 0x04"
abbreviation (input) SPI_CLOCK_DIV4 :: byte where "SPI_CLOCK_DIV4 \<equiv> 0x00"
abbreviation (input) MSBFIRST :: byte where "MSBFIRST \<equiv> 1"
abbreviation (input) SPI_MODE0 :: byte where "SPI_MODE0 \<equiv> 0x00"

text \<open>
  The contract of \<open>readFrame\<close>: it writes no more bytes than the buffer has. A driver that keeps it
  never makes \<open>receivePacket\<close> leave the buffer by the frame it reads.
\<close>

locale ethernet_driver =
  fixes rd :: "nat \<Rightarrow> 'd \<Rightarrow> (byte list \<times> 'd) option"
  assumes bounded: "rd bufsize d = Some (frame, d') \<Longrightarrow> length frame \<le> bufsize"
begin

lemma receive_nothing:
  assumes "readFrame p = rd" "rd 600 (dev s) = Some ([], d)"
  shows "EtherSia_receivePacket p s = Some (0, s\<lparr>dev := d, bufferContainsReceived := False\<rparr>)"
  using assms by (simp add: EtherSia_receivePacket_def)

lemma receive_frame:
  assumes "readFrame p = rd" "rd 600 (dev s) = Some (frame, d)"
  shows "length frame \<le> 600 \<and> (\<forall>n s'. EtherSia_receivePacket p s = Some (n, s') \<longrightarrow> unat n \<le> length frame)"
proof -
  have l: "length frame \<le> 600" using bounded [OF assms(2)] .
  then have "unat (word_of_nat (length frame) :: u16) = length frame"
    by (simp add: unsigned_of_nat take_bit_eq_mod)
  moreover have "n = 0 \<or> n = word_of_nat (length frame)" if "EtherSia_receivePacket p s = Some (n, s')" for n s'
    using that assms l by (auto simp: EtherSia_receivePacket_def bind_eq_Some_conv Let_def split: if_splits prod.splits)
  ultimately show ?thesis using l by fastforce
qed

lemma receive_bounded:
  assumes "readFrame p = rd" "EtherSia_receivePacket p s = Some (n, s')"
  shows "unat n \<le> 600"
proof -
  obtain frame d where "rd 600 (dev s) = Some (frame, d)"
    using assms by (auto simp: EtherSia_receivePacket_def bind_eq_Some_conv)
  from receive_frame [OF assms(1) this] assms(2) show ?thesis by (blast intro: le_trans)
qed

end

section \<open>Transactions\<close>

text \<open>What one selection of a chip sends and receives; the chips' behaviour is stated in terms of it.\<close>

fun spi_transfers :: "'h spi \<Rightarrow> byte list \<Rightarrow> 'h \<Rightarrow> byte list \<times> 'h" where
  "spi_transfers b [] h = ([], h)"
| "spi_transfers b (v # vs) h =
     (let (r, h) = spi_transfer b v h; (rs, h) = spi_transfers b vs h in (r # rs, h))"

definition spi_exchange :: "'h spi \<Rightarrow> byte \<Rightarrow> byte list \<Rightarrow> 'h \<Rightarrow> byte list \<times> 'h" where
  "spi_exchange b cs out h =
     (let (answers, h) = spi_transfers b out (spi_digitalWrite b cs False h)
      in (answers, spi_digitalWrite b cs True h))"

text \<open>Bytes of a ring of \<open>2 ^ k\<close> bytes of a 16-bit address space.\<close>

definition ring :: "u16 \<Rightarrow> nat \<Rightarrow> (u16 \<Rightarrow> byte) \<Rightarrow> u16 \<Rightarrow> nat \<Rightarrow> byte list" where
  "ring base k m ptr n = map (\<lambda>i. m (base + take_bit k (ptr + word_of_nat i))) [0..<n]"

lemma length_ring [simp]: "length (ring base k m ptr n) = n"
  by (simp add: ring_def)

lemma ring_append: "ring base k m ptr (a + c) = ring base k m ptr a @ ring base k m (ptr + word_of_nat a) c"
proof (rule nth_equalityI)
  fix i assume "i < length (ring base k m ptr (a + c))"
  then show "ring base k m ptr (a + c) ! i = (ring base k m ptr a @ ring base k m (ptr + word_of_nat a) c) ! i"
    by (auto simp: ring_def nth_append of_nat_diff)
qed simp

lemma ring_cong: "(\<And>a. m (base + take_bit k a) = m' (base + take_bit k a)) \<Longrightarrow> ring base k m ptr n = ring base k m' ptr n"
  by (simp add: ring_def)

lemma unat_take_bit_add:
  fixes x y :: u16
  assumes "k \<le> 16"
  shows "unat (take_bit k (x + y)) = (unat (take_bit k x) + unat y) mod 2 ^ k"
proof -
  have "unat (x + y) = take_bit 16 (unat x + unat y)" by (simp add: unat_word_ariths take_bit_eq_mod)
  then have "unat (take_bit k (x + y)) = take_bit k (unat x + unat y)"
    using assms by (simp only: unsigned_take_bit_eq take_bit_take_bit min_absorb1)
  also have "\<dots> = (unat (take_bit k x) + unat y) mod 2 ^ k"
    by (simp only: unsigned_take_bit_eq [of k x]) (simp only: take_bit_eq_mod mod_add_left_eq)
  finally show ?thesis .
qed

text \<open>Without wrapping around, the bytes are consecutive.\<close>

lemma take_bit_add_ring:
  fixes ptr :: u16
  assumes "k \<le> 15" "unat (take_bit k ptr) + i < 2 ^ k"
  shows "take_bit k (ptr + word_of_nat i) = take_bit k ptr + word_of_nat i"
proof -
  have "(2::nat) ^ k \<le> 2 ^ 15" using assms(1) by (intro power_increasing) auto
  then have i: "i < 65536" "unat (take_bit k ptr) + i < 65536" using assms(2) by simp_all
  have u: "unat (word_of_nat i :: u16) = i" using i(1) by (simp add: unsigned_of_nat take_bit_eq_mod)
  have "unat (take_bit k ptr + word_of_nat i) = unat (take_bit k ptr) + i"
    using i u by (simp only: unat_word_ariths) simp
  then show ?thesis using unat_take_bit_add [of k ptr "word_of_nat i"] assms u by (simp add: word_unat_eq_iff)
qed

lemma ring_straight:
  assumes "k \<le> 15" "unat (take_bit k ptr) + n \<le> 2 ^ k"
  shows "ring base k m ptr n = map (\<lambda>i. m (base + take_bit k ptr + word_of_nat i)) [0..<n]"
  using assms by (auto simp: ring_def take_bit_add_ring add.assoc)

text \<open>At the end of the ring it goes on at its start.\<close>

lemma ring_wraps:
  fixes ptr :: u16
  assumes "k \<le> 15"
  shows "take_bit k (ptr + word_of_nat (2 ^ k - unat (take_bit k ptr))) = 0"
proof -
  let ?r = "unat (take_bit k ptr)"
  have r: "?r < 2 ^ k" by (simp only: unsigned_take_bit_eq take_bit_nat_less_exp)
  have "(2::nat) ^ k \<le> 2 ^ 15" using assms by (intro power_increasing) auto
  then have "unat (word_of_nat (2 ^ k - ?r) :: u16) = 2 ^ k - ?r"
    by (simp only: unsigned_of_nat take_bit_eq_mod) simp
  then show ?thesis using unat_take_bit_add [of k ptr "word_of_nat (2 ^ k - ?r)"] assms r
    by (simp add: word_unat_eq_iff)
qed

end
