(* ===== verification/Dummy_Driver.thy ===== *)
theory Dummy_Driver
  imports Driver
begin

text \<open>
  \<open>src/src/dummy.cpp\<close> and \<open>dummy.h\<close>: the driver of the unit tests, which reads the frames injected by
  the test and keeps those sent. The arrays have 100 slots; writing outside them is a fault. \<open>now\<close> is
  what \<open>time(NULL)\<close> returns, \<open>malloc\<close> succeeds, and freeing a slot only forgets its packet.
\<close>

record frame_t =
  frame_time :: nat
  frame_length :: u16
  frame_packet :: "byte list option"

record dummy_dev =
  recieved :: "frame_t list"
  injectCount :: nat
  recievedCount :: nat
  sent :: "frame_t list"
  sentCount :: nat

abbreviation (input) dummy_bufferSize :: nat where "dummy_bufferSize \<equiv> 100"

definition empty_frame :: frame_t where
  "empty_frame = \<lparr>frame_time = 0, frame_length = 0, frame_packet = None\<rparr>"

definition EtherSia_Dummy_new :: dummy_dev where
  "EtherSia_Dummy_new =
     \<lparr>recieved = replicate dummy_bufferSize empty_frame, injectCount = 0, recievedCount = 0,
      sent = replicate dummy_bufferSize empty_frame, sentCount = 0\<rparr>"

definition EtherSia_Dummy_sendFrame :: "nat \<Rightarrow> byte list \<Rightarrow> dummy_dev \<Rightarrow> (u16 \<times> dummy_dev) option" where
  "EtherSia_Dummy_sendFrame now data d =
     (if sentCount d < dummy_bufferSize then
        let f = \<lparr>frame_time = now, frame_length = word_of_nat (length data), frame_packet = Some data\<rparr>
        in Some (0, d\<lparr>sent := (sent d)[sentCount d := f], sentCount := sentCount d + 1\<rparr>)
      else None)"

definition EtherSia_Dummy_readFrame :: "nat \<Rightarrow> dummy_dev \<Rightarrow> (byte list \<times> dummy_dev) option" where
  "EtherSia_Dummy_readFrame bufsize d =
     (if recievedCount d < injectCount d then
        if recievedCount d < dummy_bufferSize then
          let frame = recieved d ! recievedCount d;
              d = d\<lparr>recievedCount := recievedCount d + 1\<rparr>
          in if unat (frame_length frame) < bufsize then
               (case frame_packet frame of
                  Some bytes \<Rightarrow> if unat (frame_length frame) \<le> length bytes
                    then Some (take (unat (frame_length frame)) bytes, d) else None
                | None \<Rightarrow> if frame_length frame = 0 then Some ([], d) else None)
             else Some ([], d)
        else None
      else Some ([], d))"

definition EtherSia_Dummy_getSent :: "nat \<Rightarrow> dummy_dev \<Rightarrow> frame_t option" where
  "EtherSia_Dummy_getSent pos d = (if pos < dummy_bufferSize then Some (sent d ! pos) else None)"

definition EtherSia_Dummy_getLastSent :: "dummy_dev \<Rightarrow> frame_t option" where
  "EtherSia_Dummy_getLastSent d =
     (if sentCount d = 0 then None else EtherSia_Dummy_getSent (sentCount d - 1) d)"

definition EtherSia_Dummy_clearSent :: "dummy_dev \<Rightarrow> dummy_dev" where
  "EtherSia_Dummy_clearSent d = d\<lparr>sent := replicate dummy_bufferSize empty_frame, sentCount := 0\<rparr>"

definition EtherSia_Dummy_clearRecieved :: "dummy_dev \<Rightarrow> dummy_dev" where
  "EtherSia_Dummy_clearRecieved d =
     d\<lparr>recieved := replicate dummy_bufferSize empty_frame, injectCount := 0, recievedCount := 0\<rparr>"

definition EtherSia_Dummy_end :: "dummy_dev \<Rightarrow> dummy_dev" where
  "EtherSia_Dummy_end d = EtherSia_Dummy_clearRecieved (EtherSia_Dummy_clearSent d)"

definition EtherSia_Dummy_injectRecievedPacket :: "nat \<Rightarrow> byte list \<Rightarrow> dummy_dev \<Rightarrow> dummy_dev option" where
  "EtherSia_Dummy_injectRecievedPacket now packet d =
     (if injectCount d < dummy_bufferSize then
        let f = \<lparr>frame_time = now, frame_length = word_of_nat (length packet), frame_packet = Some packet\<rparr>
        in Some (d\<lparr>recieved := (recieved d)[injectCount d := f], injectCount := injectCount d + 1\<rparr>)
      else None)"

definition EtherSia_Dummy_getRecievedCount :: "dummy_dev \<Rightarrow> nat" where
  "EtherSia_Dummy_getRecievedCount d = recievedCount d"

definition EtherSia_Dummy_getInjectCount :: "dummy_dev \<Rightarrow> nat" where
  "EtherSia_Dummy_getInjectCount d = injectCount d"

definition EtherSia_Dummy_getSentCount :: "dummy_dev \<Rightarrow> nat" where
  "EtherSia_Dummy_getSentCount d = sentCount d"

text \<open>
  The platform of the unit tests: this driver with the stubs of \<open>src/tests/libarduino/Arduino.cpp\<close>,
  whose time stands still and whose random numbers are fixed.
\<close>

definition dummy_platform :: "nat \<Rightarrow> dummy_dev platform" where
  "dummy_platform now = \<lparr>readFrame = EtherSia_Dummy_readFrame,
     sendFrame = (\<lambda>f d. map_option snd (EtherSia_Dummy_sendFrame now f d)),
     millis = (\<lambda>d. (0, d)), micros = (\<lambda>d. (0, d)), delay_ms = (\<lambda>t d. d), randomSeed = (\<lambda>t d. d),
     random_long = (\<lambda>d. (0x55555555, d)),
     random_range = (\<lambda>a b d. (drop_bit 1 (b - a) + a, d))\<rparr>"

definition EtherSia_Dummy_begin :: "nat \<Rightarrow> mac \<Rightarrow> dummy_dev ether \<Rightarrow> (bool \<times> dummy_dev ether) option" where
  "EtherSia_Dummy_begin now address s = EtherSia_begin (dummy_platform now) (s\<lparr>localMac := address\<rparr>)"

interpretation dummy_drv: ethernet_driver EtherSia_Dummy_readFrame
  by unfold_locales
    (auto simp: EtherSia_Dummy_readFrame_def Let_def split: if_splits option.splits)

section \<open>The driver is a pair of queues\<close>

text \<open>The frames waiting, in order, and those sent, in a state of 100 slots filled from the front.\<close>

definition slot_ok :: "frame_t \<Rightarrow> bool" where
  "slot_ok f \<longleftrightarrow> (case frame_packet f of Some b \<Rightarrow> length b < 65536 \<and> frame_length f = word_of_nat (length b) | None \<Rightarrow> False)"

definition wf_dummy :: "dummy_dev \<Rightarrow> bool" where
  "wf_dummy d \<longleftrightarrow> length (recieved d) = 100 \<and> length (sent d) = 100 \<and> recievedCount d \<le> injectCount d
     \<and> injectCount d \<le> 100 \<and> sentCount d \<le> 100
     \<and> list_all slot_ok (take (injectCount d) (recieved d)) \<and> list_all slot_ok (take (sentCount d) (sent d))"

definition frames :: "frame_t list \<Rightarrow> byte list list" where
  "frames fs = map (\<lambda>f. the (frame_packet f)) fs"

definition waiting :: "dummy_dev \<Rightarrow> byte list list" where
  "waiting d = frames (drop (recievedCount d) (take (injectCount d) (recieved d)))"

definition transmitted :: "dummy_dev \<Rightarrow> byte list list" where
  "transmitted d = frames (take (sentCount d) (sent d))"

lemma take_Suc_update: "n < length xs \<Longrightarrow> take (Suc n) (xs[n := x]) = take n xs @ [x]"
  by (simp add: take_Suc_conv_app_nth)

lemma slot_length: "slot_ok f \<Longrightarrow> \<exists>b. frame_packet f = Some b \<and> unat (frame_length f) = length b"
  by (auto simp: slot_ok_def unsigned_of_nat take_bit_eq_mod split: option.splits)

lemma dummy_queues:
  assumes "wf_dummy d" "length f < 65536"
  shows "(sentCount d < 100 \<longrightarrow> (\<exists>d'. EtherSia_Dummy_sendFrame now f d = Some (0, d') \<and> wf_dummy d'
        \<and> transmitted d' = transmitted d @ [f] \<and> waiting d' = waiting d))
    \<and> (injectCount d < 100 \<longrightarrow> (\<exists>d'. EtherSia_Dummy_injectRecievedPacket now f d = Some d' \<and> wf_dummy d'
        \<and> waiting d' = waiting d @ [f] \<and> transmitted d' = transmitted d))
    \<and> (\<exists>d'. EtherSia_Dummy_readFrame bufsize d =
          Some (case waiting d of [] \<Rightarrow> [] | g # _ \<Rightarrow> if length g < bufsize then g else [], d')
        \<and> wf_dummy d' \<and> waiting d' = tl (waiting d) \<and> transmitted d' = transmitted d)"
proof (intro conjI impI)
  assume "sentCount d < 100"
  with assms show "\<exists>d'. EtherSia_Dummy_sendFrame now f d = Some (0, d') \<and> wf_dummy d'
        \<and> transmitted d' = transmitted d @ [f] \<and> waiting d' = waiting d"
    by (simp add: EtherSia_Dummy_sendFrame_def Let_def wf_dummy_def transmitted_def waiting_def frames_def
        take_Suc_update slot_ok_def)
next
  assume "injectCount d < 100"
  with assms show "\<exists>d'. EtherSia_Dummy_injectRecievedPacket now f d = Some d' \<and> wf_dummy d'
        \<and> waiting d' = waiting d @ [f] \<and> transmitted d' = transmitted d"
    by (simp add: EtherSia_Dummy_injectRecievedPacket_def Let_def wf_dummy_def transmitted_def waiting_def frames_def
        take_Suc_update slot_ok_def)
next
  let ?t = "take (injectCount d) (recieved d)"
  show "\<exists>d'. EtherSia_Dummy_readFrame bufsize d =
          Some (case waiting d of [] \<Rightarrow> [] | g # _ \<Rightarrow> if length g < bufsize then g else [], d')
        \<and> wf_dummy d' \<and> waiting d' = tl (waiting d) \<and> transmitted d' = transmitted d"
  proof (cases "recievedCount d < injectCount d")
    case True
    let ?f = "recieved d ! recievedCount d"
    have lt: "length ?t = injectCount d" using assms(1) by (simp add: wf_dummy_def)
    have "slot_ok (?t ! recievedCount d)"
      using assms(1) True lt by (simp add: wf_dummy_def list_all_length)
    then obtain b where b: "frame_packet ?f = Some b" "unat (frame_length ?f) = length b"
      using slot_length True by fastforce
    have "drop (recievedCount d) ?t = ?f # drop (Suc (recievedCount d)) ?t"
      using True lt by (simp add: Cons_nth_drop_Suc [symmetric])
    then have w: "waiting d = b # frames (drop (Suc (recievedCount d)) ?t)"
      using b by (simp add: waiting_def frames_def)
    have w': "waiting (d\<lparr>recievedCount := Suc (recievedCount d)\<rparr>) = frames (drop (Suc (recievedCount d)) ?t)"
      by (simp add: waiting_def)
    show ?thesis
      using assms(1) True b
      by (simp add: EtherSia_Dummy_readFrame_def Let_def w w' wf_dummy_def transmitted_def)
  next
    case False
    then have "waiting d = []" by (simp add: waiting_def frames_def)
    with assms(1) False show ?thesis by (simp add: EtherSia_Dummy_readFrame_def)
  qed
qed

text \<open>
  C27. The test driver is a queue in each direction: a sent frame is the last of the transmitted ones, an
  injected one the last of those waiting, and \<open>readFrame\<close> takes the first one waiting, whole if it is
  shorter than the buffer and dropping it otherwise. Its well-formedness is kept, up to 100 frames.
\<close>

theorem dummy_driver_queues:
  assumes "wf_dummy d" "length f < 65536"
  shows "(sentCount d < 100 \<longrightarrow> (\<exists>d'. EtherSia_Dummy_sendFrame now f d = Some (0, d') \<and> wf_dummy d'
        \<and> transmitted d' = transmitted d @ [f] \<and> waiting d' = waiting d))
    \<and> (injectCount d < 100 \<longrightarrow> (\<exists>d'. EtherSia_Dummy_injectRecievedPacket now f d = Some d' \<and> wf_dummy d'
        \<and> waiting d' = waiting d @ [f] \<and> transmitted d' = transmitted d))
    \<and> (\<exists>d'. EtherSia_Dummy_readFrame bufsize d =
          Some (case waiting d of [] \<Rightarrow> [] | g # _ \<Rightarrow> if length g < bufsize then g else [], d')
        \<and> wf_dummy d' \<and> waiting d' = tl (waiting d) \<and> transmitted d' = transmitted d)"
  using assms by (rule dummy_queues)

lemma wf_dummy_new: "wf_dummy EtherSia_Dummy_new"
  by (simp add: wf_dummy_def EtherSia_Dummy_new_def)

lemma dummy_driver_queues_witness:
  "\<exists>d. EtherSia_Dummy_injectRecievedPacket 5 [1, 2] EtherSia_Dummy_new = Some d \<and> wf_dummy d \<and> waiting d = [[1, 2]]"
proof -
  have "waiting EtherSia_Dummy_new = []" "injectCount EtherSia_Dummy_new < 100"
    by (simp_all add: EtherSia_Dummy_new_def waiting_def frames_def)
  with dummy_driver_queues [OF wf_dummy_new, of "[1, 2]" 5 600] show ?thesis by auto
qed

end
