(* ===== verification/Wire.thy ===== *)
theory Wire
  imports Dummy_Driver
begin

text \<open>
  Two interfaces on the driver of the tests and the wire between them: what one hands to its driver is taken from
  there, injected at the other, and received. The lemma \<open>wire\<close> is the step every exchange between two stacks
  is made of.
\<close>

section \<open>One interface\<close>

lemma dummy_platform_sel [simp]:
  "readFrame (dummy_platform now) = EtherSia_Dummy_readFrame"
  "sendFrame (dummy_platform now) f d = map_option snd (EtherSia_Dummy_sendFrame now f d)"
  by (simp_all add: dummy_platform_def)

lemma dummy_sends:
  assumes "wf_dummy (dev s)" "sentCount (dev s) < 100" "sends (dummy_platform now) s m r"
  obtains s' where "r = Some s'" "sends (dummy_platform now) s m (Some s')" "wf_dummy (dev s')"
    "transmitted (dev s') = transmitted (dev s) @ [rd_bytes m 0 (54 + unat (IPv6Packet_payloadLength m))]"
    "waiting (dev s') = waiting (dev s)"
proof -
  let ?f = "rd_bytes m 0 (54 + unat (IPv6Packet_payloadLength m))"
  have "unat (IPv6Packet_payloadLength m) \<le> 546" using assms(3) valid_header by (auto simp: sends_def)
  then have "length ?f < 65536" by simp
  with dummy_queues [OF assms(1) this, of now] assms(2)
  obtain d where "EtherSia_Dummy_sendFrame now ?f (dev s) = Some (0, d)" "wf_dummy d"
    "transmitted d = transmitted (dev s) @ [?f]" "waiting d = waiting (dev s)" by auto
  with assms(3) show ?thesis
    by (intro that [of "s\<lparr>buffer := m, bufferContainsReceived := False, dev := d\<rparr>"]) (auto simp: sends_def)
qed

lemma dummy_reads:
  assumes "wf_dummy d" "waiting d = f # fs" "length f < 600"
  obtains d' where "EtherSia_Dummy_readFrame 600 d = Some (f, d')" "wf_dummy d'" "waiting d' = fs"
    "transmitted d' = transmitted d" "sentCount d' = sentCount d"
proof -
  obtain d' where d': "EtherSia_Dummy_readFrame 600 d = Some (f, d')" "wf_dummy d'" "waiting d' = fs"
    "transmitted d' = transmitted d"
    using dummy_queues [OF assms(1), of "[]" _ 600] assms(2,3) by auto
  moreover have "sentCount d' = sentCount d"
    using d'(1) by (auto simp: EtherSia_Dummy_readFrame_def Let_def split: if_splits option.splits)
  ultimately show ?thesis using that by blast
qed

section \<open>The step from one to the other\<close>

definition frame_of :: "mem \<Rightarrow> byte list" where
  "frame_of m = rd_bytes m 0 (54 + unat (IPv6Packet_payloadLength m))"

text \<open>A driver with nothing waiting and slots for \<open>n\<close> more frames each way.\<close>

definition room :: "nat \<Rightarrow> dummy_dev \<Rightarrow> bool" where
  "room n d \<longleftrightarrow> wf_dummy d \<and> waiting d = [] \<and> sentCount d + n \<le> 100 \<and> injectCount d + n \<le> 100"

lemma room_mono: "room (m + n) d \<Longrightarrow> room n d"
  by (simp add: room_def)

definition arrives :: "nat \<Rightarrow> byte list \<Rightarrow> dummy_dev ether \<Rightarrow> dummy_dev ether \<Rightarrow> bool" where
  "arrives now f t t' \<longleftrightarrow> (\<exists>d. EtherSia_Dummy_injectRecievedPacket now f (dev t) = Some d
     \<and> EtherSia_receivePacket (dummy_platform now) (t\<lparr>dev := d\<rparr>) = Some (word_of_nat (length f), t'))"

text \<open>The addresses of an interface, which neither sending nor receiving a packet for a socket changes.\<close>

definition same_station :: "'d ether \<Rightarrow> 'd ether \<Rightarrow> bool" where
  "same_station s s' \<longleftrightarrow> linkLocalAddress s' = linkLocalAddress s \<and> globalAddress s' = globalAddress s
     \<and> localMac s' = localMac s \<and> wf_ether s' = wf_ether s"

lemma same_station_refl [simp]: "same_station s s"
  by (simp add: same_station_def)

lemma same_station_trans: "same_station s t \<Longrightarrow> same_station t u \<Longrightarrow> same_station s u"
  by (simp add: same_station_def)

lemma wire_out:
  assumes "room (Suc n) (dev s)" "sends (dummy_platform now) s m r"
  obtains s' where "r = Some s'" "buffer s' = m" "same_station s s'" "room n (dev s')"
    "transmitted (dev s') = transmitted (dev s) @ [frame_of m]"
proof -
  have w: "wf_dummy (dev s)" "sentCount (dev s) < 100" using assms(1) by (simp_all add: room_def)
  let ?f = "frame_of m"
  have "unat (IPv6Packet_payloadLength m) \<le> 546" using assms(2) valid_header by (auto simp: sends_def)
  then have "length ?f < 65536" by (simp add: frame_of_def)
  with dummy_queues [OF w(1) this, of now] w(2)
  obtain d where d: "EtherSia_Dummy_sendFrame now ?f (dev s) = Some (0, d)" "wf_dummy d"
    "transmitted d = transmitted (dev s) @ [?f]" "waiting d = waiting (dev s)" by auto
  then have "sentCount d = Suc (sentCount (dev s))" "injectCount d = injectCount (dev s)"
    by (auto simp: EtherSia_Dummy_sendFrame_def Let_def split: if_splits)
  with d assms show thesis
    by (intro that [of "s\<lparr>buffer := m, bufferContainsReceived := False, dev := d\<rparr>"])
      (auto simp: sends_def frame_of_def room_def same_station_def wf_ether_def)
qed

lemma wire_in:
  assumes "wf_ether t" "room (Suc n) (dev t)" "IPv6Packet_isValid 600 m = Some True" "unat (IPv6Packet_payloadLength m) < 546"
    "IPv6Packet_protocol m \<noteq> IP6_PROTO_ICMP6"
    "IPv6Packet_etherDestination m = localMac t" "IPv6Packet_etherSource m \<noteq> localMac t"
  obtains t' where "arrives now (frame_of m) t t'" "bufferContainsReceived t'" "same_station t t'" "room n (dev t')"
    "transmitted (dev t') = transmitted (dev t)" "IPv6Packet_isValid 600 (buffer t') = Some True"
    "\<And>i. i < 54 + unat (IPv6Packet_payloadLength m) \<Longrightarrow> buffer t' i = m i"
proof -
  let ?f = "frame_of m"
  have l: "length ?f < 600" "length ?f = 54 + unat (IPv6Packet_payloadLength m)" "?f \<noteq> []"
    using assms(4) by (auto simp: frame_of_def simp flip: length_greater_0_conv)
  have r: "wf_dummy (dev t)" "injectCount (dev t) < 100" "waiting (dev t) = []" using assms(2) by (simp_all add: room_def)
  obtain d where d: "EtherSia_Dummy_injectRecievedPacket now ?f (dev t) = Some d" "wf_dummy d" "waiting d = [?f]"
    "transmitted d = transmitted (dev t)"
    using dummy_queues [OF r(1), of ?f now] l(1) r(2,3) by auto
  then have c: "sentCount d = sentCount (dev t)" "injectCount d = Suc (injectCount (dev t))"
    by (auto simp: EtherSia_Dummy_injectRecievedPacket_def Let_def split: if_splits)
  obtain d' where d': "EtherSia_Dummy_readFrame 600 d = Some (?f, d')" "wf_dummy d'" "waiting d' = []"
    "transmitted d' = transmitted d" "sentCount d' = sentCount d"
    using dummy_reads [OF d(2,3) l(1)] by auto
  have inj: "injectCount d' = injectCount d"
    using d'(1) by (auto simp: EtherSia_Dummy_readFrame_def Let_def split: if_splits option.splits)
  let ?m = "wr_bytes (buffer t) 0 ?f"
  have same: "?m i = m i" if "i < 54 + unat (IPv6Packet_payloadLength m)" for i
    using that l(2) by (simp add: wr_bytes_nth frame_of_def)
  have valid: "IPv6Packet_isValid 600 ?m = Some True"
    by (rule isValid_cong [of m]) (use same assms(3) in auto)
  have hdr: "IPv6Packet_protocol ?m = IPv6Packet_protocol m" "IPv6Packet_etherDestination ?m = IPv6Packet_etherDestination m"
    "IPv6Packet_etherSource ?m = IPv6Packet_etherSource m"
    using rd_bytes_cong [of 0 6 ?m m] rd_bytes_cong [of 6 6 ?m m] same by (simp_all add: field_defs)
  have "EtherSia_checkEthernetAddresses (t\<lparr>dev := d\<rparr>) ?m"
    using hdr(2,3) assms(1,6,7)
    by (simp add: EtherSia_checkEthernetAddresses_def MACAddress_eq_def wf_ether_def wf_mac_def IPv6Packet_etherSource_def)
  then have "EtherSia_receivePacket (dummy_platform now) (t\<lparr>dev := d\<rparr>) = Some (word_of_nat (length ?f),
      t\<lparr>dev := d, buffer := ?m, dev := d', bufferContainsReceived := True\<rparr>)"
    using receive_other [of "dummy_platform now" "t\<lparr>dev := d\<rparr>" ?f d'] d'(1) valid hdr(1) assms(5) l by simp
  then show thesis
    using d d' c inj assms(2) valid same
    by (intro that [of "t\<lparr>dev := d, buffer := ?m, dev := d', bufferContainsReceived := True\<rparr>"])
      (auto simp: arrives_def room_def same_station_def wf_ether_def)
qed

text \<open>
  A packet crosses the wire: \<open>m\<close> has been handed to the driver, which made \<open>s\<close> into \<open>s'\<close>, and received on the other
  interface, which made \<open>t\<close> into \<open>t'\<close>; nothing else was sent.
\<close>

definition crosses ::
    "nat \<Rightarrow> nat \<Rightarrow> mem \<Rightarrow> dummy_dev ether \<Rightarrow> dummy_dev ether \<Rightarrow> dummy_dev ether \<Rightarrow> dummy_dev ether \<Rightarrow> bool" where
  "crosses now n m s t s' t' \<longleftrightarrow>
     buffer s' = m \<and> same_station s s' \<and> room n (dev s') \<and> transmitted (dev s') = transmitted (dev s) @ [frame_of m]
     \<and> arrives now (frame_of m) t t' \<and> same_station t t' \<and> room n (dev t') \<and> transmitted (dev t') = transmitted (dev t)
     \<and> bufferContainsReceived t' \<and> IPv6Packet_isValid 600 (buffer t') = Some True
     \<and> (\<forall>i < 54 + unat (IPv6Packet_payloadLength m). buffer t' i = m i)"

lemma wire:
  assumes "room (Suc n) (dev s)" "room (Suc n) (dev t)" "wf_ether t" "sends (dummy_platform now) s m r"
    "unat (IPv6Packet_payloadLength m) < 546" "IPv6Packet_protocol m \<noteq> IP6_PROTO_ICMP6"
    "IPv6Packet_etherDestination m = localMac t" "IPv6Packet_etherSource m = localMac s" "localMac s \<noteq> localMac t"
  shows "\<exists>s' t'. r = Some s' \<and> crosses now n m s t s' t'"
proof -
  have v: "IPv6Packet_isValid 600 m = Some True" using assms(4) by (simp add: sends_def)
  obtain s' where s': "r = Some s'" "buffer s' = m" "same_station s s'" "room n (dev s')"
    "transmitted (dev s') = transmitted (dev s) @ [frame_of m]"
    by (rule wire_out [OF assms(1,4)])
  have "IPv6Packet_etherSource m \<noteq> localMac t" using assms(8,9) by simp
  then obtain t' where "arrives now (frame_of m) t t'" "bufferContainsReceived t'" "same_station t t'" "room n (dev t')"
    "transmitted (dev t') = transmitted (dev t)" "IPv6Packet_isValid 600 (buffer t') = Some True"
    "\<And>i. i < 54 + unat (IPv6Packet_payloadLength m) \<Longrightarrow> buffer t' i = m i"
    using wire_in [OF assms(3,2) v assms(5-7)] by metis
  with s' show ?thesis unfolding crosses_def by blast
qed

lemma crossesD:
  assumes "crosses now n m s t s' t'"
  shows "same_station s s'" "room n (dev s')" "same_station t t'" "room n (dev t')"
    "bufferContainsReceived t'" "IPv6Packet_isValid 600 (buffer t') = Some True" "buffer s' = m"
    "wf_ether s \<Longrightarrow> wf_ether s'" "wf_ether t \<Longrightarrow> wf_ether t'" "localMac s' = localMac s" "localMac t' = localMac t"
    "linkLocalAddress s' = linkLocalAddress s" "linkLocalAddress t' = linkLocalAddress t"
  using assms by (simp_all add: crosses_def same_station_def)

text \<open>What a received packet has of the one that was sent: the fields up to the flags of a TCP segment, and the data.\<close>

lemma carried_fields:
  assumes "crosses now k m s t s' t'" "14 \<le> unat (IPv6Packet_payloadLength m)"
  defines "m' \<equiv> buffer t'"
  shows "IPv6Packet_protocol m' = IPv6Packet_protocol m" "IPv6Packet_payloadLength m' = IPv6Packet_payloadLength m"
    "IPv6Packet_source m' = IPv6Packet_source m" "IPv6Packet_destination m' = IPv6Packet_destination m"
    "IPv6Packet_etherSource m' = IPv6Packet_etherSource m" "IPv6Packet_etherDestination m' = IPv6Packet_etherDestination m"
    "ld16 m' 54 = ld16 m 54" "ld16 m' 56 = ld16 m 56" "ld32 m' 58 = ld32 m 58" "ld32 m' 62 = ld32 m 62"
    "m' 66 = m 66" "m' 67 = m 67"
    "off + n \<le> 54 + unat (IPv6Packet_payloadLength m) \<Longrightarrow> rd_bytes m' off n = rd_bytes m off n"
proof -
  have e0: "m' i = m i" if "i < 54 + unat (IPv6Packet_payloadLength m)" for i
    using assms(1) that by (simp add: crosses_def m'_def)
  have e: "m' i = m i" if "i < 68" for i using assms(2) that by (intro e0) simp
  show "IPv6Packet_payloadLength m' = IPv6Packet_payloadLength m" by (rule payloadLength_cong) (simp_all add: e)
  show "IPv6Packet_source m' = IPv6Packet_source m" "IPv6Packet_destination m' = IPv6Packet_destination m"
    "IPv6Packet_etherSource m' = IPv6Packet_etherSource m" "IPv6Packet_etherDestination m' = IPv6Packet_etherDestination m"
    unfolding field_defs by (rule rd_bytes_cong, simp add: e)+
  show "off + n \<le> 54 + unat (IPv6Packet_payloadLength m) \<Longrightarrow> rd_bytes m' off n = rd_bytes m off n"
    by (rule rd_bytes_cong) (simp add: e0)
  show "ld16 m' 54 = ld16 m 54" "ld16 m' 56 = ld16 m 56" "ld32 m' 58 = ld32 m 58" "ld32 m' 62 = ld32 m 62"
    using rd_bytes_cong [of 54 2 m' m] rd_bytes_cong [of 56 2 m' m] rd_bytes_cong [of 58 4 m' m] rd_bytes_cong [of 62 4 m' m]
    by (simp_all add: ld16_def ld32_def e)
  show "m' 66 = m 66" "m' 67 = m 67" "IPv6Packet_protocol m' = IPv6Packet_protocol m"
    by (simp_all add: e IPv6Packet_protocol_def)
qed

section \<open>Sample interfaces\<close>

text \<open>An interface on the driver of the tests, with the given frames waiting.\<close>

definition dummy_ether :: "unit ether \<Rightarrow> byte list list \<Rightarrow> dummy_dev ether" where
  "dummy_ether s fs = \<lparr>linkLocalAddress = linkLocalAddress s, globalAddress = globalAddress s,
     dnsServerAddress = dnsServerAddress s, localMac = localMac s, routerMac = routerMac s,
     buffer = (\<lambda>_. 0), bufferContainsReceived = False, autoConfigurationEnabled = True,
     dev = fold (\<lambda>f d. the (EtherSia_Dummy_injectRecievedPacket 0 f d)) fs EtherSia_Dummy_new\<rparr>"

lemma wf_dummy_one: "length f < 65536 \<Longrightarrow>
    wf_dummy (dev (dummy_ether s [f])) \<and> waiting (dev (dummy_ether s [f])) = [f] \<and> sentCount (dev (dummy_ether s [f])) = 0"
  by (auto simp: dummy_ether_def EtherSia_Dummy_injectRecievedPacket_def EtherSia_Dummy_new_def wf_dummy_def waiting_def
      frames_def slot_ok_def take_Suc_conv_app_nth)

lemma room_new: "n \<le> 100 \<Longrightarrow> room n (dev (dummy_ether s []))"
  using wf_dummy_new by (simp add: dummy_ether_def room_def EtherSia_Dummy_new_def waiting_def frames_def)

end
