(* ===== verification/TCP_Session.thy ===== *)
theory TCP_Session
  imports TCP_Client TCP_Server Wire
begin

text \<open>
  The client of \<open>TCPClient.cpp\<close> and the server of \<open>TCPServer.cpp\<close> on two interfaces with a wire between them: the
  opening of a connection, a request with its response, and the end of the connection, segment by segment.
\<close>

section \<open>Two stacks on the test driver\<close>

text \<open>The SYN, with the fixed random number and the standing clock of the tests.\<close>

definition syn_sent :: "tcp_client \<Rightarrow> tcp_client" where
  "syn_sent k = k\<lparr>localSeqNum := 0x55555555, remoteSeqNum := 0, localPort := localPort k + 1, unAckLen := 1, timer := UIP_RTO,
     rto := UIP_RTO, sa := 0, sv := 16, nrtx := 0, tcp_state := TCP_STATE_WAIT_SYN_ACK, inactivity := 0, periodic := 0\<rparr>"

lemma dummy_clock [simp]: "EtherSia_millis (dummy_platform now) s = (0, s)"
  by (simp add: EtherSia_millis_def dummy_platform_def)

lemma dummy_random [simp]: "random_long (dummy_platform now) d = (0x55555555, d)"
  by (simp add: dummy_platform_def)

lemma connect_run:
  "TCPClient_connect (dummy_platform now) k s
     = Socket_send TCPClient_vt (dummy_platform now) 0 False (syn_sent k) (s\<lparr>buffer := st8 (buffer s) 67 2\<rparr>)"
  by (simp add: TCPClient_connect_def syn_sent_def Let_def)

text \<open>Between two calls no time passes: \<open>havePacket\<close> looks at the packet at once.\<close>

lemma havePacket_now:
  assumes "inactivity k = 0" "periodic k = 0" "tcp_state k \<noteq> TCP_STATE_DISCONNECTED" "tcp_state k AND TCP_STATE_TIMEDOUT = 0"
  shows "TCPClient_havePacket (dummy_platform now) k s = TCPClient_incoming (dummy_platform now) (k\<lparr>appliFlags := 0\<rparr>) s"
proof -
  have c: "\<not> (600000 :: u32) \<le>s 0" "\<not> (250 :: u32) \<le>s 0" by code_simp+
  have k: "k\<lparr>inactivity := 0, appliFlags := 0\<rparr> = k\<lparr>appliFlags := 0\<rparr>" using assms(1) by (cases k) simp
  show ?thesis
    using assms c by (simp add: TCPClient_havePacket_def TCPClient_periodic_def Let_def k)
qed

section \<open>The two ends\<close>

text \<open>A client on one interface, a server on the other, and the client's socket set to the server's addresses.\<close>

definition linked :: "tcp_client \<Rightarrow> dummy_dev ether \<Rightarrow> socket \<Rightarrow> dummy_dev ether \<Rightarrow> bool" where
  "linked k s l t \<longleftrightarrow> wf_ether s \<and> wf_ether t \<and> localMac s \<noteq> localMac t \<and> remoteMac k = localMac t
     \<and> remoteAddress k = linkLocalAddress t \<and> IPv6Address_isLinkLocal (linkLocalAddress t) \<and> remotePort k = localPort l"

lemma linked_same:
  "linked k s l t \<Longrightarrow> same_station s s' \<Longrightarrow> same_station t t' \<Longrightarrow> remoteAddress k' = remoteAddress k \<Longrightarrow>
   remoteMac k' = remoteMac k \<Longrightarrow> remotePort k' = remotePort k \<Longrightarrow> linked k' s' l t'"
  by (simp add: linked_def same_station_def)

lemma linked_wf: "linked k s l t \<Longrightarrow> wf_socket k"
  by (auto simp: linked_def wf_socket_def wf_ether_def)

text \<open>What of a segment arrives: the flags, the numbers, the lengths and the data.\<close>

definition same_segment :: "mem \<Rightarrow> mem \<Rightarrow> bool" where
  "same_segment m m' \<longleftrightarrow> m' 66 = m 66 \<and> m' 67 = m 67 \<and> IPv6Packet_payloadLength m' = IPv6Packet_payloadLength m
     \<and> ld32 m' 58 = ld32 m 58 \<and> ld32 m' 62 = ld32 m 62
     \<and> (\<forall>off n. off + n \<le> 54 + unat (IPv6Packet_payloadLength m) \<longrightarrow> rd_bytes m' off n = rd_bytes m off n)"

text \<open>A segment of the client in the server's buffer, and one of the server in the client's.\<close>

definition from_client :: "tcp_client \<Rightarrow> dummy_dev ether \<Rightarrow> socket \<Rightarrow> dummy_dev ether \<Rightarrow> bool" where
  "from_client k s l t \<longleftrightarrow> linked k s l t \<and> IPv6Packet_protocol (buffer t) = IP6_PROTO_TCP
     \<and> IPv6Packet_source (buffer t) = linkLocalAddress s \<and> IPv6Packet_etherSource (buffer t) = localMac s
     \<and> reply_source t = linkLocalAddress t \<and> ntohs (ld16 (buffer t) 54) = localPort k"

definition server_sees :: "tcp_client \<Rightarrow> dummy_dev ether \<Rightarrow> socket \<Rightarrow> dummy_dev ether \<Rightarrow> bool" where
  "server_sees k s l t \<longleftrightarrow> from_client k s l t \<and> for_server l t
     \<and> ntohl (ld32 (buffer t) 58) = localSeqNum k \<and> ntohl (ld32 (buffer t) 62) = remoteSeqNum k"

definition client_sees :: "tcp_client \<Rightarrow> dummy_dev ether \<Rightarrow> socket \<Rightarrow> dummy_dev ether \<Rightarrow> bool" where
  "client_sees k s l t \<longleftrightarrow> linked k s l t \<and> for_client k s \<and> IPv6Packet_source (buffer s) = linkLocalAddress t
     \<and> IPv6Packet_etherSource (buffer s) = localMac t \<and> reply_source s = linkLocalAddress s"

lemma sees_wf: "server_sees k s l t \<Longrightarrow> wf_ether t" "client_sees k s l t \<Longrightarrow> wf_ether s"
  by (simp_all add: server_sees_def from_client_def client_sees_def linked_def)

lemma for_client_flags [simp]: "for_client (k\<lparr>appliFlags := v\<rparr>) s = for_client k s"
  by (simp add: for_client_def)

lemma from_client_flags:
  "from_client k s l t \<Longrightarrow> from_client k s (l\<lparr>writePos := w\<rparr>) (t\<lparr>buffer := st8 (buffer t) 67 v\<rparr>)"
  by (simp add: from_client_def linked_def wf_ether_def reply_source_def hdr_simps split: if_splits)

lemma client_sees_flags [simp]: "client_sees (k\<lparr>appliFlags := v\<rparr>) s l t = client_sees k s l t"
  by (simp add: client_sees_def linked_def for_client_def)

text \<open>A segment of the client on its way to the server.\<close>

definition to_server :: "tcp_client \<Rightarrow> dummy_dev ether \<Rightarrow> dummy_dev ether \<Rightarrow> mem \<Rightarrow> bool" where
  "to_server k s t m \<longleftrightarrow> client_segment k m \<and> IPv6Packet_etherDestination m = localMac t \<and> IPv6Packet_etherSource m = localMac s
     \<and> IPv6Packet_destination m = linkLocalAddress t \<and> IPv6Packet_source m = linkLocalAddress s"

lemma server_receives:
  assumes "linked k s l t" "to_server k s t m" "room (Suc n) (dev s)" "room (Suc n) (dev t)"
    "sends (dummy_platform now) s m r" "unat (IPv6Packet_payloadLength m) < 546" "20 \<le> unat (IPv6Packet_payloadLength m)"
    "m 67 AND TCP_FLAG_RST = 0"
  shows "\<exists>s' t'. r = Some s' \<and> crosses now n m s t s' t' \<and> server_sees k s' l t' \<and> same_segment m (buffer t') \<and> buffer s' = m"
proof -
  have "\<exists>s' t'. r = Some s' \<and> crosses now n m s t s' t'"
    by (rule wire [OF assms(3,4) _ assms(5,6)]) (use assms(1,2) in \<open>auto simp: to_server_def client_segment_def linked_def\<close>)
  then obtain s' t' where w: "r = Some s'" "crosses now n m s t s' t'" by blast
  have "14 \<le> unat (IPv6Packet_payloadLength m)" using assms(7) by simp
  note f = carried_fields [OF w(2) this]
  note c = assms(2) [unfolded to_server_def client_segment_def] and d = crossesD [OF w(2)]
  have "for_server l t'"
    using d(5,6) f c assms(1,8) by (simp add: for_server_def TCPServer_packetDestinationPort_def linked_def)
  moreover have "reply_source t' = linkLocalAddress t"
    using d(13) f(4) c assms(1)
    by (simp add: reply_source_def EtherSia_isOurAddress_def IPv6Address_eq_def linked_def wf_ether_def)
  moreover have "linked k s' l t'" by (rule linked_same [OF assms(1) d(1,3)]) simp_all
  ultimately show ?thesis
    using w d f c by (intro exI [of _ s'] exI [of _ t']) (simp add: server_sees_def from_client_def same_segment_def)
qed

lemma client_receives:
  assumes "from_client k s l t" "server_reply l t m" "room (Suc n) (dev s)" "room (Suc n) (dev t)"
    "sends (dummy_platform now) t m r" "unat (IPv6Packet_payloadLength m) < 546" "20 \<le> unat (IPv6Packet_payloadLength m)"
    "m 67 AND TCP_FLAG_RST = 0"
  shows "\<exists>t' s'. r = Some t' \<and> crosses now n m t s t' s' \<and> client_sees k s' l t' \<and> same_segment m (buffer s')"
proof -
  note v = assms(1) [unfolded from_client_def] and c = assms(2) [unfolded server_reply_def]
  have p: "IPv6Packet_protocol m = IP6_PROTO_TCP" using v c by simp
  have lk: "linked k s l t" using v by simp
  have "\<exists>t' s'. r = Some t' \<and> crosses now n m t s t' s'"
    by (rule wire [OF assms(4,3) _ assms(5,6)]) (use v c p in \<open>auto simp: linked_def\<close>)
  then obtain t' s' where w: "r = Some t'" "crosses now n m t s t' s'" by blast
  have "14 \<le> unat (IPv6Packet_payloadLength m)" using assms(7) by simp
  note f = carried_fields [OF w(2) this] and d = crossesD [OF w(2)]
  have "for_client k s'"
    using d(5,6,13) f v c p assms(8) by (simp add: for_client_def IPv6Address_eq_def linked_def)
  moreover have "reply_source s' = linkLocalAddress s"
    using d(13) f(4) v c by (simp add: reply_source_def EtherSia_isOurAddress_def IPv6Address_eq_def linked_def wf_ether_def)
  moreover have "linked k s' l t'" by (rule linked_same [OF lk d(3,1)]) simp_all
  ultimately show ?thesis
    using w d f v c by (intro exI [of _ t'] exI [of _ s']) (simp add: client_sees_def same_segment_def)
qed

text \<open>The answer of the client to what it sees is a segment to the server.\<close>

lemma answer_to_server:
  assumes "client_sees k s l t" "client_segment k' m" "IPv6Packet_destination m = IPv6Packet_source (buffer s)"
    "IPv6Packet_etherDestination m = IPv6Packet_etherSource (buffer s)" "IPv6Packet_etherSource m = localMac s"
    "IPv6Packet_source m = reply_source s"
  shows "to_server k' s t m"
  using assms by (simp add: client_sees_def to_server_def)

lemma segment_layout:
  "buffer s 66 = 0x60 \<Longrightarrow> unat (IPv6Packet_payloadLength (buffer s)) = 24 + n \<Longrightarrow>
     TCPServer_payload s = 78 \<and> TCPClient_payload s = 78 \<and> unat (TCPServer_payloadLength s) = n \<and> unat (TCPClient_payloadLength s) = n"
  "buffer s 66 = 0x50 \<Longrightarrow> unat (IPv6Packet_payloadLength (buffer s)) = 20 + n \<Longrightarrow> unat (TCPServer_payloadLength s) = n"
  by (simp_all add: TCPServer_payload_def TCPServer_payloadLength_def TCPClient_payload_def TCPClient_payloadLength_def TCP_RECEIVE_HEADER_LEN_def
      unat_sub_if')

section \<open>Opening a connection\<close>

definition established :: "tcp_client \<Rightarrow> dummy_dev ether \<Rightarrow> socket \<Rightarrow> dummy_dev ether \<Rightarrow> bool" where
  "established k s l t \<longleftrightarrow> linked k s l t \<and> tcp_state k = TCP_STATE_CONNECTED \<and> unAckLen k = 0
     \<and> appliFlags k AND UIP_REXMIT = 0 \<and> inactivity k = 0 \<and> periodic k = 0 \<and> buffer s tcp_flags = TCP_FLAG_ACK"

lemma syn_sends:
  assumes "linked k s l t"
  obtains m r where "TCPClient_connect (dummy_platform now) k s = map_option (Pair (syn_sent k)) r"
    "sends (dummy_platform now) s m r" "to_server (syn_sent k) s t m" "m 66 = 0x60" "m 67 = 2"
    "unat (IPv6Packet_payloadLength m) = 24"
proof -
  let ?s = "s\<lparr>buffer := st8 (buffer s) 67 2\<rparr>"
  have w: "wf_ether ?s" "wf_socket (syn_sent k)" "remoteMac (syn_sent k) = localMac t"
    "remoteAddress (syn_sent k) = linkLocalAddress t" "IPv6Address_isLinkLocal (linkLocalAddress t)"
    using assms(1) linked_wf [OF assms(1)] by (simp_all add: linked_def syn_sent_def wf_socket_def)
  have k: "(if appliFlags (syn_sent k) AND UIP_REXMIT = 0
      then (syn_sent k)\<lparr>unAckLen := unAckLen (syn_sent k) + 0, timer := rto (syn_sent k), nrtx := 0\<rparr> else syn_sent k) = syn_sent k"
    by (simp add: syn_sent_def)
  have z: "unat (0 :: u16) \<le> 522" by simp
  obtain m r where "Socket_send TCPClient_vt (dummy_platform now) 0 False (syn_sent k) ?s = map_option (Pair (syn_sent k)) r"
    "sends (dummy_platform now) ?s m r" "client_segment (syn_sent k) m" "m 66 = 0x60" "m 67 = buffer ?s 67"
    "unat (IPv6Packet_payloadLength m) = 24 + unat (0 :: u16)" "IPv6Packet_destination m = remoteAddress (syn_sent k)"
    "IPv6Packet_source m = linkLocalAddress ?s" "IPv6Packet_etherDestination m = remoteMac (syn_sent k)"
    "IPv6Packet_etherSource m = localMac ?s"
    using client_send_sends [OF w(1,2) z, of "dummy_platform now"] w(4,5) unfolding k by auto
  then show thesis
    using w by (intro that [of r m]) (simp_all add: connect_run to_server_def hdr_simps)
qed

text \<open>The three segments of the handshake: the SYN, the server's answer, and the acknowledgement of the client.\<close>

lemma syn_crosses:
  assumes "linked k s l t" "room (Suc n) (dev s)" "room (Suc n) (dev t)"
  shows "\<exists>m s' t'. TCPClient_connect (dummy_platform now) k s = Some (syn_sent k, s') \<and> crosses now n m s t s' t'
     \<and> server_sees (syn_sent k) s' l t' \<and> buffer t' 67 = TCP_FLAG_SYN \<and> TCPServer_payloadLength t' = 0"
proof -
  have lk: "linked (syn_sent k) s l t" using assms(1) by (simp add: linked_def syn_sent_def)
  obtain m r where m: "TCPClient_connect (dummy_platform now) k s = map_option (Pair (syn_sent k)) r"
    "sends (dummy_platform now) s m r" "to_server (syn_sent k) s t m" "m 66 = 0x60" "m 67 = 2"
    "unat (IPv6Packet_payloadLength m) = 24"
    by (rule syn_sends [OF assms(1)])
  then obtain s' t' where "r = Some s'" "crosses now n m s t s' t'" "server_sees (syn_sent k) s' l t'" "same_segment m (buffer t')"
    using server_receives [OF lk m(3) assms(2,3) m(2)] by auto
  then show ?thesis
    using m segment_layout(1) [of t' 0] by (intro exI [of _ m] exI [of _ s'] exI [of _ t']) (simp add: same_segment_def unat_eq_0)
qed

lemma syn_ack_crosses:
  assumes "server_sees k s l t" "buffer t 67 = TCP_FLAG_SYN" "TCPServer_payloadLength t = 0"
    "room (Suc n) (dev s)" "room (Suc n) (dev t)"
  shows "\<exists>m t' s'. TCPServer_havePacket (dummy_platform now) l t = Some (False, l, t') \<and> crosses now n m t s t' s'
     \<and> client_sees k s' l t' \<and> buffer s' 67 = TCP_FLAG_SYN OR TCP_FLAG_ACK \<and> ntohl (ld32 (buffer s') 62) = localSeqNum k + 1"
proof -
  note v = assms(1) [unfolded server_sees_def from_client_def]
  have fs: "for_server l t" using v by simp
  have fl: "buffer t 67 AND TCP_FLAG_FIN = 0" "buffer t 67 AND TCP_FLAG_SYN \<noteq> 0" using assms(2) by simp_all
  obtain m r where m: "TCPServer_havePacket (dummy_platform now) l t = map_option (\<lambda>s'. (False, l, s')) r"
    "sends (dummy_platform now) t m r" "m 67 = 0x12" "ntohl (ld32 m 62) = localSeqNum k + 1"
    "IPv6Packet_payloadLength m = 24" "server_reply l t m"
    using TCPServer_accepts_SYN [OF sees_wf(1) [OF assms(1)] fs fl assms(3) dummy_random, of now] v by auto
  then obtain t' s' where "r = Some t'" "crosses now n m t s t' s'" "client_sees k s' l t'" "same_segment m (buffer s')"
    using client_receives [OF conjunct1 [OF assms(1) [unfolded server_sees_def]] m(6) assms(4,5) m(2)] by auto
  then show ?thesis
    using m by (intro exI [of _ m] exI [of _ t'] exI [of _ s']) (simp add: same_segment_def)
qed

lemma ack_crosses:
  assumes "client_sees (syn_sent k) s l t" "buffer s 67 = TCP_FLAG_SYN OR TCP_FLAG_ACK"
    "ntohl (ld32 (buffer s) 62) = localSeqNum (syn_sent k) + 1" "room (Suc n) (dev s)" "room (Suc n) (dev t)"
  shows "\<exists>m k' s' t'. TCPClient_havePacket (dummy_platform now) (syn_sent k) s = Some (False, k', s') \<and> crosses now n m s t s' t'
     \<and> TCPClient_connected k' \<and> TCPClient_synacked k' \<and> established k' s' l t'
     \<and> TCPServer_havePacket (dummy_platform now) l t' = Some (False, l, t')"
proof -
  let ?k = "(syn_sent k)\<lparr>appliFlags := 0\<rparr>"
  note v = assms(1) [unfolded client_sees_def]
  have run: "TCPClient_havePacket (dummy_platform now) (syn_sent k) s = TCPClient_incoming (dummy_platform now) ?k s"
    by (rule havePacket_now) (simp_all add: syn_sent_def)
  have k: "for_client ?k s" "tcp_state ?k = TCP_STATE_WAIT_SYN_ACK" "0 < unAckLen ?k" "buffer s 67 AND TCP_FLAG_ACK \<noteq> 0"
    "ntohl (ld32 (buffer s) 62) = localSeqNum ?k + ucast (unAckLen ?k)"
    using v assms(2,3) by (simp_all only: for_client_flags) (simp_all add: syn_sent_def)
  obtain m r k' where m: "TCPClient_incoming (dummy_platform now) ?k s = map_option (\<lambda>s'. (False, k', s')) r"
    "sends (dummy_platform now) s m r" "client_segment k' m" "IPv6Packet_destination m = IPv6Packet_source (buffer s)"
    "IPv6Packet_etherDestination m = IPv6Packet_etherSource (buffer s)" "IPv6Packet_etherSource m = localMac s"
    "IPv6Packet_source m = reply_source s" "m 67 = TCP_FLAG_ACK" "IPv6Packet_payloadLength m = 20" "m 66 = 0x50"
    and k': "TCPClient_connected k'" "TCPClient_synacked k'" "unAckLen k' = 0" "tcp_state k' = TCP_STATE_CONNECTED"
    "remoteAddress k' = remoteAddress ?k" "remoteMac k' = remoteMac ?k" "remotePort k' = remotePort ?k"
    "appliFlags k' = UIP_CONNECTED" "inactivity k' = 0" "periodic k' = 0"
    using TCPClient_establishes [OF sees_wf(2) [OF assms(1)] k, of "dummy_platform now"] by (auto simp: syn_sent_def)
  have ts: "to_server k' s t m" by (rule answer_to_server [OF assms(1) m(3-7)])
  have lk: "linked k' s l t" using v by (auto intro: linked_same simp: k'(5-7))
  obtain s' t' where w: "r = Some s'" "crosses now n m s t s' t'" "server_sees k' s' l t'" "same_segment m (buffer t')" "buffer s' = m"
    using server_receives [OF lk ts assms(4,5) m(2)] m(8,9) by auto
  then have "established k' s' l t'" using k' m(8) by (simp add: established_def server_sees_def from_client_def)
  moreover have "TCPServer_payloadLength t' = 0"
    using segment_layout(2) [of t' 0] w(4) m(9,10) by (simp add: same_segment_def unat_eq_0)
  then have "TCPServer_havePacket (dummy_platform now) l t' = Some (False, l, t')"
    using w(3,4) m(8) by (simp add: TCPServer_havePacket_def server_sees_def from_client_def for_server_def same_segment_def)
  ultimately show ?thesis using m(1) w(1,2) k'(1,2) run by auto
qed

text \<open>
  C8. The handshake: when a client connects to a server on another interface, three segments go over the wire. The
  SYN makes the server's \<open>havePacket\<close> answer with SYN and ACK, this makes the client's \<open>havePacket\<close> report the
  connection and acknowledge it, and the acknowledgement is ignored by the server. Neither side hands
  anything to its application, and the client is connected with nothing outstanding.
\<close>

theorem TCP_handshake:
  fixes now :: nat
  assumes "linked k s l t" "room (n + 3) (dev s)" "room (n + 3) (dev t)"
  defines "p \<equiv> dummy_platform now"
  shows "\<exists>syn s1 t1 syn_ack t2 s2 k2 ack s3 t3.
       TCPClient_connect p k s = Some (syn_sent k, s1) \<and> crosses now (n + 2) syn s t s1 t1
     \<and> TCPServer_havePacket p l t1 = Some (False, l, t2) \<and> crosses now (n + 1) syn_ack t1 s1 t2 s2
     \<and> TCPClient_havePacket p (syn_sent k) s2 = Some (False, k2, s3) \<and> crosses now n ack s2 t2 s3 t3
     \<and> TCPServer_havePacket p l t3 = Some (False, l, t3)
     \<and> TCPClient_connected k2 \<and> TCPClient_synacked k2 \<and> established k2 s3 l t3"
proof -
  have rooms: "room (Suc (n + 2)) (dev s)" "room (Suc (n + 2)) (dev t)" using assms(2,3) by (simp_all add: numeral_eq_Suc)
  obtain syn s1 t1 where a: "TCPClient_connect p k s = Some (syn_sent k, s1)" "crosses now (n + 2) syn s t s1 t1"
    "server_sees (syn_sent k) s1 l t1" "buffer t1 67 = TCP_FLAG_SYN" "TCPServer_payloadLength t1 = 0"
    using syn_crosses [OF assms(1) rooms] unfolding p_def by blast
  have rooms: "room (Suc (n + 1)) (dev s1)" "room (Suc (n + 1)) (dev t1)" using crossesD(2,4) [OF a(2)] by simp_all
  obtain syn_ack t2 s2 where b: "TCPServer_havePacket p l t1 = Some (False, l, t2)" "crosses now (n + 1) syn_ack t1 s1 t2 s2"
    "client_sees (syn_sent k) s2 l t2" "buffer s2 67 = TCP_FLAG_SYN OR TCP_FLAG_ACK"
    "ntohl (ld32 (buffer s2) 62) = localSeqNum (syn_sent k) + 1"
    using syn_ack_crosses [OF a(3-5) rooms] unfolding p_def by blast
  have rooms: "room (Suc n) (dev s2)" "room (Suc n) (dev t2)" using crossesD(2,4) [OF b(2)] by simp_all
  show ?thesis
    using ack_crosses [OF b(3-5) rooms, of now] a(1,2) b(1,2) unfolding p_def by blast
qed

section \<open>A request, its response, and the end\<close>

text \<open>What the client makes of a segment that acknowledges everything it has sent.\<close>

lemma ackingTest_all:
  assumes "m 67 AND TCP_FLAG_ACK \<noteq> 0" "0 < unAckLen k" "ntohl (ld32 m 62) = localSeqNum k + ucast (unAckLen k)"
  shows "unAckLen (TCPClient_ackingTest m k) = 0" "appliFlags (TCPClient_ackingTest m k) = UIP_ACKDATA"
    "localSeqNum (TCPClient_ackingTest m k) = localSeqNum k + ucast (unAckLen k)"
    "tcp_state (TCPClient_ackingTest m k) = tcp_state k" "remoteSeqNum (TCPClient_ackingTest m k) = remoteSeqNum k"
    "remoteAddress (TCPClient_ackingTest m k) = remoteAddress k" "remoteMac (TCPClient_ackingTest m k) = remoteMac k"
    "remotePort (TCPClient_ackingTest m k) = remotePort k" "localPort (TCPClient_ackingTest m k) = localPort k"
    "inactivity (TCPClient_ackingTest m k) = inactivity k" "periodic (TCPClient_ackingTest m k) = periodic k"
  using assms by (simp_all add: TCPClient_ackingTest_def TCPClient_updateRTT_def Let_def)

text \<open>The last segment of the server: data with a FIN, in answer to all the client has sent.\<close>

lemma client_last_segment:
  assumes "wf_ether s" "for_client k s" "tcp_state k = TCP_STATE_CONNECTED" "0 < unAckLen k" "buffer s 67 = 0x19"
    "ntohl (ld32 (buffer s) 62) = localSeqNum k + ucast (unAckLen k)" "ntohl (ld32 (buffer s) 58) = remoteSeqNum k"
    "0 < TCPClient_payloadLength s"
  shows "\<exists>m r k'. TCPClient_incoming p k s = map_option (\<lambda>s'. (True, k', s')) r \<and> sends p s m r
     \<and> tcp_state k' = TCP_STATE_LAST_ACK \<and> unAckLen k' = 1 \<and> localSeqNum k' = localSeqNum k + ucast (unAckLen k)
     \<and> remoteSeqNum k' = remoteSeqNum k + ucast (TCPClient_payloadLength s + 1)
     \<and> remoteAddress k' = remoteAddress k \<and> remoteMac k' = remoteMac k \<and> remotePort k' = remotePort k \<and> localPort k' = localPort k
     \<and> inactivity k' = inactivity k \<and> periodic k' = periodic k
     \<and> client_segment k' m \<and> m 67 = TCP_FLAG_FIN OR TCP_FLAG_ACK \<and> IPv6Packet_payloadLength m = 20 \<and> m 66 = 0x50
     \<and> IPv6Packet_destination m = IPv6Packet_source (buffer s)
     \<and> IPv6Packet_etherDestination m = IPv6Packet_etherSource (buffer s) \<and> IPv6Packet_etherSource m = localMac s
     \<and> IPv6Packet_source m = reply_source s
     \<and> (\<forall>n. rd_bytes m 78 n = rd_bytes (buffer s) 78 n)"
proof -
  define k1 where "k1 = k\<lparr>nrcvd := nrcvd k + 1\<rparr>"
  define k2 where "k2 = TCPClient_ackingTest (buffer s) k1"
  define k3 where "k3 = k2\<lparr>remoteSeqNum := remoteSeqNum k2 + ucast (TCPClient_payloadLength s + 1), appliFlags := UIP_ACKDATA OR UIP_CLOSE OR UIP_NEWDATA,
     unAckLen := 1, tcp_state := TCP_STATE_LAST_ACK, nrtx := 0\<rparr>"
  have v: "IPv6Packet_isValid 600 (buffer s) = Some True" using assms(2) by (simp add: for_client_def)
  have a: "buffer s 67 AND TCP_FLAG_ACK \<noteq> 0" "0 < unAckLen k1" "ntohl (ld32 (buffer s) 62) = localSeqNum k1 + ucast (unAckLen k1)"
    using assms(4-6) by (simp_all add: k1_def)
  note k2 = ackingTest_all [OF a, folded k2_def]
  have run: "TCPClient_incoming p k s
      = TCPClient_tcp_send_nodata_reply p k3 (s\<lparr>buffer := st8 (buffer s) 67 (TCP_FLAG_FIN OR TCP_FLAG_ACK)\<rparr>)"
    unfolding incoming_found [OF assms(2)] k1_def [symmetric] TCPClient_found_def Let_def k2_def [symmetric]
      TCPClient_tcp_send_finack_def
    using assms(3,5,7,8) k2(1,2,4,5) by (simp add: k3_def k1_def)
  have nd: "(appliFlags k3 AND UIP_NEWDATA \<noteq> 0) = True" by (simp add: k3_def)
  have k3: "tcp_state k3 = TCP_STATE_LAST_ACK" "unAckLen k3 = 1" "localSeqNum k3 = localSeqNum k + ucast (unAckLen k)"
    "remoteSeqNum k3 = remoteSeqNum k + ucast (TCPClient_payloadLength s + 1)" "remoteAddress k3 = remoteAddress k"
    "remoteMac k3 = remoteMac k" "remotePort k3 = remotePort k" "localPort k3 = localPort k" "inactivity k3 = inactivity k"
    "periodic k3 = periodic k"
    using k2 by (simp_all add: k3_def k1_def)
  show ?thesis
    using send_flags_sends [OF assms(1) v, of p k3 "TCP_FLAG_FIN OR TCP_FLAG_ACK"] k3 unfolding run nd by blast
qed

text \<open>The acknowledgement of the client's FIN ends the connection.\<close>

lemma client_closed:
  assumes "for_client k s" "tcp_state k = TCP_STATE_LAST_ACK" "0 < unAckLen k" "buffer s 67 = 0x11"
    "ntohl (ld32 (buffer s) 62) = localSeqNum k + ucast (unAckLen k)" "ntohl (ld32 (buffer s) 58) = remoteSeqNum k"
  shows "\<exists>k'. TCPClient_incoming p k s = Some (False, k', s) \<and> tcp_state k' = TCP_STATE_DISCONNECTED \<and> TCPClient_closing k'"
proof -
  define k1 where "k1 = k\<lparr>nrcvd := nrcvd k + 1\<rparr>"
  define k2 where "k2 = TCPClient_ackingTest (buffer s) k1"
  have a: "buffer s 67 AND TCP_FLAG_ACK \<noteq> 0" "0 < unAckLen k1" "ntohl (ld32 (buffer s) 62) = localSeqNum k1 + ucast (unAckLen k1)"
    using assms(3-5) by (simp_all add: k1_def)
  note k2 = ackingTest_all [OF a, folded k2_def]
  have "TCPClient_incoming p k s = Some (False, k2\<lparr>tcp_state := TCP_STATE_DISCONNECTED, appliFlags := UIP_CLOSE\<rparr>, s)"
    unfolding incoming_found [OF assms(1)] k1_def [symmetric] TCPClient_found_def Let_def k2_def [symmetric]
    using assms(2,4,6) k2(2,4) by (simp add: k1_def TCPClient_drop_def)
  then show ?thesis by (simp add: TCPClient_closing_def)
qed

text \<open>A request of the client, as one segment.\<close>

lemma request_sends:
  assumes "established k s l t" "0 < length request" "length request \<le> 521"
  defines "k' \<equiv> k\<lparr>unAckLen := word_of_nat (length request), timer := rto k, nrtx := 0\<rparr>"
  obtains m r where "Socket_send_data TCPClient_vt p request False k s = map_option (Pair k') r" "sends p s m r"
    "to_server k s t m" "m 66 = 0x60" "m 67 = TCP_FLAG_ACK" "unat (IPv6Packet_payloadLength m) = 24 + length request"
    "rd_bytes m 78 (length request) = request"
proof -
  note e = assms(1) [unfolded established_def linked_def]
  let ?s = "s\<lparr>buffer := wr_bytes (buffer s) 78 request\<rparr>" and ?len = "word_of_nat (length request) :: u16"
  have len: "unat ?len = length request" using assms(3) by (simp add: unsigned_of_nat take_bit_eq_mod)
  have w: "wf_ether ?s" "wf_socket k" using e linked_wf [of k s l t] assms(1) by (simp_all add: established_def)
  have k: "(if appliFlags k AND UIP_REXMIT = 0 then k\<lparr>unAckLen := unAckLen k + ?len, timer := rto k, nrtx := 0\<rparr> else k) = k'"
    using e by (simp add: k'_def)
  have run: "Socket_send_data TCPClient_vt p request False k s = Socket_send TCPClient_vt p ?len False k ?s"
    using assms(3) by (simp add: Socket_send_data_def buf_wr_def TCPClient_vt_def TCPClient_transmitPayload_def)
  have fl: "buffer ?s 67 = TCP_FLAG_ACK" "rd_bytes (buffer ?s) 78 (length request) = request"
    using e by (simp_all add: wr_bytes_nth rd_wr_same)
  have l: "unat ?len \<le> 522" using len assms(3) by simp
  obtain m r where "Socket_send TCPClient_vt p ?len False k ?s = map_option (Pair k') r"
    "sends p ?s m r" "client_segment k m" "m 66 = 0x60" "m 67 = TCP_FLAG_ACK"
    "unat (IPv6Packet_payloadLength m) = 24 + length request" "IPv6Packet_destination m = remoteAddress k"
    "IPv6Packet_source m = linkLocalAddress s" "IPv6Packet_etherDestination m = remoteMac k"
    "IPv6Packet_etherSource m = localMac s" "rd_bytes m 78 (length request) = request"
    using client_send_sends [OF w l, of p] e fl unfolding k len by auto
  then show thesis
    using e by (intro that [of r m]) (simp_all add: run to_server_def)
qed

text \<open>The segments of an exchange: the request, the response, the client's last segment, and the server's.\<close>

lemma request_crosses:
  assumes "established k s l t" "0 < length request" "length request \<le> 521" "room (Suc n) (dev s)" "room (Suc n) (dev t)"
  defines "k' \<equiv> k\<lparr>unAckLen := word_of_nat (length request), timer := rto k, nrtx := 0\<rparr>"
  shows "\<exists>m s' t'. Socket_send_data TCPClient_vt (dummy_platform now) request False k s = Some (k', s') \<and> crosses now n m s t s' t'
     \<and> server_sees k' s' l t' \<and> buffer t' 67 = TCP_FLAG_ACK \<and> TCPServer_payload t' = 78
     \<and> TCPServer_payloadLength t' = word_of_nat (length request) \<and> rd_bytes (buffer t') 78 (length request) = request"
proof -
  have lk: "linked k s l t" using assms(1) by (simp add: established_def)
  obtain m r where m: "Socket_send_data TCPClient_vt (dummy_platform now) request False k s = map_option (Pair k') r"
    "sends (dummy_platform now) s m r" "to_server k s t m" "m 66 = 0x60" "m 67 = TCP_FLAG_ACK"
    "unat (IPv6Packet_payloadLength m) = 24 + length request" "rd_bytes m 78 (length request) = request"
    unfolding k'_def by (rule request_sends [OF assms(1-3), where p = "dummy_platform now"])
  then obtain s' t' where w: "r = Some s'" "crosses now n m s t s' t'" "server_sees k s' l t'" "same_segment m (buffer t')"
    using server_receives [OF lk m(3) assms(4,5) m(2)] assms(3) by auto
  then have "TCPServer_payload t' = 78" "unat (TCPServer_payloadLength t') = length request"
    using segment_layout(1) [of t' "length request"] m(4,6) by (simp_all add: same_segment_def)
  moreover from this(2) have "TCPServer_payloadLength t' = word_of_nat (length request)"
    using assms(3) by (simp add: word_unat_eq_iff unsigned_of_nat take_bit_eq_mod)
  moreover have "server_sees k' s' l t'" using w(3) by (simp add: server_sees_def from_client_def linked_def k'_def)
  ultimately show ?thesis
    using m w by (intro exI [of _ m] exI [of _ s'] exI [of _ t']) (simp add: same_segment_def)
qed

lemma response_crosses:
  assumes "server_sees k s l t" "buffer t 67 = TCP_FLAG_ACK" "0 < TCPServer_payloadLength t"
    "length response \<le> 521" "room (Suc n) (dev s)" "room (Suc n) (dev t)"
  defines "l' \<equiv> l\<lparr>writePos := -1\<rparr>" and "t1 \<equiv> t\<lparr>buffer := st8 (buffer t) tcp_flags 0\<rparr>"
  shows "\<exists>m t' s'. TCPServer_havePacket (dummy_platform now) l t = Some (True, l', t1)
     \<and> Socket_sendReply_data TCPServer_vt (dummy_platform now) response l' t1 = Some (l', t') \<and> crosses now n m t1 s t' s'
     \<and> client_sees k s' l' t' \<and> buffer s' 67 = 0x19 \<and> ntohl (ld32 (buffer s') 58) = remoteSeqNum k
     \<and> ntohl (ld32 (buffer s') 62) = localSeqNum k + ucast (TCPServer_payloadLength t)
     \<and> TCPClient_payload s' = 78 \<and> unat (TCPClient_payloadLength s') = length response
     \<and> rd_bytes (buffer s') 78 (length response) = response"
proof -
  note v = assms(1) [unfolded server_sees_def from_client_def]
  have fs: "for_server l t" using v by simp
  have fl: "buffer t 67 AND TCP_FLAG_FIN = 0" "buffer t 67 AND TCP_FLAG_SYN = 0" using assms(2) by simp_all
  have resp: "length response \<le> 522" using assms(4) by simp
  obtain m r where m: "TCPServer_havePacket (dummy_platform now) l t = Some (True, l', t1)"
    "Socket_sendReply_data TCPServer_vt (dummy_platform now) response l' t1 = map_option (Pair l') r"
    "sends (dummy_platform now) t m r" "m 67 = 0x19" "ntohl (ld32 m 58) = remoteSeqNum k"
    "ntohl (ld32 m 62) = localSeqNum k + ucast (TCPServer_payloadLength t)"
    "unat (IPv6Packet_payloadLength m) = 24 + length response" "rd_bytes m 78 (length response) = response" "server_reply l t m"
    using TCPServer_request_response [OF sees_wf(1) [OF assms(1)] fs fl assms(3) resp, of "dummy_platform now"] v
    unfolding l'_def t1_def by auto
  have sv: "from_client k s l' t1"
    using from_client_flags assms(1) unfolding server_sees_def l'_def t1_def by blast
  have sr: "server_reply l' t1 m" and sn: "sends (dummy_platform now) t1 m r"
    using m(9,3) by (simp_all add: server_reply_def reply_source_def sends_def l'_def t1_def hdr_simps)
  have rooms: "room (Suc n) (dev s)" "room (Suc n) (dev t1)" using assms(5,6) by (simp_all add: t1_def)
  obtain t' s' where w: "r = Some t'" "crosses now n m t1 s t' s'" "client_sees k s' l' t'" "same_segment m (buffer s')"
    using client_receives [OF sv sr rooms sn] m(4,7) assms(4) by auto
  then have "unat (TCPClient_payloadLength s') = length response" "TCPClient_payload s' = 78"
    using segment_layout(1) [of s' "length response"] m(7) sr by (simp_all add: same_segment_def server_reply_def)
  then show ?thesis
    using m w by (intro exI [of _ m] exI [of _ t'] exI [of _ s']) (simp add: same_segment_def)
qed

lemma close_crosses:
  assumes "client_sees k s l t" "tcp_state k = TCP_STATE_CONNECTED" "0 < unAckLen k" "inactivity k = 0" "periodic k = 0"
    "buffer s 67 = 0x19" "ntohl (ld32 (buffer s) 58) = remoteSeqNum k"
    "ntohl (ld32 (buffer s) 62) = localSeqNum k + ucast (unAckLen k)" "0 < TCPClient_payloadLength s"
    "room (Suc n) (dev s)" "room (Suc n) (dev t)"
  shows "\<exists>m k' s' t'. TCPClient_havePacket (dummy_platform now) k s = Some (True, k', s') \<and> crosses now n m s t s' t'
     \<and> server_sees k' s' l t' \<and> tcp_state k' = TCP_STATE_LAST_ACK \<and> unAckLen k' = 1 \<and> inactivity k' = 0 \<and> periodic k' = 0
     \<and> (\<forall>n. rd_bytes (buffer s') 78 n = rd_bytes (buffer s) 78 n) \<and> TCPClient_payloadLength s' = 0 \<and> TCPClient_payload s' = 74
     \<and> buffer t' 67 = 0x11 \<and> TCPServer_payloadLength t' = 0"
proof -
  let ?k = "k\<lparr>appliFlags := 0\<rparr>"
  note v = assms(1) [unfolded client_sees_def]
  have run: "TCPClient_havePacket (dummy_platform now) k s = TCPClient_incoming (dummy_platform now) ?k s"
    by (rule havePacket_now) (use assms(2,4,5) in simp_all)
  have k: "for_client ?k s" "tcp_state ?k = TCP_STATE_CONNECTED" "0 < unAckLen ?k"
    "ntohl (ld32 (buffer s) 62) = localSeqNum ?k + ucast (unAckLen ?k)" "ntohl (ld32 (buffer s) 58) = remoteSeqNum ?k"
    using v assms(2,3,7,8) by simp_all
  obtain m r k' where m: "TCPClient_incoming (dummy_platform now) ?k s = map_option (\<lambda>s'. (True, k', s')) r"
    "sends (dummy_platform now) s m r" "client_segment k' m" "IPv6Packet_destination m = IPv6Packet_source (buffer s)"
    "IPv6Packet_etherDestination m = IPv6Packet_etherSource (buffer s)" "IPv6Packet_etherSource m = localMac s"
    "IPv6Packet_source m = reply_source s" "m 67 = 0x11" "IPv6Packet_payloadLength m = 20" "m 66 = 0x50"
    "\<forall>n. rd_bytes m 78 n = rd_bytes (buffer s) 78 n"
    and k': "tcp_state k' = TCP_STATE_LAST_ACK" "unAckLen k' = 1" "remoteAddress k' = remoteAddress ?k"
    "remoteMac k' = remoteMac ?k" "remotePort k' = remotePort ?k" "inactivity k' = 0" "periodic k' = 0"
    using client_last_segment [OF sees_wf(2) [OF assms(1)] k(1-3) assms(6) k(4,5) assms(9), of "dummy_platform now"] assms(4,5)
    by auto
  have ts: "to_server k' s t m" by (rule answer_to_server [OF assms(1) m(3-7)])
  have lk: "linked k' s l t" using v by (auto intro: linked_same simp: k'(3-5))
  obtain s' t' where w: "r = Some s'" "crosses now n m s t s' t'" "server_sees k' s' l t'" "same_segment m (buffer t')" "buffer s' = m"
    using server_receives [OF lk ts assms(10,11) m(2)] m(8,9) by auto
  moreover have "TCPServer_payloadLength t' = 0"
    using segment_layout(2) [of t' 0] w(4) m(9,10) by (simp add: same_segment_def unat_eq_0)
  moreover have "TCPClient_payloadLength s' = 0" "TCPClient_payload s' = 74"
    using w(5) m(9,10) by (simp_all add: TCPClient_payloadLength_def TCPClient_payload_def TCP_RECEIVE_HEADER_LEN_def)
  ultimately show ?thesis
    using m(1,8,11) k' run by (intro exI [of _ m] exI [of _ k'] exI [of _ s'] exI [of _ t']) (simp add: same_segment_def)
qed

lemma last_crosses:
  assumes "server_sees k s l t" "buffer t 67 = 0x11" "TCPServer_payloadLength t = 0"
    "tcp_state k = TCP_STATE_LAST_ACK" "unAckLen k = 1" "inactivity k = 0" "periodic k = 0"
    "room (Suc n) (dev s)" "room (Suc n) (dev t)"
  shows "\<exists>m t' s' k'. TCPServer_havePacket (dummy_platform now) l t = Some (False, l, t') \<and> crosses now n m t s t' s'
     \<and> TCPClient_havePacket (dummy_platform now) k s' = Some (False, k', s')
     \<and> tcp_state k' = TCP_STATE_DISCONNECTED \<and> TCPClient_closing k'"
proof -
  note v = assms(1) [unfolded server_sees_def from_client_def]
  have fs: "for_server l t" using v by simp
  have fl: "buffer t 67 AND TCP_FLAG_FIN \<noteq> 0" using assms(2) by simp
  obtain m r where m: "TCPServer_havePacket (dummy_platform now) l t = map_option (\<lambda>s'. (False, l, s')) r"
    "sends (dummy_platform now) t m r" "m 67 = 0x11" "ntohl (ld32 m 58) = remoteSeqNum k"
    "ntohl (ld32 m 62) = localSeqNum k + 1" "IPv6Packet_payloadLength m = 24" "server_reply l t m"
    using TCPServer_answers_FIN [OF sees_wf(1) [OF assms(1)] fs fl, of "dummy_platform now"] v assms(3) by auto
  obtain t' s' where w: "r = Some t'" "crosses now n m t s t' s'" "client_sees k s' l t'" "same_segment m (buffer s')"
    using client_receives [OF conjunct1 [OF assms(1) [unfolded server_sees_def]] m(7) assms(8,9) m(2)] m(3,6) by auto
  let ?k = "k\<lparr>appliFlags := 0\<rparr>"
  have run: "TCPClient_havePacket (dummy_platform now) k s' = TCPClient_incoming (dummy_platform now) ?k s'"
    by (rule havePacket_now) (use assms(4,6,7) in simp_all)
  have "for_client ?k s'" "tcp_state ?k = TCP_STATE_LAST_ACK" "0 < unAckLen ?k" "buffer s' 67 = 0x11"
    "ntohl (ld32 (buffer s') 62) = localSeqNum ?k + ucast (unAckLen ?k)" "ntohl (ld32 (buffer s') 58) = remoteSeqNum ?k"
    using w(3,4) m(3-5) assms(4,5) by (simp_all add: client_sees_def same_segment_def)
  note c = client_closed [OF this, of "dummy_platform now"]
  show ?thesis
    unfolding run [symmetric] using m(1) w(1,2) c run by (intro exI [of _ m] exI [of _ t'] exI [of _ s']) simp
qed


section \<open>Two stations\<close>

text \<open>A server for port 80 at \<open>fe80::1\<close> and a client at \<open>fe80::2\<close>, the client as after the handshake.\<close>

definition sample_station :: "dummy_dev ether" where
  "sample_station = dummy_ether sample_ether []"

definition remote_station :: "dummy_dev ether" where
  "remote_station = sample_station\<lparr>linkLocalAddress := remoteAddress sample_client, localMac := remoteMac sample_client\<rparr>"

lemma sample_rooms: "n \<le> 100 \<Longrightarrow> room n (dev sample_station)" "n \<le> 100 \<Longrightarrow> room n (dev remote_station)"
  using room_new by (simp_all add: remote_station_def sample_station_def)

lemma TCP_handshake_witness:
  "\<exists>s1 t1 t2 s2 k2 s3. TCPClient_connect (dummy_platform 0) sample_client sample_station = Some (syn_sent sample_client, s1)
     \<and> TCPServer_havePacket (dummy_platform 0) sample_server t1 = Some (False, sample_server, t2)
     \<and> TCPClient_havePacket (dummy_platform 0) (syn_sent sample_client) s2 = Some (False, k2, s3) \<and> TCPClient_connected k2"
proof -
  have "linked sample_client sample_station sample_server remote_station" by code_simp
  moreover have "room (0 + 3) (dev sample_station)" "room (0 + 3) (dev remote_station)" by (simp_all add: sample_rooms)
  ultimately show ?thesis using TCP_handshake [of sample_client sample_station sample_server remote_station 0 0] by blast
qed


end
