(* ===== verification/W5100.thy ===== *)
theory W5100
  imports Driver
begin

text \<open>
  \<open>src/src/w5100.cpp\<close> and \<open>w5100.h\<close>: the driver of the W5100 chip, which keeps the received and the
  sent frames in two rings of 8 KiB of its memory. Every access is a transaction on the SPI bus \<open>b\<close>
  with the chip select pin \<open>cs\<close>; the state \<open>h\<close> is the hardware's. Arithmetic is on 16 bits, the width of
  \<open>int\<close> on the AVR. The loops that wait for the chip need not end.
\<close>

abbreviation (input) W5100_MR :: u16 where "W5100_MR \<equiv> 0x0000"
abbreviation (input) W5100_GAR :: u16 where "W5100_GAR \<equiv> 0x0001"
abbreviation (input) W5100_SUBR :: u16 where "W5100_SUBR \<equiv> 0x0005"
abbreviation (input) W5100_SHAR :: u16 where "W5100_SHAR \<equiv> 0x0009"
abbreviation (input) W5100_SIPR :: u16 where "W5100_SIPR \<equiv> 0x000F"
abbreviation (input) W5100_IR :: u16 where "W5100_IR \<equiv> 0x0015"
abbreviation (input) W5100_IMR :: u16 where "W5100_IMR \<equiv> 0x0016"
abbreviation (input) W5100_RTR :: u16 where "W5100_RTR \<equiv> 0x0017"
abbreviation (input) W5100_RCR :: u16 where "W5100_RCR \<equiv> 0x0019"
abbreviation (input) W5100_RMSR :: u16 where "W5100_RMSR \<equiv> 0x001A"
abbreviation (input) W5100_TMSR :: u16 where "W5100_TMSR \<equiv> 0x001B"
abbreviation (input) W5100_Sn_MR :: u16 where "W5100_Sn_MR \<equiv> 0x0400"
abbreviation (input) W5100_Sn_CR :: u16 where "W5100_Sn_CR \<equiv> 0x0401"
abbreviation (input) W5100_Sn_IR :: u16 where "W5100_Sn_IR \<equiv> 0x0402"
abbreviation (input) W5100_Sn_SR :: u16 where "W5100_Sn_SR \<equiv> 0x0403"
abbreviation (input) W5100_Sn_PORT :: u16 where "W5100_Sn_PORT \<equiv> 0x0404"
abbreviation (input) W5100_Sn_DHAR :: u16 where "W5100_Sn_DHAR \<equiv> 0x0406"
abbreviation (input) W5100_Sn_DIPR :: u16 where "W5100_Sn_DIPR \<equiv> 0x040C"
abbreviation (input) W5100_Sn_DPORT :: u16 where "W5100_Sn_DPORT \<equiv> 0x0410"
abbreviation (input) W5100_Sn_MSSR :: u16 where "W5100_Sn_MSSR \<equiv> 0x0412"
abbreviation (input) W5100_Sn_PROTO :: u16 where "W5100_Sn_PROTO \<equiv> 0x0414"
abbreviation (input) W5100_Sn_TOS :: u16 where "W5100_Sn_TOS \<equiv> 0x0415"
abbreviation (input) W5100_Sn_TTL :: u16 where "W5100_Sn_TTL \<equiv> 0x0416"
abbreviation (input) W5100_Sn_TX_FSR :: u16 where "W5100_Sn_TX_FSR \<equiv> 0x0420"
abbreviation (input) W5100_Sn_TX_RD :: u16 where "W5100_Sn_TX_RD \<equiv> 0x0422"
abbreviation (input) W5100_Sn_TX_WR :: u16 where "W5100_Sn_TX_WR \<equiv> 0x0424"
abbreviation (input) W5100_Sn_RX_RSR :: u16 where "W5100_Sn_RX_RSR \<equiv> 0x0426"
abbreviation (input) W5100_Sn_RX_RD :: u16 where "W5100_Sn_RX_RD \<equiv> 0x0428"
abbreviation (input) W5100_Sn_RX_WR :: u16 where "W5100_Sn_RX_WR \<equiv> 0x042A"
abbreviation (input) W5100_MR_RST :: byte where "W5100_MR_RST \<equiv> 0x80"
abbreviation (input) W5100_MR_PB :: byte where "W5100_MR_PB \<equiv> 0x10"
abbreviation (input) W5100_MR_AI :: byte where "W5100_MR_AI \<equiv> 0x02"
abbreviation (input) W5100_MR_IND :: byte where "W5100_MR_IND \<equiv> 0x01"
abbreviation (input) W5100_Sn_MR_CLOSE :: byte where "W5100_Sn_MR_CLOSE \<equiv> 0x00"
abbreviation (input) W5100_Sn_MR_TCP :: byte where "W5100_Sn_MR_TCP \<equiv> 0x01"
abbreviation (input) W5100_Sn_MR_UDP :: byte where "W5100_Sn_MR_UDP \<equiv> 0x02"
abbreviation (input) W5100_Sn_MR_IPRAW :: byte where "W5100_Sn_MR_IPRAW \<equiv> 0x03"
abbreviation (input) W5100_Sn_MR_MACRAW :: byte where "W5100_Sn_MR_MACRAW \<equiv> 0x04"
abbreviation (input) W5100_Sn_MR_ND :: byte where "W5100_Sn_MR_ND \<equiv> 0x20"
abbreviation (input) W5100_Sn_MR_MF :: byte where "W5100_Sn_MR_MF \<equiv> 0x40"
abbreviation (input) W5100_Sn_MR_MULTI :: byte where "W5100_Sn_MR_MULTI \<equiv> 0x80"
abbreviation (input) W5100_Sn_CR_OPEN :: byte where "W5100_Sn_CR_OPEN \<equiv> 0x01"
abbreviation (input) W5100_Sn_CR_CLOSE :: byte where "W5100_Sn_CR_CLOSE \<equiv> 0x10"
abbreviation (input) W5100_Sn_CR_SEND :: byte where "W5100_Sn_CR_SEND \<equiv> 0x20"
abbreviation (input) W5100_Sn_CR_SEND_MAC :: byte where "W5100_Sn_CR_SEND_MAC \<equiv> 0x21"
abbreviation (input) W5100_Sn_CR_SEND_KEEP :: byte where "W5100_Sn_CR_SEND_KEEP \<equiv> 0x22"
abbreviation (input) W5100_Sn_CR_RECV :: byte where "W5100_Sn_CR_RECV \<equiv> 0x40"
abbreviation (input) W5100_Sn_IR_CON :: byte where "W5100_Sn_IR_CON \<equiv> 0x01"
abbreviation (input) W5100_Sn_IR_DISCON :: byte where "W5100_Sn_IR_DISCON \<equiv> 0x02"
abbreviation (input) W5100_Sn_IR_RECV :: byte where "W5100_Sn_IR_RECV \<equiv> 0x04"
abbreviation (input) W5100_Sn_IR_TIMEOUT :: byte where "W5100_Sn_IR_TIMEOUT \<equiv> 0x08"
abbreviation (input) W5100_Sn_IR_SENDOK :: byte where "W5100_Sn_IR_SENDOK \<equiv> 0x10"
abbreviation (input) W5100_SOCK_CLOSED :: byte where "W5100_SOCK_CLOSED \<equiv> 0x00"
abbreviation (input) W5100_SOCK_INIT :: byte where "W5100_SOCK_INIT \<equiv> 0x13"
abbreviation (input) W5100_SOCK_LISTEN :: byte where "W5100_SOCK_LISTEN \<equiv> 0x14"
abbreviation (input) W5100_SOCK_SYNSENT :: byte where "W5100_SOCK_SYNSENT \<equiv> 0x15"
abbreviation (input) W5100_SOCK_SYNRECV :: byte where "W5100_SOCK_SYNRECV \<equiv> 0x16"
abbreviation (input) W5100_SOCK_ESTABLISHED :: byte where "W5100_SOCK_ESTABLISHED \<equiv> 0x17"
abbreviation (input) W5100_SOCK_FIN_WAIT :: byte where "W5100_SOCK_FIN_WAIT \<equiv> 0x18"
abbreviation (input) W5100_SOCK_CLOSING :: byte where "W5100_SOCK_CLOSING \<equiv> 0x1A"
abbreviation (input) W5100_SOCK_TIME_WAIT :: byte where "W5100_SOCK_TIME_WAIT \<equiv> 0x1B"
abbreviation (input) W5100_SOCK_CLOSE_WAIT :: byte where "W5100_SOCK_CLOSE_WAIT \<equiv> 0x1C"
abbreviation (input) W5100_SOCK_LAST_ACK :: byte where "W5100_SOCK_LAST_ACK \<equiv> 0x1D"
abbreviation (input) W5100_SOCK_UDP :: byte where "W5100_SOCK_UDP \<equiv> 0x22"
abbreviation (input) W5100_SOCK_IPRAW :: byte where "W5100_SOCK_IPRAW \<equiv> 0x32"
abbreviation (input) W5100_SOCK_MACRAW :: byte where "W5100_SOCK_MACRAW \<equiv> 0x42"

abbreviation (input) W5100_TxBufferAddress :: u16 where "W5100_TxBufferAddress \<equiv> 0x4000"
abbreviation (input) W5100_RxBufferAddress :: u16 where "W5100_RxBufferAddress \<equiv> 0x6000"
abbreviation (input) W5100_TxBufferSize :: byte where "W5100_TxBufferSize \<equiv> 3"
abbreviation (input) W5100_RxBufferSize :: byte where "W5100_RxBufferSize \<equiv> 3"
abbreviation (input) W5100_TxBufferLength :: u16 where "W5100_TxBufferLength \<equiv> 0x2000"
abbreviation (input) W5100_RxBufferLength :: u16 where "W5100_RxBufferLength \<equiv> 0x2000"
abbreviation (input) W5100_TxBufferMask :: u16 where "W5100_TxBufferMask \<equiv> 0x1FFF"
abbreviation (input) W5100_RxBufferMask :: u16 where "W5100_RxBufferMask \<equiv> 0x1FFF"

section \<open>Registers\<close>

definition W5100_cs_select :: "'h spi \<Rightarrow> byte \<Rightarrow> 'h \<Rightarrow> 'h" where
  "W5100_cs_select b cs h = spi_digitalWrite b cs False h"

definition W5100_cs_deselect :: "'h spi \<Rightarrow> byte \<Rightarrow> 'h \<Rightarrow> 'h" where
  "W5100_cs_deselect b cs h = spi_digitalWrite b cs True h"

definition W5100_read :: "'h spi \<Rightarrow> byte \<Rightarrow> u16 \<Rightarrow> 'h \<Rightarrow> byte \<times> 'h" where
  "W5100_read b cs address h =
     (let h = W5100_cs_select b cs h;
          (_, h) = spi_transfer b 0x0F h;
          (_, h) = spi_transfer b (ucast (drop_bit 8 (address AND 0xFF00))) h;
          (_, h) = spi_transfer b (ucast (address AND 0x00FF)) h;
          (ret, h) = spi_transfer b 0 h
      in (ret, W5100_cs_deselect b cs h))"

definition W5100_read_word :: "'h spi \<Rightarrow> byte \<Rightarrow> u16 \<Rightarrow> 'h \<Rightarrow> u16 \<times> 'h" where
  "W5100_read_word b cs address h =
     (let (high, h) = W5100_read b cs address h; (low, h) = W5100_read b cs (address + 1) h
      in (push_bit 8 (ucast high) + ucast low, h))"

fun W5100_read_buf :: "'h spi \<Rightarrow> byte \<Rightarrow> u16 \<Rightarrow> nat \<Rightarrow> 'h \<Rightarrow> byte list \<times> 'h" where
  "W5100_read_buf b cs address 0 h = ([], h)"
| "W5100_read_buf b cs address (Suc len) h =
     (let (v, h) = W5100_read b cs address h; (vs, h) = W5100_read_buf b cs (address + 1) len h
      in (v # vs, h))"

definition W5100_write :: "'h spi \<Rightarrow> byte \<Rightarrow> u16 \<Rightarrow> byte \<Rightarrow> 'h \<Rightarrow> 'h" where
  "W5100_write b cs address wb h =
     (let h = W5100_cs_select b cs h;
          (_, h) = spi_transfer b 0xF0 h;
          (_, h) = spi_transfer b (ucast (drop_bit 8 (address AND 0xFF00))) h;
          (_, h) = spi_transfer b (ucast (address AND 0x00FF)) h;
          (_, h) = spi_transfer b wb h
      in W5100_cs_deselect b cs h)"

definition W5100_write_word :: "'h spi \<Rightarrow> byte \<Rightarrow> u16 \<Rightarrow> u16 \<Rightarrow> 'h \<Rightarrow> 'h" where
  "W5100_write_word b cs address w h =
     W5100_write b cs (address + 1) (ucast w) (W5100_write b cs address (ucast (drop_bit 8 w)) h)"

fun W5100_write_buf :: "'h spi \<Rightarrow> byte \<Rightarrow> u16 \<Rightarrow> byte list \<Rightarrow> 'h \<Rightarrow> 'h" where
  "W5100_write_buf b cs address [] h = h"
| "W5100_write_buf b cs address (v # vs) h = W5100_write_buf b cs (address + 1) vs (W5100_write b cs address v h)"

definition W5100_setMR :: "'h spi \<Rightarrow> byte \<Rightarrow> byte \<Rightarrow> 'h \<Rightarrow> 'h" where
  "W5100_setMR b cs mode h = W5100_write b cs W5100_MR mode h"

definition W5100_getMR :: "'h spi \<Rightarrow> byte \<Rightarrow> 'h \<Rightarrow> byte \<times> 'h" where
  "W5100_getMR b cs h = W5100_read b cs W5100_MR h"

definition W5100_setSHAR :: "'h spi \<Rightarrow> byte \<Rightarrow> mac \<Rightarrow> 'h \<Rightarrow> 'h" where
  "W5100_setSHAR b cs macaddr h = W5100_write_buf b cs W5100_SHAR (take 6 macaddr) h"

definition W5100_getSHAR :: "'h spi \<Rightarrow> byte \<Rightarrow> 'h \<Rightarrow> mac \<times> 'h" where
  "W5100_getSHAR b cs h = W5100_read_buf b cs W5100_SHAR 6 h"

definition W5100_getSn_TX_WR :: "'h spi \<Rightarrow> byte \<Rightarrow> 'h \<Rightarrow> u16 \<times> 'h" where
  "W5100_getSn_TX_WR b cs h = W5100_read_word b cs W5100_Sn_TX_WR h"

definition W5100_setSn_TX_WR :: "'h spi \<Rightarrow> byte \<Rightarrow> u16 \<Rightarrow> 'h \<Rightarrow> 'h" where
  "W5100_setSn_TX_WR b cs txwr h = W5100_write_word b cs W5100_Sn_TX_WR txwr h"

definition W5100_getSn_RX_RD :: "'h spi \<Rightarrow> byte \<Rightarrow> 'h \<Rightarrow> u16 \<times> 'h" where
  "W5100_getSn_RX_RD b cs h = W5100_read_word b cs W5100_Sn_RX_RD h"

definition W5100_setSn_RX_RD :: "'h spi \<Rightarrow> byte \<Rightarrow> u16 \<Rightarrow> 'h \<Rightarrow> 'h" where
  "W5100_setSn_RX_RD b cs rxrd h = W5100_write_word b cs W5100_Sn_RX_RD rxrd h"

definition W5100_setSn_MR :: "'h spi \<Rightarrow> byte \<Rightarrow> byte \<Rightarrow> 'h \<Rightarrow> 'h" where
  "W5100_setSn_MR b cs mr h = W5100_write b cs W5100_Sn_MR mr h"

definition W5100_getSn_MR :: "'h spi \<Rightarrow> byte \<Rightarrow> 'h \<Rightarrow> byte \<times> 'h" where
  "W5100_getSn_MR b cs h = W5100_read b cs W5100_Sn_MR h"

definition W5100_getSn_CR :: "'h spi \<Rightarrow> byte \<Rightarrow> 'h \<Rightarrow> byte \<times> 'h" where
  "W5100_getSn_CR b cs h = W5100_read b cs W5100_Sn_CR h"

definition W5100_getSn_SR :: "'h spi \<Rightarrow> byte \<Rightarrow> 'h \<Rightarrow> byte \<times> 'h" where
  "W5100_getSn_SR b cs h = W5100_read b cs W5100_Sn_SR h"

definition W5100_getSn_IR :: "'h spi \<Rightarrow> byte \<Rightarrow> 'h \<Rightarrow> byte \<times> 'h" where
  "W5100_getSn_IR b cs h = W5100_read b cs W5100_Sn_IR h"

definition W5100_setSn_IR :: "'h spi \<Rightarrow> byte \<Rightarrow> byte \<Rightarrow> 'h \<Rightarrow> 'h" where
  "W5100_setSn_IR b cs ir h = W5100_write b cs W5100_Sn_IR ir h"

section \<open>Waiting for the chip\<close>

partial_function (option) W5100_waitCommand :: "'h spi \<Rightarrow> byte \<Rightarrow> 'h \<Rightarrow> 'h option" where
  "W5100_waitCommand b cs h =
     (let r = W5100_read b cs W5100_Sn_CR h
      in if fst r \<noteq> 0 then W5100_waitCommand b cs (snd r) else Some (snd r))"

definition W5100_setSn_CR :: "'h spi \<Rightarrow> byte \<Rightarrow> byte \<Rightarrow> 'h \<Rightarrow> 'h option" where
  "W5100_setSn_CR b cs cr h = W5100_waitCommand b cs (W5100_write b cs W5100_Sn_CR cr h)"

text \<open>
  The size registers are read until two readings agree; \<open>val\<close> keeps its value when a reading is 0.
\<close>

partial_function (option) W5100_readTwice :: "'h spi \<Rightarrow> byte \<Rightarrow> u16 \<Rightarrow> u16 \<Rightarrow> 'h \<Rightarrow> (u16 \<times> 'h) option" where
  "W5100_readTwice b cs address val h =
     (let r1 = W5100_read_word b cs address h;
          r = (if fst r1 \<noteq> 0 then W5100_read_word b cs address (snd r1) else (val, snd r1))
      in if fst r \<noteq> fst r1 then W5100_readTwice b cs address (fst r) (snd r) else Some r)"

definition W5100_getSn_TX_FSR :: "'h spi \<Rightarrow> byte \<Rightarrow> 'h \<Rightarrow> (u16 \<times> 'h) option" where
  "W5100_getSn_TX_FSR b cs h = W5100_readTwice b cs W5100_Sn_TX_FSR 0 h"

definition W5100_getSn_RX_RSR :: "'h spi \<Rightarrow> byte \<Rightarrow> 'h \<Rightarrow> (u16 \<times> 'h) option" where
  "W5100_getSn_RX_RSR b cs h = W5100_readTwice b cs W5100_Sn_RX_RSR 0 h"

section \<open>The rings\<close>

definition W5100_send_data :: "'h spi \<Rightarrow> byte \<Rightarrow> byte list \<Rightarrow> 'h \<Rightarrow> 'h" where
  "W5100_send_data b cs wizdata h =
     (let len = (word_of_nat (length wizdata) :: u16);
          (ptr, h) = W5100_getSn_TX_WR b cs h;
          dst_mask = ptr AND W5100_TxBufferMask;
          dst_ptr = W5100_TxBufferAddress + dst_mask;
          h = (if dst_mask + len > W5100_TxBufferLength then
                 let size = unat (W5100_TxBufferLength - dst_mask);
                     h = W5100_write_buf b cs dst_ptr (take size wizdata) h
                 in W5100_write_buf b cs W5100_TxBufferAddress (drop size wizdata) h
               else W5100_write_buf b cs dst_ptr wizdata h)
      in W5100_setSn_TX_WR b cs (ptr + len) h)"

definition W5100_recv_data :: "'h spi \<Rightarrow> byte \<Rightarrow> u16 \<Rightarrow> 'h \<Rightarrow> byte list \<times> 'h" where
  "W5100_recv_data b cs len h =
     (let (ptr, h) = W5100_getSn_RX_RD b cs h;
          src_mask = ptr AND W5100_RxBufferMask;
          src_ptr = W5100_RxBufferAddress + src_mask;
          (wizdata, h) =
            (if src_mask + len > W5100_RxBufferLength then
               let size = W5100_RxBufferLength - src_mask;
                   (front, h) = W5100_read_buf b cs src_ptr (unat size) h;
                   (back, h) = W5100_read_buf b cs W5100_RxBufferAddress (unat (len - size)) h
               in (front @ back, h)
             else W5100_read_buf b cs src_ptr (unat len) h)
      in (wizdata, W5100_setSn_RX_RD b cs (ptr + len) h))"

definition W5100_recv_ignore :: "'h spi \<Rightarrow> byte \<Rightarrow> u16 \<Rightarrow> 'h \<Rightarrow> 'h" where
  "W5100_recv_ignore b cs len h =
     (let (ptr, h) = W5100_getSn_RX_RD b cs h in W5100_setSn_RX_RD b cs (ptr + len) h)"

section \<open>The driver\<close>

definition W5100_sw_reset :: "'h spi \<Rightarrow> byte \<Rightarrow> mac \<Rightarrow> 'h \<Rightarrow> 'h" where
  "W5100_sw_reset b cs mac0 h =
     (let h = W5100_setMR b cs W5100_MR_RST h; (_, h) = W5100_getMR b cs h in W5100_setSHAR b cs mac0 h)"

definition EtherSia_W5100_readFrame :: "'h spi \<Rightarrow> byte \<Rightarrow> nat \<Rightarrow> 'h \<Rightarrow> (byte list \<times> 'h) option" where
  "EtherSia_W5100_readFrame b cs bufsize h = do {
     (len, h) \<leftarrow> W5100_getSn_RX_RSR b cs h;
     if len > 0 then do {
       let (head, h) = W5100_recv_data b cs 2 h;
       h \<leftarrow> W5100_setSn_CR b cs W5100_Sn_CR_RECV h;
       let data_len = push_bit 8 (ucast (head ! 0)) + ucast (head ! 1) - (2 :: u16);
       if unat data_len > bufsize then do {
         h \<leftarrow> W5100_setSn_CR b cs W5100_Sn_CR_RECV (W5100_recv_ignore b cs data_len h);
         Some ([], h)
       }
       else do {
         let (buf, h) = W5100_recv_data b cs data_len h;
         h \<leftarrow> W5100_setSn_CR b cs W5100_Sn_CR_RECV h;
         Some (buf, h)
       }
     }
     else Some ([], h)
   }"

text \<open>Waiting for space: \<open>Some (False, _)\<close> when the socket is closed meanwhile.\<close>

partial_function (option) W5100_waitSpace :: "'h spi \<Rightarrow> byte \<Rightarrow> u16 \<Rightarrow> 'h \<Rightarrow> (bool \<times> 'h) option" where
  "W5100_waitSpace b cs len h = do {
     r \<leftarrow> W5100_getSn_TX_FSR b cs h;
     (let q = W5100_getSn_SR b cs (snd r) in
      if fst q = W5100_SOCK_CLOSED then Some (False, snd q)
      else if len \<le> fst r then Some (True, snd q)
      else W5100_waitSpace b cs len (snd q))
   }"

partial_function (option) W5100_waitSent :: "'h spi \<Rightarrow> byte \<Rightarrow> 'h \<Rightarrow> (bool \<times> 'h) option" where
  "W5100_waitSent b cs h =
     (let r = W5100_getSn_IR b cs h in
      if fst r AND W5100_Sn_IR_SENDOK \<noteq> 0 then Some (True, W5100_setSn_IR b cs W5100_Sn_IR_SENDOK (snd r))
      else if fst r AND W5100_Sn_IR_TIMEOUT \<noteq> 0 then Some (False, W5100_setSn_IR b cs W5100_Sn_IR_TIMEOUT (snd r))
      else W5100_waitSent b cs (snd r))"

definition EtherSia_W5100_sendFrame :: "'h spi \<Rightarrow> byte \<Rightarrow> byte list \<Rightarrow> 'h \<Rightarrow> (u16 \<times> 'h) option" where
  "EtherSia_W5100_sendFrame b cs buf h =
     (let len = word_of_nat (length buf) in do {
        (space, h) \<leftarrow> W5100_waitSpace b cs len h;
        if \<not> space then Some (-1, h)
        else do {
          h \<leftarrow> W5100_setSn_CR b cs W5100_Sn_CR_SEND (W5100_send_data b cs buf h);
          (ok, h) \<leftarrow> W5100_waitSent b cs h;
          Some (if ok then len else -1, h)
        }
      })"

partial_function (option) W5100_waitClosed :: "'h spi \<Rightarrow> byte \<Rightarrow> 'h \<Rightarrow> 'h option" where
  "W5100_waitClosed b cs h =
     (let r = W5100_getSn_SR b cs h
      in if fst r \<noteq> W5100_SOCK_CLOSED then W5100_waitClosed b cs (snd r) else Some (snd r))"

definition EtherSia_W5100_end :: "'h spi \<Rightarrow> byte \<Rightarrow> 'h \<Rightarrow> 'h option" where
  "EtherSia_W5100_end b cs h = do {
     h \<leftarrow> W5100_setSn_CR b cs W5100_Sn_CR_CLOSE h;
     W5100_waitClosed b cs (W5100_setSn_IR b cs 0xFF h)
   }"

text \<open>The platform of an interface on this chip, given the functions \<open>core\<close> of the Arduino core.\<close>

definition W5100_platform :: "'h spi \<Rightarrow> byte \<Rightarrow> 'h platform \<Rightarrow> 'h platform" where
  "W5100_platform b cs core = core\<lparr>readFrame := EtherSia_W5100_readFrame b cs,
     sendFrame := (\<lambda>f h. map_option snd (EtherSia_W5100_sendFrame b cs f h))\<rparr>"

definition EtherSia_W5100_begin ::
    "'h spi \<Rightarrow> byte \<Rightarrow> 'h platform \<Rightarrow> mac \<Rightarrow> 'h ether \<Rightarrow> (bool \<times> 'h ether) option" where
  "EtherSia_W5100_begin b cs core address s =
     (let s = s\<lparr>localMac := address\<rparr>;
          h = spi_pinMode b cs True (dev s);
          h = W5100_cs_deselect b cs h;
          h = spi_begin b h;
          h = spi_setClockDivider b SPI_CLOCK_DIV4 h;
          h = spi_setBitOrder b MSBFIRST h;
          h = spi_setDataMode b SPI_MODE0 h;
          h = W5100_sw_reset b cs (localMac s) h;
          h = W5100_write b cs W5100_RMSR W5100_RxBufferSize h;
          h = W5100_write b cs W5100_TMSR W5100_TxBufferSize h;
          h = W5100_setSHAR b cs (localMac s) h;
          h = W5100_setSn_MR b cs W5100_Sn_MR_MACRAW h
      in do {
        h \<leftarrow> W5100_setSn_CR b cs W5100_Sn_CR_OPEN h;
        let (sr, h) = W5100_getSn_SR b cs h;
        if sr \<noteq> W5100_SOCK_MACRAW then Some (False, s\<lparr>dev := h\<rparr>)
        else EtherSia_begin (W5100_platform b cs core) (s\<lparr>dev := h\<rparr>)
      })"


section \<open>The contract\<close>

lemma length_W5100_read_buf: "length (fst (W5100_read_buf b cs a n h)) = n"
  by (induction n arbitrary: a h) (auto simp: Let_def split_def)

lemma ring_offset: "ptr AND 0x1FFF = take_bit 13 (ptr :: u16)" "unat (take_bit 13 ptr) < 8192"
proof -
  show "ptr AND 0x1FFF = take_bit 13 ptr" by (simp add: take_bit_eq_mask mask_eq_exp_minus_1)
  show "unat (take_bit 13 ptr) < 8192"
    using take_bit_nat_less_exp [of 13 "unat ptr"] by (simp only: unsigned_take_bit_eq) simp
qed

text \<open>The test for wrapping around, for both rings.\<close>

lemma ring_split:
  fixes len :: u16
  assumes "0x2000 < take_bit 13 ptr + len"
  shows "unat (0x2000 - take_bit 13 ptr) = 8192 - unat (take_bit 13 ptr)"
    "unat (len - (0x2000 - take_bit 13 ptr)) = unat len - (8192 - unat (take_bit 13 ptr))"
    "8192 < unat (take_bit 13 ptr) + unat len"
proof -
  let ?r = "take_bit 13 ptr"
  have r: "unat ?r < 8192" by (rule ring_offset)
  have s: "8192 < unat (?r + len)" using assms by (simp add: word_less_nat_alt)
  have "unat (?r + len) \<le> unat ?r + unat len" by (simp add: unat_word_ariths)
  with s show g: "8192 < unat ?r + unat len" by simp
  show z: "unat (0x2000 - ?r) = 8192 - unat ?r" using r by (simp add: unat_sub word_le_nat_alt)
  have "0x2000 - ?r \<le> len" using z g r by (simp add: word_le_nat_alt)
  then show "unat (len - (0x2000 - ?r)) = unat len - (8192 - unat ?r)" by (simp add: unat_sub z)
qed

lemma ring_no_split:
  fixes len :: u16
  assumes "\<not> 0x2000 < take_bit 13 ptr + len" "unat len \<le> 8192"
  shows "unat (take_bit 13 ptr) + unat len \<le> 8192"
proof -
  have "unat (take_bit 13 ptr + len) = unat (take_bit 13 ptr) + unat len"
    using ring_offset(2) [of ptr] assms(2) by (simp add: unat_word_ariths)
  with assms(1) show ?thesis by (simp add: word_less_nat_alt)
qed

lemma length_W5100_recv_data: "length (fst (W5100_recv_data b cs len h)) = unat len"
proof -
  have "unat (0x2000 - take_bit 13 ptr) + unat (len - (0x2000 - take_bit 13 ptr)) = unat len"
    if "0x2000 < take_bit 13 ptr + len" for ptr
    using ring_split [OF that] ring_offset(2) [of ptr] by simp
  then show ?thesis
    by (auto simp: W5100_recv_data_def Let_def split_def length_W5100_read_buf ring_offset(1))
qed

lemma W5100_readFrame_bounded:
  "EtherSia_W5100_readFrame b cs bufsize h = Some (frame, h') \<Longrightarrow> length frame \<le> bufsize"
  by (auto simp: EtherSia_W5100_readFrame_def Let_def split_def bind_eq_Some_conv length_W5100_recv_data
      split: if_splits)

interpretation w5100_drv: ethernet_driver "EtherSia_W5100_readFrame b cs"
  by unfold_locales (rule W5100_readFrame_bounded)


section \<open>The driver on a chip\<close>

text \<open>
  The documented behaviour of the chip, as seen through \<open>view\<close>, the contents of its address space: a
  transaction with the opcode \<open>0x0F\<close> reads a byte, one with \<open>0xF0\<close> writes one; a command is executed and
  the command register reads as 0 again; ones written to the interrupt register clear its bits. \<open>cmd\<close> is
  the effect of the commands, of which \<open>RECV\<close> changes nothing but the size of the received data.
\<close>

definition W5100_chip ::
    "'h spi \<Rightarrow> byte \<Rightarrow> ('h \<Rightarrow> u16 \<Rightarrow> byte) \<Rightarrow> (byte \<Rightarrow> (u16 \<Rightarrow> byte) \<Rightarrow> u16 \<Rightarrow> byte) \<Rightarrow> bool" where
  "W5100_chip b cs view cmd \<longleftrightarrow>
     (\<forall>h a. let (r, h') = spi_exchange b cs [0x0F, ucast (drop_bit 8 a), ucast a, 0] h
            in r ! 3 = view h a \<and> view h' = view h)
   \<and> (\<forall>h a v. let (r, h') = spi_exchange b cs [0xF0, ucast (drop_bit 8 a), ucast a, v] h
            in view h' = (if a = W5100_Sn_CR then (cmd v (view h))(W5100_Sn_CR := 0)
                          else if a = W5100_Sn_IR then (view h)(W5100_Sn_IR := view h W5100_Sn_IR AND NOT v)
                          else (view h)(a := v)))
   \<and> (\<forall>m a. a \<noteq> W5100_Sn_RX_RSR \<and> a \<noteq> W5100_Sn_RX_RSR + 1 \<longrightarrow> cmd W5100_Sn_CR_RECV m a = m a)"

lemma address_bytes:
  "ucast (drop_bit 8 (a AND 0xFF00)) = (ucast (drop_bit 8 (a :: u16)) :: byte)" "ucast (a AND 0x00FF) = (ucast a :: byte)"
  by (rule bit_word_eqI; auto simp: bit_simps mask_bits dest: bit_imp_le_length)+

lemma chip_read:
  assumes "W5100_chip b cs view cmd"
  shows "fst (W5100_read b cs a h) = view h a" "view (snd (W5100_read b cs a h)) = view h"
proof -
  have "let (r, h') = spi_exchange b cs [0x0F, ucast (drop_bit 8 a), ucast a, 0] h in r ! 3 = view h a \<and> view h' = view h"
    using assms unfolding W5100_chip_def by blast
  then show "fst (W5100_read b cs a h) = view h a" "view (snd (W5100_read b cs a h)) = view h"
    by (simp_all add: spi_exchange_def W5100_read_def W5100_cs_select_def W5100_cs_deselect_def Let_def split_def
        address_bytes)
qed

lemma chip_write:
  assumes "W5100_chip b cs view cmd"
  shows "view (W5100_write b cs a v h) =
     (if a = W5100_Sn_CR then (cmd v (view h))(W5100_Sn_CR := 0)
      else if a = W5100_Sn_IR then (view h)(W5100_Sn_IR := view h W5100_Sn_IR AND NOT v)
      else (view h)(a := v))"
proof -
  have "let (r, h') = spi_exchange b cs [0xF0, ucast (drop_bit 8 a), ucast a, v] h
      in view h' = (if a = W5100_Sn_CR then (cmd v (view h))(W5100_Sn_CR := 0)
        else if a = W5100_Sn_IR then (view h)(W5100_Sn_IR := view h W5100_Sn_IR AND NOT v)
        else (view h)(a := v))"
    using assms unfolding W5100_chip_def by blast
  then show ?thesis
    by (simp add: spi_exchange_def W5100_write_def W5100_cs_select_def W5100_cs_deselect_def Let_def split_def
        address_bytes)
qed

lemma chip_read_word:
  assumes "W5100_chip b cs view cmd"
  shows "fst (W5100_read_word b cs a h) = be16 (view h a) (view h (a + 1))"
    "view (snd (W5100_read_word b cs a h)) = view h"
  using chip_read [OF assms]
  by (simp_all add: W5100_read_word_def Let_def split_def bytesToWord_be16 [unfolded bytesToWord_def])

lemma chip_write_word:
  assumes "W5100_chip b cs view cmd" "a \<noteq> 0x401" "a \<noteq> 0x402" "a + 1 \<noteq> 0x401" "a + 1 \<noteq> 0x402"
  shows "view (W5100_write_word b cs a w h) = (view h)(a := ucast (drop_bit 8 w), a + 1 := ucast w)"
  using assms(2-) by (simp add: W5100_write_word_def chip_write [OF assms(1)])

lemma chip_read_buf:
  assumes "W5100_chip b cs view cmd"
  shows "fst (W5100_read_buf b cs a n h) = map (\<lambda>i. view h (a + word_of_nat i)) [0..<n]
    \<and> view (snd (W5100_read_buf b cs a n h)) = view h"
proof (induction n arbitrary: a h)
  case (Suc n)
  have "map (\<lambda>i. view h (a + word_of_nat i)) [0..<Suc n]
      = view h a # map (\<lambda>i. view h (a + 1 + word_of_nat i)) [0..<n]"
    by (simp add: upt_conv_Cons map_Suc_upt [symmetric] add.assoc del: upt_Suc)
  then show ?case
    using Suc.IH [of "a + 1" "snd (W5100_read b cs a h)"] chip_read [OF assms, of a h]
    by (simp add: Let_def split_def del: upt_Suc)
qed simp

lemma chip_command:
  assumes "W5100_chip b cs view cmd"
  shows "\<exists>h'. W5100_setSn_CR b cs cr h = Some h' \<and> view h' = (cmd cr (view h))(W5100_Sn_CR := 0)"
proof -
  let ?h = "W5100_write b cs W5100_Sn_CR cr h"
  have "fst (W5100_read b cs W5100_Sn_CR ?h) = 0"
    using chip_read [OF assms, of W5100_Sn_CR ?h] chip_write [OF assms, of W5100_Sn_CR cr h] by simp
  then show ?thesis
    using chip_read(2) [OF assms, of W5100_Sn_CR ?h] chip_write [OF assms, of W5100_Sn_CR cr h]
    by (subst W5100_setSn_CR_def, subst W5100_waitCommand.simps) (simp add: Let_def)
qed

lemma chip_size:
  assumes "W5100_chip b cs view cmd"
  shows "\<exists>h'. W5100_readTwice b cs a 0 h = Some (be16 (view h a) (view h (a + 1)), h') \<and> view h' = view h"
  using chip_read_word [OF assms, of a h] chip_read_word [OF assms, of a "snd (W5100_read_word b cs a h)"]
  by (subst W5100_readTwice.simps) (auto simp: Let_def prod_eq_iff)


definition rx_pointer :: "(u16 \<Rightarrow> byte) \<Rightarrow> u16" where
  "rx_pointer m = be16 (m W5100_Sn_RX_RD) (m (W5100_Sn_RX_RD + 1))"

definition rx_size :: "(u16 \<Rightarrow> byte) \<Rightarrow> u16" where
  "rx_size m = be16 (m W5100_Sn_RX_RSR) (m (W5100_Sn_RX_RSR + 1))"

abbreviation rx_bytes :: "(u16 \<Rightarrow> byte) \<Rightarrow> u16 \<Rightarrow> nat \<Rightarrow> byte list" where
  "rx_bytes \<equiv> ring W5100_RxBufferAddress 13"

text \<open>The receive ring lies outside the registers.\<close>

lemma rx_address: "0x6000 \<le> 0x6000 + take_bit 13 (a :: u16)"
proof -
  have "unat (0x6000 + take_bit 13 a) = 0x6000 + unat (take_bit 13 a)"
    using ring_offset(2) [of a] by (simp add: unat_word_ariths)
  then show ?thesis by (simp add: word_le_nat_alt)
qed

lemma chip_recv_data:
  fixes h :: 'h
  assumes "W5100_chip b cs view cmd" "unat len \<le> 8192"
  defines "ptr \<equiv> rx_pointer (view h)"
  shows "fst (W5100_recv_data b cs len h) = rx_bytes (view h) ptr (unat len)"
    "view (snd (W5100_recv_data b cs len h))
       = (view h)(0x428 := ucast (drop_bit 8 (ptr + len)), 0x429 := ucast (ptr + len))"
proof -
  let ?r = "take_bit 13 ptr" and ?n = "8192 - unat (take_bit 13 ptr)"
  have p: "fst (W5100_read_word b cs 0x428 h) = ptr" "view (snd (W5100_read_word b cs 0x428 h)) = view h"
    using chip_read_word [OF assms(1), of "0x428" h] by (simp_all add: ptr_def rx_pointer_def)
  note buf = chip_read_buf [OF assms(1), THEN conjunct1] chip_read_buf [OF assms(1), THEN conjunct2]
  show "view (snd (W5100_recv_data b cs len h))
      = (view h)(0x428 := ucast (drop_bit 8 (ptr + len)), 0x429 := ucast (ptr + len))"
    by (simp add: W5100_recv_data_def W5100_getSn_RX_RD_def W5100_setSn_RX_RD_def Let_def split_def p buf
        chip_write_word [OF assms(1)])
  show "fst (W5100_recv_data b cs len h) = rx_bytes (view h) ptr (unat len)"
  proof (cases "0x2000 < ?r + len")
    case True
    note s = ring_split [OF True]
    have "rx_bytes (view h) ptr (unat len)
        = rx_bytes (view h) ptr ?n @ rx_bytes (view h) (ptr + word_of_nat ?n) (unat len - ?n)"
      using ring_append [of _ _ _ ptr ?n "unat len - ?n"] s(3) by simp
    moreover have "rx_bytes (view h) ptr ?n = map (\<lambda>i. view h (0x6000 + ?r + word_of_nat i)) [0..<?n]"
      using ring_offset(2) [of ptr] by (intro ring_straight) simp_all
    moreover have "rx_bytes (view h) (ptr + word_of_nat ?n) (unat len - ?n)
        = map (\<lambda>i. view h (0x6000 + word_of_nat i)) [0..<unat len - ?n]"
      using ring_straight [of 13 "ptr + word_of_nat ?n" "unat len - ?n" _ "view h"] ring_wraps [of 13 ptr]
        assms(2) by simp
    ultimately show ?thesis
      using True by (simp add: W5100_recv_data_def W5100_getSn_RX_RD_def Let_def split_def p buf s ring_offset(1))
  next
    case False
    then have "rx_bytes (view h) ptr (unat len) = map (\<lambda>i. view h (0x6000 + ?r + word_of_nat i)) [0..<unat len]"
      using ring_no_split [OF False assms(2)] by (intro ring_straight) simp_all
    with False show ?thesis
      by (simp add: W5100_recv_data_def W5100_getSn_RX_RD_def Let_def split_def p buf ring_offset(1))
  qed
qed


lemma rx_pointer_upd: "rx_pointer (m(0x428 := ucast (drop_bit 8 v), 0x429 := ucast v)) = v"
  by (simp add: rx_pointer_def)

text \<open>Receiving some bytes and telling the chip.\<close>

definition consumed :: "(u16 \<Rightarrow> byte) \<Rightarrow> (u16 \<Rightarrow> byte) \<Rightarrow> u16 \<Rightarrow> bool" where
  "consumed m m' n \<longleftrightarrow> rx_pointer m' = rx_pointer m + n \<and> (\<forall>a. 0x6000 \<le> a \<longrightarrow> m' a = m a)"

lemma consumed_trans: "consumed m m1 a \<Longrightarrow> consumed m1 m2 c \<Longrightarrow> consumed m m2 (a + c)"
  by (simp add: consumed_def)

lemma consumed_rx_bytes: "consumed m m' n \<Longrightarrow> rx_bytes m' ptr k = rx_bytes m ptr k"
  by (rule ring_cong) (use rx_address in \<open>auto simp: consumed_def\<close>)

lemma consumed_recv:
  assumes "W5100_chip b cs view cmd"
    and "view h1 = (view h)(0x428 := ucast (drop_bit 8 (rx_pointer (view h) + n)), 0x429 := ucast (rx_pointer (view h) + n))"
  shows "\<exists>h2. W5100_setSn_CR b cs W5100_Sn_CR_RECV h1 = Some h2 \<and> consumed (view h) (view h2) n"
proof -
  obtain h2 where h2: "W5100_setSn_CR b cs W5100_Sn_CR_RECV h1 = Some h2"
    "view h2 = (cmd W5100_Sn_CR_RECV (view h1))(W5100_Sn_CR := 0)"
    using chip_command [OF assms(1)] by blast
  have keep: "view h2 a = view h1 a" if "a \<noteq> 0x401" "a \<noteq> 0x426" "a \<noteq> 0x427" for a
    using that assms(1) h2(2) by (simp add: W5100_chip_def)
  have "rx_pointer (view h2) = rx_pointer (view h) + n"
    using keep [of "0x428"] keep [of "0x429"] assms(2) by (simp add: rx_pointer_def)
  moreover have "view h2 a = view h a" if "0x6000 \<le> a" for a
  proof -
    have "a \<noteq> 0x401 \<and> a \<noteq> 0x426 \<and> a \<noteq> 0x427 \<and> a \<noteq> 0x428 \<and> a \<noteq> 0x429" using that by auto
    then show ?thesis using keep [of a] assms(2) by simp
  qed
  ultimately show ?thesis using h2(1) by (auto simp: consumed_def)
qed

lemma chip_receive:
  fixes h :: 'h
  assumes "W5100_chip b cs view cmd" "unat len \<le> 8192"
  obtains h1 h2 where "W5100_recv_data b cs len h = (rx_bytes (view h) (rx_pointer (view h)) (unat len), h1)"
    "W5100_setSn_CR b cs W5100_Sn_CR_RECV h1 = Some h2" "consumed (view h) (view h2) len"
proof -
  let ?r = "W5100_recv_data b cs len h"
  obtain h2 where "W5100_setSn_CR b cs W5100_Sn_CR_RECV (snd ?r) = Some h2" "consumed (view h) (view h2) len"
    using consumed_recv [OF assms(1) chip_recv_data(2) [OF assms]] by blast
  then show ?thesis using that [of "snd ?r" h2] chip_recv_data(1) [OF assms, of h] by (metis prod.collapse)
qed

lemma chip_ignore:
  fixes h :: 'h
  assumes "W5100_chip b cs view cmd"
  obtains h2 where "W5100_setSn_CR b cs W5100_Sn_CR_RECV (W5100_recv_ignore b cs len h) = Some h2"
    "consumed (view h) (view h2) len"
proof -
  have "fst (W5100_read_word b cs 0x428 h) = rx_pointer (view h)" "view (snd (W5100_read_word b cs 0x428 h)) = view h"
    using chip_read_word [OF assms, of "0x428" h] by (simp_all add: rx_pointer_def)
  then have "view (W5100_recv_ignore b cs len h)
      = (view h)(0x428 := ucast (drop_bit 8 (rx_pointer (view h) + len)), 0x429 := ucast (rx_pointer (view h) + len))"
    by (simp add: W5100_recv_ignore_def W5100_getSn_RX_RD_def W5100_setSn_RX_RD_def Let_def split_def
        chip_write_word [OF assms])
  from consumed_recv [OF assms this] that show ?thesis by blast
qed


text \<open>A frame as the chip stores it: its length with the two bytes of the length, then the frame.\<close>

definition rx_frame :: "byte list \<Rightarrow> byte list" where
  "rx_frame f = (let n = word_of_nat (length f + 2) :: u16 in ucast (drop_bit 8 n) # ucast n # f)"

lemma W5100_readFrame_length:
  assumes "W5100_chip b cs view cmd" "length f + 2 \<le> 8192"
    and "rx_bytes (view h) (rx_pointer (view h)) (length f + 2) = rx_frame f"
    and "W5100_getSn_RX_RSR b cs h = Some (rx_size (view h), h0)" "view h0 = view h" "rx_size (view h) \<noteq> 0"
  obtains h2 where "EtherSia_W5100_readFrame b cs bufsize h =
      (if bufsize < length f then do {
         h \<leftarrow> W5100_setSn_CR b cs W5100_Sn_CR_RECV (W5100_recv_ignore b cs (word_of_nat (length f)) h2);
         Some ([], h)
       }
       else do {
         let (buf, h) = W5100_recv_data b cs (word_of_nat (length f)) h2;
         h \<leftarrow> W5100_setSn_CR b cs W5100_Sn_CR_RECV h;
         Some (buf, h)
       })"
    "consumed (view h) (view h2) 2" "rx_bytes (view h) (rx_pointer (view h) + 2) (length f) = f"
proof -
  let ?len = "word_of_nat (length f) :: u16" and ?p = "rx_pointer (view h)"
  have len: "unat ?len = length f" using assms(2) by (simp add: unsigned_of_nat take_bit_eq_mod)
  obtain h1 h2 where h1: "W5100_recv_data b cs 2 h0 = (rx_bytes (view h) ?p 2, h1)"
    "W5100_setSn_CR b cs W5100_Sn_CR_RECV h1 = Some h2" "consumed (view h) (view h2) 2"
    using chip_receive [OF assms(1), of 2 h0] assms(5) by auto
  have "rx_bytes (view h) ?p (length f + 2) = rx_bytes (view h) ?p 2 @ rx_bytes (view h) (?p + 2) (length f)"
    using ring_append [of _ 13 "view h" ?p 2 "length f"] by (simp add: add.commute)
  then have parts: "rx_bytes (view h) ?p 2 = [ucast (drop_bit 8 (?len + 2)), ucast (?len + 2)]"
    "rx_bytes (view h) (?p + 2) (length f) = f"
    using assms(3) by (auto simp: rx_frame_def Let_def append_eq_conv_conj numeral_2_eq_2 add.commute)
  have dl: "push_bit 8 (ucast (ucast (drop_bit 8 (?len + 2)) :: byte)) + ucast (ucast (?len + 2) :: byte) - 2 = ?len"
    using bytesToWord_be16 [of "ucast (drop_bit 8 (?len + 2))" "ucast (?len + 2)"]
    by (simp add: bytesToWord_def)
  have run: "EtherSia_W5100_readFrame b cs bufsize h =
      (if bufsize < length f then do {
         h \<leftarrow> W5100_setSn_CR b cs W5100_Sn_CR_RECV (W5100_recv_ignore b cs ?len h2);
         Some ([], h)
       }
       else do {
         let (buf, h) = W5100_recv_data b cs ?len h2;
         h \<leftarrow> W5100_setSn_CR b cs W5100_Sn_CR_RECV h;
         Some (buf, h)
       })"
    using assms(4,6) h1(1,2) parts(1)
    by (simp add: EtherSia_W5100_readFrame_def dl len word_gt_0 Let_def)
  show thesis by (rule that [OF run h1(3) parts(2)])
qed

text \<open>
  C14. Reading a frame takes it off the chip's queue: when the receive ring holds, from the read pointer
  on and possibly around its end, a frame as the chip stores it, \<open>readFrame\<close> returns its bytes if they fit
  the buffer and nothing otherwise, moves the read pointer just behind it and leaves the ring alone;
  without received data it does nothing. The chip behaves as documented and receives nothing meanwhile.
\<close>

theorem W5100_readFrame_dequeues:
  assumes "W5100_chip b cs view cmd" "length f + 2 \<le> 8192"
    "rx_bytes (view h) (rx_pointer (view h)) (length f + 2) = rx_frame f"
  shows "\<exists>h'. EtherSia_W5100_readFrame b cs bufsize h =
      Some (if rx_size (view h) = 0 \<or> bufsize < length f then [] else f, h')
     \<and> rx_pointer (view h') = rx_pointer (view h) + (if rx_size (view h) = 0 then 0 else word_of_nat (length f + 2))
     \<and> (\<forall>a\<ge>0x6000. view h' a = view h a)"
proof -
  obtain h0 where h0: "W5100_getSn_RX_RSR b cs h = Some (rx_size (view h), h0)" "view h0 = view h"
    using chip_size [OF assms(1), of W5100_Sn_RX_RSR h] by (auto simp: W5100_getSn_RX_RSR_def rx_size_def)
  show ?thesis
  proof (cases "rx_size (view h) = 0")
    case True
    then show ?thesis using h0 by (simp add: EtherSia_W5100_readFrame_def)
  next
    case False
    let ?len = "word_of_nat (length f) :: u16" and ?p = "rx_pointer (view h)"
    obtain h2 where run: "EtherSia_W5100_readFrame b cs bufsize h =
        (if bufsize < length f then do {
           h \<leftarrow> W5100_setSn_CR b cs W5100_Sn_CR_RECV (W5100_recv_ignore b cs (word_of_nat (length f)) h2);
           Some ([], h)
         }
         else do {
           let (buf, h) = W5100_recv_data b cs (word_of_nat (length f)) h2;
           h \<leftarrow> W5100_setSn_CR b cs W5100_Sn_CR_RECV h;
           Some (buf, h)
         })"
      and c: "consumed (view h) (view h2) 2" and f: "rx_bytes (view h) (?p + 2) (length f) = f"
      by (rule W5100_readFrame_length [OF assms h0 False])
    have len: "unat ?len = length f" using assms(2) by (simp add: unsigned_of_nat take_bit_eq_mod)
    have p2: "rx_pointer (view h2) = ?p + 2" using c by (simp add: consumed_def)
    show ?thesis
    proof (cases "bufsize < length f")
      case True
      obtain h3 where "W5100_setSn_CR b cs W5100_Sn_CR_RECV (W5100_recv_ignore b cs ?len h2) = Some h3"
        "consumed (view h2) (view h3) ?len" using chip_ignore [OF assms(1)] by blast
      with True False run consumed_trans [OF c] show ?thesis by (auto simp: consumed_def add.commute)
    next
      case fits: False
      obtain h3 h4 where "W5100_recv_data b cs ?len h2 = (rx_bytes (view h2) (?p + 2) (length f), h3)"
        "W5100_setSn_CR b cs W5100_Sn_CR_RECV h3 = Some h4" "consumed (view h2) (view h4) ?len"
        using chip_receive [OF assms(1), of ?len h2] assms(2) len p2 by auto
      with fits False run consumed_trans [OF c] consumed_rx_bytes [OF c] f show ?thesis
        by (auto simp: consumed_def add.commute)
    qed
  qed
qed


section \<open>A simulated chip\<close>

text \<open>
  The documented behaviour can be had: a chip that gathers the bytes of a transaction and carries it
  out with the fourth, beside its memory. \<open>RECV\<close> takes everything received as read.
\<close>

type_synonym chip_sim = "byte list \<times> (u16 \<Rightarrow> byte)"

definition sim_cmd :: "byte \<Rightarrow> (u16 \<Rightarrow> byte) \<Rightarrow> u16 \<Rightarrow> byte" where
  "sim_cmd c m = (if c = W5100_Sn_CR_RECV then m(W5100_Sn_RX_RSR := 0, W5100_Sn_RX_RSR + 1 := 0) else m)"

definition sim_write :: "u16 \<Rightarrow> byte \<Rightarrow> (u16 \<Rightarrow> byte) \<Rightarrow> u16 \<Rightarrow> byte" where
  "sim_write a v m =
     (if a = W5100_Sn_CR then (sim_cmd v m)(W5100_Sn_CR := 0)
      else if a = W5100_Sn_IR then m(W5100_Sn_IR := m W5100_Sn_IR AND NOT v)
      else m(a := v))"

definition sim_transfer :: "byte \<Rightarrow> chip_sim \<Rightarrow> byte \<times> chip_sim" where
  "sim_transfer v c =
     (case c of
        ([opcode, high, low], m) \<Rightarrow>
          if opcode = 0xF0 then (3, [opcode, high, low, v], sim_write (be16 high low) v m)
          else (m (be16 high low), [opcode, high, low, v], m)
      | (sent, m) \<Rightarrow> (word_of_nat (length sent), sent @ [v], m))"

definition sim_bus :: "chip_sim spi" where
  "sim_bus = \<lparr>spi_begin = (\<lambda>c. c), spi_setClockDivider = (\<lambda>v c. c), spi_setBitOrder = (\<lambda>v c. c),
     spi_setDataMode = (\<lambda>v c. c), spi_transfer = sim_transfer, spi_pinMode = (\<lambda>p out c. c),
     spi_digitalWrite = (\<lambda>p l c. ([], snd c)), spi_delay = (\<lambda>t c. c), spi_delayMicroseconds = (\<lambda>t c. c)\<rparr>"

lemma sim_chip: "W5100_chip sim_bus cs snd sim_cmd"
  by (auto simp: W5100_chip_def spi_exchange_def sim_bus_def sim_transfer_def sim_write_def sim_cmd_def Let_def
      split: prod.splits)

text \<open>A frame of four bytes around the end of the ring, from its last byte but three on.\<close>

definition sim_memory :: "u16 \<Rightarrow> byte" where
  "sim_memory = (\<lambda>_. 0)(0x427 := 6, 0x428 := 0x5F, 0x429 := 0xFD, 0x7FFD := 0, 0x7FFE := 6, 0x7FFF := 7,
     0x6000 := 8, 0x6001 := 9, 0x6002 := 10)"

lemma W5100_readFrame_dequeues_witness:
  "\<exists>c. EtherSia_W5100_readFrame sim_bus 10 600 ([], sim_memory) = Some ([7, 8, 9, 10], c)
     \<and> rx_pointer (snd c) = 0x6003"
proof -
  have s: "rx_pointer sim_memory = 0x5FFD" "rx_size sim_memory = 6"
    "rx_bytes sim_memory 0x5FFD 6 = rx_frame [7, 8, 9, 10]"
    by code_simp+
  have "rx_bytes (snd ([] :: byte list, sim_memory)) (rx_pointer (snd ([] :: byte list, sim_memory)))
      (length [7, 8, 9, 10 :: byte] + 2) = rx_frame [7, 8, 9, 10]"
    using s by (simp add: eval_nat_numeral)
  from W5100_readFrame_dequeues [OF sim_chip _ this, of 10 600] show ?thesis by (auto simp: s)
qed

end
