(* ===== verification/W5500.thy ===== *)
theory W5500
  imports Driver
begin

text \<open>
  \<open>src/src/w5500.cpp\<close> and \<open>w5500.h\<close>: the driver of the W5500 chip. Unlike the W5100 it selects a block
  and an address and then transfers any number of bytes, and the chip itself wraps the addresses of the
  two ring blocks, so the driver has no ring arithmetic. The conventions are those of theory \<open>W5100\<close>.
\<close>

abbreviation (input) W5500_AccessModeRead :: byte where "W5500_AccessModeRead \<equiv> 0x00"
abbreviation (input) W5500_AccessModeWrite :: byte where "W5500_AccessModeWrite \<equiv> 0x04"
abbreviation (input) W5500_BlockSelectCReg :: byte where "W5500_BlockSelectCReg \<equiv> 0x00"
abbreviation (input) W5500_BlockSelectSReg :: byte where "W5500_BlockSelectSReg \<equiv> 0x08"
abbreviation (input) W5500_BlockSelectTxBuf :: byte where "W5500_BlockSelectTxBuf \<equiv> 0x10"
abbreviation (input) W5500_BlockSelectRxBuf :: byte where "W5500_BlockSelectRxBuf \<equiv> 0x18"
abbreviation (input) W5500_MR :: u16 where "W5500_MR \<equiv> 0x0000"
abbreviation (input) W5500_SHAR :: u16 where "W5500_SHAR \<equiv> 0x0009"
abbreviation (input) W5500_INTLEVEL :: u16 where "W5500_INTLEVEL \<equiv> 0x0013"
abbreviation (input) W5500_IR :: u16 where "W5500_IR \<equiv> 0x0015"
abbreviation (input) W5500_IMR :: u16 where "W5500_IMR \<equiv> 0x0016"
abbreviation (input) W5500_SIR :: u16 where "W5500_SIR \<equiv> 0x0017"
abbreviation (input) W5500_SIMR :: u16 where "W5500_SIMR \<equiv> 0x0018"
abbreviation (input) W5500_RTR :: u16 where "W5500_RTR \<equiv> 0x0019"
abbreviation (input) W5500_RCR :: u16 where "W5500_RCR \<equiv> 0x001B"
abbreviation (input) W5500_UIPR :: u16 where "W5500_UIPR \<equiv> 0x0028"
abbreviation (input) W5500_UPORTR :: u16 where "W5500_UPORTR \<equiv> 0x002C"
abbreviation (input) W5500_PHYCFGR :: u16 where "W5500_PHYCFGR \<equiv> 0x002E"
abbreviation (input) W5500_VERSIONR :: u16 where "W5500_VERSIONR \<equiv> 0x0039"
abbreviation (input) W5500_Sn_MR :: u16 where "W5500_Sn_MR \<equiv> 0x0000"
abbreviation (input) W5500_Sn_CR :: u16 where "W5500_Sn_CR \<equiv> 0x0001"
abbreviation (input) W5500_Sn_IR :: u16 where "W5500_Sn_IR \<equiv> 0x0002"
abbreviation (input) W5500_Sn_SR :: u16 where "W5500_Sn_SR \<equiv> 0x0003"
abbreviation (input) W5500_Sn_PORT :: u16 where "W5500_Sn_PORT \<equiv> 0x0004"
abbreviation (input) W5500_Sn_DHAR :: u16 where "W5500_Sn_DHAR \<equiv> 0x0006"
abbreviation (input) W5500_Sn_DIPR :: u16 where "W5500_Sn_DIPR \<equiv> 0x000C"
abbreviation (input) W5500_Sn_DPORT :: u16 where "W5500_Sn_DPORT \<equiv> 0x0010"
abbreviation (input) W5500_Sn_MSSR :: u16 where "W5500_Sn_MSSR \<equiv> 0x0012"
abbreviation (input) W5500_Sn_TOS :: u16 where "W5500_Sn_TOS \<equiv> 0x0015"
abbreviation (input) W5500_Sn_TTL :: u16 where "W5500_Sn_TTL \<equiv> 0x0016"
abbreviation (input) W5500_Sn_RXBUF_SIZE :: u16 where "W5500_Sn_RXBUF_SIZE \<equiv> 0x001E"
abbreviation (input) W5500_Sn_TXBUF_SIZE :: u16 where "W5500_Sn_TXBUF_SIZE \<equiv> 0x001F"
abbreviation (input) W5500_Sn_TX_FSR :: u16 where "W5500_Sn_TX_FSR \<equiv> 0x0020"
abbreviation (input) W5500_Sn_TX_RD :: u16 where "W5500_Sn_TX_RD \<equiv> 0x0022"
abbreviation (input) W5500_Sn_TX_WR :: u16 where "W5500_Sn_TX_WR \<equiv> 0x0024"
abbreviation (input) W5500_Sn_RX_RSR :: u16 where "W5500_Sn_RX_RSR \<equiv> 0x0026"
abbreviation (input) W5500_Sn_RX_RD :: u16 where "W5500_Sn_RX_RD \<equiv> 0x0028"
abbreviation (input) W5500_Sn_RX_WR :: u16 where "W5500_Sn_RX_WR \<equiv> 0x002A"
abbreviation (input) W5500_Sn_IMR :: u16 where "W5500_Sn_IMR \<equiv> 0x002C"
abbreviation (input) W5500_Sn_FRAG :: u16 where "W5500_Sn_FRAG \<equiv> 0x002D"
abbreviation (input) W5500_Sn_KPALVTR :: u16 where "W5500_Sn_KPALVTR \<equiv> 0x002F"
abbreviation (input) W5500_MR_RST :: byte where "W5500_MR_RST \<equiv> 0x80"
abbreviation (input) W5500_MR_WOL :: byte where "W5500_MR_WOL \<equiv> 0x20"
abbreviation (input) W5500_MR_PB :: byte where "W5500_MR_PB \<equiv> 0x10"
abbreviation (input) W5500_MR_PPPOE :: byte where "W5500_MR_PPPOE \<equiv> 0x08"
abbreviation (input) W5500_MR_FARP :: byte where "W5500_MR_FARP \<equiv> 0x02"
abbreviation (input) W5500_IR_CONFLICT :: byte where "W5500_IR_CONFLICT \<equiv> 0x80"
abbreviation (input) W5500_IR_UNREACH :: byte where "W5500_IR_UNREACH \<equiv> 0x40"
abbreviation (input) W5500_IR_PPPoE :: byte where "W5500_IR_PPPoE \<equiv> 0x20"
abbreviation (input) W5500_IR_MP :: byte where "W5500_IR_MP \<equiv> 0x10"
abbreviation (input) W5500_IM_IR7 :: byte where "W5500_IM_IR7 \<equiv> 0x80"
abbreviation (input) W5500_IM_IR6 :: byte where "W5500_IM_IR6 \<equiv> 0x40"
abbreviation (input) W5500_IM_IR5 :: byte where "W5500_IM_IR5 \<equiv> 0x20"
abbreviation (input) W5500_IM_IR4 :: byte where "W5500_IM_IR4 \<equiv> 0x10"
abbreviation (input) W5500_Sn_MR_CLOSE :: byte where "W5500_Sn_MR_CLOSE \<equiv> 0x00"
abbreviation (input) W5500_Sn_MR_TCP :: byte where "W5500_Sn_MR_TCP \<equiv> 0x01"
abbreviation (input) W5500_Sn_MR_UDP :: byte where "W5500_Sn_MR_UDP \<equiv> 0x02"
abbreviation (input) W5500_Sn_MR_MACRAW :: byte where "W5500_Sn_MR_MACRAW \<equiv> 0x04"
abbreviation (input) W5500_Sn_MR_UCASTB :: byte where "W5500_Sn_MR_UCASTB \<equiv> 0x10"
abbreviation (input) W5500_Sn_MR_ND :: byte where "W5500_Sn_MR_ND \<equiv> 0x20"
abbreviation (input) W5500_Sn_MR_BCASTB :: byte where "W5500_Sn_MR_BCASTB \<equiv> 0x40"
abbreviation (input) W5500_Sn_MR_MULTI :: byte where "W5500_Sn_MR_MULTI \<equiv> 0x80"
abbreviation (input) W5500_Sn_MR_MIP6B :: byte where "W5500_Sn_MR_MIP6B \<equiv> 0x10"
abbreviation (input) W5500_Sn_MR_MMB :: byte where "W5500_Sn_MR_MMB \<equiv> 0x20"
abbreviation (input) W5500_Sn_MR_MFEN :: byte where "W5500_Sn_MR_MFEN \<equiv> 0x80"
abbreviation (input) W5500_Sn_CR_OPEN :: byte where "W5500_Sn_CR_OPEN \<equiv> 0x01"
abbreviation (input) W5500_Sn_CR_LISTEN :: byte where "W5500_Sn_CR_LISTEN \<equiv> 0x02"
abbreviation (input) W5500_Sn_CR_CONNECT :: byte where "W5500_Sn_CR_CONNECT \<equiv> 0x04"
abbreviation (input) W5500_Sn_CR_DISCON :: byte where "W5500_Sn_CR_DISCON \<equiv> 0x08"
abbreviation (input) W5500_Sn_CR_CLOSE :: byte where "W5500_Sn_CR_CLOSE \<equiv> 0x10"
abbreviation (input) W5500_Sn_CR_SEND :: byte where "W5500_Sn_CR_SEND \<equiv> 0x20"
abbreviation (input) W5500_Sn_CR_SEND_MAC :: byte where "W5500_Sn_CR_SEND_MAC \<equiv> 0x21"
abbreviation (input) W5500_Sn_CR_SEND_KEEP :: byte where "W5500_Sn_CR_SEND_KEEP \<equiv> 0x22"
abbreviation (input) W5500_Sn_CR_RECV :: byte where "W5500_Sn_CR_RECV \<equiv> 0x40"
abbreviation (input) W5500_Sn_IR_CON :: byte where "W5500_Sn_IR_CON \<equiv> 0x01"
abbreviation (input) W5500_Sn_IR_DISCON :: byte where "W5500_Sn_IR_DISCON \<equiv> 0x02"
abbreviation (input) W5500_Sn_IR_RECV :: byte where "W5500_Sn_IR_RECV \<equiv> 0x04"
abbreviation (input) W5500_Sn_IR_TIMEOUT :: byte where "W5500_Sn_IR_TIMEOUT \<equiv> 0x08"
abbreviation (input) W5500_Sn_IR_SENDOK :: byte where "W5500_Sn_IR_SENDOK \<equiv> 0x10"
abbreviation (input) W5500_SOCK_CLOSED :: byte where "W5500_SOCK_CLOSED \<equiv> 0x00"
abbreviation (input) W5500_SOCK_INIT :: byte where "W5500_SOCK_INIT \<equiv> 0x13"
abbreviation (input) W5500_SOCK_LISTEN :: byte where "W5500_SOCK_LISTEN \<equiv> 0x14"
abbreviation (input) W5500_SOCK_SYNSENT :: byte where "W5500_SOCK_SYNSENT \<equiv> 0x15"
abbreviation (input) W5500_SOCK_SYNRECV :: byte where "W5500_SOCK_SYNRECV \<equiv> 0x16"
abbreviation (input) W5500_SOCK_ESTABLISHED :: byte where "W5500_SOCK_ESTABLISHED \<equiv> 0x17"
abbreviation (input) W5500_SOCK_FIN_WAIT :: byte where "W5500_SOCK_FIN_WAIT \<equiv> 0x18"
abbreviation (input) W5500_SOCK_CLOSING :: byte where "W5500_SOCK_CLOSING \<equiv> 0x1A"
abbreviation (input) W5500_SOCK_TIME_WAIT :: byte where "W5500_SOCK_TIME_WAIT \<equiv> 0x1B"
abbreviation (input) W5500_SOCK_CLOSE_WAIT :: byte where "W5500_SOCK_CLOSE_WAIT \<equiv> 0x1C"
abbreviation (input) W5500_SOCK_LAST_ACK :: byte where "W5500_SOCK_LAST_ACK \<equiv> 0x1D"
abbreviation (input) W5500_SOCK_UDP :: byte where "W5500_SOCK_UDP \<equiv> 0x22"
abbreviation (input) W5500_SOCK_MACRAW :: byte where "W5500_SOCK_MACRAW \<equiv> 0x42"
abbreviation (input) W5500_PHYCFGR_RST :: byte where "W5500_PHYCFGR_RST \<equiv> 0x7F"
abbreviation (input) W5500_PHYCFGR_OPMD :: byte where "W5500_PHYCFGR_OPMD \<equiv> 0x40"
abbreviation (input) W5500_PHYCFGR_OPMDC_ALLA :: byte where "W5500_PHYCFGR_OPMDC_ALLA \<equiv> 0x38"
abbreviation (input) W5500_PHYCFGR_OPMDC_PDOWN :: byte where "W5500_PHYCFGR_OPMDC_PDOWN \<equiv> 0x30"
abbreviation (input) W5500_PHYCFGR_OPMDC_NA :: byte where "W5500_PHYCFGR_OPMDC_NA \<equiv> 0x28"
abbreviation (input) W5500_PHYCFGR_OPMDC_100FA :: byte where "W5500_PHYCFGR_OPMDC_100FA \<equiv> 0x20"
abbreviation (input) W5500_PHYCFGR_OPMDC_100F :: byte where "W5500_PHYCFGR_OPMDC_100F \<equiv> 0x18"
abbreviation (input) W5500_PHYCFGR_OPMDC_100H :: byte where "W5500_PHYCFGR_OPMDC_100H \<equiv> 0x10"
abbreviation (input) W5500_PHYCFGR_OPMDC_10F :: byte where "W5500_PHYCFGR_OPMDC_10F \<equiv> 0x08"
abbreviation (input) W5500_PHYCFGR_OPMDC_10H :: byte where "W5500_PHYCFGR_OPMDC_10H \<equiv> 0x00"
abbreviation (input) W5500_PHYCFGR_DPX_FULL :: byte where "W5500_PHYCFGR_DPX_FULL \<equiv> 0x04"
abbreviation (input) W5500_PHYCFGR_DPX_HALF :: byte where "W5500_PHYCFGR_DPX_HALF \<equiv> 0x00"
abbreviation (input) W5500_PHYCFGR_SPD_100 :: byte where "W5500_PHYCFGR_SPD_100 \<equiv> 0x02"
abbreviation (input) W5500_PHYCFGR_SPD_10 :: byte where "W5500_PHYCFGR_SPD_10 \<equiv> 0x00"
abbreviation (input) W5500_PHYCFGR_LNK_ON :: byte where "W5500_PHYCFGR_LNK_ON \<equiv> 0x01"
abbreviation (input) W5500_PHYCFGR_LNK_OFF :: byte where "W5500_PHYCFGR_LNK_OFF \<equiv> 0x00"
abbreviation (input) W5500_PHY_SPEED_10 :: byte where "W5500_PHY_SPEED_10 \<equiv> 0x00"
abbreviation (input) W5500_PHY_SPEED_100 :: byte where "W5500_PHY_SPEED_100 \<equiv> 0x01"
abbreviation (input) W5500_PHY_DUPLEX_HALF :: byte where "W5500_PHY_DUPLEX_HALF \<equiv> 0x00"
abbreviation (input) W5500_PHY_DUPLEX_FULL :: byte where "W5500_PHY_DUPLEX_FULL \<equiv> 0x01"
abbreviation (input) W5500_PHY_LINK_OFF :: byte where "W5500_PHY_LINK_OFF \<equiv> 0x00"
abbreviation (input) W5500_PHY_LINK_ON :: byte where "W5500_PHY_LINK_ON \<equiv> 0x01"
abbreviation (input) W5500_PHY_POWER_NORM :: byte where "W5500_PHY_POWER_NORM \<equiv> 0x00"
abbreviation (input) W5500_PHY_POWER_DOWN :: byte where "W5500_PHY_POWER_DOWN \<equiv> 0x01"

section \<open>Registers\<close>

definition W5500_cs_select :: "'h spi \<Rightarrow> byte \<Rightarrow> 'h \<Rightarrow> 'h" where
  "W5500_cs_select b cs h = spi_digitalWrite b cs False h"

definition W5500_cs_deselect :: "'h spi \<Rightarrow> byte \<Rightarrow> 'h \<Rightarrow> 'h" where
  "W5500_cs_deselect b cs h = spi_digitalWrite b cs True h"

definition W5500_spi_read_byte :: "'h spi \<Rightarrow> 'h \<Rightarrow> byte \<times> 'h" where
  "W5500_spi_read_byte b h = spi_transfer b 0 h"

definition W5500_spi_write_byte :: "'h spi \<Rightarrow> byte \<Rightarrow> 'h \<Rightarrow> 'h" where
  "W5500_spi_write_byte b wb h = snd (spi_transfer b wb h)"

definition W5500_read :: "'h spi \<Rightarrow> byte \<Rightarrow> byte \<Rightarrow> u16 \<Rightarrow> 'h \<Rightarrow> byte \<times> 'h" where
  "W5500_read b cs block address h =
     (let h = W5500_cs_select b cs h;
          block = block OR W5500_AccessModeRead;
          h = W5500_spi_write_byte b (ucast (drop_bit 8 (address AND 0xFF00))) h;
          h = W5500_spi_write_byte b (ucast (address AND 0x00FF)) h;
          h = W5500_spi_write_byte b block h;
          (ret, h) = W5500_spi_read_byte b h
      in (ret, W5500_cs_deselect b cs h))"

definition W5500_read_word :: "'h spi \<Rightarrow> byte \<Rightarrow> byte \<Rightarrow> u16 \<Rightarrow> 'h \<Rightarrow> u16 \<times> 'h" where
  "W5500_read_word b cs block address h =
     (let (high, h) = W5500_read b cs block address h; (low, h) = W5500_read b cs block (address + 1) h
      in (push_bit 8 (ucast high) + ucast low, h))"

fun W5500_read_bytes :: "'h spi \<Rightarrow> nat \<Rightarrow> 'h \<Rightarrow> byte list \<times> 'h" where
  "W5500_read_bytes b 0 h = ([], h)"
| "W5500_read_bytes b (Suc len) h =
     (let (v, h) = W5500_spi_read_byte b h; (vs, h) = W5500_read_bytes b len h in (v # vs, h))"

definition W5500_read_buf :: "'h spi \<Rightarrow> byte \<Rightarrow> byte \<Rightarrow> u16 \<Rightarrow> nat \<Rightarrow> 'h \<Rightarrow> byte list \<times> 'h" where
  "W5500_read_buf b cs block address len h =
     (let h = W5500_cs_select b cs h;
          block = block OR W5500_AccessModeRead;
          h = W5500_spi_write_byte b (ucast (drop_bit 8 (address AND 0xFF00))) h;
          h = W5500_spi_write_byte b (ucast (address AND 0x00FF)) h;
          h = W5500_spi_write_byte b block h;
          (bytes, h) = W5500_read_bytes b len h
      in (bytes, W5500_cs_deselect b cs h))"

definition W5500_write :: "'h spi \<Rightarrow> byte \<Rightarrow> byte \<Rightarrow> u16 \<Rightarrow> byte \<Rightarrow> 'h \<Rightarrow> 'h" where
  "W5500_write b cs block address wb h =
     (let h = W5500_cs_select b cs h;
          block = block OR W5500_AccessModeWrite;
          h = W5500_spi_write_byte b (ucast (drop_bit 8 (address AND 0xFF00))) h;
          h = W5500_spi_write_byte b (ucast (address AND 0x00FF)) h;
          h = W5500_spi_write_byte b block h;
          h = W5500_spi_write_byte b wb h
      in W5500_cs_deselect b cs h)"

definition W5500_write_word :: "'h spi \<Rightarrow> byte \<Rightarrow> byte \<Rightarrow> u16 \<Rightarrow> u16 \<Rightarrow> 'h \<Rightarrow> 'h" where
  "W5500_write_word b cs block address w h =
     W5500_write b cs block (address + 1) (ucast w) (W5500_write b cs block address (ucast (drop_bit 8 w)) h)"

definition W5500_write_buf :: "'h spi \<Rightarrow> byte \<Rightarrow> byte \<Rightarrow> u16 \<Rightarrow> byte list \<Rightarrow> 'h \<Rightarrow> 'h" where
  "W5500_write_buf b cs block address bytes h =
     (let h = W5500_cs_select b cs h;
          block = block OR W5500_AccessModeWrite;
          h = W5500_spi_write_byte b (ucast (drop_bit 8 (address AND 0xFF00))) h;
          h = W5500_spi_write_byte b (ucast (address AND 0x00FF)) h;
          h = W5500_spi_write_byte b block h;
          h = fold (W5500_spi_write_byte b) bytes h
      in W5500_cs_deselect b cs h)"

definition W5500_setMR :: "'h spi \<Rightarrow> byte \<Rightarrow> byte \<Rightarrow> 'h \<Rightarrow> 'h" where
  "W5500_setMR b cs v h = W5500_write b cs W5500_BlockSelectCReg W5500_MR v h"

definition W5500_getMR :: "'h spi \<Rightarrow> byte \<Rightarrow> 'h \<Rightarrow> byte \<times> 'h" where
  "W5500_getMR b cs h = W5500_read b cs W5500_BlockSelectCReg W5500_MR h"

definition W5500_setSHAR :: "'h spi \<Rightarrow> byte \<Rightarrow> mac \<Rightarrow> 'h \<Rightarrow> 'h" where
  "W5500_setSHAR b cs macaddr h = W5500_write_buf b cs W5500_BlockSelectCReg W5500_SHAR (take 6 macaddr) h"

definition W5500_getSHAR :: "'h spi \<Rightarrow> byte \<Rightarrow> 'h \<Rightarrow> mac \<times> 'h" where
  "W5500_getSHAR b cs h = W5500_read_buf b cs W5500_BlockSelectCReg W5500_SHAR 6 h"

definition W5500_setIR :: "'h spi \<Rightarrow> byte \<Rightarrow> byte \<Rightarrow> 'h \<Rightarrow> 'h" where
  "W5500_setIR b cs v h = W5500_write b cs W5500_BlockSelectCReg W5500_IR (v AND 0xF0) h"

definition W5500_getIR :: "'h spi \<Rightarrow> byte \<Rightarrow> 'h \<Rightarrow> byte \<times> 'h" where
  "W5500_getIR b cs h = map_prod (\<lambda>v. v AND 0xF0) (\<lambda>h. h) (W5500_read b cs W5500_BlockSelectCReg W5500_IR h)"

definition W5500_setIMR :: "'h spi \<Rightarrow> byte \<Rightarrow> byte \<Rightarrow> 'h \<Rightarrow> 'h" where
  "W5500_setIMR b cs v h = W5500_write b cs W5500_BlockSelectCReg W5500_IMR v h"

definition W5500_getIMR :: "'h spi \<Rightarrow> byte \<Rightarrow> 'h \<Rightarrow> byte \<times> 'h" where
  "W5500_getIMR b cs h = W5500_read b cs W5500_BlockSelectCReg W5500_IMR h"

definition W5500_setPHYCFGR :: "'h spi \<Rightarrow> byte \<Rightarrow> byte \<Rightarrow> 'h \<Rightarrow> 'h" where
  "W5500_setPHYCFGR b cs v h = W5500_write b cs W5500_BlockSelectCReg W5500_PHYCFGR v h"

definition W5500_getPHYCFGR :: "'h spi \<Rightarrow> byte \<Rightarrow> 'h \<Rightarrow> byte \<times> 'h" where
  "W5500_getPHYCFGR b cs h = W5500_read b cs W5500_BlockSelectCReg W5500_PHYCFGR h"

definition W5500_getVERSIONR :: "'h spi \<Rightarrow> byte \<Rightarrow> 'h \<Rightarrow> byte \<times> 'h" where
  "W5500_getVERSIONR b cs h = W5500_read b cs W5500_BlockSelectCReg W5500_VERSIONR h"

definition W5500_setSn_MR :: "'h spi \<Rightarrow> byte \<Rightarrow> byte \<Rightarrow> 'h \<Rightarrow> 'h" where
  "W5500_setSn_MR b cs v h = W5500_write b cs W5500_BlockSelectSReg W5500_Sn_MR v h"

definition W5500_getSn_MR :: "'h spi \<Rightarrow> byte \<Rightarrow> 'h \<Rightarrow> byte \<times> 'h" where
  "W5500_getSn_MR b cs h = W5500_read b cs W5500_BlockSelectSReg W5500_Sn_MR h"

definition W5500_getSn_CR :: "'h spi \<Rightarrow> byte \<Rightarrow> 'h \<Rightarrow> byte \<times> 'h" where
  "W5500_getSn_CR b cs h = W5500_read b cs W5500_BlockSelectSReg W5500_Sn_CR h"

definition W5500_setSn_IR :: "'h spi \<Rightarrow> byte \<Rightarrow> byte \<Rightarrow> 'h \<Rightarrow> 'h" where
  "W5500_setSn_IR b cs v h = W5500_write b cs W5500_BlockSelectSReg W5500_Sn_IR (v AND 0x1F) h"

definition W5500_getSn_IR :: "'h spi \<Rightarrow> byte \<Rightarrow> 'h \<Rightarrow> byte \<times> 'h" where
  "W5500_getSn_IR b cs h = map_prod (\<lambda>v. v AND 0x1F) (\<lambda>h. h) (W5500_read b cs W5500_BlockSelectSReg W5500_Sn_IR h)"

definition W5500_setSn_IMR :: "'h spi \<Rightarrow> byte \<Rightarrow> byte \<Rightarrow> 'h \<Rightarrow> 'h" where
  "W5500_setSn_IMR b cs v h = W5500_write b cs W5500_BlockSelectSReg W5500_Sn_IMR (v AND 0x1F) h"

definition W5500_getSn_IMR :: "'h spi \<Rightarrow> byte \<Rightarrow> 'h \<Rightarrow> byte \<times> 'h" where
  "W5500_getSn_IMR b cs h = map_prod (\<lambda>v. v AND 0x1F) (\<lambda>h. h) (W5500_read b cs W5500_BlockSelectSReg W5500_Sn_IMR h)"

definition W5500_getSn_SR :: "'h spi \<Rightarrow> byte \<Rightarrow> 'h \<Rightarrow> byte \<times> 'h" where
  "W5500_getSn_SR b cs h = W5500_read b cs W5500_BlockSelectSReg W5500_Sn_SR h"

definition W5500_setSn_RXBUF_SIZE :: "'h spi \<Rightarrow> byte \<Rightarrow> byte \<Rightarrow> 'h \<Rightarrow> 'h" where
  "W5500_setSn_RXBUF_SIZE b cs v h = W5500_write b cs W5500_BlockSelectSReg W5500_Sn_RXBUF_SIZE v h"

definition W5500_getSn_RXBUF_SIZE :: "'h spi \<Rightarrow> byte \<Rightarrow> 'h \<Rightarrow> byte \<times> 'h" where
  "W5500_getSn_RXBUF_SIZE b cs h = W5500_read b cs W5500_BlockSelectSReg W5500_Sn_RXBUF_SIZE h"

definition W5500_setSn_TXBUF_SIZE :: "'h spi \<Rightarrow> byte \<Rightarrow> byte \<Rightarrow> 'h \<Rightarrow> 'h" where
  "W5500_setSn_TXBUF_SIZE b cs v h = W5500_write b cs W5500_BlockSelectSReg W5500_Sn_TXBUF_SIZE v h"

definition W5500_getSn_TXBUF_SIZE :: "'h spi \<Rightarrow> byte \<Rightarrow> 'h \<Rightarrow> byte \<times> 'h" where
  "W5500_getSn_TXBUF_SIZE b cs h = W5500_read b cs W5500_BlockSelectSReg W5500_Sn_TXBUF_SIZE h"

definition W5500_getSn_TX_RD :: "'h spi \<Rightarrow> byte \<Rightarrow> 'h \<Rightarrow> u16 \<times> 'h" where
  "W5500_getSn_TX_RD b cs h = W5500_read_word b cs W5500_BlockSelectSReg W5500_Sn_TX_RD h"

definition W5500_setSn_TX_WR :: "'h spi \<Rightarrow> byte \<Rightarrow> u16 \<Rightarrow> 'h \<Rightarrow> 'h" where
  "W5500_setSn_TX_WR b cs v h = W5500_write_word b cs W5500_BlockSelectSReg W5500_Sn_TX_WR v h"

definition W5500_getSn_TX_WR :: "'h spi \<Rightarrow> byte \<Rightarrow> 'h \<Rightarrow> u16 \<times> 'h" where
  "W5500_getSn_TX_WR b cs h = W5500_read_word b cs W5500_BlockSelectSReg W5500_Sn_TX_WR h"

definition W5500_setSn_RX_RD :: "'h spi \<Rightarrow> byte \<Rightarrow> u16 \<Rightarrow> 'h \<Rightarrow> 'h" where
  "W5500_setSn_RX_RD b cs v h = W5500_write_word b cs W5500_BlockSelectSReg W5500_Sn_RX_RD v h"

definition W5500_getSn_RX_RD :: "'h spi \<Rightarrow> byte \<Rightarrow> 'h \<Rightarrow> u16 \<times> 'h" where
  "W5500_getSn_RX_RD b cs h = W5500_read_word b cs W5500_BlockSelectSReg W5500_Sn_RX_RD h"

definition W5500_getSn_RX_WR :: "'h spi \<Rightarrow> byte \<Rightarrow> 'h \<Rightarrow> u16 \<times> 'h" where
  "W5500_getSn_RX_WR b cs h = W5500_read_word b cs W5500_BlockSelectSReg W5500_Sn_RX_WR h"

section \<open>Waiting for the chip\<close>

partial_function (option) W5500_waitCommand :: "'h spi \<Rightarrow> byte \<Rightarrow> 'h \<Rightarrow> 'h option" where
  "W5500_waitCommand b cs h =
     (let r = W5500_read b cs W5500_BlockSelectSReg W5500_Sn_CR h
      in if fst r \<noteq> 0 then W5500_waitCommand b cs (snd r) else Some (snd r))"

definition W5500_setSn_CR :: "'h spi \<Rightarrow> byte \<Rightarrow> byte \<Rightarrow> 'h \<Rightarrow> 'h option" where
  "W5500_setSn_CR b cs cr h = W5500_waitCommand b cs (W5500_write b cs W5500_BlockSelectSReg W5500_Sn_CR cr h)"

text \<open>
  The size registers are read until two readings agree; \<open>val\<close> keeps its value when a reading is 0.
\<close>

partial_function (option) W5500_readTwice :: "'h spi \<Rightarrow> byte \<Rightarrow> u16 \<Rightarrow> u16 \<Rightarrow> 'h \<Rightarrow> (u16 \<times> 'h) option" where
  "W5500_readTwice b cs address val h =
     (let r1 = W5500_read_word b cs W5500_BlockSelectSReg address h;
          r = (if fst r1 \<noteq> 0 then W5500_read_word b cs W5500_BlockSelectSReg address (snd r1) else (val, snd r1))
      in if fst r \<noteq> fst r1 then W5500_readTwice b cs address (fst r) (snd r) else Some r)"

definition W5500_getSn_TX_FSR :: "'h spi \<Rightarrow> byte \<Rightarrow> 'h \<Rightarrow> (u16 \<times> 'h) option" where
  "W5500_getSn_TX_FSR b cs h = W5500_readTwice b cs W5500_Sn_TX_FSR 0 h"

definition W5500_getSn_RX_RSR :: "'h spi \<Rightarrow> byte \<Rightarrow> 'h \<Rightarrow> (u16 \<times> 'h) option" where
  "W5500_getSn_RX_RSR b cs h = W5500_readTwice b cs W5500_Sn_RX_RSR 0 h"

section \<open>The data blocks\<close>

definition W5500_send_data :: "'h spi \<Rightarrow> byte \<Rightarrow> byte list \<Rightarrow> 'h \<Rightarrow> 'h" where
  "W5500_send_data b cs wizdata h =
     (if wizdata = [] then h
      else
        let (ptr, h) = W5500_getSn_TX_WR b cs h;
            h = W5500_write_buf b cs W5500_BlockSelectTxBuf ptr wizdata h
        in W5500_setSn_TX_WR b cs (ptr + word_of_nat (length wizdata)) h)"

definition W5500_recv_data :: "'h spi \<Rightarrow> byte \<Rightarrow> u16 \<Rightarrow> 'h \<Rightarrow> byte list \<times> 'h" where
  "W5500_recv_data b cs len h =
     (if len = 0 then ([], h)
      else
        let (ptr, h) = W5500_getSn_RX_RD b cs h;
            (wizdata, h) = W5500_read_buf b cs W5500_BlockSelectRxBuf ptr (unat len) h
        in (wizdata, W5500_setSn_RX_RD b cs (ptr + len) h))"

definition W5500_recv_ignore :: "'h spi \<Rightarrow> byte \<Rightarrow> u16 \<Rightarrow> 'h \<Rightarrow> 'h" where
  "W5500_recv_ignore b cs len h =
     (let (ptr, h) = W5500_getSn_RX_RD b cs h in W5500_setSn_RX_RD b cs (ptr + len) h)"

section \<open>The link\<close>

definition W5500_getphylink :: "'h spi \<Rightarrow> byte \<Rightarrow> 'h \<Rightarrow> byte \<times> 'h" where
  "W5500_getphylink b cs h =
     (let (cfg, h) = W5500_getPHYCFGR b cs h
      in (if cfg AND W5500_PHYCFGR_LNK_ON \<noteq> 0 then W5500_PHY_LINK_ON else W5500_PHY_LINK_OFF, h))"

definition W5500_getphypmode :: "'h spi \<Rightarrow> byte \<Rightarrow> 'h \<Rightarrow> byte \<times> 'h" where
  "W5500_getphypmode b cs h =
     (let (cfg, h) = W5500_getPHYCFGR b cs h
      in (if cfg AND W5500_PHYCFGR_OPMDC_PDOWN \<noteq> 0 then W5500_PHY_POWER_DOWN else W5500_PHY_POWER_NORM, h))"

definition W5500_phy_reset :: "'h spi \<Rightarrow> byte \<Rightarrow> 'h \<Rightarrow> 'h" where
  "W5500_phy_reset b cs h =
     (let (tmp, h) = W5500_getPHYCFGR b cs h;
          h = W5500_setPHYCFGR b cs (tmp AND W5500_PHYCFGR_RST) h;
          (tmp, h) = W5500_getPHYCFGR b cs h
      in W5500_setPHYCFGR b cs (tmp OR NOT W5500_PHYCFGR_RST) h)"

definition W5500_setphypmode :: "'h spi \<Rightarrow> byte \<Rightarrow> byte \<Rightarrow> 'h \<Rightarrow> byte \<times> 'h" where
  "W5500_setphypmode b cs pmode h =
     (let (tmp, h) = W5500_getPHYCFGR b cs h in
      if tmp AND W5500_PHYCFGR_OPMD = 0 then (-1, h)
      else
        let tmp = tmp AND NOT W5500_PHYCFGR_OPMDC_ALLA;
            tmp = (if pmode = W5500_PHY_POWER_DOWN then tmp OR W5500_PHYCFGR_OPMDC_PDOWN
                   else tmp OR W5500_PHYCFGR_OPMDC_ALLA);
            h = W5500_setPHYCFGR b cs tmp h;
            h = W5500_phy_reset b cs h;
            (tmp, h) = W5500_getPHYCFGR b cs h
        in if pmode = W5500_PHY_POWER_DOWN
           then (if tmp AND W5500_PHYCFGR_OPMDC_PDOWN \<noteq> 0 then 0 else -1, h)
           else (if tmp AND W5500_PHYCFGR_OPMDC_ALLA \<noteq> 0 then 0 else -1, h))"

section \<open>The driver\<close>

text \<open>\<open>mac_address\<close> is the member \<open>_mac_address\<close>, which nothing in the class sets.\<close>

definition W5500_sw_reset :: "'h spi \<Rightarrow> byte \<Rightarrow> mac \<Rightarrow> 'h \<Rightarrow> 'h" where
  "W5500_sw_reset b cs mac_address h =
     (let h = W5500_setMR b cs W5500_MR_RST h; (_, h) = W5500_getMR b cs h in W5500_setSHAR b cs mac_address h)"

definition EtherSia_W5500_readFrame :: "'h spi \<Rightarrow> byte \<Rightarrow> nat \<Rightarrow> 'h \<Rightarrow> (byte list \<times> 'h) option" where
  "EtherSia_W5500_readFrame b cs bufsize h = do {
     (len, h) \<leftarrow> W5500_getSn_RX_RSR b cs h;
     if len > 0 then do {
       let (head, h) = W5500_recv_data b cs 2 h;
       h \<leftarrow> W5500_setSn_CR b cs W5500_Sn_CR_RECV h;
       let data_len = push_bit 8 (ucast (head ! 0)) + ucast (head ! 1) - (2 :: u16);
       if unat data_len > bufsize then do {
         h \<leftarrow> W5500_setSn_CR b cs W5500_Sn_CR_RECV (W5500_recv_ignore b cs data_len h);
         Some ([], h)
       }
       else do {
         let (buf, h) = W5500_recv_data b cs data_len h;
         h \<leftarrow> W5500_setSn_CR b cs W5500_Sn_CR_RECV h;
         Some (buf, h)
       }
     }
     else Some ([], h)
   }"

text \<open>Waiting for space: \<open>Some (False, _)\<close> when the socket is closed meanwhile.\<close>

partial_function (option) W5500_waitSpace :: "'h spi \<Rightarrow> byte \<Rightarrow> u16 \<Rightarrow> 'h \<Rightarrow> (bool \<times> 'h) option" where
  "W5500_waitSpace b cs len h = do {
     r \<leftarrow> W5500_getSn_TX_FSR b cs h;
     (let q = W5500_getSn_SR b cs (snd r) in
      if fst q = W5500_SOCK_CLOSED then Some (False, snd q)
      else if len \<le> fst r then Some (True, snd q)
      else W5500_waitSpace b cs len (snd q))
   }"

partial_function (option) W5500_waitSent :: "'h spi \<Rightarrow> byte \<Rightarrow> 'h \<Rightarrow> (bool \<times> 'h) option" where
  "W5500_waitSent b cs h =
     (let r = W5500_getSn_IR b cs h in
      if fst r AND W5500_Sn_IR_SENDOK \<noteq> 0 then Some (True, W5500_setSn_IR b cs W5500_Sn_IR_SENDOK (snd r))
      else if fst r AND W5500_Sn_IR_TIMEOUT \<noteq> 0 then Some (False, W5500_setSn_IR b cs W5500_Sn_IR_TIMEOUT (snd r))
      else W5500_waitSent b cs (snd r))"

definition EtherSia_W5500_sendFrame :: "'h spi \<Rightarrow> byte \<Rightarrow> byte list \<Rightarrow> 'h \<Rightarrow> (u16 \<times> 'h) option" where
  "EtherSia_W5500_sendFrame b cs buf h =
     (let len = word_of_nat (length buf) in do {
        (space, h) \<leftarrow> W5500_waitSpace b cs len h;
        if \<not> space then Some (-1, h)
        else do {
          h \<leftarrow> W5500_setSn_CR b cs W5500_Sn_CR_SEND (W5500_send_data b cs buf h);
          (ok, h) \<leftarrow> W5500_waitSent b cs h;
          Some (if ok then len else -1, h)
        }
      })"

partial_function (option) W5500_waitClosed :: "'h spi \<Rightarrow> byte \<Rightarrow> 'h \<Rightarrow> 'h option" where
  "W5500_waitClosed b cs h =
     (let r = W5500_getSn_SR b cs h
      in if fst r \<noteq> W5500_SOCK_CLOSED then W5500_waitClosed b cs (snd r) else Some (snd r))"

definition EtherSia_W5500_end :: "'h spi \<Rightarrow> byte \<Rightarrow> 'h \<Rightarrow> 'h option" where
  "EtherSia_W5500_end b cs h = do {
     h \<leftarrow> W5500_setSn_CR b cs W5500_Sn_CR_CLOSE h;
     W5500_waitClosed b cs (W5500_setSn_IR b cs 0xFF h)
   }"

text \<open>The platform of an interface on this chip, given the functions \<open>core\<close> of the Arduino core.\<close>

definition W5500_platform :: "'h spi \<Rightarrow> byte \<Rightarrow> 'h platform \<Rightarrow> 'h platform" where
  "W5500_platform b cs core = core\<lparr>readFrame := EtherSia_W5500_readFrame b cs,
     sendFrame := (\<lambda>f h. map_option snd (EtherSia_W5500_sendFrame b cs f h))\<rparr>"

definition EtherSia_W5500_begin ::
    "'h spi \<Rightarrow> byte \<Rightarrow> mac \<Rightarrow> 'h platform \<Rightarrow> mac \<Rightarrow> 'h ether \<Rightarrow> (bool \<times> 'h ether) option" where
  "EtherSia_W5500_begin b cs mac_address core address s =
     (let s = s\<lparr>localMac := address\<rparr>;
          h = spi_pinMode b cs True (dev s);
          h = W5500_cs_deselect b cs h;
          h = spi_begin b h;
          h = spi_setClockDivider b SPI_CLOCK_DIV4 h;
          h = spi_setBitOrder b MSBFIRST h;
          h = spi_setDataMode b SPI_MODE0 h;
          h = W5500_sw_reset b cs mac_address h;
          h = W5500_setSn_RXBUF_SIZE b cs 16 h;
          h = W5500_setSn_TXBUF_SIZE b cs 16 h;
          h = W5500_setSHAR b cs mac_address h;
          h = W5500_setSn_MR b cs W5500_Sn_MR_MACRAW h
      in do {
        h \<leftarrow> W5500_setSn_CR b cs W5500_Sn_CR_OPEN h;
        let (sr, h) = W5500_getSn_SR b cs h;
        if sr \<noteq> W5500_SOCK_MACRAW then Some (False, s\<lparr>dev := h\<rparr>)
        else EtherSia_begin (W5500_platform b cs core) (s\<lparr>dev := h\<rparr>)
      })"


section \<open>The contract\<close>

text \<open>The data phase of a transaction, in terms of \<open>spi_transfers\<close>.\<close>

lemma W5500_read_bytes_transfers: "W5500_read_bytes b n h = spi_transfers b (replicate n 0) h"
  by (induction n arbitrary: h) (auto simp: W5500_spi_read_byte_def Let_def split_def)

lemma W5500_fold_transfers: "fold (W5500_spi_write_byte b) bytes h = snd (spi_transfers b bytes h)"
  by (induction bytes arbitrary: h) (auto simp: W5500_spi_write_byte_def Let_def split_def)

lemma length_spi_transfers: "length (fst (spi_transfers b vs h)) = length vs"
  by (induction vs arbitrary: h) (auto simp: Let_def split_def)

lemma length_W5500_recv_data: "length (fst (W5500_recv_data b cs len h)) = unat len"
  by (simp add: W5500_recv_data_def W5500_read_buf_def W5500_read_bytes_transfers Let_def split_def
      length_spi_transfers)

lemma W5500_readFrame_bounded:
  "EtherSia_W5500_readFrame b cs bufsize h = Some (frame, h') \<Longrightarrow> length frame \<le> bufsize"
  by (auto simp: EtherSia_W5500_readFrame_def Let_def split_def bind_eq_Some_conv length_W5500_recv_data
      split: if_splits)

interpretation w5500_drv: ethernet_driver "EtherSia_W5500_readFrame b cs"
  by unfold_locales (rule W5500_readFrame_bounded)

section \<open>The driver on a chip\<close>

text \<open>
  The documented behaviour of the chip through \<open>view\<close>, the contents of its blocks: a transaction is two
  bytes of address, a control byte and any number of data bytes, read from or written to consecutive
  addresses. The transmit buffer repeats itself every 16 KiB. A command is executed and the command
  register reads as 0 again; ones written to the interrupt register clear its bits.
\<close>

type_synonym blocks = "byte \<Rightarrow> u16 \<Rightarrow> byte"

definition chip_put :: "(byte \<Rightarrow> blocks \<Rightarrow> blocks) \<Rightarrow> byte \<Rightarrow> u16 \<Rightarrow> byte \<Rightarrow> blocks \<Rightarrow> blocks" where
  "chip_put cmd blk a v m =
     (if blk = W5500_BlockSelectSReg \<and> a = W5500_Sn_CR
        then (cmd v m)(W5500_BlockSelectSReg := (cmd v m W5500_BlockSelectSReg)(W5500_Sn_CR := 0))
      else if blk = W5500_BlockSelectSReg \<and> a = W5500_Sn_IR
        then m(blk := (m blk)(a := m blk a AND NOT v))
      else if blk = W5500_BlockSelectTxBuf
        then m(blk := (\<lambda>x. if take_bit 14 x = take_bit 14 a then v else m blk x))
      else m(blk := (m blk)(a := v)))"

fun chip_puts :: "(byte \<Rightarrow> blocks \<Rightarrow> blocks) \<Rightarrow> byte \<Rightarrow> u16 \<Rightarrow> byte list \<Rightarrow> blocks \<Rightarrow> blocks" where
  "chip_puts cmd blk a [] m = m"
| "chip_puts cmd blk a (v # vs) m = chip_puts cmd blk (a + 1) vs (chip_put cmd blk a v m)"

definition chip_blocks :: "byte set" where
  "chip_blocks = {W5500_BlockSelectCReg, W5500_BlockSelectSReg, W5500_BlockSelectTxBuf, W5500_BlockSelectRxBuf}"

definition W5500_chip :: "'h spi \<Rightarrow> byte \<Rightarrow> ('h \<Rightarrow> blocks) \<Rightarrow> (byte \<Rightarrow> blocks \<Rightarrow> blocks) \<Rightarrow> bool" where
  "W5500_chip b cs view cmd \<longleftrightarrow>
     (\<forall>h a n. \<forall>blk\<in>chip_blocks. let (r, h') =
          spi_exchange b cs ([ucast (drop_bit 8 a), ucast a, blk OR W5500_AccessModeRead] @ replicate n 0) h
        in drop 3 r = map (\<lambda>i. view h blk (a + word_of_nat i)) [0..<n] \<and> view h' = view h)
   \<and> (\<forall>h a vs. \<forall>blk\<in>chip_blocks. let (r, h') =
          spi_exchange b cs ([ucast (drop_bit 8 a), ucast a, blk OR W5500_AccessModeWrite] @ vs) h
        in view h' = chip_puts cmd blk a vs (view h))"

lemma w5500_address_bytes:
  "ucast (drop_bit 8 (a AND 0xFF00)) = (ucast (drop_bit 8 (a :: u16)) :: byte)" "ucast (a AND 0x00FF) = (ucast a :: byte)"
  by (rule bit_word_eqI; auto simp: bit_simps mask_bits dest: bit_imp_le_length)+

lemma chip_read_bytes:
  assumes "W5500_chip b cs view cmd" "blk \<in> chip_blocks"
  shows "fst (W5500_read_buf b cs blk a n h) = map (\<lambda>i. view h blk (a + word_of_nat i)) [0..<n]"
    "view (snd (W5500_read_buf b cs blk a n h)) = view h"
proof -
  have "let (r, h') = spi_exchange b cs ([ucast (drop_bit 8 a), ucast a, blk OR W5500_AccessModeRead] @ replicate n 0) h
      in drop 3 r = map (\<lambda>i. view h blk (a + word_of_nat i)) [0..<n] \<and> view h' = view h"
    using assms unfolding W5500_chip_def by blast
  then show "fst (W5500_read_buf b cs blk a n h) = map (\<lambda>i. view h blk (a + word_of_nat i)) [0..<n]"
    "view (snd (W5500_read_buf b cs blk a n h)) = view h"
    by (simp_all add: spi_exchange_def W5500_read_buf_def W5500_read_bytes_transfers W5500_cs_select_def
        W5500_cs_deselect_def W5500_spi_write_byte_def w5500_address_bytes Let_def split_def)
qed

lemma W5500_read_buf_1: "W5500_read_buf b cs blk a 1 h = map_prod (\<lambda>v. [v]) (\<lambda>h. h) (W5500_read b cs blk a h)"
  by (simp add: W5500_read_buf_def W5500_read_def Let_def split_def)

lemma chip_read_byte:
  assumes "W5500_chip b cs view cmd" "blk \<in> chip_blocks"
  shows "fst (W5500_read b cs blk a h) = view h blk a" "view (snd (W5500_read b cs blk a h)) = view h"
  using chip_read_bytes [OF assms, of a 1 h] by (simp_all add: W5500_read_buf_1 [simplified])

lemma chip_write_bytes:
  assumes "W5500_chip b cs view cmd" "blk \<in> chip_blocks"
  shows "view (W5500_write_buf b cs blk a vs h) = chip_puts cmd blk a vs (view h)"
proof -
  have "let (r, h') = spi_exchange b cs ([ucast (drop_bit 8 a), ucast a, blk OR W5500_AccessModeWrite] @ vs) h
      in view h' = chip_puts cmd blk a vs (view h)"
    using assms unfolding W5500_chip_def by blast
  then show ?thesis
    by (simp add: spi_exchange_def W5500_write_buf_def W5500_fold_transfers W5500_cs_select_def
        W5500_cs_deselect_def W5500_spi_write_byte_def w5500_address_bytes Let_def split_def)
qed

lemma W5500_write_buf_1: "W5500_write b cs blk a v h = W5500_write_buf b cs blk a [v] h"
  by (simp add: W5500_write_buf_def W5500_write_def Let_def)

lemma chip_write_byte:
  assumes "W5500_chip b cs view cmd" "blk \<in> chip_blocks"
  shows "view (W5500_write b cs blk a v h) = chip_put cmd blk a v (view h)"
  by (simp add: W5500_write_buf_1 chip_write_bytes [OF assms])

section \<open>Sending\<close>

definition tx_free :: "blocks \<Rightarrow> u16" where
  "tx_free m = be16 (m W5500_BlockSelectSReg W5500_Sn_TX_FSR) (m W5500_BlockSelectSReg (W5500_Sn_TX_FSR + 1))"

definition tx_pointer :: "blocks \<Rightarrow> u16" where
  "tx_pointer m = be16 (m W5500_BlockSelectSReg W5500_Sn_TX_WR) (m W5500_BlockSelectSReg (W5500_Sn_TX_WR + 1))"

definition tx_bytes :: "blocks \<Rightarrow> u16 \<Rightarrow> nat \<Rightarrow> byte list" where
  "tx_bytes m ptr n = map (\<lambda>i. m W5500_BlockSelectTxBuf (ptr + word_of_nat i)) [0..<n]"

lemma blocks [simp]: "0x00 \<in> chip_blocks" "0x08 \<in> chip_blocks" "0x10 \<in> chip_blocks" "0x18 \<in> chip_blocks"
  by (simp_all add: chip_blocks_def)

lemma chip_puts_tx_other: "blk \<noteq> 0x10 \<Longrightarrow> chip_puts cmd 0x10 a vs m blk = m blk"
  by (induction vs arbitrary: a m) (auto simp: chip_put_def)

lemma chip_puts_tx_out:
  "(\<And>j. j < length vs \<Longrightarrow> take_bit 14 x \<noteq> take_bit 14 (a + word_of_nat j)) \<Longrightarrow> chip_puts cmd 0x10 a vs m 0x10 x = m 0x10 x"
proof (induction vs arbitrary: a m)
  case (Cons v vs)
  have "take_bit 14 x \<noteq> take_bit 14 a" using Cons.prems [of 0] by simp
  moreover have "take_bit 14 x \<noteq> take_bit 14 (a + 1 + word_of_nat j)" if "j < length vs" for j
    using Cons.prems [of "Suc j"] that by (simp add: add.assoc)
  ultimately show ?case using Cons.IH by (simp add: chip_put_def)
qed simp

lemma ring_positions_differ:
  assumes "0 < j" "j < 16384"
  shows "take_bit 14 (a :: u16) \<noteq> take_bit 14 (a + word_of_nat j)"
proof
  assume eq: "take_bit 14 a = take_bit 14 (a + word_of_nat j)"
  let ?r = "unat (take_bit 14 a)"
  have r: "?r < 16384" using take_bit_nat_less_exp [of 14 "unat a"] by (simp only: unsigned_take_bit_eq) simp
  have "unat (word_of_nat j :: u16) = j" using assms(2) by (simp add: unsigned_of_nat take_bit_eq_mod)
  then have "?r = (?r + j) mod 16384" using unat_take_bit_add [of 14 a "word_of_nat j"] eq by simp
  then show False
    using r assms mod_less [of "?r + j - 16384" 16384] le_mod_geq [of 16384 "?r + j"]
    by (cases "?r + j < 16384") auto
qed

lemma chip_puts_tx: "length vs \<le> 16384 \<Longrightarrow> tx_bytes (chip_puts cmd 0x10 a vs m) a (length vs) = vs"
proof (induction vs arbitrary: a m)
  case (Cons v vs)
  have "chip_puts cmd 0x10 (a + 1) vs (chip_put cmd 0x10 a v m) 0x10 a = v"
  proof (subst chip_puts_tx_out)
    show "take_bit 14 a \<noteq> take_bit 14 (a + 1 + word_of_nat j)" if "j < length vs" for j
      using ring_positions_differ [of "Suc j" a] that Cons.prems by (simp add: add.assoc)
  qed (simp add: chip_put_def)
  moreover have "tx_bytes m' a (Suc n) = m' 0x10 a # tx_bytes m' (a + 1) n" for m' n
    by (simp add: tx_bytes_def upt_conv_Cons map_Suc_upt [symmetric] add.assoc del: upt_Suc)
  ultimately show ?case using Cons by simp
qed (simp add: tx_bytes_def)

lemma chip_word:
  assumes "W5500_chip b cs view cmd"
  shows "fst (W5500_read_word b cs 0x08 a h) = be16 (view h 0x08 a) (view h 0x08 (a + 1))"
    "view (snd (W5500_read_word b cs 0x08 a h)) = view h"
  using chip_read_byte [OF assms, of "0x08"]
  by (simp_all add: W5500_read_word_def Let_def split_def bytesToWord_be16 [unfolded bytesToWord_def])

lemma chip_size_register:
  assumes "W5500_chip b cs view cmd"
  shows "\<exists>h'. W5500_readTwice b cs a 0 h = Some (be16 (view h 0x08 a) (view h 0x08 (a + 1)), h') \<and> view h' = view h"
  using chip_word [OF assms, of a h] chip_word [OF assms, of a "snd (W5500_read_word b cs 0x08 a h)"]
  by (subst W5500_readTwice.simps) (auto simp: Let_def prod_eq_iff)

lemma chip_cmd:
  assumes "W5500_chip b cs view cmd"
  shows "\<exists>h'. W5500_setSn_CR b cs c h = Some h' \<and> view h' = (cmd c (view h))(0x08 := (cmd c (view h) 0x08)(1 := 0))"
proof -
  let ?h = "W5500_write b cs 0x08 1 c h"
  have v: "view ?h = (cmd c (view h))(0x08 := (cmd c (view h) 0x08)(1 := 0))"
    using chip_write_byte [OF assms, of "0x08" 1 c h] by (simp add: chip_put_def)
  with chip_read_byte [OF assms, of "0x08" 1 ?h] show ?thesis
    by (subst W5500_setSn_CR_def, subst W5500_waitCommand.simps) (simp add: Let_def)
qed

lemma chip_send_data:
  fixes h :: 'h
  assumes "W5500_chip b cs view cmd" "length f \<le> 16384"
  defines "ptr \<equiv> tx_pointer (view h)" and "m \<equiv> view (W5500_send_data b cs f h)"
  shows "tx_bytes m ptr (length f) = f" "tx_pointer m = ptr + word_of_nat (length f)"
    "blk \<noteq> 0x10 \<Longrightarrow> \<not> (blk = 0x08 \<and> (a = 0x24 \<or> a = 0x25)) \<Longrightarrow> m blk a = view h blk a"
proof -
  let ?n = "ptr + word_of_nat (length f)" and ?m = "chip_puts cmd 0x10 ptr f (view h)"
  have m: "m = (if f = [] then view h else ?m(0x08 := (view h 0x08)(0x24 := ucast (drop_bit 8 ?n), 0x25 := ucast ?n)))"
    unfolding m_def
    by (simp add: W5500_send_data_def W5500_getSn_TX_WR_def W5500_setSn_TX_WR_def W5500_write_word_def Let_def split_def
        chip_word [OF assms(1)] chip_write_byte [OF assms(1)] chip_write_bytes [OF assms(1)] chip_put_def
        chip_puts_tx_other tx_pointer_def ptr_def)
  show "tx_bytes m ptr (length f) = f"
    using chip_puts_tx [OF assms(2), of cmd ptr "view h"] by (auto simp: m tx_bytes_def)
  show "tx_pointer m = ptr + word_of_nat (length f)"
    by (auto simp: m tx_pointer_def) (simp add: ptr_def tx_pointer_def)
  show "blk \<noteq> 0x10 \<Longrightarrow> \<not> (blk = 0x08 \<and> (a = 0x24 \<or> a = 0x25)) \<Longrightarrow> m blk a = view h blk a"
    by (auto simp: m chip_puts_tx_other)
qed

lemma chip_waitSpace:
  assumes "W5500_chip b cs view cmd" "len \<le> tx_free (view h)"
  shows "\<exists>h'. W5500_waitSpace b cs len h = Some (view h 0x08 0x03 \<noteq> 0, h') \<and> view h' = view h"
proof -
  obtain h1 where "W5500_getSn_TX_FSR b cs h = Some (tx_free (view h), h1)" "view h1 = view h"
    using chip_size_register [OF assms(1), of "0x20" h] by (auto simp: W5500_getSn_TX_FSR_def tx_free_def)
  then show ?thesis
    using assms(2) chip_read_byte [OF assms(1), of "0x08" 3 h1]
    by (subst W5500_waitSpace.simps) (auto simp: W5500_getSn_SR_def Let_def)
qed

lemma chip_waitSent:
  assumes "W5500_chip b cs view cmd" "view h 0x08 2 AND 0x18 \<noteq> 0"
  shows "\<exists>h'. W5500_waitSent b cs h = Some (view h 0x08 2 AND 0x10 \<noteq> 0, h')
    \<and> (\<forall>blk a. \<not> (blk = 0x08 \<and> a = 2) \<longrightarrow> view h' blk a = view h blk a)"
proof -
  let ?ir = "view h 0x08 2"
  have "fst (W5500_getSn_IR b cs h) = ?ir AND 0x1F" "view (snd (W5500_getSn_IR b cs h)) = view h"
    using chip_read_byte [OF assms(1), of "0x08" 2 h] by (simp_all add: W5500_getSn_IR_def)
  moreover have "(?ir AND 0x1F) AND 0x10 = ?ir AND 0x10" "(?ir AND 0x1F) AND 0x08 = ?ir AND 0x08"
    by (simp_all add: and.assoc)
  moreover have "?ir AND 0x08 \<noteq> 0" if "?ir AND 0x10 = 0"
  proof -
    have "?ir AND 0x18 = (?ir AND 0x10) OR (?ir AND 0x08)" by (simp flip: bit.conj_disj_distrib)
    then show ?thesis using that assms(2) by auto
  qed
  ultimately show ?thesis
    using chip_write_byte [OF assms(1), of "0x08" 2]
    by (subst W5500_waitSent.simps) (auto simp: Let_def W5500_setSn_IR_def chip_put_def)
qed

text \<open>
  C15. Sending a frame: with room for it and the socket open, the whole frame is in the chip's transmit
  ring from the old write pointer on, around its end if need be, and the pointer is just behind it when
  the chip gets the command to send; nothing else of its memory was changed. The result is the length
  when the chip reports success and -1 when it reports a timeout. On a closed socket it is -1 and the
  chip's memory is as before. The chip behaves as documented, ending every \<open>SEND\<close> with one of the two.
\<close>

theorem W5500_sendFrame_queues:
  fixes h :: 'h
  assumes "W5500_chip b cs view cmd" "length f \<le> 16384" "word_of_nat (length f) \<le> tx_free (view h)"
    and "\<And>m. cmd W5500_Sn_CR_SEND m W5500_BlockSelectSReg W5500_Sn_IR AND 0x18 \<noteq> 0"
  shows "\<exists>r h'. EtherSia_W5500_sendFrame b cs f h = Some (r, h')
    \<and> (if view h W5500_BlockSelectSReg W5500_Sn_SR = W5500_SOCK_CLOSED then r = -1 \<and> view h' = view h
       else \<exists>m. tx_bytes m (tx_pointer (view h)) (length f) = f
         \<and> tx_pointer m = tx_pointer (view h) + word_of_nat (length f)
         \<and> (\<forall>blk a. blk \<noteq> W5500_BlockSelectTxBuf \<and> \<not> (blk = W5500_BlockSelectSReg \<and> a \<in> {W5500_Sn_TX_WR, W5500_Sn_TX_WR + 1})
              \<longrightarrow> m blk a = view h blk a)
         \<and> r = (if cmd W5500_Sn_CR_SEND m W5500_BlockSelectSReg W5500_Sn_IR AND W5500_Sn_IR_SENDOK \<noteq> 0
                then word_of_nat (length f) else -1)
         \<and> (\<forall>blk a. \<not> (blk = W5500_BlockSelectSReg \<and> a \<in> {W5500_Sn_CR, W5500_Sn_IR})
              \<longrightarrow> view h' blk a = cmd W5500_Sn_CR_SEND m blk a))"
proof -
  obtain h0 where h0: "W5500_waitSpace b cs (word_of_nat (length f)) h = Some (view h 0x08 0x03 \<noteq> 0, h0)" "view h0 = view h"
    using chip_waitSpace [OF assms(1,3)] by blast
  show ?thesis
  proof (cases "view h 0x08 0x03 = 0")
    case True
    then show ?thesis using h0 by (simp add: EtherSia_W5500_sendFrame_def)
  next
    case False
    let ?h = "W5500_send_data b cs f h0"
    note data = chip_send_data [OF assms(1,2), where h = h0, unfolded h0(2)]
    obtain h1 where h1: "W5500_setSn_CR b cs W5500_Sn_CR_SEND ?h = Some h1"
      "view h1 = (cmd 0x20 (view ?h))(0x08 := (cmd 0x20 (view ?h) 0x08)(1 := 0))"
      using chip_cmd [OF assms(1)] by blast
    then have ir: "view h1 0x08 2 = cmd 0x20 (view ?h) 0x08 2" by simp
    then have "view h1 0x08 2 AND 0x18 \<noteq> 0" using assms(4) by simp
    then obtain h2 where h2: "W5500_waitSent b cs h1 = Some (view h1 0x08 2 AND 0x10 \<noteq> 0, h2)"
      "\<forall>blk a. \<not> (blk = 0x08 \<and> a = 2) \<longrightarrow> view h2 blk a = view h1 blk a"
      using chip_waitSent [OF assms(1)] by blast
    have run: "EtherSia_W5500_sendFrame b cs f h
        = Some (if view h1 0x08 2 AND 0x10 \<noteq> 0 then word_of_nat (length f) else -1, h2)"
      using False h0(1) h1(1) h2(1) by (simp add: EtherSia_W5500_sendFrame_def)
    show ?thesis
      using False data(1,2) h2(2) h1(2)
      by (intro exI [of _ "if view h1 0x08 2 AND 0x10 \<noteq> 0 then word_of_nat (length f) else -1"] exI [of _ h2])
        (auto simp: run ir intro!: exI [of _ "view ?h"] dest: data(3))
  qed
qed

section \<open>The power mode\<close>

text \<open>
  The mode is three bits, but \<open>getphypmode\<close> tests for any bit of the code of power down: the usual mode,
  with all bits set, is reported as power down too.
\<close>

lemma getphypmode_misreads:
  assumes "W5500_chip b cs view cmd"
    "view h W5500_BlockSelectCReg W5500_PHYCFGR AND 0x38 = W5500_PHYCFGR_OPMDC_ALLA"
  shows "fst (W5500_getphypmode b cs h) = W5500_PHY_POWER_DOWN"
proof -
  let ?v = "view h 0x00 0x2E"
  have "(?v AND 0x38) AND 0x30 = 0x30" unfolding assms(2) by simp
  then have "?v AND 0x30 \<noteq> 0" by (simp add: and.assoc)
  then show ?thesis
    using chip_read_byte [OF assms(1), of "0x00" "0x2E" h]
    by (simp add: W5500_getphypmode_def W5500_getPHYCFGR_def Let_def split_def)
qed

section \<open>A simulated chip\<close>

text \<open>
  The documented behaviour can be had: a chip that keeps the header of the transaction and the address it
  has come to beside its memory, and sends every frame at once.
\<close>

type_synonym w5500_sim = "byte list \<times> u16 \<times> blocks"

definition sim5500_cmd :: "byte \<Rightarrow> blocks \<Rightarrow> blocks" where
  "sim5500_cmd c m = (if c = W5500_Sn_CR_SEND then m(0x08 := (m 0x08)(W5500_Sn_IR := W5500_Sn_IR_SENDOK)) else m)"

definition sim5500_transfer :: "byte \<Rightarrow> w5500_sim \<Rightarrow> byte \<times> w5500_sim" where
  "sim5500_transfer v c =
     (case c of
        ([high, low, control], a, m) \<Rightarrow>
          if control AND 0x04 = 0 then (m control a, [high, low, control], a + 1, m)
          else (0, [high, low, control], a + 1, chip_put sim5500_cmd (control AND NOT 0x04) a v m)
      | ([high, low], _, m) \<Rightarrow> (0, [high, low, v], be16 high low, m)
      | (hdr, a, m) \<Rightarrow> (0, hdr @ [v], a, m))"

definition sim5500_bus :: "w5500_sim spi" where
  "sim5500_bus = \<lparr>spi_begin = (\<lambda>c. c), spi_setClockDivider = (\<lambda>v c. c), spi_setBitOrder = (\<lambda>v c. c),
     spi_setDataMode = (\<lambda>v c. c), spi_transfer = sim5500_transfer, spi_pinMode = (\<lambda>p out c. c),
     spi_digitalWrite = (\<lambda>p l c. ([], snd c)), spi_delay = (\<lambda>t c. c), spi_delayMicroseconds = (\<lambda>t c. c)\<rparr>"

lemma sim5500_bus_sel [simp]: "spi_transfer sim5500_bus = sim5500_transfer"
  "spi_digitalWrite sim5500_bus p l c = ([], snd c)"
  by (simp_all add: sim5500_bus_def)

lemma sim5500_read:
  "c AND 0x04 = 0 \<Longrightarrow> spi_transfers sim5500_bus (replicate n 0) ([h, l, c], a, m)
     = (map (\<lambda>i. m c (a + word_of_nat i)) [0..<n], [h, l, c], a + word_of_nat n, m)"
proof (induction n arbitrary: a)
  case (Suc n)
  have "map (\<lambda>i. m c (a + word_of_nat i)) [0..<Suc n] = m c a # map (\<lambda>i. m c (a + 1 + word_of_nat i)) [0..<n]"
    by (simp add: upt_conv_Cons map_Suc_upt [symmetric] add.assoc del: upt_Suc)
  with Suc show ?case by (simp add: sim5500_transfer_def del: upt_Suc)
qed simp

lemma sim5500_write:
  "c AND 0x04 \<noteq> 0 \<Longrightarrow> snd (snd (snd (spi_transfers sim5500_bus vs ([h, l, c], a, m))))
     = chip_puts sim5500_cmd (c AND NOT 0x04) a vs m"
  by (induction vs arbitrary: a m) (simp_all add: sim5500_transfer_def Let_def split_def)

lemma sim5500_chip: "W5500_chip sim5500_bus cs (\<lambda>c. snd (snd c)) sim5500_cmd"
proof -
  have hdr: "spi_transfers sim5500_bus ([h, l, c] @ vs) ([], a, m) =
      (let (r, d) = spi_transfers sim5500_bus vs ([h, l, c], be16 h l, m) in ([0, 0, 0] @ r, d))" for h l c vs a m
    by (simp add: sim5500_transfer_def Let_def split_def)
  have bits: "(blk OR 0x00) AND 0x04 = 0" "(blk OR 0x04) AND 0x04 \<noteq> 0" "(blk OR 0x04) AND NOT 0x04 = blk"
    if "blk \<in> chip_blocks" for blk
    using that by (auto simp: chip_blocks_def)
  show ?thesis
    unfolding W5500_chip_def spi_exchange_def
    by (auto simp only: hdr sim5500_bus_sel Let_def split_def fst_conv snd_conv)
      (simp_all add: sim5500_read sim5500_write bits [simplified])
qed

text \<open>A frame of four bytes around the end of the ring.\<close>

definition sim5500_memory :: blocks where
  "sim5500_memory = (\<lambda>blk a. if blk = 0x08 \<and> a = 0x03 then 0x42 else if blk = 0x08 \<and> a = 0x20 then 0x40
     else if blk = 0x08 \<and> a = 0x24 then 0x3F else if blk = 0x08 \<and> a = 0x25 then 0xFE else 0)"

lemma W5500_sendFrame_queues_witness:
  "\<exists>c. EtherSia_W5500_sendFrame sim5500_bus 10 [1, 2, 3, 4] ([], 0, sim5500_memory) = Some (4, c)
     \<and> tx_bytes (snd (snd c)) 0x3FFE 4 = [1, 2, 3, 4] \<and> tx_pointer (snd (snd c)) = 0x4002"
proof -
  let ?f = "[1, 2, 3, 4] :: byte list" and ?c = "([], 0, sim5500_memory) :: w5500_sim"
  have room: "word_of_nat (length ?f) \<le> tx_free sim5500_memory" by code_simp
  have p: "tx_pointer sim5500_memory = 0x3FFE" "sim5500_memory 0x08 0x03 \<noteq> 0" by code_simp+
  have sent: "sim5500_cmd W5500_Sn_CR_SEND m 0x08 W5500_Sn_IR AND 0x18 \<noteq> 0" for m by (simp add: sim5500_cmd_def)
  have "\<exists>r c. EtherSia_W5500_sendFrame sim5500_bus 10 ?f ?c = Some (r, c)
    \<and> (if sim5500_memory 0x08 0x03 = 0 then r = -1 \<and> snd (snd c) = sim5500_memory
       else \<exists>m. tx_bytes m (tx_pointer sim5500_memory) (length ?f) = ?f
         \<and> tx_pointer m = tx_pointer sim5500_memory + word_of_nat (length ?f)
         \<and> (\<forall>blk a. blk \<noteq> 0x10 \<and> \<not> (blk = 0x08 \<and> a \<in> {0x24, 0x24 + 1}) \<longrightarrow> m blk a = sim5500_memory blk a)
         \<and> r = (if sim5500_cmd 0x20 m 0x08 2 AND 0x10 \<noteq> 0 then word_of_nat (length ?f) else -1)
         \<and> (\<forall>blk a. \<not> (blk = 0x08 \<and> a \<in> {1, 2}) \<longrightarrow> snd (snd c) blk a = sim5500_cmd 0x20 m blk a))"
    by (rule W5500_sendFrame_queues [OF sim5500_chip, where h = ?c, unfolded snd_conv]) (use room sent in simp_all)
  then obtain r c m where run: "EtherSia_W5500_sendFrame sim5500_bus 10 ?f ?c = Some (r, c)"
    and m: "tx_bytes m (tx_pointer sim5500_memory) (length ?f) = ?f"
      "tx_pointer m = tx_pointer sim5500_memory + word_of_nat (length ?f)"
    and r: "r = (if sim5500_cmd 0x20 m 0x08 2 AND 0x10 \<noteq> 0 then word_of_nat (length ?f) else -1)"
    and keep: "\<forall>blk a. \<not> (blk = 0x08 \<and> a \<in> {1, 2}) \<longrightarrow> snd (snd c) blk a = sim5500_cmd 0x20 m blk a"
    unfolding if_not_P [OF p(2)] by blast
  have n: "length ?f = 4" by simp
  have c: "EtherSia_W5500_sendFrame sim5500_bus 10 ?f ?c = Some (4, c)"
    "tx_bytes m 0x3FFE 4 = ?f" "tx_pointer m = 0x4002"
    using run m r unfolding n p(1) by (simp_all add: sim5500_cmd_def)
  have "snd (snd c) 0x10 a = m 0x10 a" "snd (snd c) 0x08 0x24 = m 0x08 0x24" "snd (snd c) 0x08 0x25 = m 0x08 0x25" for a
    using keep by (simp_all add: sim5500_cmd_def)
  then have "tx_bytes (snd (snd c)) 0x3FFE 4 = ?f" "tx_pointer (snd (snd c)) = 0x4002"
    using c(2,3) by (simp_all add: tx_bytes_def tx_pointer_def)
  with c(1) show ?thesis by blast
qed

end
