(* ===== verification/ENC28J60.thy ===== *)
theory ENC28J60
  imports Driver
begin

text \<open>
  \<open>src/src/enc28j60.cpp\<close> and \<open>enc28j60.h\<close>: the driver of the ENC28J60 chip. Its registers are in four
  banks, its packet memory is read and written through pointers that the chip advances. The driver's own
  state is the bank it last selected, kept with the hardware's state; the pins are the record \<open>c\<close>. The
  debug output and \<open>readrev\<close>, compiled only with it, are left out.
\<close>

abbreviation (input) ENC_EIE :: byte where "ENC_EIE \<equiv> 0x1b"
abbreviation (input) ENC_EIR :: byte where "ENC_EIR \<equiv> 0x1c"
abbreviation (input) ENC_ESTAT :: byte where "ENC_ESTAT \<equiv> 0x1d"
abbreviation (input) ENC_ECON2 :: byte where "ENC_ECON2 \<equiv> 0x1e"
abbreviation (input) ENC_ECON1 :: byte where "ENC_ECON1 \<equiv> 0x1f"
abbreviation (input) ENC_ESTAT_CLKRDY :: byte where "ENC_ESTAT_CLKRDY \<equiv> 0x01"
abbreviation (input) ENC_ESTAT_TXABRT :: byte where "ENC_ESTAT_TXABRT \<equiv> 0x02"
abbreviation (input) ENC_ECON1_RXEN :: byte where "ENC_ECON1_RXEN \<equiv> 0x04"
abbreviation (input) ENC_ECON1_TXRTS :: byte where "ENC_ECON1_TXRTS \<equiv> 0x08"
abbreviation (input) ENC_ECON2_AUTOINC :: byte where "ENC_ECON2_AUTOINC \<equiv> 0x80"
abbreviation (input) ENC_ECON2_PKTDEC :: byte where "ENC_ECON2_PKTDEC \<equiv> 0x40"
abbreviation (input) ENC_EIR_TXIF :: byte where "ENC_EIR_TXIF \<equiv> 0x08"
abbreviation (input) ENC_ERXTX_BANK :: byte where "ENC_ERXTX_BANK \<equiv> 0x00"
abbreviation (input) ENC_ERDPTL :: byte where "ENC_ERDPTL \<equiv> 0x00"
abbreviation (input) ENC_ERDPTH :: byte where "ENC_ERDPTH \<equiv> 0x01"
abbreviation (input) ENC_EWRPTL :: byte where "ENC_EWRPTL \<equiv> 0x02"
abbreviation (input) ENC_EWRPTH :: byte where "ENC_EWRPTH \<equiv> 0x03"
abbreviation (input) ENC_ETXSTL :: byte where "ENC_ETXSTL \<equiv> 0x04"
abbreviation (input) ENC_ETXSTH :: byte where "ENC_ETXSTH \<equiv> 0x05"
abbreviation (input) ENC_ETXNDL :: byte where "ENC_ETXNDL \<equiv> 0x06"
abbreviation (input) ENC_ETXNDH :: byte where "ENC_ETXNDH \<equiv> 0x07"
abbreviation (input) ENC_ERXSTL :: byte where "ENC_ERXSTL \<equiv> 0x08"
abbreviation (input) ENC_ERXSTH :: byte where "ENC_ERXSTH \<equiv> 0x09"
abbreviation (input) ENC_ERXNDL :: byte where "ENC_ERXNDL \<equiv> 0x0a"
abbreviation (input) ENC_ERXNDH :: byte where "ENC_ERXNDH \<equiv> 0x0b"
abbreviation (input) ENC_ERXRDPTL :: byte where "ENC_ERXRDPTL \<equiv> 0x0c"
abbreviation (input) ENC_ERXRDPTH :: byte where "ENC_ERXRDPTH \<equiv> 0x0d"
abbreviation (input) ENC_RX_BUF_START :: u16 where "ENC_RX_BUF_START \<equiv> 0x0000"
abbreviation (input) ENC_RX_BUF_END :: u16 where "ENC_RX_BUF_END \<equiv> 0x0fff"
abbreviation (input) ENC_TX_BUF_START :: u16 where "ENC_TX_BUF_START \<equiv> 0x1200"
abbreviation (input) ENC_MACONX_BANK :: byte where "ENC_MACONX_BANK \<equiv> 0x02"
abbreviation (input) ENC_MACON1 :: byte where "ENC_MACON1 \<equiv> 0x00"
abbreviation (input) ENC_MACON3 :: byte where "ENC_MACON3 \<equiv> 0x02"
abbreviation (input) ENC_MACON4 :: byte where "ENC_MACON4 \<equiv> 0x03"
abbreviation (input) ENC_MABBIPG :: byte where "ENC_MABBIPG \<equiv> 0x04"
abbreviation (input) ENC_MAIPGL :: byte where "ENC_MAIPGL \<equiv> 0x06"
abbreviation (input) ENC_MAIPGH :: byte where "ENC_MAIPGH \<equiv> 0x07"
abbreviation (input) ENC_MAMXFLL :: byte where "ENC_MAMXFLL \<equiv> 0x0a"
abbreviation (input) ENC_MAMXFLH :: byte where "ENC_MAMXFLH \<equiv> 0x0b"
abbreviation (input) ENC_MACON1_TXPAUS :: byte where "ENC_MACON1_TXPAUS \<equiv> 0x08"
abbreviation (input) ENC_MACON1_RXPAUS :: byte where "ENC_MACON1_RXPAUS \<equiv> 0x04"
abbreviation (input) ENC_MACON1_MARXEN :: byte where "ENC_MACON1_MARXEN \<equiv> 0x01"
abbreviation (input) ENC_MACON3_PADCFG_FULL :: byte where "ENC_MACON3_PADCFG_FULL \<equiv> 0xe0"
abbreviation (input) ENC_MACON3_TXCRCEN :: byte where "ENC_MACON3_TXCRCEN \<equiv> 0x10"
abbreviation (input) ENC_MACON3_FRMLNEN :: byte where "ENC_MACON3_FRMLNEN \<equiv> 0x02"
abbreviation (input) ENC_MACON3_FULDPX :: byte where "ENC_MACON3_FULDPX \<equiv> 0x01"
abbreviation (input) ENC_MAX_MAC_LENGTH :: u16 where "ENC_MAX_MAC_LENGTH \<equiv> 1518"
abbreviation (input) ENC_MAADRX_BANK :: byte where "ENC_MAADRX_BANK \<equiv> 0x03"
abbreviation (input) ENC_MAADR1 :: byte where "ENC_MAADR1 \<equiv> 0x04"
abbreviation (input) ENC_MAADR2 :: byte where "ENC_MAADR2 \<equiv> 0x05"
abbreviation (input) ENC_MAADR3 :: byte where "ENC_MAADR3 \<equiv> 0x02"
abbreviation (input) ENC_MAADR4 :: byte where "ENC_MAADR4 \<equiv> 0x03"
abbreviation (input) ENC_MAADR5 :: byte where "ENC_MAADR5 \<equiv> 0x00"
abbreviation (input) ENC_MAADR6 :: byte where "ENC_MAADR6 \<equiv> 0x01"
abbreviation (input) ENC_MISTAT :: byte where "ENC_MISTAT \<equiv> 0x0a"
abbreviation (input) ENC_EREVID :: byte where "ENC_EREVID \<equiv> 0x12"
abbreviation (input) ENC_EPKTCNT_BANK :: byte where "ENC_EPKTCNT_BANK \<equiv> 0x01"
abbreviation (input) ENC_ERXFCON :: byte where "ENC_ERXFCON \<equiv> 0x18"
abbreviation (input) ENC_EPKTCNT :: byte where "ENC_EPKTCNT \<equiv> 0x19"
abbreviation (input) ENC_ERXFCON_UCEN :: byte where "ENC_ERXFCON_UCEN \<equiv> 0x80"
abbreviation (input) ENC_ERXFCON_ANDOR :: byte where "ENC_ERXFCON_ANDOR \<equiv> 0x40"
abbreviation (input) ENC_ERXFCON_CRCEN :: byte where "ENC_ERXFCON_CRCEN \<equiv> 0x20"
abbreviation (input) ENC_ERXFCON_MCEN :: byte where "ENC_ERXFCON_MCEN \<equiv> 0x02"
abbreviation (input) ENC_ERXFCON_BCEN :: byte where "ENC_ERXFCON_BCEN \<equiv> 0x01"

record enc_pins =
  enc_cs :: byte
  enc_clk :: byte
  enc_mosi :: byte
  enc_miso :: byte

record 'h enc_state =
  enc_bank :: byte
  hw :: 'h

definition EtherSia_ENC28J60_new :: "byte \<Rightarrow> 'h \<Rightarrow> enc_pins \<times> 'h enc_state" where
  "EtherSia_ENC28J60_new cs h =
     (\<lparr>enc_cs = cs, enc_clk = -1, enc_mosi = -1, enc_miso = -1\<rparr>, \<lparr>enc_bank = ENC_ERXTX_BANK, hw = h\<rparr>)"

definition EtherSia_ENC28J60_new_software ::
    "byte \<Rightarrow> byte \<Rightarrow> byte \<Rightarrow> byte \<Rightarrow> 'h \<Rightarrow> enc_pins \<times> 'h enc_state" where
  "EtherSia_ENC28J60_new_software clk miso mosi cs h =
     (\<lparr>enc_cs = cs, enc_clk = clk, enc_mosi = mosi, enc_miso = miso\<rparr>, \<lparr>enc_bank = ENC_ERXTX_BANK, hw = h\<rparr>)"

section \<open>The bus\<close>

definition ENC_spi_init :: "'h spi \<Rightarrow> enc_pins \<Rightarrow> 'h \<Rightarrow> 'h" where
  "ENC_spi_init b c h =
     (let h = spi_pinMode b (enc_cs c) True h;
          h = spi_digitalWrite b (enc_cs c) True h
      in if enc_clk c = -1 then
           let h = spi_begin b h;
               h = spi_setClockDivider b SPI_CLOCK_DIV2 h
           in spi_setDataMode b SPI_MODE0 h
         else
           let h = spi_pinMode b (enc_clk c) True h;
               h = spi_pinMode b (enc_mosi c) True h
           in spi_pinMode b (enc_miso c) False h)"

definition ENC_spi_write :: "'h spi \<Rightarrow> byte \<Rightarrow> 'h \<Rightarrow> byte \<times> 'h" where
  "ENC_spi_write b data h = spi_transfer b data h"

definition ENC_spi_read :: "'h spi \<Rightarrow> 'h \<Rightarrow> byte \<times> 'h" where
  "ENC_spi_read b h = spi_transfer b 0 h"

definition ENC_spi_select :: "'h spi \<Rightarrow> enc_pins \<Rightarrow> 'h \<Rightarrow> 'h" where
  "ENC_spi_select b c h = spi_digitalWrite b (enc_cs c) False h"

definition ENC_spi_deselect :: "'h spi \<Rightarrow> enc_pins \<Rightarrow> 'h \<Rightarrow> 'h" where
  "ENC_spi_deselect b c h = spi_digitalWrite b (enc_cs c) True h"

definition ENC_clock_delay_usec :: "'h spi \<Rightarrow> u16 \<Rightarrow> 'h \<Rightarrow> 'h" where
  "ENC_clock_delay_usec b dt h = spi_delayMicroseconds b (ucast dt) h"

section \<open>Registers\<close>

text \<open>The operations from here on act on the driver state \<open>d\<close>.\<close>

definition ENC_is_mac_mii_reg :: "byte \<Rightarrow> byte \<Rightarrow> bool" where
  "ENC_is_mac_mii_reg bank reg =
     (if bank = ENC_MACONX_BANK then reg < ENC_EIE
      else if bank = ENC_MAADRX_BANK then reg \<le> ENC_MAADR2 \<or> reg = ENC_MISTAT
      else False)"

definition ENC_readreg :: "'h spi \<Rightarrow> enc_pins \<Rightarrow> byte \<Rightarrow> 'h enc_state \<Rightarrow> byte \<times> 'h enc_state" where
  "ENC_readreg b c reg d =
     (let h = ENC_spi_select b c (hw d);
          (_, h) = ENC_spi_write b (0x00 OR (reg AND 0x1F)) h;
          h = (if ENC_is_mac_mii_reg (enc_bank d) reg then snd (ENC_spi_read b h) else h);
          (r, h) = ENC_spi_read b h
      in (r, d\<lparr>hw := ENC_spi_deselect b c h\<rparr>))"

definition ENC_writereg :: "'h spi \<Rightarrow> enc_pins \<Rightarrow> byte \<Rightarrow> byte \<Rightarrow> 'h enc_state \<Rightarrow> 'h enc_state" where
  "ENC_writereg b c reg data d =
     (let h = ENC_spi_select b c (hw d);
          (_, h) = ENC_spi_write b (0x40 OR (reg AND 0x1F)) h;
          (_, h) = ENC_spi_write b data h
      in d\<lparr>hw := ENC_spi_deselect b c h\<rparr>)"

definition ENC_setregbitfield :: "'h spi \<Rightarrow> enc_pins \<Rightarrow> byte \<Rightarrow> byte \<Rightarrow> 'h enc_state \<Rightarrow> 'h enc_state" where
  "ENC_setregbitfield b c reg msk d =
     (if ENC_is_mac_mii_reg (enc_bank d) reg
      then let (r, d) = ENC_readreg b c reg d in ENC_writereg b c reg (r OR msk) d
      else
        let h = ENC_spi_select b c (hw d);
            (_, h) = ENC_spi_write b (0x80 OR (reg AND 0x1F)) h;
            (_, h) = ENC_spi_write b msk h
        in d\<lparr>hw := ENC_spi_deselect b c h\<rparr>)"

definition ENC_clearregbitfield :: "'h spi \<Rightarrow> enc_pins \<Rightarrow> byte \<Rightarrow> byte \<Rightarrow> 'h enc_state \<Rightarrow> 'h enc_state" where
  "ENC_clearregbitfield b c reg msk d =
     (if ENC_is_mac_mii_reg (enc_bank d) reg
      then let (r, d) = ENC_readreg b c reg d in ENC_writereg b c reg (r AND NOT msk) d
      else
        let h = ENC_spi_select b c (hw d);
            (_, h) = ENC_spi_write b (0xA0 OR (reg AND 0x1F)) h;
            (_, h) = ENC_spi_write b msk h
        in d\<lparr>hw := ENC_spi_deselect b c h\<rparr>)"

definition ENC_setregbank :: "'h spi \<Rightarrow> enc_pins \<Rightarrow> byte \<Rightarrow> 'h enc_state \<Rightarrow> 'h enc_state" where
  "ENC_setregbank b c new_bank d =
     (let (r, d) = ENC_readreg b c ENC_ECON1 d;
          d = ENC_writereg b c ENC_ECON1 ((r AND 0xFC) OR (new_bank AND 0x03)) d
      in d\<lparr>enc_bank := new_bank\<rparr>)"

section \<open>Packet memory\<close>

definition ENC_writedata :: "'h spi \<Rightarrow> enc_pins \<Rightarrow> byte list \<Rightarrow> 'h enc_state \<Rightarrow> 'h enc_state" where
  "ENC_writedata b c data d =
     (let h = ENC_spi_select b c (hw d);
          (_, h) = ENC_spi_write b 0x7A h;
          h = fold (\<lambda>v h. snd (ENC_spi_write b v h)) data h
      in d\<lparr>hw := ENC_spi_deselect b c h\<rparr>)"

definition ENC_writedatabyte :: "'h spi \<Rightarrow> enc_pins \<Rightarrow> byte \<Rightarrow> 'h enc_state \<Rightarrow> 'h enc_state" where
  "ENC_writedatabyte b c v d = ENC_writedata b c [v] d"

fun ENC_spi_read_bytes :: "'h spi \<Rightarrow> nat \<Rightarrow> 'h \<Rightarrow> byte list \<times> 'h" where
  "ENC_spi_read_bytes b 0 h = ([], h)"
| "ENC_spi_read_bytes b (Suc len) h =
     (let (v, h) = ENC_spi_read b h; (vs, h) = ENC_spi_read_bytes b len h in (v # vs, h))"

definition ENC_readdata :: "'h spi \<Rightarrow> enc_pins \<Rightarrow> nat \<Rightarrow> 'h enc_state \<Rightarrow> byte list \<times> 'h enc_state" where
  "ENC_readdata b c len d =
     (let h = ENC_spi_select b c (hw d);
          (_, h) = ENC_spi_write b 0x3A h;
          (bytes, h) = ENC_spi_read_bytes b len h
      in (bytes, d\<lparr>hw := ENC_spi_deselect b c h\<rparr>))"

definition ENC_readdatabyte :: "'h spi \<Rightarrow> enc_pins \<Rightarrow> 'h enc_state \<Rightarrow> byte \<times> 'h enc_state" where
  "ENC_readdatabyte b c d = (let (r, d) = ENC_readdata b c 1 d in (hd r, d))"

text \<open>Flushing a packet that does not fit: one transaction for each byte.\<close>

fun ENC_flush :: "'h spi \<Rightarrow> enc_pins \<Rightarrow> nat \<Rightarrow> 'h enc_state \<Rightarrow> 'h enc_state" where
  "ENC_flush b c 0 d = d"
| "ENC_flush b c (Suc len) d = ENC_flush b c len (snd (ENC_readdatabyte b c d))"

section \<open>Initialisation\<close>

definition ENC_softreset :: "'h spi \<Rightarrow> enc_pins \<Rightarrow> 'h enc_state \<Rightarrow> 'h enc_state" where
  "ENC_softreset b c d =
     (let h = ENC_spi_select b c (hw d);
          (_, h) = ENC_spi_write b 0xFF h
      in d\<lparr>hw := ENC_spi_deselect b c h, enc_bank := ENC_ERXTX_BANK\<rparr>)"

partial_function (option) ENC_waitClock :: "'h spi \<Rightarrow> enc_pins \<Rightarrow> 'h enc_state \<Rightarrow> 'h enc_state option" where
  "ENC_waitClock b c d =
     (let r = ENC_readreg b c ENC_ESTAT d
      in if fst r AND ENC_ESTAT_CLKRDY = 0 then ENC_waitClock b c (snd r) else Some (snd r))"

definition ENC_init_receive :: "'h spi \<Rightarrow> enc_pins \<Rightarrow> 'h enc_state \<Rightarrow> 'h enc_state" where
  "ENC_init_receive b c d =
     (let d = ENC_setregbank b c ENC_ERXTX_BANK d;
          d = ENC_writereg b c ENC_ERXSTL (ucast (ENC_RX_BUF_START AND 0xFF)) d;
          d = ENC_writereg b c ENC_ERXSTH (ucast (drop_bit 8 ENC_RX_BUF_START)) d;
          d = ENC_writereg b c ENC_ERXNDL (ucast (ENC_RX_BUF_END AND 0xFF)) d;
          d = ENC_writereg b c ENC_ERXNDH (ucast (drop_bit 8 ENC_RX_BUF_END)) d;
          d = ENC_writereg b c ENC_ERDPTL (ucast (ENC_RX_BUF_START AND 0xFF)) d;
          d = ENC_writereg b c ENC_ERDPTH (ucast (drop_bit 8 ENC_RX_BUF_START)) d;
          d = ENC_writereg b c ENC_ERXRDPTL (ucast (ENC_RX_BUF_END AND 0xFF)) d;
          d = ENC_writereg b c ENC_ERXRDPTH (ucast (drop_bit 8 ENC_RX_BUF_END)) d;
          d = ENC_setregbank b c ENC_EPKTCNT_BANK d
      in ENC_writereg b c ENC_ERXFCON (ENC_ERXFCON_UCEN OR ENC_ERXFCON_CRCEN OR ENC_ERXFCON_MCEN) d)"

definition ENC_init_mac :: "'h spi \<Rightarrow> enc_pins \<Rightarrow> mac \<Rightarrow> 'h enc_state \<Rightarrow> 'h enc_state" where
  "ENC_init_mac b c address d =
     (let d = ENC_setregbank b c ENC_MACONX_BANK d;
          d = ENC_setregbitfield b c ENC_MACON1 (ENC_MACON1_MARXEN OR ENC_MACON1_TXPAUS OR ENC_MACON1_RXPAUS) d;
          d = ENC_setregbitfield b c ENC_MACON3
                (ENC_MACON3_PADCFG_FULL OR ENC_MACON3_TXCRCEN OR ENC_MACON3_FULDPX OR ENC_MACON3_FRMLNEN) d;
          d = ENC_writereg b c ENC_MAMXFLL (ucast (ENC_MAX_MAC_LENGTH AND 0xFF)) d;
          d = ENC_writereg b c ENC_MAMXFLH (ucast (drop_bit 8 ENC_MAX_MAC_LENGTH)) d;
          d = ENC_writereg b c ENC_MABBIPG 0x15 d;
          d = ENC_writereg b c ENC_MAIPGL 0x12 d;
          d = ENC_setregbank b c ENC_MAADRX_BANK d;
          d = ENC_writereg b c ENC_MAADR6 (address ! 5) d;
          d = ENC_writereg b c ENC_MAADR5 (address ! 4) d;
          d = ENC_writereg b c ENC_MAADR4 (address ! 3) d;
          d = ENC_writereg b c ENC_MAADR3 (address ! 2) d;
          d = ENC_writereg b c ENC_MAADR2 (address ! 1) d;
          d = ENC_writereg b c ENC_MAADR1 (address ! 0) d;
          d = ENC_setregbitfield b c ENC_ECON2 ENC_ECON2_AUTOINC d
      in ENC_writereg b c ENC_ECON1 ENC_ECON1_RXEN d)"

definition ENC_reset :: "'h spi \<Rightarrow> enc_pins \<Rightarrow> mac \<Rightarrow> 'h enc_state \<Rightarrow> 'h enc_state option" where
  "ENC_reset b c address d =
     (let d = d\<lparr>hw := ENC_spi_init b c (hw d)\<rparr>;
          d = ENC_softreset b c d;
          d = d\<lparr>hw := ENC_clock_delay_usec b 1000 (hw d)\<rparr>
      in do {
        d \<leftarrow> ENC_waitClock b c d;
        Some (ENC_init_mac b c address (ENC_init_receive b c d))
      })"

section \<open>Sending and receiving\<close>

partial_function (option) ENC_waitSent :: "'h spi \<Rightarrow> enc_pins \<Rightarrow> 'h enc_state \<Rightarrow> 'h enc_state option" where
  "ENC_waitSent b c d =
     (let r = ENC_readreg b c ENC_ECON1 d
      in if fst r AND ENC_ECON1_TXRTS > 0 then ENC_waitSent b c (snd r) else Some (snd r))"

definition EtherSia_ENC28J60_sendFrame ::
    "'h spi \<Rightarrow> enc_pins \<Rightarrow> byte list \<Rightarrow> 'h enc_state \<Rightarrow> (u16 \<times> 'h enc_state) option" where
  "EtherSia_ENC28J60_sendFrame b c data d =
     (let datalen = word_of_nat (length data);
          d = ENC_setregbank b c ENC_ERXTX_BANK d;
          d = ENC_writereg b c ENC_ETXSTL (ucast (ENC_TX_BUF_START AND 0xFF)) d;
          d = ENC_writereg b c ENC_ETXSTH (ucast (drop_bit 8 ENC_TX_BUF_START)) d;
          d = ENC_writereg b c ENC_EWRPTL (ucast (ENC_TX_BUF_START AND 0xFF)) d;
          d = ENC_writereg b c ENC_EWRPTH (ucast (drop_bit 8 ENC_TX_BUF_START)) d;
          d = ENC_writedatabyte b c 0x00 d;
          d = ENC_writedata b c data d;
          dataend = ENC_TX_BUF_START + datalen;
          d = ENC_writereg b c ENC_ETXNDL (ucast (dataend AND 0xFF)) d;
          d = ENC_writereg b c ENC_ETXNDH (ucast (drop_bit 8 dataend)) d;
          d = ENC_clearregbitfield b c ENC_EIR ENC_EIR_TXIF d;
          d = ENC_setregbitfield b c ENC_ECON1 ENC_ECON1_TXRTS d
      in do {
        d \<leftarrow> ENC_waitSent b c d;
        Some (datalen, d)
      })"

text \<open>The value for the read pointer \<open>ERXRDPT\<close>, the workaround for erratum 14.\<close>

definition ENC_erxrdpt :: "byte \<Rightarrow> byte \<Rightarrow> u16" where
  "ENC_erxrdpt low high =
     (let nxt = push_bit 8 (ucast high) + ucast low
      in if nxt = ENC_RX_BUF_START then ENC_RX_BUF_END else nxt - 1)"

definition EtherSia_ENC28J60_readFrame ::
    "'h spi \<Rightarrow> enc_pins \<Rightarrow> nat \<Rightarrow> 'h enc_state \<Rightarrow> (byte list \<times> 'h enc_state) option" where
  "EtherSia_ENC28J60_readFrame b c bufsize d =
     (let d = ENC_setregbank b c ENC_EPKTCNT_BANK d;
          (n, d) = ENC_readreg b c ENC_EPKTCNT d
      in if n = 0 then Some ([], d)
         else
           let d = ENC_setregbank b c ENC_ERXTX_BANK d;
               (nxtpkt0, d) = ENC_readdatabyte b c d;
               (nxtpkt1, d) = ENC_readdatabyte b c d;
               (length0, d) = ENC_readdatabyte b c d;
               (length1, d) = ENC_readdatabyte b c d;
               (status0, d) = ENC_readdatabyte b c d;
               (status1, d) = ENC_readdatabyte b c d;
               len = push_bit 8 (ucast length1) + ucast length0 :: u16;
               (buf, d) = (if unat len \<le> bufsize then ENC_readdata b c (unat len) d
                           else ([], ENC_flush b c (unat len) d));
               d = (if len AND 1 \<noteq> 0 then snd (ENC_readdatabyte b c d) else d);
               nxt = ENC_erxrdpt nxtpkt0 nxtpkt1;
               d = ENC_writereg b c ENC_ERXRDPTL (ucast (nxt AND 0xFF)) d;
               d = ENC_writereg b c ENC_ERXRDPTH (ucast (drop_bit 8 nxt)) d;
               d = ENC_setregbitfield b c ENC_ECON2 ENC_ECON2_PKTDEC d
           in Some (buf, d))"

text \<open>The platform of an interface on this chip, given the functions \<open>core\<close> of the Arduino core.\<close>

definition ENC28J60_platform :: "'h spi \<Rightarrow> enc_pins \<Rightarrow> 'h enc_state platform \<Rightarrow> 'h enc_state platform" where
  "ENC28J60_platform b c core = core\<lparr>readFrame := EtherSia_ENC28J60_readFrame b c,
     sendFrame := (\<lambda>f d. map_option snd (EtherSia_ENC28J60_sendFrame b c f d))\<rparr>"

definition EtherSia_ENC28J60_begin ::
    "'h spi \<Rightarrow> enc_pins \<Rightarrow> 'h enc_state platform \<Rightarrow> mac \<Rightarrow> 'h enc_state ether \<Rightarrow> (bool \<times> 'h enc_state ether) option" where
  "EtherSia_ENC28J60_begin b c core address s = do {
     let s = s\<lparr>localMac := address\<rparr>;
     d \<leftarrow> ENC_reset b c (localMac s) (dev s);
     EtherSia_begin (ENC28J60_platform b c core) (s\<lparr>dev := d\<rparr>)
   }"

section \<open>The contract\<close>

lemma length_ENC_spi_read_bytes: "length (fst (ENC_spi_read_bytes b len h)) = len"
  by (induction len arbitrary: h) (auto simp: Let_def split_def)

lemma length_ENC_readdata: "length (fst (ENC_readdata b c len d)) = len"
  using length_ENC_spi_read_bytes [of b len] by (simp add: ENC_readdata_def Let_def split_def)

interpretation enc_drv: ethernet_driver "EtherSia_ENC28J60_readFrame b c"
  by unfold_locales
    (auto simp: EtherSia_ENC28J60_readFrame_def Let_def split_def length_ENC_readdata split: if_splits)

text \<open>
  The read pointer is safe for the chip (erratum 14): whatever even address of the receive buffer the
  next packet starts at, the value the driver programs is odd, inside the buffer, and the address just
  before it, wrapping from the start of the buffer to its end.
\<close>

theorem ENC_erxrdpt_safe:
  assumes "even low" "be16 high low \<le> ENC_RX_BUF_END"
  shows "odd (ENC_erxrdpt low high) \<and> ENC_erxrdpt low high \<le> ENC_RX_BUF_END
     \<and> (if be16 high low = ENC_RX_BUF_START then ENC_erxrdpt low high = ENC_RX_BUF_END
        else ENC_erxrdpt low high + 1 = be16 high low)"
proof (cases "be16 high low = 0")
  case True
  then have "ENC_erxrdpt low high = 0x0FFF"
    by (simp add: ENC_erxrdpt_def bytesToWord_be16 [unfolded bytesToWord_def])
  moreover have "odd (0x0FFF :: u16)" by simp
  ultimately show ?thesis using True by simp
next
  case False
  let ?n = "be16 high low"
  have n: "ENC_erxrdpt low high = ?n - 1"
    using False by (simp add: ENC_erxrdpt_def bytesToWord_be16 [unfolded bytesToWord_def])
  have "even ?n"
  proof -
    have "bit ?n 0 = bit low 0" by (simp only: be16_def bit_or_iff bit_push_bit_iff bit_unsigned_iff) simp
    then show ?thesis using assms(1) by (simp add: bit_0)
  qed
  then have "odd (?n - 1)" by simp
  moreover have "?n - 1 \<le> 0x0FFF"
  proof -
    have "unat (?n - 1) = unat ?n - 1" by (rule unat_minus_one [OF False])
    then show ?thesis using assms(2) by (simp add: word_le_nat_alt)
  qed
  ultimately show ?thesis using n False by simp
qed

lemma ENC_erxrdpt_safe_witness: "ENC_erxrdpt 0 0 = 0x0FFF \<and> ENC_erxrdpt 0x10 0x02 + 1 = 0x0210"
  using ENC_erxrdpt_safe [of 0 0] ENC_erxrdpt_safe [of "0x10" 2] by (simp add: be16_def)

end
