(* ===== verification/Linux_Socket.thy ===== *)
theory Linux_Socket
  imports Driver
begin

text \<open>
  \<open>src/src/LinuxSocket.cpp\<close> and \<open>LinuxSocket.h\<close>: the driver on a raw packet socket of Linux. The calls
  of the operating system are the record \<open>q\<close>, over its state \<open>'o\<close>; each gives the result the C function
  returns. Messages of \<open>perror\<close> are left out.
\<close>

record 'o posix =
  os_if_nametoindex :: "byte list \<Rightarrow> 'o \<Rightarrow> int \<times> 'o"
  os_socket :: "u16 \<Rightarrow> 'o \<Rightarrow> int \<times> 'o"
  os_set_nonblocking :: "int \<Rightarrow> 'o \<Rightarrow> 'o"
  os_get_flags :: "int \<Rightarrow> byte list \<Rightarrow> 'o \<Rightarrow> u16 \<times> 'o"
  os_set_flags :: "int \<Rightarrow> byte list \<Rightarrow> u16 \<Rightarrow> 'o \<Rightarrow> 'o"
  os_set_reuseaddr :: "int \<Rightarrow> int \<Rightarrow> 'o \<Rightarrow> int \<times> 'o"
  os_bind_to_device :: "int \<Rightarrow> byte list \<Rightarrow> 'o \<Rightarrow> int \<times> 'o"
  os_close :: "int \<Rightarrow> 'o \<Rightarrow> 'o"
  os_sendto :: "int \<Rightarrow> int \<Rightarrow> mac \<Rightarrow> byte list \<Rightarrow> 'o \<Rightarrow> int \<times> 'o"
  os_read :: "int \<Rightarrow> nat \<Rightarrow> 'o \<Rightarrow> int \<times> byte list \<times> 'o"

text \<open>The object lives in static storage, so a name of 15 characters is terminated by the byte left alone.\<close>

record 'o linux_dev =
  linux_ifname :: "byte list"
  linux_ifindex :: int
  linux_sockfd :: int
  linux_os :: 'o

abbreviation (input) IFNAMSIZ :: nat where "IFNAMSIZ \<equiv> 16"
abbreviation (input) IFF_PROMISC :: u16 where "IFF_PROMISC \<equiv> 0x100"

definition EtherSia_LinuxSocket_new :: "byte list \<Rightarrow> 'o \<Rightarrow> 'o linux_dev" where
  "EtherSia_LinuxSocket_new ifname os =
     \<lparr>linux_ifname = take (IFNAMSIZ - 1) ifname, linux_ifindex = -1, linux_sockfd = -1, linux_os = os\<rparr>"

text \<open>The number of bytes sent, 0 for a failure; the destination is the first six bytes of the frame.\<close>

definition EtherSia_LinuxSocket_sendFrame :: "'o posix \<Rightarrow> byte list \<Rightarrow> 'o linux_dev \<Rightarrow> u16 \<times> 'o linux_dev" where
  "EtherSia_LinuxSocket_sendFrame q data d =
     (let (result, os) = os_sendto q (linux_sockfd d) (linux_ifindex d) (take 6 data) data (linux_os d);
          d = d\<lparr>linux_os := os\<rparr>
      in if result \<le> 0 then (0, d) else (word_of_int result, d))"

definition EtherSia_LinuxSocket_readFrame :: "'o posix \<Rightarrow> nat \<Rightarrow> 'o linux_dev \<Rightarrow> (byte list \<times> 'o linux_dev) option" where
  "EtherSia_LinuxSocket_readFrame q bufsize d =
     (let (result, bytes, os) = os_read q (linux_sockfd d) bufsize (linux_os d);
          d = d\<lparr>linux_os := os\<rparr>
      in if result \<le> 0 then Some ([], d) else Some (bytes, d))"

definition EtherSia_LinuxSocket_end :: "'o posix \<Rightarrow> 'o linux_dev \<Rightarrow> 'o linux_dev" where
  "EtherSia_LinuxSocket_end q d =
     (if 0 < linux_sockfd d
      then d\<lparr>linux_os := os_close q (linux_sockfd d) (linux_os d), linux_sockfd := -1\<rparr>
      else d)"

text \<open>The platform of an interface on this driver, given the functions \<open>core\<close> of the Arduino core.\<close>

definition LinuxSocket_platform :: "'o posix \<Rightarrow> 'o linux_dev platform \<Rightarrow> 'o linux_dev platform" where
  "LinuxSocket_platform q core = core\<lparr>readFrame := EtherSia_LinuxSocket_readFrame q,
     sendFrame := (\<lambda>f d. Some (snd (EtherSia_LinuxSocket_sendFrame q f d)))\<rparr>"

text \<open>A failing \<open>socket\<close> makes it return \<open>-1\<close>, which is \<open>true\<close> in a function of type \<open>boolean\<close>.\<close>

definition EtherSia_LinuxSocket_begin ::
    "'o posix \<Rightarrow> 'o linux_dev platform \<Rightarrow> mac \<Rightarrow> 'o linux_dev ether \<Rightarrow> (bool \<times> 'o linux_dev ether) option" where
  "EtherSia_LinuxSocket_begin q core address s =
     (let s = s\<lparr>localMac := address\<rparr>;
          d = dev s;
          name = linux_ifname d;
          (index, os) = os_if_nametoindex q name (linux_os d);
          d = d\<lparr>linux_ifindex := index, linux_os := os\<rparr>
      in if index \<le> 0 then Some (False, s\<lparr>dev := d\<rparr>)
      else
        let (fd, os) = os_socket q (htons ETHER_TYPE_IPV6) (linux_os d);
            d = d\<lparr>linux_sockfd := fd, linux_os := os\<rparr>
        in if fd = -1 then Some (True, s\<lparr>dev := d\<rparr>)
        else
          let os = os_set_nonblocking q fd (linux_os d);
              (flags, os) = os_get_flags q fd name os;
              os = os_set_flags q fd name (flags OR IFF_PROMISC) os;
              (reuse, os) = os_set_reuseaddr q fd 0 os
          in if reuse = -1 then Some (False, s\<lparr>dev := d\<lparr>linux_os := os_close q fd os\<rparr>\<rparr>)
          else
            let (bound, os) = os_bind_to_device q fd name os
            in if bound = -1 then Some (False, s\<lparr>dev := d\<lparr>linux_os := os_close q fd os\<rparr>\<rparr>)
            else EtherSia_begin (LinuxSocket_platform q core) (s\<lparr>dev := d\<lparr>linux_os := os\<rparr>\<rparr>))"

section \<open>The contract\<close>

text \<open>What POSIX says of \<open>read\<close>: a positive result is the number of bytes stored, at most those asked for.\<close>

definition posix_read :: "'o posix \<Rightarrow> bool" where
  "posix_read q \<longleftrightarrow> (\<forall>fd n os. case os_read q fd n os of (result, bytes, _) \<Rightarrow>
     0 < result \<longrightarrow> int (length bytes) = result \<and> result \<le> int n)"

lemma linux_driver:
  assumes "posix_read q"
  shows "ethernet_driver (EtherSia_LinuxSocket_readFrame q)"
proof
  fix bufsize d frame d'
  assume "EtherSia_LinuxSocket_readFrame q bufsize d = Some (frame, d')"
  then show "length frame \<le> bufsize"
    using assms [unfolded posix_read_def, THEN spec [of _ "linux_sockfd d"], THEN spec [of _ bufsize], THEN spec [of _ "linux_os d"]]
    by (auto simp: EtherSia_LinuxSocket_readFrame_def Let_def split: prod.splits if_splits)
qed

text \<open>A socket that cannot be opened is reported as success.\<close>

lemma begin_without_socket:
  assumes "os_if_nametoindex q (linux_ifname (dev s)) (linux_os (dev s)) = (index, os1)" "0 < index"
    "os_socket q (htons ETHER_TYPE_IPV6) os1 = (-1, os2)"
  shows "\<exists>s'. EtherSia_LinuxSocket_begin q core address s = Some (True, s') \<and> linux_sockfd (dev s') = -1
    \<and> linkLocalAddress s' = linkLocalAddress s \<and> globalAddress s' = globalAddress s"
  using assms by (simp add: EtherSia_LinuxSocket_begin_def Let_def)

end
