(* ===== verification/Spec2Isabelle.thy ===== *)
theory Spec2Isabelle
  imports Sketch_Setup Stack_Types Quiet_Network TCP_Session W5100 W5500 ENC28J60 Linux_Socket
begin

text \<open>
  A model of EtherSia, an IPv6 stack for Arduino boards written in C++ (\<open>src/src/\<close>), and what makes it
  correct.

  \<^bold>\<open>The program.\<close> An \<open>EtherSia\<close> object has one buffer of 600 bytes for received and sent packets, its
  addresses, and a driver, which is a subclass. The sketch calls \<open>receivePacket\<close> in its loop: it reads a
  frame from the driver into the buffer, checks it (\<open>IPv6Packet\<close>), lets ICMPv6 answer neighbour
  solicitations and echo requests and apply router advertisements, and otherwise reports the packet.
  The sketch then asks its sockets (\<open>UDPSocket\<close>, \<open>TCPServer\<close>, \<open>TCPClient\<close> and the servers built on them)
  whether the packet is theirs; they read the payload in the buffer and write the answer over it.

  \<^bold>\<open>The model.\<close> A stateful function of the code is a function over the record \<open>ether\<close>, whose field \<open>dev\<close>
  is the state of everything below it; the virtual functions of the driver and the functions of the
  Arduino core (clock, delays, random numbers) are the record \<open>platform\<close>, a parameter. The buffer is a
  function from offsets to bytes; a result \<open>None\<close> is an access outside it or a loop that does not end.
  The virtual functions of \<open>Socket\<close> are the record \<open>socket_vt\<close>, the file operations of a TFTP server the
  record \<open>tftp_files\<close>, the bus to a chip the record \<open>spi\<close>, the system calls of the Linux driver the
  record \<open>posix\<close>, the libraries of the sketches \<open>gpio\<close>, \<open>eeprom_ops\<close>, \<open>dynabus\<close> and \<open>avr_core\<close>. Integers
  have the width they have on the AVR: \<open>int\<close> is 16 bits, \<open>long\<close> 32.

  \<^bold>\<open>The theories\<close>, in the order they build on each other:
  \<^item> \<open>Prelude\<close>: memory blocks, multi-byte fields, C strings, and the simplification rules for them.
  \<^item> \<open>Util\<close> (\<open>util.cpp\<close>, \<open>esendian.h\<close>): hexadecimal output, byte order, and \<open>chksum\<close> with its equality to
    the sum of the words modulo 65535.
  \<^item> \<open>Mac_Address\<close>, \<open>IPv6_Address\<close> (\<open>MACAddress.cpp\<close>, \<open>IPv6Address.cpp\<close>): the addresses, their parsers
    with the bounds of every access, round trips with the printers.
  \<^item> \<open>IPv6_Packet\<close> (\<open>IPv6Packet.cpp\<close>): the header as fields of memory (collections \<open>field_defs\<close>,
    \<open>hdr_simps\<close>), checksum and validity, and what they detect.
  \<^item> \<open>EtherSia_Core\<close> (\<open>EtherSia.cpp\<close>, \<open>tcp.h\<close>): the state, the invariant \<open>wf_ether\<close>, \<open>prepareReply\<close> and
    \<open>prepareSend\<close> (\<open>prep_simps\<close>), the TCP reset. The predicate \<open>sends p s m r\<close> says that the result \<open>r\<close> is what
    becomes of handing the valid packet \<open>m\<close> to the driver once; every sender is characterised by it.
  \<^item> \<open>ICMPv6\<close> (\<open>icmp6.cpp\<close>, the rest of \<open>EtherSia.cpp\<close>): the messages, router advertisements as a fold of the
    effects of their options, \<open>receivePacket\<close>, \<open>rejectPacket\<close>, autoconfiguration, neighbour discovery.
  \<^item> \<open>Socket_Base\<close>, \<open>UDP_Socket\<close>, \<open>TCP_Server\<close>, \<open>TCP_Client\<close> (\<open>Socket.cpp\<close>, \<open>UDPSocket.cpp\<close>,
    \<open>TCPServer.cpp\<close>, \<open>TCPClient.cpp\<close>): sockets. The locale \<open>plain_socket\<close> is the contract of the classes that
    keep the default hooks of \<open>write\<close>: what is printed is laid out in the buffer byte for byte. The
    client's \<open>havePacket\<close> refines a machine of five phases (\<open>client_step\<close>) with an invariant.
  \<^item> \<open>Stack_Types\<close>: an interface with its sockets under every sequence of calls, as an inductive relation, and the
    invariant that stands for the types of the C++ objects.
  \<^item> \<open>DNS\<close>, \<open>HTTP_Server\<close>, \<open>TFTP_Server\<close>, \<open>Syslog\<close> (the files of these names): encoding and decoding of
    names and replies, request matching and the bytes of the responses, the lock step of a transfer,
    the log line.
  \<^item> \<open>Quiet_Network\<close>: the retry loops of discovery, autoconfiguration and TFTP end when nobody answers,
    after exactly the attempts stated, for any driver and clock that go on.
  \<^item> \<open>Driver\<close>: the locale \<open>ethernet_driver\<close>, the contract of \<open>readFrame\<close>, and what the chips share.
  \<^item> \<open>Dummy_Driver\<close>, \<open>W5100\<close>, \<open>W5500\<close>, \<open>ENC28J60\<close>, \<open>Linux_Socket\<close> (\<open>dummy.cpp\<close>, \<open>w5100.cpp\<close>,
    \<open>w5500.cpp\<close>, \<open>enc28j60.cpp\<close>, \<open>LinuxSocket.cpp\<close>): the drivers, each an interpretation of the locale
    (the last one under what POSIX says of \<open>read\<close>). The test driver is a pair of queues; on chips that
    behave as their data sheets say (\<open>W5100_chip\<close>, \<open>W5500_chip\<close>, each with a simulated chip that does) the
    drivers take frames off and put frames into the rings of the chip.
  \<^item> \<open>Wire\<close>: two interfaces on the test driver and the step of a packet from one to the other.
  \<^item> \<open>TCP_Session\<close>: a client and a server with that wire between them: the handshake, a request with its response,
    and the end of the connection, each a lemma for every segment over the characterisations of both ends.
  \<^item> \<open>Hext\<close>, \<open>Test_Tools\<close> (\<open>src/tests/hext.c\<close>, \<open>hext.hh\<close>, \<open>ipv6checksum.cpp\<close>, \<open>libarduino/\<close>): the tool for the
    packet descriptions of the tests, whose parser decides a grammar given as an inductive relation, and the
    checksum tool.
  \<^item> \<open>WebToggler\<close>, \<open>Application_Monitor\<close>, \<open>Custom_TFTP_Server\<close>, \<open>Sketches\<close>, \<open>EmonCMS\<close>, \<open>Sketch_Setup\<close>
    (\<open>src/examples/\<close>): the sketches, one function for each main loop and each \<open>setup\<close> over its variables, its sockets
    and the interface; the buttons as a refinement of presses in the history of their samples, the crash log as a ring
    that keeps the newest reports, the round trip of a file, what each request or datagram makes a sketch do and
    answer, and what the sketches with sensors post (the predicate \<open>prints\<close>, a text with what reading it does).
  \<^item> This theory: properties of the stack together with its drivers.

  \<^bold>\<open>Bounds and termination.\<close> Loops over data are structural or have a measure. Loops that wait for the
  network or a chip, and those over the options of a message, which a malformed one makes endless, are
  \<open>partial_function (option)\<close>; that they return is proved where it holds, and that an option of length 0
  makes one hang is proved too. The one function with fuel, the search for the empty line of a request,
  is given the number of positions it can look at. Lengths in the statements are those of the buffer:
  546 bytes of IPv6 payload, 538 of UDP payload.

  \<^bold>\<open>Hypotheses.\<close> Besides well-formedness (addresses of 16 and 6 bytes) they describe the parts that are
  parameters: what a driver delivers, a chip's data sheet, a clock that goes on. Each property that has
  some is followed by a witness at a concrete input.

  \<^bold>\<open>Not modelled.\<close> Debug output (\<open>serial_printf\<close>, \<open>readrev\<close>, the \<open>PRINT\<close> macros of \<open>TCPClient\<close>), since it
  only prints; constructors and accessors that do no more than set or return a member, which are the
  record's own; what the loops of the sketches write to the serial port, apart from the time and the packet printers;
  the registers of timers and watchdog and the interrupt routine in assembler, which are parameters; \<open>DayTimeClient\<close>,
  which calls functions that do not exist; the unit tests in \<open>src/tests/\<close>; \<open>src/docs/\<close>. \<open>MACAddress.cpp\<close> has conflict markers in
  it; both sides of the conflict are modelled.
\<close>

section \<open>The drivers under the stack\<close>


section \<open>The stack on the driver of the tests\<close>


section \<open>A datagram from one interface to another\<close>

text \<open>
  C6. A datagram from end to end: data sent by a UDP socket goes out as one frame; when that frame arrives
  at the interface with the destination's Ethernet and IPv6 address, \<open>receivePacket\<close> reports it, and
  the socket open on its port has exactly the bytes that were sent. It holds for up to 537 bytes, one
  less than what fits the buffer, since the driver of the tests drops a frame that fills it.
\<close>

theorem UDP_end_to_end:
  assumes "wf_ether s" "wf_dummy (dev s)" "sentCount (dev s) < 100" "wf_socket k" "length data \<le> 537"
    and "wf_ether t" "wf_dummy (dev t)" "injectCount (dev t) < 100" "waiting (dev t) = []"
    and link: "localMac t = remoteMac k" "localMac t \<noteq> localMac s"
    and dest: "EtherSia_isOurAddress t (remoteAddress k) \<noteq> 0" "wf_socket l" "localPort l = remotePort k"
      "remotePort l = 0" "IPv6Address_isZero (remoteAddress l)"
  shows "\<exists>s' f d t'. Socket_send_data UDPSocket_vt (dummy_platform now) data False k s = Some (k, s')
    \<and> transmitted (dev s') = transmitted (dev s) @ [f] \<and> length f = 62 + length data
    \<and> EtherSia_Dummy_injectRecievedPacket now f (dev t) = Some d
    \<and> EtherSia_receivePacket (dummy_platform now) (t\<lparr>dev := d\<rparr>) = Some (word_of_nat (62 + length data), t')
    \<and> UDPSocket_havePacket l t'
    \<and> rd_bytes (buffer t') (UDPSocket_payload t') (unat (UDPSocket_payloadLength t')) = data"
proof -
  have len: "length data \<le> 538" using assms(5) by simp
  obtain m r where m: "Socket_send_data UDPSocket_vt (dummy_platform now) data False k s = map_option (Pair k) r"
    "sends (dummy_platform now) s m r" "IPv6Packet_protocol m = IP6_PROTO_UDP"
    "unat (IPv6Packet_payloadLength m) = 8 + length data"
    "IPv6Packet_etherDestination m = remoteMac k" "IPv6Packet_etherSource m = localMac s"
    using UDP_send_data_run [OF assms(1,4) len, of "dummy_platform now"] by blast
  let ?f = "rd_bytes m 0 (62 + length data)"
  obtain s' where s': "r = Some s'" "sends (dummy_platform now) s m (Some s')"
    "transmitted (dev s') = transmitted (dev s) @ [?f]"
    using dummy_sends [OF assms(2,3) m(2)] m(4) by auto
  obtain d where d: "EtherSia_Dummy_injectRecievedPacket now ?f (dev t) = Some d" "wf_dummy d" "waiting d = [?f]"
    using dummy_queues [OF assms(7), of ?f now] assms(5,8,9) by auto
  obtain d' where d': "EtherSia_Dummy_readFrame 600 d = Some (?f, d')"
    using dummy_reads [OF d(2,3)] assms(5) by auto
  let ?m = "wr_bytes (buffer t) 0 ?f"
  have same: "?m i = m i" if "i < 62 + length data" for i using that by (simp add: wr_bytes_nth)
  have valid: "IPv6Packet_isValid 600 ?m = Some True"
    by (rule isValid_cong [of m]) (use same m(2,4) in \<open>auto simp: sends_def\<close>)
  have hdr: "IPv6Packet_protocol ?m = 17" "IPv6Packet_etherDestination ?m = remoteMac k"
    "IPv6Packet_etherSource ?m = localMac s"
    using m(3,5,6) rd_bytes_cong [of 0 6 ?m m] rd_bytes_cong [of 6 6 ?m m] same by (simp_all add: field_defs)
  have "EtherSia_checkEthernetAddresses (t\<lparr>dev := d\<rparr>) ?m"
    using hdr(2,3) link assms(1,4) by (simp add: EtherSia_checkEthernetAddresses_def wf_ether_def wf_socket_def)
  then have recv: "EtherSia_receivePacket (dummy_platform now) (t\<lparr>dev := d\<rparr>) = Some (word_of_nat (62 + length data),
      t\<lparr>dev := d, buffer := ?m, dev := d', bufferContainsReceived := True\<rparr>)" (is "_ = Some (_, ?t)")
    using receive_other [of "dummy_platform now" "t\<lparr>dev := d\<rparr>" ?f d'] d' valid hdr(1) assms(5)
    by (simp add: rd_bytes_def)
  have "UDPSocket_havePacket l ?t \<and> rd_bytes (buffer ?t) (UDPSocket_payload ?t) (unat (UDPSocket_payloadLength ?t)) = data"
  proof -
    have sent: "Socket_send_data UDPSocket_vt (dummy_platform now) data False k s = Some (k, s')"
      using m(1) s'(1) by simp
    have "rd_bytes (buffer ?t) 0 (62 + length data) = rd_bytes (buffer s') 0 (62 + length data)"
      using sendsD(7) [OF s'(2)] rd_bytes_cong [of 0 "62 + length data" ?m m] same by simp
    moreover have "wf_ether ?t" using assms(6) by (simp add: wf_ether_def)
    ultimately show ?thesis
      using UDP_delivers [OF assms(1,4) len _ dest(2) sent, of ?t] dest by (simp add: EtherSia_isOurAddress_def)
  qed
  then show ?thesis using m(1) s' d(1) recv by (intro exI conjI) (assumption | simp)+
qed

section \<open>Samples\<close>



lemma UDP_end_to_end_witness:
  "\<exists>s' f d t'. Socket_send_data UDPSocket_vt (dummy_platform 0) [1, 2, 3] False sample_socket (dummy_ether sample_ether []) = Some (sample_socket, s')
    \<and> EtherSia_Dummy_injectRecievedPacket 0 f EtherSia_Dummy_new = Some d
    \<and> EtherSia_receivePacket (dummy_platform 0) (dummy_ether sample_ether []
        \<lparr>linkLocalAddress := remoteAddress sample_socket, localMac := remoteMac sample_socket, dev := d\<rparr>) = Some (65, t')
    \<and> UDPSocket_havePacket (Socket_new 53) t'"
proof -
  let ?s = "dummy_ether sample_ether []"
  let ?t = "?s\<lparr>linkLocalAddress := remoteAddress sample_socket, localMac := remoteMac sample_socket\<rparr>"
  have d: "dev ?s = EtherSia_Dummy_new" by (simp add: dummy_ether_def)
  have w: "wf_dummy (dev ?s)" "sentCount (dev ?s) < 100" "injectCount (dev ?s) < 100" "waiting (dev ?s) = []"
    using wf_dummy_new unfolding d by (simp_all add: EtherSia_Dummy_new_def waiting_def frames_def)
  have h: "wf_ether ?s" "wf_socket sample_socket" "length [1, 2, 3 :: byte] \<le> 537" "wf_ether ?t"
    "localMac ?t = remoteMac sample_socket" "localMac ?t \<noteq> localMac ?s"
    "EtherSia_isOurAddress ?t (remoteAddress sample_socket) \<noteq> 0" "wf_socket (Socket_new 53)"
    "localPort (Socket_new 53) = remotePort sample_socket" "remotePort (Socket_new 53) = 0"
    "IPv6Address_isZero (remoteAddress (Socket_new 53))"
    by code_simp+
  have "wf_dummy (dev ?t)" "injectCount (dev ?t) < 100" "waiting (dev ?t) = []" using w by simp_all
  from UDP_end_to_end [OF h(1) w(1,2) h(2-4) this h(5-), of 0] show ?thesis by (simp add: d) blast
qed

end
